(* ===== verification/Prelude.thy ===== *)
theory Prelude
  imports Complex_Main "HOL-Library.Sublist"
begin

text \<open>
  What the models of all parts share: the JavaScript string operations the sources use, the
  JavaScript values that travel in request and response bodies, and the collections of rewrite
  rules the component proofs are run with.

  A string is a list of bytes: text outside ASCII stands in its UTF-8 encoding, so equality,
  concatenation, prefix, suffix and substring search agree with JavaScript's, while case
  conversion and white space are the ASCII ones. Numbers are exact rationals; rounding of binary
  floating point is not modelled.
\<close>

named_theorems js_defs \<open>definitions of the JavaScript library operations\<close>

section \<open>Strings\<close>

definition lower_char :: "char \<Rightarrow> char" where
  "lower_char c = (if 65 \<le> (of_char c :: nat) \<and> (of_char c :: nat) \<le> 90
     then char_of ((of_char c :: nat) + 32) else c)"

definition js_lower :: "string \<Rightarrow> string" where
  "js_lower s = map lower_char s"

definition upper_char :: "char \<Rightarrow> char" where
  "upper_char c = (if 97 \<le> (of_char c :: nat) \<and> (of_char c :: nat) \<le> 122
     then char_of ((of_char c :: nat) - 32) else c)"

definition js_upper :: "string \<Rightarrow> string" where
  "js_upper s = map upper_char s"

definition is_ws :: "char \<Rightarrow> bool" where
  "is_ws c \<longleftrightarrow> c = CHR 0x20 \<or> (9 \<le> (of_char c :: nat) \<and> (of_char c :: nat) \<le> 13)"

definition trim_start :: "string \<Rightarrow> string" where
  "trim_start s = dropWhile is_ws s"

definition trim_end :: "string \<Rightarrow> string" where
  "trim_end s = rev (dropWhile is_ws (rev s))"

definition js_trim :: "string \<Rightarrow> string" where
  "js_trim s = trim_end (trim_start s)"

definition starts_with :: "string \<Rightarrow> string \<Rightarrow> bool" where
  "starts_with p s \<longleftrightarrow> take (length p) s = p"

definition ends_with :: "string \<Rightarrow> string \<Rightarrow> bool" where
  "ends_with p s \<longleftrightarrow> starts_with (rev p) (rev s)"

fun js_includes :: "string \<Rightarrow> string \<Rightarrow> bool" where
  "js_includes p [] = (p = [])"
| "js_includes p (c # s) = (starts_with p (c # s) \<or> js_includes p s)"

text \<open>\<open>s.split(sep)\<close> for a non-empty separator; the fuel is the length of the text, which
  every step consumes.\<close>

fun split_fuel :: "nat \<Rightarrow> string \<Rightarrow> string \<Rightarrow> string \<Rightarrow> string list" where
  "split_fuel 0 sep acc s = [rev acc @ s]"
| "split_fuel (Suc n) sep acc [] = [rev acc]"
| "split_fuel (Suc n) sep acc (c # s) =
     (if starts_with sep (c # s) then rev acc # split_fuel n sep [] (drop (length sep) (c # s))
      else split_fuel n sep (c # acc) s)"

definition js_split :: "string \<Rightarrow> string \<Rightarrow> string list" where
  "js_split sep s = split_fuel (Suc (length s)) sep [] s"

definition LF :: string where
  "LF = [CHR 0x0A]"

text \<open>\<open>s.split(/[,\n]/)\<close>.\<close>

definition comma_lines :: "string \<Rightarrow> string list" where
  "comma_lines s = js_split LF (map (\<lambda>c. if c = CHR '','' then CHR 0x0A else c) s)"

fun js_join :: "string \<Rightarrow> string list \<Rightarrow> string" where
  "js_join sep [] = []"
| "js_join sep [x] = x"
| "js_join sep (x # y # zs) = x @ sep @ js_join sep (y # zs)"

text \<open>Replacing all occurrences of a non-empty text, as Go's \<open>strings.ReplaceAll\<close>.\<close>

definition replace_all :: "string \<Rightarrow> string \<Rightarrow> string \<Rightarrow> string" where
  "replace_all old new s = js_join new (js_split old s)"

fun digit_char :: "nat \<Rightarrow> char" where
  "digit_char n = char_of (48 + n)"

fun show_nat :: "nat \<Rightarrow> string" where
  "show_nat n = (if n < 10 then [digit_char n] else show_nat (n div 10) @ [digit_char (n mod 10)])"

declare show_nat.simps [simp del]

definition show_int :: "int \<Rightarrow> string" where
  "show_int i = (if i < 0 then CHR ''-'' # show_nat (nat (- i)) else show_nat (nat i))"

lemmas string_defs [js_defs] = starts_with_def ends_with_def js_trim_def trim_start_def trim_end_def
  is_ws_def js_lower_def lower_char_def js_upper_def upper_char_def

lemma starts_with_append [simp]: "starts_with p (p @ s)"
  by (simp add: starts_with_def)

lemma starts_with_iff: "starts_with p s \<longleftrightarrow> (\<exists>r. s = p @ r)"
  by (metis append_eq_conv_conj append_take_drop_id starts_with_def)

lemma ends_with_iff: "ends_with p s \<longleftrightarrow> (\<exists>r. s = r @ p)"
  by (metis ends_with_def rev_append rev_rev_ident starts_with_iff)

lemma js_includes_iff: "js_includes p s \<longleftrightarrow> (\<exists>a b. s = a @ p @ b)"
proof (induction s)
  case (Cons c s)
  have "(\<exists>a b. c # s = a @ p @ b) \<longleftrightarrow> starts_with p (c # s) \<or> (\<exists>a b. s = a @ p @ b)"
    by (auto simp: starts_with_iff) (metis append_eq_Cons_conv append_Cons)+
  with Cons show ?case by simp
qed simp

lemma lower_char_idem [simp]: "lower_char (lower_char c) = lower_char c"
  by (simp add: lower_char_def)

lemma js_lower_idem [simp]: "js_lower (js_lower s) = js_lower s"
  by (simp add: js_lower_def)

lemma js_lower_append [simp]: "js_lower (a @ b) = js_lower a @ js_lower b"
  by (simp add: js_lower_def)

lemma js_lower_Nil [simp]: "js_lower [] = []"
  by (simp add: js_lower_def)

lemma trim_Nil [simp]: "js_trim [] = []"
  by (simp add: js_defs)

lemma trim_no_ws: "\<forall>c\<in>set s. \<not> is_ws c \<Longrightarrow> js_trim s = s"
proof -
  have no_ws: "\<forall>c\<in>set x. \<not> is_ws c \<Longrightarrow> dropWhile is_ws x = x" for x by (cases x) auto
  show "\<forall>c\<in>set s. \<not> is_ws c \<Longrightarrow> js_trim s = s"
    using no_ws [of s] no_ws [of "rev s"] by (simp add: js_trim_def trim_start_def trim_end_def)
qed

lemma show_nat_nonempty [simp]: "show_nat n \<noteq> []"
  by (subst show_nat.simps) simp

lemma starts_with_Cons:
  "starts_with (x # p) (c # s) \<longleftrightarrow> x = c \<and> starts_with p s" "\<not> starts_with (x # p) []"
  by (auto simp: starts_with_def)

lemma split_fuel_skip:
  "c \<notin> set x \<Longrightarrow> length (x @ r) < n \<Longrightarrow>
     split_fuel n (c # p) acc (x @ r) = split_fuel (n - length x) (c # p) (rev x @ acc) r"
proof (induction x arbitrary: n acc)
  case (Cons a x)
  then obtain m where "n = Suc m" by (cases n) auto
  with Cons show ?case by (simp add: starts_with_Cons)
qed simp

lemma split_fuel_join:
  "\<forall>x\<in>set xs. c \<notin> set x \<Longrightarrow> xs \<noteq> [] \<Longrightarrow> length (js_join (c # p) xs) < n \<Longrightarrow>
     split_fuel n (c # p) acc (js_join (c # p) xs) = (rev acc @ hd xs) # tl xs"
proof (induction "c # p" xs arbitrary: acc n rule: js_join.induct)
  case (2 x)
  then show ?case using split_fuel_skip [of c x "[]" n p acc] by (cases "n - length x") auto
next
  case (3 x y zs)
  let ?r = "js_join (c # p) (y # zs)"
  obtain m where m: "n - length x = Suc m" "length ?r < m"
    using 3(4) by (cases "n - length x") auto
  have "split_fuel n (c # p) acc (x @ (c # p) @ ?r) = split_fuel (Suc m) (c # p) (rev x @ acc) ((c # p) @ ?r)"
    using split_fuel_skip [of c x "(c # p) @ ?r" n p acc] 3(2,4) m(1) by simp
  also have "\<dots> = (rev acc @ x) # split_fuel m (c # p) [] ?r"
    by (simp add: starts_with_def)
  also have "split_fuel m (c # p) [] ?r = y # zs"
    using 3(1) [of m "[]"] 3(2) m(2) by simp
  finally show ?case by simp
qed simp

lemma split_join: "\<forall>x\<in>set xs. c \<notin> set x \<Longrightarrow> xs \<noteq> [] \<Longrightarrow> js_split (c # p) (js_join (c # p) xs) = xs"
  using split_fuel_join [of xs c p "Suc (length (js_join (c # p) xs))" "[]"] by (simp add: js_split_def)

section \<open>JavaScript values\<close>

text \<open>The values \<open>JSON.parse\<close> returns and the pages build as request bodies. An object is a
  list of its properties in insertion order.\<close>

datatype jsv =
    JUndef
  | JNull
  | JBool bool
  | JNum rat
  | JStr string
  | JArr "jsv list"
  | JObj "(string \<times> jsv) list"

fun truthy :: "jsv \<Rightarrow> bool" where
  "truthy JUndef = False"
| "truthy JNull = False"
| "truthy (JBool b) = b"
| "truthy (JNum n) = (n \<noteq> 0)"
| "truthy (JStr s) = (s \<noteq> [])"
| "truthy (JArr _) = True"
| "truthy (JObj _) = True"

text \<open>\<open>typeof v === 'object'\<close> for a value that is not null.\<close>

fun is_object :: "jsv \<Rightarrow> bool" where
  "is_object (JArr _) = True"
| "is_object (JObj _) = True"
| "is_object _ = False"

text \<open>Reading a property of a value that is neither null nor undefined (optional chaining gives
  \<open>undefined\<close> for those two).\<close>

fun get_prop :: "jsv \<Rightarrow> string \<Rightarrow> jsv" where
  "get_prop (JObj ps) k = (case map_of ps k of None \<Rightarrow> JUndef | Some v \<Rightarrow> v)"
| "get_prop (JArr vs) k = (if k = ''length'' then JNum (of_nat (length vs)) else JUndef)"
| "get_prop (JStr s) k = (if k = ''length'' then JNum (of_nat (length s)) else JUndef)"
| "get_prop _ k = JUndef"

text \<open>A property a page takes for a text, a number or a list: empty, zero and empty when it is none.\<close>

definition text_prop :: "jsv \<Rightarrow> string \<Rightarrow> string" where
  "text_prop v k = (case get_prop v k of JStr s \<Rightarrow> s | _ \<Rightarrow> [])"

definition num_prop :: "jsv \<Rightarrow> string \<Rightarrow> rat" where
  "num_prop v k = (case get_prop v k of JNum n \<Rightarrow> n | _ \<Rightarrow> 0)"

definition elements :: "jsv \<Rightarrow> jsv list" where
  "elements v = (case v of JArr vs \<Rightarrow> vs | _ \<Rightarrow> [])"

fun nullish :: "jsv \<Rightarrow> bool" where
  "nullish JUndef = True"
| "nullish JNull = True"
| "nullish _ = False"

text \<open>\<open>v ?? d\<close> and \<open>v || d\<close>.\<close>

definition coalesce :: "jsv \<Rightarrow> jsv \<Rightarrow> jsv" where
  "coalesce v d = (if nullish v then d else v)"

definition js_or :: "jsv \<Rightarrow> jsv \<Rightarrow> jsv" where
  "js_or v d = (if truthy v then v else d)"

text \<open>\<open>o.k = v\<close> keeps the place of a property that exists; \<open>delete o.k\<close>; \<open>{...a, ...b}\<close>.\<close>

fun set_prop :: "string \<Rightarrow> jsv \<Rightarrow> (string \<times> jsv) list \<Rightarrow> (string \<times> jsv) list" where
  "set_prop k v [] = [(k, v)]"
| "set_prop k v ((k', v') # ps) = (if k' = k then (k, v) # ps else (k', v') # set_prop k v ps)"

definition del_prop :: "string \<Rightarrow> (string \<times> jsv) list \<Rightarrow> (string \<times> jsv) list" where
  "del_prop k ps = filter (\<lambda>(k', _). k' \<noteq> k) ps"

definition spread :: "(string \<times> jsv) list \<Rightarrow> (string \<times> jsv) list \<Rightarrow> (string \<times> jsv) list" where
  "spread a b = fold (\<lambda>(k, v) ps. set_prop k v ps) b a"

lemma map_of_set_prop [simp]: "map_of (set_prop k v ps) = (map_of ps)(k \<mapsto> v)"
  by (induction ps) auto

lemma map_of_del_prop [simp]: "map_of (del_prop k ps) = (map_of ps)(k := None)"
  by (induction ps) (auto simp: del_prop_def fun_upd_def fun_eq_iff)

lemma map_of_spread: "map_of (spread a b) = map_of a ++ map_of (rev b)"
proof (induction b arbitrary: a)
  case Nil
  then show ?case by (simp add: spread_def)
next
  case (Cons x b)
  obtain k v where x: "x = (k, v)" by (cases x)
  have "map_of (spread a (x # b)) = map_of (spread (set_prop k v a) b)"
    by (simp add: spread_def x)
  also have "\<dots> = (map_of a)(k \<mapsto> v) ++ map_of (rev b)"
    by (simp only: Cons.IH map_of_set_prop)
  also have "\<dots> = map_of a ++ map_of (rev (x # b))"
    by (auto simp: x map_add_def fun_eq_iff split: option.splits)
  finally show ?case .
qed

text \<open>\<open>String(v)\<close>: numbers in decimal, without exponents; a number with no decimal expansion of at
  most 20 places, which no double prints in full, as the quotient it is.\<close>

fun places :: "nat \<Rightarrow> int \<Rightarrow> nat \<Rightarrow> nat option" where
  "places 0 q d = (if 10 ^ d mod q = 0 then Some d else None)"
| "places (Suc n) q d = (if 10 ^ d mod q = 0 then Some d else places n q (Suc d))"

definition show_decimal :: "int \<Rightarrow> int \<Rightarrow> nat \<Rightarrow> string" where
  "show_decimal p q d =
    (let m = show_nat (nat (\<bar>p\<bar> * 10 ^ d div q)); m = replicate (Suc d - length m) CHR ''0'' @ m;
         k = length m - d in
     (if p < 0 then ''-'' else []) @ take k m @ CHR ''.'' # drop k m)"

definition show_rat :: "rat \<Rightarrow> string" where
  "show_rat n = (let (p, q) = quotient_of n in
     if q = 1 then show_int p
     else case places 20 q 0 of Some d \<Rightarrow> show_decimal p q d
       | None \<Rightarrow> show_int p @ ''/'' @ show_int q)"

fun js_string :: "jsv \<Rightarrow> string" where
  "js_string JUndef = ''undefined''"
| "js_string JNull = ''null''"
| "js_string (JBool b) = (if b then ''true'' else ''false'')"
| "js_string (JNum n) = show_rat n"
| "js_string (JStr s) = s"
| "js_string (JArr vs) = js_join '','' (map js_string vs)"
| "js_string (JObj _) = ''[object Object]''"

text \<open>\<open>JSON.stringify\<close> leaves out the properties whose value is undefined.\<close>

definition obj :: "(string \<times> jsv) list \<Rightarrow> jsv" where
  "obj ps = JObj (filter (\<lambda>(_, v). v \<noteq> JUndef) ps)"

definition jstrs :: "string list \<Rightarrow> jsv" where
  "jstrs xs = JArr (map JStr xs)"

text \<open>The text a view shows for a missing string.\<close>

definition or_str :: "string \<Rightarrow> string \<Rightarrow> string" where
  "or_str s d = (if s = [] then d else s)"

definition em_dash :: string where
  "em_dash = [CHR 0xE2, CHR 0x80, CHR 0x94]"

definition mid_dot :: string where
  "mid_dot = [CHR 0xC2, CHR 0xB7]"

definition ellipsis :: string where
  "ellipsis = [CHR 0xE2, CHR 0x80, CHR 0xA6]"

lemmas value_defs [js_defs] = coalesce_def js_or_def or_str_def

end
