(* ===== verification/Runtime.thy ===== *)
theory Runtime
  imports Prelude
begin

text \<open>
  The two libraries every page of the console is written against, as far as the pages use them:
  what an event handler does (React state updates, awaited requests, toasts, timers) and what a
  component shows (the element tree it returns).

  A handler is a value of type \<open>'s act\<close>, the program text of an async function over a component
  state \<open>'s\<close>: it runs without interruption up to an \<open>await\<close>, and continues with the reply. A
  component is a function from its state to a \<open>'s act view\<close>, whose event attributes carry the
  handlers. Elements keep their tag, children, texts, event handlers and the attributes that
  decide what a user sees or can do (\<open>disabled\<close>, \<open>checked\<close>, \<open>open\<close>, \<open>value\<close>, \<open>title\<close>, \<open>placeholder\<close>,
  \<open>variant\<close>, ...); class names, sizes, styles, layout attributes and React keys are left out.
\<close>

section \<open>Handlers\<close>

text \<open>What a \<open>catch\<close> clause can receive: an \<open>ApiError\<close> with its status, any other \<open>Error\<close>, or a
  thrown value that is no \<open>Error\<close>.\<close>

datatype jerr = ApiErr int string bool | JsErr string | NonErr

datatype body = NoBody | JsonBody jsv | RawBody string

text \<open>What a handler can await: a request to the admin API (verb, path below \<open>/admin/api\<close>, body), a
  write to the clipboard, or a \<open>fetch\<close> of a path with a bearer token, which answers with the response.\<close>

datatype request = Http string string body | WriteClipboard string | Fetch string string

datatype reply = Resolved jsv | Rejected jerr

text \<open>Effects that neither fail nor return; \<open>Parent\<close> is a call of a callback the parent passed as a property.\<close>

datatype eff =
    ToastOk string
  | ToastOkDesc string string
  | ToastErr string
  | ToastWarn string
  | Invalidate "string list"
  | OpenTab string
  | SetItem string string
  | Download string string
  | Parent string jsv

datatype (dead 's) act =
    Done
  | Throw jerr
  | Upd "'s \<Rightarrow> 's" "'s act"
  | Look "'s \<Rightarrow> 's act"
  | Emit eff "'s act"
  | Await request "reply \<Rightarrow> 's act"
  | AwaitAll "request list" "reply list \<Rightarrow> 's act"
  | Sleep int "'s act"
  | Fork "'s act" "'s act"

text \<open>Sequencing, \<open>try/catch\<close> and \<open>try/finally\<close>.\<close>

primrec andThen :: "'s act \<Rightarrow> 's act \<Rightarrow> 's act" where
  "andThen Done b = b"
| "andThen (Throw e) b = Throw e"
| "andThen (Upd f k) b = Upd f (andThen k b)"
| "andThen (Look f) b = Look (\<lambda>s. andThen (f s) b)"
| "andThen (Emit x k) b = Emit x (andThen k b)"
| "andThen (Await r k) b = Await r (\<lambda>p. andThen (k p) b)"
| "andThen (AwaitAll rs k) b = AwaitAll rs (\<lambda>ps. andThen (k ps) b)"
| "andThen (Sleep n k) b = Sleep n (andThen k b)"
| "andThen (Fork c k) b = Fork c (andThen k b)"

primrec catch :: "'s act \<Rightarrow> (jerr \<Rightarrow> 's act) \<Rightarrow> 's act" where
  "catch Done h = Done"
| "catch (Throw e) h = h e"
| "catch (Upd f k) h = Upd f (catch k h)"
| "catch (Look f) h = Look (\<lambda>s. catch (f s) h)"
| "catch (Emit x k) h = Emit x (catch k h)"
| "catch (Await r k) h = Await r (\<lambda>p. catch (k p) h)"
| "catch (AwaitAll rs k) h = AwaitAll rs (\<lambda>ps. catch (k ps) h)"
| "catch (Sleep n k) h = Sleep n (catch k h)"
| "catch (Fork c k) h = Fork c (catch k h)"

definition finally_do :: "'s act \<Rightarrow> 's act \<Rightarrow> 's act" where
  "finally_do a f = andThen (catch a (\<lambda>e. andThen f (Throw e))) f"

text \<open>\<open>await\<close> of a request that throws when it is rejected, and the \<open>get\<close>, \<open>post\<close>, \<open>put\<close>, \<open>del\<close>
  wrappers of the API client.\<close>

definition await :: "request \<Rightarrow> (jsv \<Rightarrow> 's act) \<Rightarrow> 's act" where
  "await r k = Await r (\<lambda>p. case p of Resolved v \<Rightarrow> k v | Rejected e \<Rightarrow> Throw e)"

definition get :: "string \<Rightarrow> (jsv \<Rightarrow> 's act) \<Rightarrow> 's act" where
  "get p k = await (Http ''GET'' p NoBody) k"

definition post :: "string \<Rightarrow> body \<Rightarrow> (jsv \<Rightarrow> 's act) \<Rightarrow> 's act" where
  "post p b k = await (Http ''POST'' p b) k"

definition put :: "string \<Rightarrow> body \<Rightarrow> (jsv \<Rightarrow> 's act) \<Rightarrow> 's act" where
  "put p b k = await (Http ''PUT'' p b) k"

definition del :: "string \<Rightarrow> (jsv \<Rightarrow> 's act) \<Rightarrow> 's act" where
  "del p k = await (Http ''DELETE'' p NoBody) k"

text \<open>\<open>v.k\<close>, which throws a \<open>TypeError\<close> for null and undefined.\<close>

definition get_field :: "jsv \<Rightarrow> string \<Rightarrow> (jsv \<Rightarrow> 's act) \<Rightarrow> 's act" where
  "get_field v k c = (if nullish v
     then Throw (JsErr (''Cannot read properties of '' @ js_string v @ '' (reading '' @ [CHR 0x27] @ k
            @ [CHR 0x27] @ '')''))
     else c (get_prop v k))"

lemmas act_defs = finally_do_def await_def get_def post_def put_def del_def get_field_def

section \<open>Running a handler\<close>

text \<open>A run against a server with state \<open>'w\<close> where nothing else happens in between: the error that
  escapes, the component state, the effects in order and the server afterwards. A forked call
  runs first.\<close>

type_synonym 'w server = "'w \<Rightarrow> request \<Rightarrow> reply \<times> 'w"

fun answer_all :: "'w server \<Rightarrow> 'w \<Rightarrow> request list \<Rightarrow> reply list \<times> 'w" where
  "answer_all srv w [] = ([], w)"
| "answer_all srv w (r # rs) =
     (let (p, w1) = srv w r; (ps, w2) = answer_all srv w1 rs in (p # ps, w2))"

primrec exec :: "'s act \<Rightarrow> 'w server \<Rightarrow> 's \<Rightarrow> 'w \<Rightarrow> jerr option \<times> 's \<times> eff list \<times> 'w" where
  "exec Done srv s w = (None, s, [], w)"
| "exec (Throw e) srv s w = (Some e, s, [], w)"
| "exec (Upd f k) srv s w = exec k srv (f s) w"
| "exec (Look f) srv s w = exec (f s) srv s w"
| "exec (Emit x k) srv s w = (case exec k srv s w of (e, s', l, w') \<Rightarrow> (e, s', x # l, w'))"
| "exec (Await r k) srv s w = (case srv w r of (p, w') \<Rightarrow> exec (k p) srv s w')"
| "exec (AwaitAll rs k) srv s w = (case answer_all srv w rs of (ps, w') \<Rightarrow> exec (k ps) srv s w')"
| "exec (Sleep n k) srv s w = exec k srv s w"
| "exec (Fork c k) srv s w =
     (case exec c srv s w of (e1, s1, l1, w1) \<Rightarrow>
      case exec k srv s1 w1 of (e, s2, l2, w2) \<Rightarrow> (e, s2, l1 @ l2, w2))"

definition final_state :: "jerr option \<times> 's \<times> eff list \<times> 'w \<Rightarrow> 's" where
  "final_state o4 = fst (snd o4)"

definition effects :: "jerr option \<times> 's \<times> eff list \<times> 'w \<Rightarrow> eff list" where
  "effects o4 = fst (snd (snd o4))"

definition server_after :: "jerr option \<times> 's \<times> eff list \<times> 'w \<Rightarrow> 'w" where
  "server_after o4 = snd (snd (snd o4))"

lemma exec_andThen:
  "exec (andThen a b) srv s w =
     (case exec a srv s w of
        (Some e, s1, l1, w1) \<Rightarrow> (Some e, s1, l1, w1)
      | (None, s1, l1, w1) \<Rightarrow> (case exec b srv s1 w1 of (e, s2, l2, w2) \<Rightarrow> (e, s2, l1 @ l2, w2)))"
  by (induction a arbitrary: s w) (auto split: prod.splits option.splits)

lemma exec_catch:
  "exec (catch a h) srv s w =
     (case exec a srv s w of
        (Some e, s1, l1, w1) \<Rightarrow> (case exec (h e) srv s1 w1 of (e', s2, l2, w2) \<Rightarrow> (e', s2, l1 @ l2, w2))
      | (None, s1, l1, w1) \<Rightarrow> (None, s1, l1, w1))"
  by (induction a arbitrary: s w) (auto split: prod.splits option.splits)

lemma exec_await:
  "exec (await r k) srv s w =
     (case srv w r of (Resolved v, w') \<Rightarrow> exec (k v) srv s w'
                    | (Rejected e, w') \<Rightarrow> (Some e, s, [], w'))"
  by (auto simp: await_def split: prod.splits reply.splits)

lemma exec_finally:
  "exec (finally_do a f) srv s w =
     (case exec a srv s w of (e, s1, l1, w1) \<Rightarrow>
      case exec f srv s1 w1 of (e', s2, l2, w2) \<Rightarrow>
        ((case e' of None \<Rightarrow> e | Some x \<Rightarrow> Some x), s2, l1 @ l2, w2))"
  by (auto simp: finally_do_def exec_andThen exec_catch split: prod.splits option.splits)

lemma andThen_Done [simp]: "andThen a Done = a"
  by (induction a) auto

lemma andThen_assoc: "andThen (andThen a b) c = andThen a (andThen b c)"
  by (induction a) auto

text \<open>The requests a handler may send, whatever the replies are and whatever the state is.\<close>

primrec may_send :: "(request \<Rightarrow> bool) \<Rightarrow> 's act \<Rightarrow> bool" where
  "may_send P Done = False"
| "may_send P (Throw e) = False"
| "may_send P (Upd f k) = may_send P k"
| "may_send P (Look f) = (\<exists>s. may_send P (f s))"
| "may_send P (Emit x k) = may_send P k"
| "may_send P (Await r k) = (P r \<or> (\<exists>p. may_send P (k p)))"
| "may_send P (AwaitAll rs k) = (list_ex P rs \<or> (\<exists>ps. may_send P (k ps)))"
| "may_send P (Sleep n k) = may_send P k"
| "may_send P (Fork c k) = (may_send P c \<or> may_send P k)"

lemma may_send_andThen [simp]: "may_send P (andThen a b) \<Longrightarrow> may_send P a \<or> may_send P b"
  by (induction a) auto

lemma may_send_catch: "may_send P (catch a h) \<Longrightarrow> may_send P a \<or> (\<exists>e. may_send P (h e))"
  by (induction a) auto

lemma may_send_mono: "may_send P a \<Longrightarrow> (\<And>r. P r \<Longrightarrow> Q r) \<Longrightarrow> may_send Q a"
  by (induction a) (auto simp: list_ex_iff)

lemma may_send_await [simp]:
  "may_send P (await r k) \<longleftrightarrow> P r \<or> (\<exists>v. may_send P (k v))"
proof -
  have "(\<exists>p. may_send P (case p of Resolved v \<Rightarrow> k v | Rejected e \<Rightarrow> Throw e))
        \<longleftrightarrow> (\<exists>v. may_send P (k v))"
    by (metis (no_types, lifting) may_send.simps(2) reply.case(1) reply.case(2) reply.exhaust)
  then show ?thesis by (simp add: await_def)
qed

section \<open>Element trees\<close>

datatype 'e attr =
    aS string string
  | aB string bool
  | aN string rat
  | on string 'e
  | onS string "string \<Rightarrow> 'e"
  | onB string "bool \<Rightarrow> 'e"

datatype 'e view =
    Nothing
  | Txt string
  | El string "'e attr list" "'e view list"

definition ic :: "string \<Rightarrow> 'e view" where
  "ic name = El name [] []"

definition spinner :: "'e view" where
  "spinner = ic ''LuLoader''"

definition shown :: "bool \<Rightarrow> 'e view \<Rightarrow> 'e view" where
  "shown b v = (if b then v else Nothing)"

definition frag :: "'e view list \<Rightarrow> 'e view" where
  "frag vs = El ''Fragment'' [] vs"

text \<open>The handlers a user can trigger: those of elements that are not disabled, outside dialogs,
  sheets and popovers that are closed.\<close>

datatype 'e handler = Plain 'e | WithText "string \<Rightarrow> 'e" | WithFlag "bool \<Rightarrow> 'e"

datatype input = Click | Type string | Check bool

fun fire :: "'e handler \<Rightarrow> input \<Rightarrow> 'e option" where
  "fire (Plain e) Click = Some e"
| "fire (WithText f) (Type x) = Some (f x)"
| "fire (WithFlag f) (Check b) = Some (f b)"
| "fire _ _ = None"

fun attr_handlers :: "'e attr \<Rightarrow> 'e handler list" where
  "attr_handlers (on n e) = [Plain e]"
| "attr_handlers (onS n f) = [WithText f]"
| "attr_handlers (onB n f) = [WithFlag f]"
| "attr_handlers _ = []"

fun is_flag :: "string \<Rightarrow> bool \<Rightarrow> 'e attr \<Rightarrow> bool" where
  "is_flag n b (aB m c) = (n = m \<and> b = c)"
| "is_flag n b _ = False"

definition has_flag :: "string \<Rightarrow> bool \<Rightarrow> 'e attr list \<Rightarrow> bool" where
  "has_flag n b as = list_ex (is_flag n b) as"

fun live :: "'e view \<Rightarrow> 'e handler list" where
  "live Nothing = []"
| "live (Txt t) = []"
| "live (El tag as cs) =
     (if has_flag ''open'' False as then []
      else (if has_flag ''disabled'' True as then [] else concat (map attr_handlers as))
           @ concat (map live cs))"

lemma live_Nothing_if [simp]: "live (if b then v else Nothing) = (if b then live v else [])"
  by simp

lemma live_shown [simp]: "live (shown b v) = (if b then live v else [])"
  by (simp add: shown_def)

lemma live_ic [simp]: "live (ic n) = []"
  by (simp add: ic_def has_flag_def)

lemma live_spinner [simp]: "live spinner = []"
  by (simp add: spinner_def)

lemma live_frag [simp]: "live (frag vs) = concat (map live vs)"
  by (simp add: frag_def has_flag_def)

text \<open>All texts of a tree, in document order.\<close>

fun texts :: "'e view \<Rightarrow> string list" where
  "texts Nothing = []"
| "texts (Txt t) = [t]"
| "texts (El tag as cs) = (if has_flag ''open'' False as then [] else concat (map texts cs))"

section \<open>A mounted component\<close>

text \<open>The component state, the calls in flight with their continuations, and the effects so far. An
  event or a reply runs the program up to its next \<open>await\<close> (JavaScript runs to completion); the
  next view is the view of the new state.\<close>

datatype (dead 's) pending =
    Req request "reply \<Rightarrow> 's act"
  | ReqAll "request list" "reply list \<Rightarrow> 's act"
  | Timer int "'s act"

record 's mach =
  cst :: 's
  inflight :: "'s pending list"
  trace :: "eff list"

primrec sync :: "'s act \<Rightarrow> 's \<Rightarrow> 's \<times> eff list \<times> 's pending list" where
  "sync Done s = (s, [], [])"
| "sync (Throw e) s = (s, [], [])"
| "sync (Upd f k) s = sync k (f s)"
| "sync (Look f) s = sync (f s) s"
| "sync (Emit x k) s = (case sync k s of (s', l, ps) \<Rightarrow> (s', x # l, ps))"
| "sync (Await r k) s = (s, [], [Req r k])"
| "sync (AwaitAll rs k) s = (s, [], [ReqAll rs k])"
| "sync (Sleep n k) s = (s, [], [Timer n k])"
| "sync (Fork c k) s =
     (case sync c s of (s1, l1, ps1) \<Rightarrow> case sync k s1 of (s2, l2, ps2) \<Rightarrow> (s2, l1 @ l2, ps1 @ ps2))"

definition resume :: "'s mach \<Rightarrow> 's act \<Rightarrow> 's mach" where
  "resume m a = (case sync a (cst m) of (s, l, ps) \<Rightarrow>
     m\<lparr>cst := s, inflight := inflight m @ ps, trace := trace m @ l\<rparr>)"

fun woken :: "'s pending \<Rightarrow> reply list \<Rightarrow> 's act option" where
  "woken (Req r k) [p] = Some (k p)"
| "woken (ReqAll rs k) ps = (if length ps = length rs then Some (k ps) else None)"
| "woken (Timer n k) [] = Some k"
| "woken _ _ = None"

definition drop_nth :: "nat \<Rightarrow> 'a list \<Rightarrow> 'a list" where
  "drop_nth i xs = take i xs @ drop (Suc i) xs"

inductive mstep :: "('s \<Rightarrow> 's act view) \<Rightarrow> ('s \<Rightarrow> 's \<Rightarrow> bool) \<Rightarrow> 's mach \<Rightarrow> 's mach \<Rightarrow> bool"
  for V env where
  event: "h \<in> set (live (V (cst m))) \<Longrightarrow> fire h inp = Some a \<Longrightarrow> mstep V env m (resume m a)"
| wake: "i < length (inflight m) \<Longrightarrow> woken (inflight m ! i) ps = Some a \<Longrightarrow>
     mstep V env m (resume (m\<lparr>inflight := drop_nth i (inflight m)\<rparr>) a)"
| world: "env (cst m) s' \<Longrightarrow> mstep V env m (m\<lparr>cst := s'\<rparr>)"

inductive mreach :: "('s \<Rightarrow> 's act view) \<Rightarrow> ('s \<Rightarrow> 's \<Rightarrow> bool) \<Rightarrow> 's \<Rightarrow> 's mach \<Rightarrow> bool"
  for V env s0 where
  start: "mreach V env s0 \<lparr>cst = s0, inflight = [], trace = []\<rparr>"
| step: "mreach V env s0 m \<Longrightarrow> mstep V env m m' \<Longrightarrow> mreach V env s0 m'"

lemma set_drop_nth: "set (drop_nth i xs) \<subseteq> set xs"
  by (auto simp: drop_nth_def dest: in_set_takeD in_set_dropD)

lemma length_drop_nth: "i < length xs \<Longrightarrow> length (drop_nth i xs) = length xs - 1"
  by (simp add: drop_nth_def)

text \<open>The proof obligation of an invariant of a mounted component, once for all pages: the initial
  state has it, every handler the view offers keeps it, every continuation in flight keeps it, and
  so does a change from outside.\<close>

locale page_invariant =
  fixes V :: "'s \<Rightarrow> 's act view"
    and env :: "'s \<Rightarrow> 's \<Rightarrow> bool"
    and s0 :: 's
    and inv :: "'s \<Rightarrow> 's pending list \<Rightarrow> bool"
  assumes inv_start: "inv s0 []"
    and inv_event: "inv s ps \<Longrightarrow> h \<in> set (live (V s)) \<Longrightarrow> fire h inp = Some a \<Longrightarrow>
          sync a s = (s', l, qs) \<Longrightarrow> inv s' (ps @ qs)"
    and inv_wake: "inv s ps \<Longrightarrow> i < length ps \<Longrightarrow> woken (ps ! i) rs = Some a \<Longrightarrow>
          sync a s = (s', l, qs) \<Longrightarrow> inv s' (drop_nth i ps @ qs)"
    and inv_world: "inv s ps \<Longrightarrow> env s s' \<Longrightarrow> inv s' ps"
begin

lemma mstep_inv: "mstep V env m m' \<Longrightarrow> inv (cst m) (inflight m) \<Longrightarrow> inv (cst m') (inflight m')"
proof (induction rule: mstep.induct)
  case (event h m inp a)
  obtain s l qs where "sync a (cst m) = (s, l, qs)" by (cases "sync a (cst m)")
  with event show ?case by (auto simp: resume_def intro: inv_event)
next
  case (wake i m ps a)
  obtain s l qs where "sync a (cst m) = (s, l, qs)" by (cases "sync a (cst m)")
  with wake show ?case by (auto simp: resume_def intro: inv_wake)
next
  case (world m s')
  then show ?case by (auto intro: inv_world)
qed

lemma reach_inv: "mreach V env s0 m \<Longrightarrow> inv (cst m) (inflight m)"
  by (induction rule: mreach.induct) (auto simp: inv_start intro: mstep_inv)

end

end
