(* ===== verification/I18n.thy ===== *)
theory I18n
  imports Runtime
begin

text \<open>
  \<open>dashboard/src/lib/i18n.tsx\<close>: the lookup of a text and the substitution of its placeholders, and
  what a page takes from its surroundings: translation, language, clock, the browser's number and
  date formatting and its location.
\<close>

section \<open>\<open>String.prototype.replace\<close> with a text pattern\<close>

text \<open>The first occurrence of a pattern: the texts before and after it.\<close>

fun find_first :: "string \<Rightarrow> string \<Rightarrow> (string \<times> string) option" where
  "find_first p [] = (if p = [] then Some ([], []) else None)"
| "find_first p (c # s) =
     (if starts_with p (c # s) then Some ([], drop (length p) (c # s))
      else map_option (\<lambda>(a, b). (c # a, b)) (find_first p s))"

text \<open>The replacement text is a template: \<open>$$\<close>, \<open>$&\<close>, \<open>$`\<close> and \<open>$'\<close> stand for a dollar sign, the
  match, the text before it and the text after it.\<close>

fun expand_template :: "string \<Rightarrow> string \<Rightarrow> string \<Rightarrow> string \<Rightarrow> string" where
  "expand_template m a b (c # d # r) =
     (if c = CHR ''$'' \<and> d = CHR ''$'' then CHR ''$'' # expand_template m a b r
      else if c = CHR ''$'' \<and> d = CHR ''&'' then m @ expand_template m a b r
      else if c = CHR ''$'' \<and> d = CHR 0x60 then a @ expand_template m a b r
      else if c = CHR ''$'' \<and> d = CHR 0x27 then b @ expand_template m a b r
      else c # expand_template m a b (d # r))"
| "expand_template m a b r = r"

definition js_replace :: "string \<Rightarrow> string \<Rightarrow> string \<Rightarrow> string" where
  "js_replace p r s = (case find_first p s of None \<Rightarrow> s
     | Some (a, b) \<Rightarrow> a @ expand_template p a b r @ b)"

section \<open>lib/i18n.tsx\<close>

type_synonym dict = "string \<Rightarrow> string \<rightharpoonup> string"

definition placeholder :: "nat \<Rightarrow> string" where
  "placeholder i = ''{'' @ show_nat i @ ''}''"

text \<open>\<open>dict[lang][key] ?? dict.zh[key] ?? key\<close>.\<close>

definition lookup_text :: "dict \<Rightarrow> string \<Rightarrow> string \<Rightarrow> string" where
  "lookup_text d lang key = (case d lang key of Some x \<Rightarrow> x
     | None \<Rightarrow> (case d ''zh'' key of Some x \<Rightarrow> x | None \<Rightarrow> key))"

fun fill :: "nat \<Rightarrow> string list \<Rightarrow> string \<Rightarrow> string" where
  "fill i [] s = s"
| "fill i (a # as) s = fill (Suc i) as (js_replace (placeholder i) a s)"

definition translate :: "dict \<Rightarrow> string \<Rightarrow> string \<Rightarrow> string list \<Rightarrow> string" where
  "translate d lang key args = fill 0 args (lookup_text d lang key)"

text \<open>The provider's state is the language; the choice is stored under \<open>kiro_lang\<close>.\<close>

definition initial_lang :: "string option \<Rightarrow> string" where
  "initial_lang stored = (case stored of None \<Rightarrow> ''en'' | Some l \<Rightarrow> or_str l ''en'')"

definition setLang :: "string \<Rightarrow> string act" where
  "setLang l = Emit (SetItem ''kiro_lang'' l) (Upd (\<lambda>_. l) Done)"

definition html_lang :: "string \<Rightarrow> string" where
  "html_lang l = (if l = ''zh'' then ''zh-CN'' else ''en'')"

section \<open>What a page takes from its surroundings\<close>

record ui =
  tr :: "string \<Rightarrow> string list \<Rightarrow> string"
  lang :: string
  now_ms :: int
  fmt_num :: "rat \<Rightarrow> string"
  fmt_date :: "int \<Rightarrow> string"
  rel_format :: "string \<Rightarrow> int \<Rightarrow> string \<Rightarrow> string"
  pathname :: string
  origin :: string
  iso_date :: string

abbreviation tx :: "ui \<Rightarrow> string \<Rightarrow> string" where
  "tx E k \<equiv> tr E k []"

text \<open>Surroundings to evaluate examples in: a text is its key and its arguments.\<close>

definition sample_ui :: ui where
  "sample_ui = \<lparr>tr = (\<lambda>k as. js_join '' '' (k # as)), lang = ''en'', now_ms = 1700000000000,
     fmt_num = (\<lambda>n. js_string (JNum n)), fmt_date = show_int,
     rel_format = (\<lambda>l n u. show_int n @ '' '' @ u), pathname = ''/admin/accounts'',
     origin = ''http://localhost:8080'', iso_date = ''2026-01-31''\<rparr>"

section \<open>Substitution\<close>

lemma expand_template_plain: "CHR ''$'' \<notin> set r \<Longrightarrow> expand_template m a b r = r"
  by (induction m a b r rule: expand_template.induct) auto

declare starts_with_Cons [simp]

lemma find_first_skip:
  "x \<notin> set l \<Longrightarrow> find_first (x # p) (l @ s) = map_option (\<lambda>(a, b). (l @ a, b)) (find_first (x # p) s)"
proof (induction l)
  case Nil
  then show ?case by (simp add: option.map_ident prod.case_eq_if)
next
  case (Cons c l)
  then show ?case by (cases "find_first (x # p) s") auto
qed

lemma find_first_here: "find_first p (p @ s) = (if p @ s = [] then Some ([], []) else Some ([], s))"
proof (cases "p @ s")
  case (Cons c r)
  then have "starts_with p (c # r)" "drop (length p) (c # r) = s"
    by (metis starts_with_append, metis append_eq_conv_conj)
  with Cons show ?thesis by simp
qed auto

text \<open>Placeholders are distinct texts between braces.\<close>

lemma digit_code: "n < 10 \<Longrightarrow> of_char (digit_char n) = (48 + n :: nat)"
  by simp

fun read_digits :: "nat \<Rightarrow> string \<Rightarrow> nat" where
  "read_digits n [] = n"
| "read_digits n (c # s) = read_digits (10 * n + (of_char c - 48)) s"

lemma read_digits_append: "read_digits n (a @ b) = read_digits (read_digits n a) b"
  by (induction a arbitrary: n) auto

lemma read_show: "read_digits 0 (show_nat n) = n"
proof (induction n rule: show_nat.induct)
  case (1 n)
  show ?case
  proof (cases "n < 10")
    case False
    with 1 have "read_digits 0 (show_nat (n div 10)) = n div 10" by simp
    with False show ?thesis by (subst show_nat.simps) (simp add: read_digits_append)
  qed (subst show_nat.simps, simp)
qed

lemma show_nat_inj: "show_nat m = show_nat n \<longleftrightarrow> m = n"
  by (metis read_show)

lemma show_nat_digits: "set (show_nat n) \<subseteq> {c. 48 \<le> (of_char c :: nat) \<and> (of_char c :: nat) \<le> 57}"
proof (induction n rule: show_nat.induct)
  case (1 n)
  show ?case
  proof (cases "n < 10")
    case False
    with 1 have "set (show_nat (n div 10)) \<subseteq> {c. 48 \<le> (of_char c :: nat) \<and> (of_char c :: nat) \<le> 57}"
      by simp
    with False show ?thesis
      by (subst show_nat.simps) auto
  qed (subst show_nat.simps, simp)
qed

lemma no_brace: "CHR ''{'' \<notin> set (show_nat n)" "CHR ''}'' \<notin> set (show_nat n)"
  using show_nat_digits [of n] by auto

lemma placeholder_prefix: "starts_with (placeholder i) (placeholder j @ s) \<longleftrightarrow> i = j"
proof
  assume "starts_with (placeholder i) (placeholder j @ s)"
  then obtain r where "show_nat i @ CHR ''}'' # r = show_nat j @ CHR ''}'' # s"
    by (auto simp: starts_with_iff placeholder_def)
  then have "takeWhile (\<lambda>c. c \<noteq> CHR ''}'') (show_nat i @ CHR ''}'' # r) =
      takeWhile (\<lambda>c. c \<noteq> CHR ''}'') (show_nat j @ CHR ''}'' # s)" by simp
  then have "show_nat i = show_nat j"
    using no_brace(2) [of i] no_brace(2) [of j]
    by (subst (asm) (1 2) takeWhile_append2) auto
  then show "i = j" by (simp add: show_nat_inj)
qed simp

text \<open>A text as its literal parts and its placeholders.\<close>

datatype seg = Lit string | Arg nat

fun render :: "seg list \<Rightarrow> string" where
  "render [] = []"
| "render (Lit l # ss) = l @ render ss"
| "render (Arg i # ss) = placeholder i @ render ss"

fun put_arg :: "nat \<Rightarrow> string \<Rightarrow> seg list \<Rightarrow> seg list" where
  "put_arg i x [] = []"
| "put_arg i x (Arg j # ss) = (if i = j then Lit x # ss else Arg j # put_arg i x ss)"
| "put_arg i x (Lit l # ss) = Lit l # put_arg i x ss"

fun subst_seg :: "nat \<Rightarrow> string list \<Rightarrow> seg \<Rightarrow> seg" where
  "subst_seg i as (Arg j) = (if i \<le> j \<and> j < i + length as then Lit (as ! (j - i)) else Arg j)"
| "subst_seg i as (Lit l) = Lit l"

fun clean_seg :: "seg \<Rightarrow> bool" where
  "clean_seg (Lit l) = (CHR ''{'' \<notin> set l)"
| "clean_seg (Arg i) = True"

lemma placeholder_skip:
  "i \<noteq> j \<Longrightarrow> find_first (placeholder i) (placeholder j @ s) =
     map_option (\<lambda>(a, b). (placeholder j @ a, b)) (find_first (placeholder i) s)"
proof -
  assume ij: "i \<noteq> j"
  have brace: "CHR ''{'' \<notin> set (show_nat j @ ''}'')" using no_brace(1) by simp
  have "\<not> starts_with (placeholder i) (placeholder j @ s)"
    using ij by (simp add: placeholder_prefix)
  then have "find_first (placeholder i) (placeholder j @ s) =
      map_option (\<lambda>(a, b). (CHR ''{'' # a, b)) (find_first (placeholder i) ((show_nat j @ ''}'') @ s))"
    by (simp add: placeholder_def)
  also have "\<dots> = map_option (\<lambda>(a, b). (placeholder j @ a, b)) (find_first (placeholder i) s)"
    using find_first_skip [OF brace, of "show_nat i @ ''}''" s]
    by (cases "find_first (placeholder i) s") (auto simp: placeholder_def)
  finally show ?thesis .
qed

lemma replace_placeholder:
  "list_all clean_seg ss \<Longrightarrow> CHR ''$'' \<notin> set x \<Longrightarrow>
     js_replace (placeholder i) x (render ss) = render (put_arg i x ss)"
proof (induction ss)
  case Nil
  then show ?case by (simp add: js_replace_def placeholder_def)
next
  case (Cons s ss)
  show ?case
  proof (cases s)
    case (Lit l)
    with Cons.prems(1) have "CHR ''{'' \<notin> set l" by simp
    then have "find_first (placeholder i) (l @ render ss) =
        map_option (\<lambda>(a, b). (l @ a, b)) (find_first (placeholder i) (render ss))"
      using find_first_skip [of "CHR ''{''" l "show_nat i @ ''}''"] by (simp add: placeholder_def)
    with Cons Lit show ?thesis
      by (cases "find_first (placeholder i) (render ss)")
        (auto simp: js_replace_def expand_template_plain)
  next
    case (Arg j)
    show ?thesis
    proof (cases "i = j")
      case True
      with Cons.prems Arg show ?thesis
        by (simp add: js_replace_def find_first_here expand_template_plain)
    next
      case False
      with Cons Arg show ?thesis
        by (cases "find_first (placeholder i) (render ss)")
          (auto simp: js_replace_def expand_template_plain placeholder_skip)
    qed
  qed
qed

lemma subst_seg_single: "subst_seg i [x] s = (if s = Arg i then Lit x else s)"
  by (cases s) auto

lemma put_arg_map:
  "count_list ss (Arg i) \<le> 1 \<Longrightarrow> put_arg i x ss = map (subst_seg i [x]) ss"
proof (induction ss rule: put_arg.induct)
  case (2 i x j ss)
  have "count_list ss (Arg i) = 0 \<Longrightarrow> map (subst_seg i [x]) ss = ss"
    by (intro map_idI) (auto simp: count_list_0_iff subst_seg_single)
  with 2 show ?case by (auto split: if_splits)
qed auto

lemma clean_put_arg: "list_all clean_seg ss \<Longrightarrow> CHR ''{'' \<notin> set x \<Longrightarrow> list_all clean_seg (put_arg i x ss)"
  by (induction i x ss rule: put_arg.induct) auto

lemma count_put_arg: "i \<noteq> j \<Longrightarrow> count_list (put_arg i x ss) (Arg j) = count_list ss (Arg j)"
  by (induction i x ss rule: put_arg.induct) auto

lemma fill_segments:
  assumes "list_all clean_seg ss" "\<And>j. count_list ss (Arg j) \<le> 1"
    and "\<And>x. x \<in> set as \<Longrightarrow> CHR ''$'' \<notin> set x \<and> CHR ''{'' \<notin> set x"
  shows "fill i as (render ss) = render (map (subst_seg i as) ss)"
  using assms
proof (induction as arbitrary: i ss)
  case Nil
  have "subst_seg i [] s = s" for s by (cases s) auto
  then show ?case by (simp add: map_idI)
next
  case (Cons x as)
  have x: "CHR ''$'' \<notin> set x" "CHR ''{'' \<notin> set x" using Cons.prems(3) by auto
  have one: "count_list (put_arg i x ss) (Arg j) \<le> 1" for j
  proof (cases "i = j")
    case True
    have "Arg i \<notin> set (map (subst_seg i [x]) ss)"
      by (auto simp: subst_seg_single split: if_splits)
    with True show ?thesis
      by (simp add: put_arg_map [OF Cons.prems(2)] count_list_0_iff)
  qed (use Cons.prems(2) [of j] in \<open>simp add: count_put_arg\<close>)
  have "fill i (x # as) (render ss) = fill (Suc i) as (render (put_arg i x ss))"
    by (simp add: replace_placeholder [OF Cons.prems(1) x(1)])
  also have "\<dots> = render (map (subst_seg (Suc i) as) (put_arg i x ss))"
    using Cons.prems x one by (intro Cons.IH) (auto simp: clean_put_arg)
  also have "map (subst_seg (Suc i) as) (put_arg i x ss) = map (subst_seg i (x # as)) ss"
  proof -
    have "subst_seg (Suc i) as (subst_seg i [x] s) = subst_seg i (x # as) s" for s
      by (cases s) (auto simp: nth_Cons' not_less_eq_eq le_Suc_eq)
    then show ?thesis by (simp add: put_arg_map [OF Cons.prems(2)])
  qed
  finally show ?case .
qed

text \<open>A text is translated by putting each argument in the place of its placeholder and
  changing nothing else, for arguments without the characters \<open>$\<close> and \<open>{\<close> and texts that use a
  placeholder at most once (an argument with \<open>$&\<close> or \<open>$$\<close> is not shown as it is).\<close>

theorem translate_substitutes:
  assumes "lookup_text d l key = render ss" "list_all clean_seg ss"
    and "\<forall>j. count_list ss (Arg j) \<le> 1"
    and "list_all (\<lambda>x. CHR ''$'' \<notin> set x \<and> CHR ''{'' \<notin> set x) args"
  shows "translate d l key args = render (map (subst_seg 0 args) ss)"
  using assms fill_segments [of ss args 0] by (simp add: translate_def list_all_iff)

theorem translate_substitutes_witness:
  "translate (\<lambda>l k. if k = ''batch.deleteResult'' then Some ''Deleted {0}, failed {1}.'' else None)
     ''en'' ''batch.deleteResult'' [''3'', ''1''] = ''Deleted 3, failed 1.''"
proof -
  let ?ss = "[Lit ''Deleted '', Arg 0, Lit '', failed '', Arg 1, Lit ''.'']"
  have "render ?ss = ''Deleted {0}, failed {1}.''" by code_simp
  then show ?thesis
    using translate_substitutes [of "\<lambda>l k. if k = ''batch.deleteResult''
        then Some ''Deleted {0}, failed {1}.'' else None" "''en''" "''batch.deleteResult''" ?ss "[''3'', ''1'']"]
    by (simp add: lookup_text_def)
qed

text \<open>An argument is a replacement template, not a text: an account named \<open>$&\<close> is shown with the
  placeholder in the place of its name.\<close>

theorem translate_expands_templates:
  "translate (\<lambda>l k. Some ''Select account {0}'') l k [''$&''] = ''Select account {0}''"
proof -
  have "fill 0 [''$&''] ''Select account {0}'' = ''Select account {0}''" by code_simp
  then show ?thesis by (simp add: translate_def lookup_text_def)
qed

end
