(* ===== verification/Common.thy ===== *)
theory Common
  imports I18n
begin

text \<open>
  The building blocks every page uses: \<open>dashboard/src/components/common.tsx\<close> (page header, cards,
  empty and loading states, copy button, confirmation dialog, formatting), the navigation table
  \<open>components/layout/nav.tsx\<close> and \<open>pages/accounts/simple-select.tsx\<close>.

  A component with state of its own takes the parent's state with the setters for its part.
\<close>

section \<open>components/layout/nav.tsx\<close>

record nav_item =
  nav_to :: string
  labelKey :: string
  nav_icon :: string
  nav_key :: string
  nav_section :: string

definition nav_entry :: "string \<Rightarrow> string \<Rightarrow> string \<Rightarrow> string \<Rightarrow> string \<Rightarrow> nav_item" where
  "nav_entry a b c d e = \<lparr>nav_to = a, labelKey = b, nav_icon = c, nav_key = d, nav_section = e\<rparr>"

definition NAV :: "nav_item list" where
  "NAV = [nav_entry ''/'' ''nav.overview'' ''LuLayoutDashboard'' ''o'' ''manage'',
     nav_entry ''/accounts'' ''nav.accounts'' ''LuUsers'' ''a'' ''manage'',
     nav_entry ''/api-keys'' ''nav.apiKeys'' ''LuKeyRound'' ''k'' ''manage'',
     nav_entry ''/model-status'' ''nav.modelStatus'' ''LuActivity'' ''m'' ''manage'',
     nav_entry ''/model-prices'' ''nav.modelPrices'' ''LuCoins'' ''p'' ''system'',
     nav_entry ''/logs'' ''nav.logs'' ''LuScrollText'' ''l'' ''system'',
     nav_entry ''/settings'' ''nav.settings'' ''LuSettings'' ''s'' ''system'']"

definition strip :: "string \<Rightarrow> string" where
  "strip p = (let p = (if starts_with ''/admin'' p then drop 6 p else p);
                  p = rev (dropWhile (\<lambda>c. c = CHR ''/'') (rev p)) in or_str p ''/'')"

fun find_index :: "('a \<Rightarrow> bool) \<Rightarrow> 'a list \<Rightarrow> nat option" where
  "find_index P [] = None"
| "find_index P (x # xs) = (if P x then Some 0 else map_option Suc (find_index P xs))"

definition navIndex :: "string \<Rightarrow> nat option" where
  "navIndex path = (let p = strip path in
     find_index (\<lambda>n. if nav_to n = ''/'' then p = ''/'' else starts_with (nav_to n) p) NAV)"

section \<open>Numbers and times\<close>

text \<open>\<open>Math.round\<close> and \<open>Number.prototype.toFixed\<close> (half away from zero, sign kept).\<close>

definition js_round :: "rat \<Rightarrow> int" where
  "js_round n = floor (n + 1 / 2)"

definition pad_start :: "nat \<Rightarrow> string \<Rightarrow> string" where
  "pad_start n s = replicate (n - length s) CHR ''0'' @ s"

definition to_fixed :: "nat \<Rightarrow> rat \<Rightarrow> string" where
  "to_fixed d n =
    (let m = nat (floor (\<bar>n\<bar> * 10 ^ d + 1 / 2));
         s = pad_start (Suc d) (show_nat m);
         k = length s - d in
     (if n < 0 then ''-'' else []) @ take k s @ (if d = 0 then [] else CHR ''.'' # drop k s))"

text \<open>\<open>.replace(/\.?0+$/, '')\<close>, \<open>.replace(/\.0$/, '')\<close>.\<close>

definition strip_zeros :: "string \<Rightarrow> string" where
  "strip_zeros s = (let r = dropWhile (\<lambda>c. c = CHR ''0'') (rev s) in
     if length r = length s then s
     else rev (case r of [] \<Rightarrow> [] | c # r' \<Rightarrow> if c = CHR ''.'' then r' else r))"

definition strip_point_zero :: "string \<Rightarrow> string" where
  "strip_point_zero s = (if ends_with ''.0'' s then take (length s - 2) s else s)"

definition formatNumber :: "ui \<Rightarrow> rat option \<Rightarrow> string" where
  "formatNumber E v = (case v of None \<Rightarrow> ''0'' | Some n \<Rightarrow>
     if \<bar>n\<bar> \<ge> 1000000 then strip_zeros (to_fixed 2 (n / 1000000)) @ ''M''
     else if \<bar>n\<bar> \<ge> 10000 then strip_zeros (to_fixed 1 (n / 1000)) @ ''K''
     else fmt_num E n)"

definition formatMs :: "rat option \<Rightarrow> string" where
  "formatMs v = (let n = (case v of None \<Rightarrow> 0 | Some x \<Rightarrow> x) in
     if n \<ge> 1000 then strip_point_zero (to_fixed (if n \<ge> 10000 then 0 else 1) (n / 1000)) @ ''s''
     else show_int (js_round n) @ ''ms'')"

definition formatTime :: "ui \<Rightarrow> int \<Rightarrow> string" where
  "formatTime E unixSeconds = (if unixSeconds = 0 then em_dash else fmt_date E (unixSeconds * 1000))"

text \<open>The message of an error, with the fallback for a thrown value that is none.\<close>

fun errorMessage :: "jerr \<Rightarrow> string" where
  "errorMessage (ApiErr st m r) = m"
| "errorMessage (JsErr m) = m"
| "errorMessage NonErr = ''Unknown error''"

fun errorMessage_or :: "string \<Rightarrow> jerr \<Rightarrow> string" where
  "errorMessage_or d (ApiErr st m r) = m"
| "errorMessage_or d (JsErr m) = m"
| "errorMessage_or d NonErr = d"

section \<open>Components\<close>

definition section_mark :: string where
  "section_mark = [CHR 0xC2, CHR 0xA7]"

definition PageHeader :: "ui \<Rightarrow> string \<Rightarrow> string \<Rightarrow> 'e view \<Rightarrow> 'e view" where
  "PageHeader E title description actions = El ''header'' [] [
     El ''div'' [] [
       (case navIndex (pathname E) of None \<Rightarrow> Nothing | Some i \<Rightarrow>
         El ''div'' [] [
           El ''span'' [] [Txt (section_mark @ '' '' @ pad_start 2 (show_nat (i + 1)))],
           El ''span'' [] [],
           El ''span'' [] [Txt (tx E (if nav_section (NAV ! i) = ''manage'' then ''nav.section.manage''
                                    else ''nav.section.system''))]]),
       El ''h1'' [] [Txt title],
       shown (description \<noteq> []) (El ''p'' [] [Txt description])],
     shown (actions \<noteq> Nothing) (El ''div'' [] [actions])]"

datatype tone = ToneDefault | ToneSuccess | ToneWarning | ToneDanger | ToneMuted

fun tone_name :: "tone \<Rightarrow> string" where
  "tone_name ToneDefault = ''default''"
| "tone_name ToneSuccess = ''success''"
| "tone_name ToneWarning = ''warning''"
| "tone_name ToneDanger = ''danger''"
| "tone_name ToneMuted = ''muted''"

definition StatCard :: "string \<Rightarrow> string \<Rightarrow> 'e view \<Rightarrow> 'e view \<Rightarrow> tone \<Rightarrow> 'e view" where
  "StatCard label val hint icon tone = El ''Card'' [aS ''tone'' (tone_name tone)] [
     El ''span'' [aB ''aria-hidden'' True] [],
     El ''CardContent'' [] [
       El ''div'' [] [
         El ''div'' [aS ''title'' label] [Txt label],
         shown (icon \<noteq> Nothing) (El ''div'' [] [icon])],
       El ''div'' [] [
         El ''div'' [] [Txt val],
         El ''div'' [] [hint]]]]"

definition IdleRoads :: "'e view" where
  "IdleRoads = El ''svg'' [aB ''aria-hidden'' True] [
     El ''g'' [] [El ''path'' [aS ''d'' ''M4 8c34 0 40 16 76 16''] [],
                  El ''path'' [aS ''d'' ''M4 24h76''] [],
                  El ''path'' [aS ''d'' ''M4 40c34 0 40-16 76-16''] []],
     El ''circle'' [aN ''cx'' 90, aN ''cy'' 24, aN ''r'' 6] [],
     El ''circle'' [aN ''cx'' 90, aN ''cy'' 24, aN ''r'' 2] []]"

definition EmptyState :: "string \<Rightarrow> string \<Rightarrow> 'e view \<Rightarrow> 'e view" where
  "EmptyState title description action = El ''div'' [] [
     IdleRoads,
     El ''div'' [] [Txt title],
     shown (description \<noteq> []) (El ''div'' [] [Txt description]),
     shown (action \<noteq> Nothing) (El ''div'' [] [action])]"

definition LoadingBlock :: "ui \<Rightarrow> string option \<Rightarrow> nat \<Rightarrow> 'e view" where
  "LoadingBlock E label rows =
     El ''div'' [aS ''role'' ''status'', aS ''aria-label'' (case label of None \<Rightarrow> tx E ''common.loading'' | Some l \<Rightarrow> l)]
       (map (\<lambda>i. El ''div'' [] [
          El ''div'' [] [],
          El ''div'' [] [El ''div'' [aS ''width'' (show_int (72 - int i * 14) @ ''%'')] [], El ''div'' [] []]]) [0..<rows])"

text \<open>The copy button. The timer that resets the mark runs beside the handler.\<close>

definition copy_value :: "ui \<Rightarrow> (bool \<Rightarrow> 's \<Rightarrow> 's) \<Rightarrow> string \<Rightarrow> 's act" where
  "copy_value E setDone val =
     catch (await (WriteClipboard val) (\<lambda>_.
         Upd (setDone True) (Emit (ToastOk (tx E ''common.copied''))
           (Fork (Sleep 1500 (Upd (setDone False) Done)) Done))))
       (\<lambda>_. Emit (ToastErr (tx E ''common.failed'')) Done)"

definition CopyButton :: "ui \<Rightarrow> bool \<Rightarrow> (bool \<Rightarrow> 's \<Rightarrow> 's) \<Rightarrow> string \<Rightarrow> string \<Rightarrow> 's act view" where
  "CopyButton E done setDone val label =
     El ''Button'' [aS ''variant'' ''ghost'', on ''onClick'' (copy_value E setDone val),
                    aS ''aria-label'' (tx E ''common.copy'')] [
       El ''span'' [] [El ''LuCopy'' [aB ''faded'' done] [], El ''LuCheck'' [aB ''faded'' (\<not> done)] []],
       shown (label \<noteq> []) (El ''span'' [] [Txt label])]"

text \<open>The confirmation dialog: \<open>busy\<close> is its state, everything else its properties.\<close>

definition confirm_run :: "(bool \<Rightarrow> 's act) \<Rightarrow> 's act \<Rightarrow> (bool \<Rightarrow> 's \<Rightarrow> 's) \<Rightarrow> 's act" where
  "confirm_run onOpenChange onConfirm setBusy =
     Upd (setBusy True) (finally_do (andThen onConfirm (onOpenChange False)) (Upd (setBusy False) Done))"

definition ConfirmDialog ::
  "ui \<Rightarrow> bool \<Rightarrow> (bool \<Rightarrow> 's act) \<Rightarrow> string \<Rightarrow> 's act view \<Rightarrow> string option \<Rightarrow> bool \<Rightarrow> 's act \<Rightarrow>
   bool \<Rightarrow> (bool \<Rightarrow> 's \<Rightarrow> 's) \<Rightarrow> 's act view" where
  "ConfirmDialog E opn onOpenChange title description confirmLabel destructive onConfirm busy setBusy =
     El ''Dialog'' [aB ''open'' opn, onB ''onOpenChange'' onOpenChange] [
       El ''DialogContent'' [] [
         El ''DialogHeader'' [] [
           El ''DialogTitle'' [] [Txt title],
           shown (description \<noteq> Nothing) (El ''DialogDescription'' [] [description])],
         El ''DialogFooter'' [] [
           El ''Button'' [aS ''variant'' ''outline'', on ''onClick'' (onOpenChange False), aB ''disabled'' busy]
             [Txt (tx E ''common.cancel'')],
           El ''Button'' [aS ''variant'' (if destructive then ''destructive'' else ''default''),
                          on ''onClick'' (confirm_run onOpenChange onConfirm setBusy), aB ''disabled'' busy]
             [shown busy spinner, Txt (case confirmLabel of None \<Rightarrow> tx E ''common.confirm'' | Some l \<Rightarrow> l)]]]]"

definition StatusDot :: "tone \<Rightarrow> string \<Rightarrow> 'e view" where
  "StatusDot tone label = El ''span'' [] [
     El ''span'' [aS ''tone'' (tone_name tone), aB ''data-live'' (tone = ToneDanger)] [], Txt label]"

section \<open>pages/accounts/simple-select.tsx\<close>

type_synonym opt = "string \<times> string"

definition option_label :: "opt list \<Rightarrow> string \<Rightarrow> string" where
  "option_label options val = (case map_of options val of None \<Rightarrow> val | Some l \<Rightarrow> l)"

definition SimpleSelect :: "string \<Rightarrow> (string \<Rightarrow> 'e) \<Rightarrow> opt list \<Rightarrow> bool \<Rightarrow> 'e view" where
  "SimpleSelect val onChange options disabled =
     El ''Select'' [aS ''value'' val, onS ''onValueChange'' onChange, aB ''disabled'' disabled] [
       El ''SelectTrigger'' [] [El ''SelectValue'' [] [Txt (option_label options val)]],
       El ''SelectContent'' [] (map (\<lambda>(v, l). El ''SelectItem'' [aS ''value'' v] [Txt l]) options)]"

section \<open>Who can be clicked\<close>

lemma may_send_confirm_run: "may_send P (confirm_run oc cf sb) \<Longrightarrow> may_send P cf \<or> may_send P (oc False)"
  by (auto simp: confirm_run_def finally_do_def dest!: may_send_andThen may_send_catch)

named_theorems view_live \<open>the handlers a user can trigger in a component\<close>

lemma has_flag_simps [simp]:
  "has_flag n b [] = False"
  "has_flag n b (aS m x # as) = has_flag n b as"
  "has_flag n b (aN m y # as) = has_flag n b as"
  "has_flag n b (aB m c # as) = (n = m \<and> b = c \<or> has_flag n b as)"
  "has_flag n b (on m e # as) = has_flag n b as"
  "has_flag n b (onS m f # as) = has_flag n b as"
  "has_flag n b (onB m g # as) = has_flag n b as"
  by (simp_all add: has_flag_def)

lemma no_handlers_concat: "(\<And>x. x \<in> set xs \<Longrightarrow> live (f x) = []) \<Longrightarrow> concat (map (live \<circ> f) xs) = []"
  by (induction xs) auto

lemma live_PageHeader [view_live]: "live (PageHeader E a b v) = live v"
  by (simp add: PageHeader_def shown_def split: option.splits)

lemma live_StatCard [view_live]: "live (StatCard l v h i t) = live i @ live h"
  by (simp add: StatCard_def shown_def)

lemma live_EmptyState [view_live]: "live (EmptyState a b v) = live v"
  by (simp add: EmptyState_def IdleRoads_def shown_def)

lemma live_LoadingBlock [view_live]: "live (LoadingBlock E l n) = []"
  by (simp add: LoadingBlock_def no_handlers_concat o_def)

lemma live_StatusDot [view_live]: "live (StatusDot t l) = []"
  by (simp add: StatusDot_def)

lemma live_CopyButton [view_live]: "live (CopyButton E d sd v l) = [Plain (copy_value E sd v)]"
  by (simp add: CopyButton_def)

lemma live_ConfirmDialog [view_live]:
  "live (ConfirmDialog E opn oc t d l des cf busy sb) =
     (if \<not> opn then [] else WithFlag oc # live d @
        (if busy then [] else [Plain (oc False), Plain (confirm_run oc cf sb)]))"
  by (simp add: ConfirmDialog_def shown_def)

lemma live_SimpleSelect [view_live]:
  "live (SimpleSelect v f os dis) = (if dis then [] else [WithText f])"
proof -
  have "concat (map (live \<circ> (\<lambda>(v, l). El ''SelectItem'' [aS ''value'' v] [Txt l])) os) = []"
    by (rule no_handlers_concat) auto
  then show ?thesis by (simp add: SimpleSelect_def)
qed

text \<open>What a confirmation runs: the action, then the request to close; the busy mark is cleared
  whether or not the action fails.\<close>

lemma exec_confirm_run:
  "exec (confirm_run oc cf sb) srv s w =
     (case exec cf srv (sb True s) w of
        (Some e, s1, l1, w1) \<Rightarrow> (Some e, sb False s1, l1, w1)
      | (None, s1, l1, w1) \<Rightarrow>
          (case exec (oc False) srv s1 w1 of (e, s2, l2, w2) \<Rightarrow> (e, sb False s2, l1 @ l2, w2)))"
  by (auto simp: confirm_run_def exec_finally exec_andThen split: prod.splits option.splits)

end
