(* ===== verification/Relay.thy ===== *)
theory Relay
  imports Prelude
begin

text \<open>
  The egress relay: the three forwarders an operator deploys (\<open>relay/cloudflare-worker.js\<close>,
  \<open>relay/vercel-edge.js\<close>, \<open>relay/deno-deploy.ts\<close>), each translated on its own, the Go transport that
  sends through one of them (\<open>egress/relay.go\<close>), and the step of the admin panel that bakes the
  shared secret into the source (\<open>apiGetRelaySource\<close> in \<open>proxy/handler.go\<close>).

  A worker decides on its request alone: it answers, or it forwards. Every occurrence of the
  string literal \<open>"__RELAY_KEY__"\<close> in a source is the parameter \<open>lit\<close> of its model, so that the
  source as committed is \<open>lit = relay_placeholder\<close>. Parameters: the platform's URL parser, Go's
  \<open>url.Parse\<close>, the network.
\<close>

section \<open>The platform's request and response objects\<close>

text \<open>\<open>Headers\<close>: names are kept in lower case and looked up whatever their case.\<close>

type_synonym headers = "(string \<times> string) list"

definition hget :: "headers \<Rightarrow> string \<Rightarrow> string option" where
  "hget hs n = map_of hs (js_lower n)"

definition hdelete :: "headers \<Rightarrow> string \<Rightarrow> headers" where
  "hdelete hs n = filter (\<lambda>(m, _). m \<noteq> js_lower n) hs"

definition hset :: "headers \<Rightarrow> string \<Rightarrow> string \<Rightarrow> headers" where
  "hset hs n v = hdelete hs n @ [(js_lower n, v)]"

record http_request =
  req_method :: string
  req_headers :: headers
  req_body :: string

record url =
  protocol :: string
  hostname :: string
  href :: string

record outbound =
  out_url :: string
  out_method :: string
  out_headers :: headers
  out_body :: "string option"
  out_redirect :: string

record response =
  resp_status :: int
  resp_statusText :: string
  resp_headers :: headers
  resp_body :: string

datatype relay_result = Answer string int | Forward outbound

text \<open>\<open>x || d\<close> for a string that may be missing, and truthiness of one.\<close>

definition str_or :: "string option \<Rightarrow> string \<Rightarrow> string" where
  "str_or x d = (case x of Some s \<Rightarrow> (if s = [] then d else s) | None \<Rightarrow> d)"

definition given :: "string option \<Rightarrow> bool" where
  "given x \<longleftrightarrow> str_or x [] \<noteq> []"

definition relay_placeholder :: string where
  "relay_placeholder = ''__RELAY_KEY__''"

section \<open>The Cloudflare worker\<close>

definition cf_allow_suffixes :: "string list" where
  "cf_allow_suffixes =
    [''.amazonaws.com'', ''.kiro.dev'', ''.microsoftonline.com'', ''.microsoftonline.us'',
     ''.microsoftonline.cn'', ''.codebuddy.ai'', ''.codebuddy.cn'', ''.tencent.com'', ''.x.ai'',
     ''.grok.com'']"

definition cf_host_allowed :: "string \<Rightarrow> bool" where
  "cf_host_allowed host =
    (let host = js_lower host in
     list_ex (\<lambda>s. host = drop 1 s \<or> ends_with s host) cf_allow_suffixes)"

text \<open>\<open>env\<close> is the worker's second argument: absent, or an object that may lack the variable.\<close>

definition cf_fetch ::
  "string \<Rightarrow> (string \<Rightarrow> url option) \<Rightarrow> http_request \<Rightarrow> string option option \<Rightarrow> relay_result" where
  "cf_fetch lit new_url request env =
    (let target = hget (req_headers request) ''X-Relay-Target'';
         key = str_or (hget (req_headers request) ''X-Relay-Key'') [];
         expected = (case env of None \<Rightarrow> lit | Some v \<Rightarrow> str_or v lit) in
     if expected \<noteq> [] \<and> expected \<noteq> lit \<and> key \<noteq> expected then Answer ''unauthorized'' 401
     else if given (hget (req_headers request) ''X-Relay-Ping'') then Answer ''relay-ok'' 200
     else if \<not> given target then Answer ''missing X-Relay-Target'' 400
     else case new_url (the target) of
       None \<Rightarrow> Answer ''bad target'' 400
     | Some url \<Rightarrow>
         if protocol url \<noteq> ''https:'' \<or> \<not> cf_host_allowed (hostname url)
         then Answer ''target not allowed'' 403
         else
           (let headers = hdelete (hdelete (hdelete (req_headers request)
                  ''X-Relay-Target'') ''X-Relay-Key'') ''Host'';
                m = req_method request;
                body = (if m = ''GET'' \<or> m = ''HEAD'' then None else Some (req_body request)) in
            Forward \<lparr>out_url = href url, out_method = m, out_headers = headers, out_body = body,
                     out_redirect = ''manual''\<rparr>))"

text \<open>What the platform sends back: the answer, or the upstream response passed through.\<close>

definition cf_respond :: "(outbound \<Rightarrow> response) \<Rightarrow> relay_result \<Rightarrow> response" where
  "cf_respond network r = (case r of
     Answer t st \<Rightarrow> \<lparr>resp_status = st, resp_statusText = [], resp_headers = [], resp_body = t\<rparr>
   | Forward ob \<Rightarrow>
       (let upstream = network ob in
        \<lparr>resp_status = resp_status upstream, resp_statusText = resp_statusText upstream,
         resp_headers = resp_headers upstream, resp_body = resp_body upstream\<rparr>))"

section \<open>The Vercel edge function\<close>

definition vercel_allow_suffixes :: "string list" where
  "vercel_allow_suffixes =
    [''.amazonaws.com'', ''.kiro.dev'', ''.microsoftonline.com'', ''.microsoftonline.us'',
     ''.microsoftonline.cn'', ''.codebuddy.ai'', ''.codebuddy.cn'', ''.tencent.com'', ''.x.ai'',
     ''.grok.com'']"

definition vercel_host_allowed :: "string \<Rightarrow> bool" where
  "vercel_host_allowed host =
    (let host = js_lower host in
     list_ex (\<lambda>s. host = drop 1 s \<or> ends_with s host) vercel_allow_suffixes)"

definition vercel_handler ::
  "string \<Rightarrow> (string \<Rightarrow> url option) \<Rightarrow> string option \<Rightarrow> http_request \<Rightarrow> relay_result" where
  "vercel_handler lit new_url env_key request =
    (let target = hget (req_headers request) ''X-Relay-Target'';
         key = str_or (hget (req_headers request) ''X-Relay-Key'') [];
         expected = str_or env_key lit in
     if expected \<noteq> [] \<and> expected \<noteq> lit \<and> key \<noteq> expected then Answer ''unauthorized'' 401
     else if given (hget (req_headers request) ''X-Relay-Ping'') then Answer ''relay-ok'' 200
     else if \<not> given target then Answer ''missing X-Relay-Target'' 400
     else case new_url (the target) of
       None \<Rightarrow> Answer ''bad target'' 400
     | Some url \<Rightarrow>
         if protocol url \<noteq> ''https:'' \<or> \<not> vercel_host_allowed (hostname url)
         then Answer ''target not allowed'' 403
         else
           (let headers = hdelete (hdelete (hdelete (req_headers request)
                  ''X-Relay-Target'') ''X-Relay-Key'') ''Host'';
                m = req_method request;
                body = (if m = ''GET'' \<or> m = ''HEAD'' then None else Some (req_body request)) in
            Forward \<lparr>out_url = href url, out_method = m, out_headers = headers, out_body = body,
                     out_redirect = ''manual''\<rparr>))"

definition vercel_respond :: "(outbound \<Rightarrow> response) \<Rightarrow> relay_result \<Rightarrow> response" where
  "vercel_respond network r = (case r of
     Answer t st \<Rightarrow> \<lparr>resp_status = st, resp_statusText = [], resp_headers = [], resp_body = t\<rparr>
   | Forward ob \<Rightarrow>
       (let upstream = network ob in
        \<lparr>resp_status = resp_status upstream, resp_statusText = resp_statusText upstream,
         resp_headers = resp_headers upstream, resp_body = resp_body upstream\<rparr>))"

section \<open>The Deno server\<close>

definition deno_allow_suffixes :: "string list" where
  "deno_allow_suffixes =
    [''.amazonaws.com'', ''.kiro.dev'', ''.microsoftonline.com'', ''.microsoftonline.us'',
     ''.microsoftonline.cn'', ''.codebuddy.ai'', ''.codebuddy.cn'', ''.tencent.com'', ''.x.ai'',
     ''.grok.com'']"

definition deno_host_allowed :: "string \<Rightarrow> bool" where
  "deno_host_allowed host =
    (let host = js_lower host in
     list_ex (\<lambda>s. host = drop 1 s \<or> ends_with s host) deno_allow_suffixes)"

definition deno_serve ::
  "string \<Rightarrow> (string \<Rightarrow> url option) \<Rightarrow> string option \<Rightarrow> http_request \<Rightarrow> relay_result" where
  "deno_serve lit new_url env_key request =
    (let target = hget (req_headers request) ''X-Relay-Target'';
         key = str_or (hget (req_headers request) ''X-Relay-Key'') [];
         expected = str_or env_key lit in
     if expected \<noteq> [] \<and> expected \<noteq> lit \<and> key \<noteq> expected then Answer ''unauthorized'' 401
     else if given (hget (req_headers request) ''X-Relay-Ping'') then Answer ''relay-ok'' 200
     else if \<not> given target then Answer ''missing X-Relay-Target'' 400
     else case new_url (the target) of
       None \<Rightarrow> Answer ''bad target'' 400
     | Some url \<Rightarrow>
         if protocol url \<noteq> ''https:'' \<or> \<not> deno_host_allowed (hostname url)
         then Answer ''target not allowed'' 403
         else
           (let headers = hdelete (hdelete (hdelete (req_headers request)
                  ''X-Relay-Target'') ''X-Relay-Key'') ''Host'';
                m = req_method request;
                body = (if m = ''GET'' \<or> m = ''HEAD'' then None else Some (req_body request)) in
            Forward \<lparr>out_url = href url, out_method = m, out_headers = headers, out_body = body,
                     out_redirect = ''manual''\<rparr>))"

definition deno_respond :: "(outbound \<Rightarrow> response) \<Rightarrow> relay_result \<Rightarrow> response" where
  "deno_respond network r = (case r of
     Answer t st \<Rightarrow> \<lparr>resp_status = st, resp_statusText = [], resp_headers = [], resp_body = t\<rparr>
   | Forward ob \<Rightarrow>
       (let upstream = network ob in
        \<lparr>resp_status = resp_status upstream, resp_statusText = resp_statusText upstream,
         resp_headers = resp_headers upstream, resp_body = resp_body upstream\<rparr>))"

section \<open>The Go transport\<close>

record go_url =
  go_scheme :: string
  go_host :: string
  go_text :: string

record go_request =
  go_method :: string
  go_target :: go_url
  go_hostname :: string
  go_headers :: headers
  go_body :: string

datatype transport_result = RelayError string | Sent go_request

text \<open>\<open>relayTransport.RoundTrip\<close>: the request handed to the inner transport, or the error. The
  relay settings are those of \<open>config.ActiveRelay\<close> unless the transport is a fixed one.\<close>

definition round_trip ::
  "(string \<Rightarrow> go_url option) \<Rightarrow> (string \<times> string) \<Rightarrow> (string \<times> string) option \<Rightarrow> go_request \<Rightarrow> transport_result" where
  "round_trip url_parse active fixed_relay req =
    (let (relayURL, secret) = (case fixed_relay of None \<Rightarrow> active | Some f \<Rightarrow> f) in
     if relayURL = [] then Sent req
     else case url_parse relayURL of
       None \<Rightarrow> RelayError relayURL
     | Some ru \<Rightarrow>
         if go_scheme ru \<noteq> ''http'' \<and> go_scheme ru \<noteq> ''https'' then RelayError relayURL
         else if go_host (go_target req) = go_host ru then Sent req
         else
           (let target = go_text (go_target req);
                hs1 = hset (go_headers req) ''X-Relay-Target'' target;
                hs2 = (if secret \<noteq> [] then hset hs1 ''X-Relay-Key'' secret else hs1);
                hs3 = hdelete hs2 ''Connection'' in
            Sent (req\<lparr>go_target := ru, go_hostname := go_host ru, go_headers := hs3\<rparr>)))"

text \<open>\<open>config.ActiveRelay\<close>: the settings count only when the relay is the selected mode.\<close>

record relay_settings =
  relay_enabled :: bool
  relay_url :: string
  relay_secret :: string

definition active_relay :: "relay_settings option \<Rightarrow> string \<times> string" where
  "active_relay cfg = (case cfg of None \<Rightarrow> ([], [])
   | Some c \<Rightarrow> if \<not> relay_enabled c \<or> relay_url c = [] then ([], [])
               else (relay_url c, relay_secret c))"

section \<open>Baking the secret into the source\<close>

text \<open>The two lines of the committed source that hold the literal, and the replacement
  \<open>apiGetRelaySource\<close> makes in the whole source text.\<close>

definition key_line :: string where
  "key_line = ''const RELAY_KEY = \"__RELAY_KEY__\";''"

definition guard_line :: string where
  "guard_line = ''if (expected && expected !== \"__RELAY_KEY__\" && key !== expected) {''"

definition bake :: "string \<Rightarrow> string \<Rightarrow> string" where
  "bake secret code = replace_all relay_placeholder secret code"

text \<open>The text of the literal in a baked source: what replaces the placeholder.\<close>

definition baked_literal :: "string \<Rightarrow> string" where
  "baked_literal secret = bake secret relay_placeholder"


section \<open>One decision for the three workers\<close>

definition relay_domains :: "string list" where
  "relay_domains =
    [''amazonaws.com'', ''kiro.dev'', ''microsoftonline.com'', ''microsoftonline.us'',
     ''microsoftonline.cn'', ''codebuddy.ai'', ''codebuddy.cn'', ''tencent.com'', ''x.ai'',
     ''grok.com'']"

text \<open>The hosts the relay is meant to reach: a listed domain or a name below it.\<close>

definition in_relay_domain :: "string \<Rightarrow> bool" where
  "in_relay_domain h \<longleftrightarrow>
     (\<exists>d \<in> set relay_domains. js_lower h = d \<or> (\<exists>p. js_lower h = p @ ''.'' @ d))"

definition cleaned :: "headers \<Rightarrow> headers" where
  "cleaned hs = hdelete (hdelete (hdelete hs ''X-Relay-Target'') ''X-Relay-Key'') ''Host''"

definition forwarded :: "http_request \<Rightarrow> url \<Rightarrow> outbound" where
  "forwarded r u = \<lparr>out_url = href u, out_method = req_method r, out_headers = cleaned (req_headers r),
     out_body = (if req_method r = ''GET'' \<or> req_method r = ''HEAD'' then None else Some (req_body r)),
     out_redirect = ''manual''\<rparr>"

definition decide ::
  "string \<Rightarrow> string \<Rightarrow> (string \<Rightarrow> url option) \<Rightarrow> http_request \<Rightarrow> relay_result" where
  "decide lit expected new_url r =
    (let target = hget (req_headers r) ''X-Relay-Target'';
         key = str_or (hget (req_headers r) ''X-Relay-Key'') [] in
     if expected \<noteq> [] \<and> expected \<noteq> lit \<and> key \<noteq> expected then Answer ''unauthorized'' 401
     else if given (hget (req_headers r) ''X-Relay-Ping'') then Answer ''relay-ok'' 200
     else if \<not> given target then Answer ''missing X-Relay-Target'' 400
     else case new_url (the target) of
       None \<Rightarrow> Answer ''bad target'' 400
     | Some u \<Rightarrow>
         if protocol u = ''https:'' \<and> in_relay_domain (hostname u) then Forward (forwarded r u)
         else Answer ''target not allowed'' 403)"

lemma suffix_list_allowed:
  assumes "sfx = map (\<lambda>d. CHR ''.'' # d) ds"
  shows "list_ex (\<lambda>s. h = drop (Suc 0) s \<or> ends_with s h) sfx
    \<longleftrightarrow> (\<exists>d \<in> set ds. h = d \<or> (\<exists>p. h = p @ ''.'' @ d))"
  unfolding assms by (auto simp: list_ex_iff ends_with_iff)

lemma host_allowed_domain:
  "cf_host_allowed h \<longleftrightarrow> in_relay_domain h"
  "vercel_host_allowed h \<longleftrightarrow> in_relay_domain h"
  "deno_host_allowed h \<longleftrightarrow> in_relay_domain h"
proof -
  have cf: "cf_allow_suffixes = map (\<lambda>d. CHR ''.'' # d) relay_domains"
    and v: "vercel_allow_suffixes = map (\<lambda>d. CHR ''.'' # d) relay_domains"
    and d: "deno_allow_suffixes = map (\<lambda>d. CHR ''.'' # d) relay_domains"
    by (simp_all add: cf_allow_suffixes_def vercel_allow_suffixes_def deno_allow_suffixes_def
        relay_domains_def)
  show "cf_host_allowed h \<longleftrightarrow> in_relay_domain h"
    by (simp add: cf_host_allowed_def in_relay_domain_def Let_def suffix_list_allowed [OF cf])
  show "vercel_host_allowed h \<longleftrightarrow> in_relay_domain h"
    by (simp add: vercel_host_allowed_def in_relay_domain_def Let_def suffix_list_allowed [OF v])
  show "deno_host_allowed h \<longleftrightarrow> in_relay_domain h"
    by (simp add: deno_host_allowed_def in_relay_domain_def Let_def suffix_list_allowed [OF d])
qed

lemma workers_decide:
  "cf_fetch lit new_url r env = decide lit (case env of None \<Rightarrow> lit | Some v \<Rightarrow> str_or v lit) new_url r"
  "vercel_handler lit new_url v r = decide lit (str_or v lit) new_url r"
  "deno_serve lit new_url v r = decide lit (str_or v lit) new_url r"
  by (auto simp: cf_fetch_def vercel_handler_def deno_serve_def decide_def host_allowed_domain
      forwarded_def cleaned_def Let_def split: option.splits)

lemma hget_hdelete: "hget (hdelete hs n) m = (if js_lower m = js_lower n then None else hget hs m)"
proof -
  have "map_of (filter (\<lambda>(m', _). m' \<noteq> k) hs) j = (if j = k then None else map_of hs j)" for k j
    by (induction hs) auto
  then show ?thesis by (simp add: hget_def hdelete_def)
qed

lemma hget_hset: "hget (hset hs n v) m = (if js_lower m = js_lower n then Some v else hget hs m)"
proof -
  have "map_of (filter (\<lambda>(m', _). m' \<noteq> k) hs @ [(k, v)]) j = (if j = k then Some v else map_of hs j)"
    for k j by (induction hs) auto
  then show ?thesis by (simp add: hget_def hset_def hdelete_def)
qed

lemma hget_lower_eq: "js_lower n = js_lower m \<Longrightarrow> hget hs n = hget hs m"
  by (simp add: hget_def)

lemma relay_header_names [simp]:
  "js_lower ''X-Relay-Target'' = ''x-relay-target''" "js_lower ''X-Relay-Key'' = ''x-relay-key''"
  "js_lower ''X-Relay-Ping'' = ''x-relay-ping''" "js_lower ''Host'' = ''host''"
  "js_lower ''Connection'' = ''connection''"
  by code_simp+

lemma decide_Forward:
  "decide lit expected new_url r = Forward ob \<Longrightarrow>
   \<exists>t u. hget (req_headers r) ''X-Relay-Target'' = Some t \<and> new_url t = Some u \<and>
         protocol u = ''https:'' \<and> in_relay_domain (hostname u) \<and> ob = forwarded r u"
  by (auto simp: decide_def Let_def given_def str_or_def split: if_splits option.splits)

section \<open>What a client of a relay may rely on\<close>

text \<open>The contract between the Go transport and a deployed worker that holds the secret \<open>k\<close>.\<close>

definition usable_secret :: "string \<Rightarrow> bool" where
  "usable_secret k \<longleftrightarrow> k \<noteq> [] \<and> k \<noteq> relay_placeholder"

text \<open>The request as the worker's platform presents it.\<close>

definition arrives :: "go_request \<Rightarrow> http_request" where
  "arrives g = \<lparr>req_method = go_method g, req_headers = hset (go_headers g) ''Host'' (go_hostname g),
     req_body = go_body g\<rparr>"

locale relay_worker =
  fixes serve :: "(string \<Rightarrow> url option) \<Rightarrow> string \<Rightarrow> http_request \<Rightarrow> relay_result"
  assumes refuses: "usable_secret k \<Longrightarrow> str_or (hget (req_headers r) ''X-Relay-Key'') [] \<noteq> k \<Longrightarrow>
        serve new_url k r = Answer ''unauthorized'' 401"
    and admits: "usable_secret k \<Longrightarrow> hget (req_headers r) ''X-Relay-Key'' = Some k \<Longrightarrow>
        \<not> given (hget (req_headers r) ''X-Relay-Ping'') \<Longrightarrow>
        hget (req_headers r) ''X-Relay-Target'' = Some t \<Longrightarrow> t \<noteq> [] \<Longrightarrow> new_url t = Some u \<Longrightarrow>
        protocol u = ''https:'' \<Longrightarrow> in_relay_domain (hostname u) \<Longrightarrow>
        serve new_url k r = Forward (forwarded r u)"
    and confined: "serve new_url k r = Forward ob \<Longrightarrow>
        \<exists>t u. new_url t = Some u \<and> protocol u = ''https:'' \<and> in_relay_domain (hostname u) \<and>
              ob = forwarded r u"
begin

lemma transport_reaches_target:
  assumes secret: "usable_secret k"
    and relay: "url_parse relayURL = Some ru" "relayURL \<noteq> []" "go_scheme ru = ''https''"
    and elsewhere: "go_host (go_target g) \<noteq> go_host ru"
    and target: "new_url (go_text (go_target g)) = Some u" "go_text (go_target g) \<noteq> []"
      "protocol u = ''https:''" "in_relay_domain (hostname u)"
    and no_ping: "\<not> given (hget (go_headers g) ''X-Relay-Ping'')"
  shows "\<exists>sent ob. round_trip url_parse (relayURL, k) None g = Sent sent \<and> go_target sent = ru \<and>
      serve new_url k (arrives sent) = Forward ob \<and> out_url ob = href u \<and> out_method ob = go_method g \<and>
      (go_method g \<noteq> ''GET'' \<longrightarrow> go_method g \<noteq> ''HEAD'' \<longrightarrow> out_body ob = Some (go_body g)) \<and>
      (\<forall>n. hget (out_headers ob) n =
         (if js_lower n \<in> {''x-relay-target'', ''x-relay-key'', ''host'', ''connection''}
          then None else hget (go_headers g) n))"
proof -
  define hs where "hs = hdelete (hset (hset (go_headers g) ''X-Relay-Target'' (go_text (go_target g)))
      ''X-Relay-Key'' k) ''Connection''"
  define sent where "sent = g\<lparr>go_target := ru, go_hostname := go_host ru, go_headers := hs\<rparr>"
  from secret have "k \<noteq> []" by (simp add: usable_secret_def)
  with relay elsewhere have rt: "round_trip url_parse (relayURL, k) None g = Sent sent"
    by (simp add: round_trip_def Let_def hs_def sent_def)
  have req: "req_headers (arrives sent) = hset hs ''Host'' (go_host ru)"
    by (simp add: arrives_def sent_def)
  have "serve new_url k (arrives sent) = Forward (forwarded (arrives sent) u)"
    by (rule admits [where t = "go_text (go_target g)"])
      (use assms in \<open>simp_all add: req hs_def hget_hset hget_hdelete\<close>)
  moreover have "hget (out_headers (forwarded (arrives sent) u)) n =
      (if js_lower n \<in> {''x-relay-target'', ''x-relay-key'', ''host'', ''connection''}
       then None else hget (go_headers g) n)" for n
    by (auto simp: forwarded_def cleaned_def req hs_def hget_hset hget_hdelete)
  ultimately show ?thesis
    using rt by (auto simp: forwarded_def arrives_def sent_def intro!: exI [where x = sent])
qed

lemma stranger_forwards_nothing:
  "usable_secret k \<Longrightarrow> str_or (hget (req_headers r) ''X-Relay-Key'') [] \<noteq> k \<Longrightarrow>
   serve new_url k r \<noteq> Forward ob"
  by (simp add: refuses)

lemma relay_headers_stay:
  "serve new_url k r = Forward ob \<Longrightarrow> js_lower n \<in> {''x-relay-target'', ''x-relay-key'', ''host''} \<Longrightarrow>
   hget (out_headers ob) n = None"
  by (drule confined) (auto simp: forwarded_def cleaned_def hget_hdelete)

end

lemma decide_relay_worker:
  "usable_secret k \<Longrightarrow> str_or (hget (req_headers r) ''X-Relay-Key'') [] \<noteq> k \<Longrightarrow>
     decide relay_placeholder k new_url r = Answer ''unauthorized'' 401"
  "usable_secret k \<Longrightarrow> hget (req_headers r) ''X-Relay-Key'' = Some k \<Longrightarrow>
     \<not> given (hget (req_headers r) ''X-Relay-Ping'') \<Longrightarrow>
     hget (req_headers r) ''X-Relay-Target'' = Some t \<Longrightarrow> t \<noteq> [] \<Longrightarrow> new_url t = Some u \<Longrightarrow>
     protocol u = ''https:'' \<Longrightarrow> in_relay_domain (hostname u) \<Longrightarrow>
     decide relay_placeholder k new_url r = Forward (forwarded r u)"
  by (auto simp: decide_def usable_secret_def given_def str_or_def Let_def)

text \<open>Each worker, deployed with the variable \<open>RELAY_KEY\<close>, keeps the contract.\<close>

lemma worker_env: "usable_secret k \<Longrightarrow> str_or (Some k) relay_placeholder = k"
  by (simp add: str_or_def usable_secret_def)

interpretation cf_relay: relay_worker "\<lambda>new_url k r. cf_fetch relay_placeholder new_url r (Some (Some k))"
  by unfold_locales
    (auto simp: workers_decide worker_env decide_relay_worker dest!: decide_Forward)

interpretation vercel_relay: relay_worker "\<lambda>new_url k r. vercel_handler relay_placeholder new_url (Some k) r"
  by unfold_locales
    (auto simp: workers_decide worker_env decide_relay_worker dest!: decide_Forward)

interpretation deno_relay: relay_worker "\<lambda>new_url k r. deno_serve relay_placeholder new_url (Some k) r"
  by unfold_locales
    (auto simp: workers_decide worker_env decide_relay_worker dest!: decide_Forward)


section \<open>Properties\<close>

text \<open>C1: whatever the secret, the environment and the URL parser, no worker forwards a request
  unless the target header parses to an https URL whose host is a listed domain or a name below it;
  what it sends has the target's URL, the client's method, no automatic redirects, and carries
  neither the relay headers nor Host while every other header is unchanged.\<close>

theorem relay_confined:
  assumes "cf_fetch lit new_url r env = Forward ob \<or> vercel_handler lit new_url v r = Forward ob \<or>
    deno_serve lit new_url v r = Forward ob"
  shows "\<exists>t u. hget (req_headers r) ''X-Relay-Target'' = Some t \<and> new_url t = Some u \<and>
      protocol u = ''https:'' \<and>
      (\<exists>d \<in> set relay_domains. js_lower (hostname u) = d \<or> (\<exists>p. js_lower (hostname u) = p @ ''.'' @ d)) \<and>
      out_url ob = href u \<and> out_method ob = req_method r \<and> out_redirect ob = ''manual'' \<and>
      (\<forall>n. hget (out_headers ob) n =
        (if js_lower n \<in> {''x-relay-target'', ''x-relay-key'', ''host''} then None
         else hget (req_headers r) n))"
proof -
  from assms obtain t u where "hget (req_headers r) ''X-Relay-Target'' = Some t"
    "new_url t = Some u" "protocol u = ''https:''" "in_relay_domain (hostname u)" "ob = forwarded r u"
    by (auto simp: workers_decide dest!: decide_Forward)
  then show ?thesis
    by (auto simp: forwarded_def cleaned_def hget_hdelete in_relay_domain_def)
qed

definition sample_url :: url where
  "sample_url = \<lparr>protocol = ''https:'', hostname = ''q.Us-East-1.amazonaws.com'', href = ''https://q/''\<rparr>"

definition sample_request :: "string \<Rightarrow> http_request" where
  "sample_request key = \<lparr>req_method = ''POST'',
     req_headers = [(''x-relay-target'', ''https://q/''), (''x-relay-key'', key), (''accept'', ''a/b'')],
     req_body = ''{}''\<rparr>"

lemma sample_forwards:
  "cf_fetch lit (\<lambda>_. Some sample_url) (sample_request k) None
   = Forward (forwarded (sample_request k) sample_url)"
proof -
  have "ends_with ''.amazonaws.com'' (js_lower ''q.Us-East-1.amazonaws.com'')" by code_simp
  then have "in_relay_domain (hostname sample_url)"
    by (auto simp: in_relay_domain_def relay_domains_def sample_url_def ends_with_iff)
  then show ?thesis
    by (simp add: workers_decide decide_def Let_def sample_request_def hget_def given_def str_or_def
        sample_url_def)
qed

theorem relay_confined_witness:
  "\<exists>t u. hget (req_headers (sample_request [])) ''X-Relay-Target'' = Some t \<and>
      Some sample_url = Some u \<and> protocol u = ''https:''"
  using relay_confined [where new_url = "\<lambda>_. Some sample_url" and r = "sample_request []" and env = None
      and ob = "forwarded (sample_request []) sample_url"] sample_forwards by blast

text \<open>C3: with the variable RELAY_KEY set to a secret, a request whose key header differs is answered
  401 by every worker, whatever else it carries; nothing is forwarded and the ping is not answered.\<close>

theorem relay_key_enforced:
  assumes "usable_secret k" and "str_or (hget (req_headers r) ''X-Relay-Key'') [] \<noteq> k"
  shows "cf_fetch relay_placeholder new_url r (Some (Some k)) = Answer ''unauthorized'' 401 \<and>
    vercel_handler relay_placeholder new_url (Some k) r = Answer ''unauthorized'' 401 \<and>
    deno_serve relay_placeholder new_url (Some k) r = Answer ''unauthorized'' 401"
  using assms by (simp add: cf_relay.refuses vercel_relay.refuses deno_relay.refuses)

theorem relay_key_enforced_witness:
  "cf_fetch relay_placeholder (\<lambda>_. Some sample_url) (sample_request ''guess'') (Some (Some ''s3cret''))
   = Answer ''unauthorized'' 401"
  using relay_key_enforced [where k = "''s3cret''" and r = "sample_request ''guess''"]
  by (simp add: usable_secret_def relay_placeholder_def sample_request_def hget_def str_or_def)

lemma bake_lines:
  "bake k key_line = ''const RELAY_KEY = \"'' @ k @ ''\";''"
  "bake k guard_line = ''if (expected && expected !== \"'' @ k @ ''\" && key !== expected) {''"
  "baked_literal k = k"
proof -
  have 1: "js_split relay_placeholder key_line = [''const RELAY_KEY = \"'', ''\";'']" by code_simp
  have 2: "js_split relay_placeholder guard_line =
    [''if (expected && expected !== \"'', ''\" && key !== expected) {'']" by code_simp
  have 3: "js_split relay_placeholder relay_placeholder = [[], []]" by code_simp
  show "bake k key_line = ''const RELAY_KEY = \"'' @ k @ ''\";''"
    "bake k guard_line = ''if (expected && expected !== \"'' @ k @ ''\" && key !== expected) {''"
    "baked_literal k = k"
    by (simp_all add: bake_def replace_all_def baked_literal_def 1 2 3)
qed

lemma decide_lit_ignores_key:
  "decide lit lit new_url r \<noteq> Answer ''unauthorized'' 401"
  by (auto simp: decide_def Let_def split: option.splits)

definition with_key :: "http_request \<Rightarrow> string \<Rightarrow> http_request" where
  "with_key r k = r\<lparr>req_headers := hset (req_headers r) ''X-Relay-Key'' k\<rparr>"

lemma cleaned_with_key: "cleaned (hset hs ''X-Relay-Key'' k) = cleaned hs"
  by (auto simp: cleaned_def hset_def hdelete_def intro!: filter_cong)

lemma decide_lit_any_key: "decide lit lit new_url (with_key r k) = decide lit lit new_url (with_key r k')"
  by (simp add: decide_def Let_def with_key_def hget_hset forwarded_def cleaned_with_key split: option.split)

text \<open>C4: the source the admin panel hands out has no key check at all. Replacing every occurrence of
  the placeholder also rewrites the literal of the guard, so the guard compares the secret with itself:
  deployed without a RELAY_KEY variable, no worker ever answers 401, and the key header a client sends
  makes no difference to what it does.\<close>

theorem baked_relay_is_open:
  "baked_literal secret = secret \<and>
   bake secret guard_line = ''if (expected && expected !== \"'' @ secret @ ''\" && key !== expected) {'' \<and>
   cf_fetch (baked_literal secret) new_url r None \<noteq> Answer ''unauthorized'' 401 \<and>
   vercel_handler (baked_literal secret) new_url None r \<noteq> Answer ''unauthorized'' 401 \<and>
   deno_serve (baked_literal secret) new_url None r \<noteq> Answer ''unauthorized'' 401 \<and>
   cf_fetch (baked_literal secret) new_url (with_key r k) None =
     cf_fetch (baked_literal secret) new_url (with_key r k') None \<and>
   vercel_handler (baked_literal secret) new_url None (with_key r k) =
     vercel_handler (baked_literal secret) new_url None (with_key r k') \<and>
   deno_serve (baked_literal secret) new_url None (with_key r k) =
     deno_serve (baked_literal secret) new_url None (with_key r k')"
proof -
  have lit: "str_or None l = l" for l by (simp add: str_or_def)
  show ?thesis
    by (simp add: bake_lines workers_decide lit decide_lit_ignores_key decide_lit_any_key [of secret new_url r k k'])
qed


definition sample_go :: go_request where
  "sample_go = \<lparr>go_method = ''POST'', go_target = \<lparr>go_scheme = ''https'', go_host = ''q'', go_text = ''https://q/''\<rparr>,
     go_hostname = ''q'', go_headers = [(''accept'', ''a/b'')], go_body = ''{}''\<rparr>"


text \<open>The transport fails closed. With a relay selected, a request either goes to the relay's
  host or is refused; it leaves unchanged only when it is already aimed at that host. With no relay
  selected it is untouched.\<close>

theorem transport_fails_closed:
  "(case round_trip url_parse active fixed_relay g of
      RelayError _ \<Rightarrow> fst (case fixed_relay of None \<Rightarrow> active | Some f \<Rightarrow> f) \<noteq> []
    | Sent sent \<Rightarrow>
        (if fst (case fixed_relay of None \<Rightarrow> active | Some f \<Rightarrow> f) = [] then sent = g
         else \<exists>ru. url_parse (fst (case fixed_relay of None \<Rightarrow> active | Some f \<Rightarrow> f)) = Some ru \<and>
              (go_scheme ru = ''http'' \<or> go_scheme ru = ''https'') \<and> go_host (go_target sent) = go_host ru)) \<and>
   round_trip url_parse (active_relay None) None g = Sent g"
  by (auto simp: round_trip_def active_relay_def Let_def split: option.splits prod.splits)

end
