(* ===== verification/Json.thy ===== *)
theory Json
  imports I18n
begin

text \<open>
  \<open>JSON.parse\<close>, \<open>JSON.stringify\<close> (with and without indentation) and \<open>atob\<close>, which the credential imports and the export
  of the accounts page are built on. A parse error is \<open>None\<close>. The parser recurses on fuel; the
  length of the text is enough, as every recursive call has consumed a character.
\<close>

section \<open>Reading\<close>

definition json_ws :: "char \<Rightarrow> bool" where
  "json_ws c \<longleftrightarrow> c = CHR 0x20 \<or> c = CHR 0x09 \<or> c = CHR 0x0A \<or> c = CHR 0x0D"

definition skip_ws :: "string \<Rightarrow> string" where
  "skip_ws s = dropWhile json_ws s"

definition code :: "char \<Rightarrow> nat" where
  "code c = of_char c"

definition is_digit :: "char \<Rightarrow> bool" where
  "is_digit c \<longleftrightarrow> 48 \<le> code c \<and> code c \<le> 57"

definition hex_val :: "char \<Rightarrow> nat option" where
  "hex_val c = (let n = code c in
     if 48 \<le> n \<and> n \<le> 57 then Some (n - 48)
     else if 65 \<le> n \<and> n \<le> 70 then Some (n - 55)
     else if 97 \<le> n \<and> n \<le> 102 then Some (n - 87) else None)"

definition hex4 :: "string \<Rightarrow> (nat \<times> string) option" where
  "hex4 s = (case s of a # b # c # d # r \<Rightarrow>
       (case (hex_val a, hex_val b, hex_val c, hex_val d) of
          (Some w, Some x, Some y, Some z) \<Rightarrow> Some (((w * 16 + x) * 16 + y) * 16 + z, r)
        | _ \<Rightarrow> None)
     | _ \<Rightarrow> None)"

definition utf8 :: "nat \<Rightarrow> string" where
  "utf8 n = map char_of
    (if n < 128 then [n]
     else if n < 2048 then [192 + n div 64, 128 + n mod 64]
     else if n < 65536 then [224 + n div 4096, 128 + n div 64 mod 64, 128 + n mod 64]
     else [240 + n div 262144, 128 + n div 4096 mod 64, 128 + n div 64 mod 64, 128 + n mod 64])"

text \<open>The characters of a string literal after its opening quote.\<close>

definition unescape :: "char \<Rightarrow> char option" where
  "unescape c = map_of [(CHR 0x22, CHR 0x22), (CHR 0x5C, CHR 0x5C), (CHR ''/'', CHR ''/''),
     (CHR ''b'', CHR 0x08), (CHR ''f'', CHR 0x0C), (CHR ''n'', CHR 0x0A), (CHR ''r'', CHR 0x0D),
     (CHR ''t'', CHR 0x09)] c"

definition is_high :: "nat \<Rightarrow> bool" where
  "is_high n \<longleftrightarrow> 0xD800 \<le> n \<and> n < 0xDC00"

definition is_low :: "nat \<Rightarrow> bool" where
  "is_low n \<longleftrightarrow> 0xDC00 \<le> n \<and> n < 0xE000"

fun parse_chars :: "nat \<Rightarrow> string \<Rightarrow> (string \<times> string) option" where
  "parse_chars 0 s = None"
| "parse_chars (Suc n) [] = None"
| "parse_chars (Suc n) (c # s) =
    (if c = CHR 0x22 then Some ([], s)
     else if code c < 32 then None
     else if c \<noteq> CHR 0x5C then map_option (\<lambda>(x, r). (c # x, r)) (parse_chars n s)
     else case s of [] \<Rightarrow> None
       | d # s \<Rightarrow>
         (if d = CHR ''u'' then
            (case hex4 s of None \<Rightarrow> None
             | Some (h, s) \<Rightarrow>
               (case (if is_high h \<and> starts_with [CHR 0x5C, CHR ''u''] s then hex4 (drop 2 s) else None) of
                  Some (l, s') \<Rightarrow>
                    (if is_low l
                     then map_option (\<lambda>(x, r). (utf8 (0x10000 + (h - 0xD800) * 1024 + (l - 0xDC00)) @ x, r))
                            (parse_chars n s')
                     else map_option (\<lambda>(x, r). (utf8 h @ x, r)) (parse_chars n s))
                | None \<Rightarrow> map_option (\<lambda>(x, r). (utf8 h @ x, r)) (parse_chars n s)))
          else (case unescape d of None \<Rightarrow> None
             | Some e \<Rightarrow> map_option (\<lambda>(x, r). (e # x, r)) (parse_chars n s))))"

text \<open>Numbers: sign, integer part without leading zeros, fraction, exponent.\<close>

fun digits_val :: "nat \<Rightarrow> string \<Rightarrow> nat" where
  "digits_val n [] = n"
| "digits_val n (c # s) = digits_val (10 * n + (code c - 48)) s"

text \<open>The parts of an unsigned number: integer digits, whether there is a point, fraction digits,
  whether there is an exponent, whether it is negative, its digits, and what follows.\<close>

definition scan_number :: "string \<Rightarrow> string \<times> bool \<times> string \<times> bool \<times> bool \<times> string \<times> string" where
  "scan_number s =
    (let ip = takeWhile is_digit s; s = dropWhile is_digit s;
         point = starts_with ''.'' s;
         fr = (if point then takeWhile is_digit (drop 1 s) else []);
         s = (if point then dropWhile is_digit (drop 1 s) else s);
         ex = (starts_with ''e'' s \<or> starts_with ''E'' s);
         es = (if ex then drop 1 s else []);
         eneg = starts_with ''-'' es;
         es = (if eneg \<or> starts_with ''+'' es then drop 1 es else es) in
     (ip, point, fr, ex, eneg, takeWhile is_digit es, if ex then dropWhile is_digit es else s))"

definition number_value :: "bool \<Rightarrow> string \<Rightarrow> string \<Rightarrow> bool \<Rightarrow> string \<Rightarrow> rat" where
  "number_value neg ip fr eneg ed =
    (let m = of_nat (digits_val 0 (ip @ fr)) / 10 ^ length fr * (if neg then - 1 else 1); e = digits_val 0 ed in
     if eneg then m / 10 ^ e else m * 10 ^ e)"

definition parse_number :: "string \<Rightarrow> (rat \<times> string) option" where
  "parse_number s = (let neg = starts_with ''-'' s in
     case scan_number (if neg then drop 1 s else s) of (ip, point, fr, ex, eneg, ed, rest) \<Rightarrow>
       if ip = [] \<or> (1 < length ip \<and> hd ip = CHR ''0'') \<or> (point \<and> fr = []) \<or> (ex \<and> ed = []) then None
       else Some (number_value neg ip fr eneg ed, rest))"

text \<open>\<open>Number(v)\<close> of a text: a decimal literal (leading zeros, a plus sign and a bare point are
  accepted, unlike in JSON) or nothing, which is zero. \<open>None\<close> is not a number. The other literals
  (\<open>Infinity\<close> and those with a radix prefix), which a number field never yields, are left out.\<close>

definition js_Number :: "string \<Rightarrow> rat option" where
  "js_Number v = (let s = js_trim v; neg = starts_with ''-'' s in
     if s = [] then Some 0
     else case scan_number (if neg \<or> starts_with ''+'' s then drop 1 s else s) of (ip, point, fr, ex, eneg, ed, rest) \<Rightarrow>
       if (ip = [] \<and> fr = []) \<or> (ex \<and> ed = []) \<or> rest \<noteq> [] then None
       else Some (number_value neg ip fr eneg ed))"

fun parse_val :: "nat \<Rightarrow> string \<Rightarrow> (jsv \<times> string) option"
and parse_items :: "nat \<Rightarrow> string \<Rightarrow> (jsv list \<times> string) option"
and parse_members :: "nat \<Rightarrow> (string \<times> jsv) list \<Rightarrow> string \<Rightarrow> ((string \<times> jsv) list \<times> string) option" where
  "parse_val 0 s = None"
| "parse_val (Suc n) s = (case skip_ws s of [] \<Rightarrow> None
     | c # r \<Rightarrow>
       (if c = CHR ''{'' then
          (if starts_with ''}'' (skip_ws r) then Some (JObj [], drop 1 (skip_ws r))
           else map_option (\<lambda>(ps, r). (JObj ps, r)) (parse_members n [] r))
        else if c = CHR ''['' then
          (if starts_with '']'' (skip_ws r) then Some (JArr [], drop 1 (skip_ws r))
           else map_option (\<lambda>(vs, r). (JArr vs, r)) (parse_items n r))
        else if c = CHR 0x22 then map_option (\<lambda>(x, r). (JStr x, r)) (parse_chars n r)
        else if starts_with ''true'' (c # r) then Some (JBool True, drop 3 r)
        else if starts_with ''false'' (c # r) then Some (JBool False, drop 4 r)
        else if starts_with ''null'' (c # r) then Some (JNull, drop 3 r)
        else map_option (\<lambda>(m, r). (JNum m, r)) (parse_number (c # r))))"
| "parse_items 0 s = None"
| "parse_items (Suc n) s = (case parse_val n s of None \<Rightarrow> None
     | Some (v, r) \<Rightarrow> (case skip_ws r of [] \<Rightarrow> None
         | c # r \<Rightarrow> if c = CHR '']'' then Some ([v], r)
             else if c = CHR '','' then map_option (\<lambda>(vs, r). (v # vs, r)) (parse_items n r)
             else None))"
| "parse_members 0 acc s = None"
| "parse_members (Suc n) acc s = (case skip_ws s of [] \<Rightarrow> None
     | q # s \<Rightarrow>
       (if q \<noteq> CHR 0x22 then None
        else case parse_chars n s of None \<Rightarrow> None
          | Some (k, r) \<Rightarrow>
            (if \<not> starts_with '':'' (skip_ws r) then None
             else case parse_val n (drop 1 (skip_ws r)) of None \<Rightarrow> None
               | Some (v, r) \<Rightarrow> (case skip_ws r of [] \<Rightarrow> None
                   | c # r \<Rightarrow> if c = CHR ''}'' then Some (set_prop k v acc, r)
                       else if c = CHR '','' then parse_members n (set_prop k v acc) r
                       else None))))"

definition JSON_parse :: "string \<Rightarrow> jsv option" where
  "JSON_parse s = (case parse_val (2 * length s + 2) s of
     Some (v, r) \<Rightarrow> if skip_ws r = [] then Some v else None
   | None \<Rightarrow> None)"

section \<open>Writing\<close>

definition hex_digit :: "nat \<Rightarrow> char" where
  "hex_digit n = char_of (if n < 10 then 48 + n else 87 + n)"

definition escape_char :: "char \<Rightarrow> string" where
  "escape_char c =
    (if c = CHR 0x22 then [CHR 0x5C, CHR 0x22] else if c = CHR 0x5C then [CHR 0x5C, CHR 0x5C]
     else if c = CHR 0x08 then [CHR 0x5C, CHR ''b''] else if c = CHR 0x0C then [CHR 0x5C, CHR ''f'']
     else if c = CHR 0x0A then [CHR 0x5C, CHR ''n''] else if c = CHR 0x0D then [CHR 0x5C, CHR ''r'']
     else if c = CHR 0x09 then [CHR 0x5C, CHR ''t'']
     else if code c < 32 then [CHR 0x5C, CHR ''u'', CHR ''0'', CHR ''0'', hex_digit (code c div 16),
            hex_digit (code c mod 16)]
     else [c])"

definition quote :: "string \<Rightarrow> string" where
  "quote s = CHR 0x22 # concat (map escape_char s) @ [CHR 0x22]"

definition newline_indent :: "nat \<Rightarrow> string" where
  "newline_indent n = CHR 0x0A # replicate n CHR 0x20"

fun json_pretty :: "nat \<Rightarrow> jsv \<Rightarrow> string" where
  "json_pretty i JUndef = ''null''"
| "json_pretty i JNull = ''null''"
| "json_pretty i (JBool b) = (if b then ''true'' else ''false'')"
| "json_pretty i (JNum n) = show_rat n"
| "json_pretty i (JStr s) = quote s"
| "json_pretty i (JArr vs) = (if vs = [] then ''[]'' else
     ''['' @ js_join '','' (map (\<lambda>v. newline_indent (i + 2) @ json_pretty (i + 2) v) vs)
     @ newline_indent i @ '']'')"
| "json_pretty i (JObj ps) =
     (let qs = filter (\<lambda>(_, v). v \<noteq> JUndef) ps in
      if qs = [] then ''{}'' else
      ''{'' @ js_join '','' (concat (map (\<lambda>(k, v). if v = JUndef then [] else
           [newline_indent (i + 2) @ quote k @ '': '' @ json_pretty (i + 2) v]) ps))
      @ newline_indent i @ ''}'')"

definition JSON_stringify :: "jsv \<Rightarrow> string" where
  "JSON_stringify v = (if v = JUndef then [] else json_pretty 0 v)"

text \<open>Without indentation, as request bodies are written.\<close>

fun json_line :: "jsv \<Rightarrow> string" where
  "json_line JUndef = ''null''"
| "json_line JNull = ''null''"
| "json_line (JBool b) = (if b then ''true'' else ''false'')"
| "json_line (JNum n) = show_rat n"
| "json_line (JStr s) = quote s"
| "json_line (JArr vs) = ''['' @ js_join '','' (map json_line vs) @ '']''"
| "json_line (JObj ps) = ''{'' @ js_join '','' (concat (map (\<lambda>(k, v).
     if v = JUndef then [] else [quote k @ '':'' @ json_line v]) ps)) @ ''}''"

section \<open>\<open>atob\<close>\<close>

definition b64_val :: "char \<Rightarrow> nat option" where
  "b64_val c = (let n = code c in
     if 65 \<le> n \<and> n \<le> 90 then Some (n - 65)
     else if 97 \<le> n \<and> n \<le> 122 then Some (n - 71)
     else if 48 \<le> n \<and> n \<le> 57 then Some (n + 4)
     else if c = CHR ''+'' then Some 62 else if c = CHR ''/'' then Some 63 else None)"

fun b64_groups :: "nat list \<Rightarrow> nat list option" where
  "b64_groups [] = Some []"
| "b64_groups [a] = None"
| "b64_groups [a, b] = Some [a * 4 + b div 16]"
| "b64_groups [a, b, c] = Some [a * 4 + b div 16, b mod 16 * 16 + c div 4]"
| "b64_groups (a # b # c # d # r) =
     map_option (\<lambda>xs. [a * 4 + b div 16, b mod 16 * 16 + c div 4, c mod 4 * 64 + d] @ xs) (b64_groups r)"

definition drop_padding :: "string \<Rightarrow> string" where
  "drop_padding s = (if length s mod 4 = 0
     then (if ends_with ''=='' s then take (length s - 2) s
           else if ends_with ''='' s then take (length s - 1) s else s)
     else s)"

text \<open>The decoded bytes, one character each.\<close>

definition atob :: "string \<Rightarrow> string option" where
  "atob s = (let s = drop_padding (filter (\<lambda>c. \<not> is_ws c) s) in
     if list_all (\<lambda>c. b64_val c \<noteq> None) s
     then map_option (map char_of) (b64_groups (map (the \<circ> b64_val) s)) else None)"

end
