(* ===== verification/Admin_Session.thy ===== *)
theory Admin_Session
  imports Json Relay
begin

text \<open>
  The admin API's front door on the server: the session table of \<open>proxy/admin_session.go\<close> and the
  part of \<open>handleAdminAPI\<close> in \<open>proxy/handler.go\<close> that decides who passes: first-run setup, login,
  logout and the token gate. What lies behind the gate is a parameter.

  Parameters: SHA-256 in hex (\<open>sha\<close>), the random source (\<open>mint\<close>, the n-th token it yields), and
  the endpoints behind the gate (\<open>rest\<close>). Times are in seconds; a handler reads the clock of the
  state once.
\<close>

section \<open>The wire\<close>

text \<open>A request as the console's \<open>fetch\<close> sends it. A response body is empty, a text that
  \<open>JSON.parse\<close> reads, or any other text.\<close>

datatype payload = EmptyText | JsonText jsv | PlainText string

record fetch_request =
  f_url :: string
  f_method :: string
  f_headers :: headers
  f_body :: body

record fetch_response =
  f_status :: int
  f_statusText :: string
  f_payload :: payload

datatype fetch_reply = NetworkFail string | Got fetch_response

definition respond :: "int \<Rightarrow> (string \<times> jsv) list \<Rightarrow> fetch_reply" where
  "respond st ps = Got \<lparr>f_status = st, f_statusText = [], f_payload = JsonText (JObj ps)\<rparr>"

section \<open>The session table\<close>

record admin_session =
  expires :: int
  pwHash :: string
  remember :: bool

record session_store =
  sessions :: "string \<rightharpoonup> admin_session"
  attemptStart :: int
  attempts :: nat

text \<open>The zero \<open>time.Time\<close> is the first second of year 1.\<close>

definition newSessionStore :: session_store where
  "newSessionStore = \<lparr>sessions = Map.empty, attemptStart = - 62135596800, attempts = 0\<rparr>"

definition sessionTTL :: int where "sessionTTL = 12 * 3600"
definition rememberTTL :: int where "rememberTTL = 30 * 24 * 3600"
definition loginAttemptLimit :: nat where "loginAttemptLimit = 10"
definition loginAttemptWindow :: int where "loginAttemptWindow = 60"

definition pruneLocked :: "int \<Rightarrow> session_store \<Rightarrow> session_store" where
  "pruneLocked now st = st\<lparr>sessions := (\<lambda>k. case sessions st k of
      Some v \<Rightarrow> if expires v < now then None else Some v | None \<Rightarrow> None)\<rparr>"

text \<open>\<open>issue\<close>: the token is the next one of the random source, the empty text when that fails.\<close>

definition issue ::
  "(string \<Rightarrow> string) \<Rightarrow> int \<Rightarrow> string \<Rightarrow> string \<Rightarrow> bool \<Rightarrow> session_store \<Rightarrow> session_store" where
  "issue sha now token pw rem st =
    (if token = [] then st
     else
       (let ttl = (if rem then rememberTTL else sessionTTL);
            st = pruneLocked now st in
        st\<lparr>sessions := (sessions st)(sha token \<mapsto>
             \<lparr>expires = now + ttl, pwHash = sha pw, remember = rem\<rparr>)\<rparr>))"

definition validate ::
  "(string \<Rightarrow> string) \<Rightarrow> int \<Rightarrow> string \<Rightarrow> string \<Rightarrow> session_store \<Rightarrow> bool \<times> session_store" where
  "validate sha now token pw st =
    (if token = [] then (False, st)
     else
       (let key = sha token in
        case sessions st key of
          None \<Rightarrow> (False, st)
        | Some sess \<Rightarrow>
            if expires sess < now then (False, st\<lparr>sessions := (sessions st)(key := None)\<rparr>)
            else if pwHash sess \<noteq> sha pw then (False, st\<lparr>sessions := (sessions st)(key := None)\<rparr>)
            else (True, st)))"

definition revoke :: "(string \<Rightarrow> string) \<Rightarrow> string \<Rightarrow> session_store \<Rightarrow> session_store" where
  "revoke sha token st =
    (if token = [] then st else st\<lparr>sessions := (sessions st)(sha token := None)\<rparr>)"

definition remembered :: "(string \<Rightarrow> string) \<Rightarrow> string \<Rightarrow> session_store \<Rightarrow> bool" where
  "remembered sha token st =
    (if token = [] then False
     else case sessions st (sha token) of None \<Rightarrow> False | Some s \<Rightarrow> remember s)"

definition allowLoginAttempt :: "int \<Rightarrow> session_store \<Rightarrow> bool \<times> session_store" where
  "allowLoginAttempt now st =
    (let st = (if now - attemptStart st > loginAttemptWindow
               then st\<lparr>attemptStart := now, attempts := 0\<rparr> else st) in
     if attempts st \<ge> loginAttemptLimit then (False, st)
     else (True, st\<lparr>attempts := attempts st + 1\<rparr>))"

definition resetLoginAttempts :: "session_store \<Rightarrow> session_store" where
  "resetLoginAttempts st = st\<lparr>attempts := 0\<rparr>"

definition revokeAll :: "session_store \<Rightarrow> session_store" where
  "revokeAll st = st\<lparr>sessions := Map.empty\<rparr>"

section \<open>The handlers\<close>

text \<open>The gateway as these handlers see it: the admin password (empty until setup), the session
  table, the clock and how many tokens have been drawn.\<close>

record gateway =
  password :: string
  store :: session_store
  clock :: int
  drawn :: nat

definition isConfigured :: "gateway \<Rightarrow> bool" where
  "isConfigured g \<longleftrightarrow> password g \<noteq> []"

text \<open>\<open>json.Decode\<close> of a body, which \<open>http.MaxBytesReader\<close> may have cut off: one JSON value has to
  be complete by then; what follows it is not read. A value goes into a struct when it is an object or
  null; a string field of another kind is an error, a missing one is the zero value.\<close>

definition maxLoginBody :: nat where "maxLoginBody = 65536"

definition read_json :: "nat option \<Rightarrow> body \<Rightarrow> jsv option" where
  "read_json cap b = (case b of
     NoBody \<Rightarrow> None
   | JsonBody v \<Rightarrow> (case cap of None \<Rightarrow> Some v | Some n \<Rightarrow> if length (json_line v) \<le> n then Some v else None)
   | RawBody s \<Rightarrow> (let s = (case cap of None \<Rightarrow> s | Some n \<Rightarrow> take n s) in
       map_option fst (parse_val (2 * length s + 2) s)))"

definition struct_like :: "jsv \<Rightarrow> bool" where
  "struct_like v = (case v of JObj ps \<Rightarrow> True | JNull \<Rightarrow> True | _ \<Rightarrow> False)"

definition str_field :: "jsv \<Rightarrow> string \<Rightarrow> string option" where
  "str_field v k = (case get_prop v k of JStr s \<Rightarrow> Some s | JUndef \<Rightarrow> Some [] | JNull \<Rightarrow> Some [] | _ \<Rightarrow> None)"

definition bool_field :: "jsv \<Rightarrow> string \<Rightarrow> bool option" where
  "bool_field v k = (case get_prop v k of JBool b \<Rightarrow> Some b | JUndef \<Rightarrow> Some False | JNull \<Rightarrow> Some False | _ \<Rightarrow> None)"

definition decode_login :: "body \<Rightarrow> (string \<times> bool) option" where
  "decode_login b = (case read_json (Some maxLoginBody) b of
     Some v \<Rightarrow> (case (str_field v ''password'', bool_field v ''remember'') of
        (Some p, Some r) \<Rightarrow> if struct_like v then Some (p, r) else None | _ \<Rightarrow> None)
   | None \<Rightarrow> None)"

definition decode_password :: "nat option \<Rightarrow> body \<Rightarrow> string option" where
  "decode_password cap b = (case read_json cap b of
     Some v \<Rightarrow> if struct_like v then str_field v ''password'' else None
   | None \<Rightarrow> None)"

text \<open>A random source that fails yields the empty token; \<open>issue\<close> then returns before it touches the
  table. The attempts have been reset by then.\<close>

definition apiAdminLogin ::
  "(string \<Rightarrow> string) \<Rightarrow> (nat \<Rightarrow> string) \<Rightarrow> gateway \<Rightarrow> fetch_request \<Rightarrow> fetch_reply \<times> gateway" where
  "apiAdminLogin sha mint g r =
    (if \<not> isConfigured g
     then (respond 401 [(''error'', JStr ''Setup required''), (''setupRequired'', JStr ''true'')], g)
     else case decode_login (f_body r) of
       None \<Rightarrow> (respond 400 [(''error'', JStr ''Invalid JSON'')], g)
     | Some (pw, rem) \<Rightarrow>
         (let (ok, st) = allowLoginAttempt (clock g) (store g); g = g\<lparr>store := st\<rparr> in
          if \<not> ok
          then (respond 429 [(''error'', JStr ''Too many login attempts, try again in a minute'')], g)
          else if pw \<noteq> password g then (respond 401 [(''error'', JStr ''Unauthorized'')], g)
          else
            (let g = g\<lparr>store := resetLoginAttempts (store g)\<rparr>;
                 token = mint (drawn g);
                 st = issue sha (clock g) token (password g) rem (store g);
                 ttl = (if rem then rememberTTL else sessionTTL);
                 g = g\<lparr>store := st, drawn := drawn g + 1\<rparr> in
             if token = [] then (respond 500 [(''error'', JStr ''Failed to create session'')], g)
             else (respond 200 [(''token'', JStr token), (''expiresAt'', JNum (of_int (clock g + ttl)))], g))))"

definition session_token :: "fetch_request \<Rightarrow> string" where
  "session_token r = str_or (hget (f_headers r) ''X-Admin-Session'') []"

definition apiAdminLogout ::
  "(string \<Rightarrow> string) \<Rightarrow> gateway \<Rightarrow> fetch_request \<Rightarrow> fetch_reply \<times> gateway" where
  "apiAdminLogout sha g r =
    (respond 200 [(''success'', JBool True)], g\<lparr>store := revoke sha (session_token r) (store g)\<rparr>)"

definition completeSetup :: "string \<Rightarrow> gateway \<Rightarrow> gateway option" where
  "completeSetup pw g = (if password g \<noteq> [] then None else Some (g\<lparr>password := pw\<rparr>))"

text \<open>\<open>strings.TrimSpace\<close> on UTF-8 bytes: the white space outside ASCII is given by its encodings,
  longest first match not being an issue as none is a prefix of another.\<close>

fun trim_front :: "string list \<Rightarrow> nat \<Rightarrow> string \<Rightarrow> string" where
  "trim_front us (Suc n) (c # s) =
    (if is_ws c then trim_front us n s
     else case find (\<lambda>u. starts_with u (c # s)) us of
       None \<Rightarrow> c # s
     | Some u \<Rightarrow> trim_front us n (drop (length u) (c # s)))"
| "trim_front us n s = s"

definition trim_utf8 :: "string list \<Rightarrow> string \<Rightarrow> string" where
  "trim_utf8 us s = (let s = trim_front us (length s) s in
     rev (trim_front (map rev us) (length s) (rev s)))"

definition unicode_spaces :: "nat list" where
  "unicode_spaces = [0x00A0, 0x1680] @ [0x2000..<0x200B] @ [0x2028, 0x2029, 0x202F, 0x205F, 0x3000]"

definition TrimSpace :: "string \<Rightarrow> string" where
  "TrimSpace s = trim_utf8 (map utf8 (0x0085 # unicode_spaces)) s"

definition apiCompleteSetup ::
  "(string \<Rightarrow> string) \<Rightarrow> (nat \<Rightarrow> string) \<Rightarrow> gateway \<Rightarrow> fetch_request \<Rightarrow> fetch_reply \<times> gateway" where
  "apiCompleteSetup sha mint g r =
    (if isConfigured g then (respond 409 [(''error'', JStr ''Already configured'')], g)
     else case decode_password (Some maxLoginBody) (f_body r) of
       None \<Rightarrow> (respond 400 [(''error'', JStr ''Invalid JSON'')], g)
     | Some pw \<Rightarrow>
         if length (TrimSpace pw) < 8
         then (respond 400 [(''error'', JStr ''Password must be at least 8 characters'')], g)
         else case completeSetup pw g of
           None \<Rightarrow> (respond 409 [(''error'', JStr ''already configured'')], g)
         | Some g \<Rightarrow>
             (let token = mint (drawn g);
                  g = g\<lparr>store := issue sha (clock g) token (password g) True (store g), drawn := drawn g + 1\<rparr> in
              if token = [] then (respond 500 [(''error'', JStr ''Failed to create session'')], g)
              else (respond 200 [(''success'', JBool True), (''token'', JStr token)], g)))"

text \<open>The last step of \<open>apiUpdateSettings\<close>: a new password revokes every session and hands the
  caller a fresh token with the lifetime of the one it called with.\<close>

definition changePassword ::
  "(string \<Rightarrow> string) \<Rightarrow> (nat \<Rightarrow> string) \<Rightarrow> gateway \<Rightarrow> fetch_request \<Rightarrow> string \<Rightarrow> fetch_reply \<times> gateway" where
  "changePassword sha mint g r newPassword =
    (let rem = remembered sha (session_token r) (store g) in
     if newPassword = [] then (respond 200 [(''success'', JBool True)], g)
     else
       (let g = g\<lparr>password := newPassword, store := revokeAll (store g)\<rparr>;
            token = mint (drawn g);
            g = g\<lparr>store := issue sha (clock g) token (password g) rem (store g), drawn := drawn g + 1\<rparr> in
        if token = []
        then (respond 500 [(''error'', JStr ''Password changed, but no new session could be created; log in again'')], g)
        else (respond 200 [(''success'', JBool True), (''token'', JStr token)], g)))"

text \<open>\<open>r.URL.Path\<close>: the request's address without its query.\<close>

definition url_path :: "fetch_request \<Rightarrow> string" where
  "url_path r = takeWhile (\<lambda>c. c \<noteq> CHR ''?'') (f_url r)"

definition admin_path :: "fetch_request \<Rightarrow> string" where
  "admin_path r = (if starts_with ''/admin/api'' (url_path r) then drop 10 (url_path r) else url_path r)"

definition handleAdminAPI ::
  "(string \<Rightarrow> string) \<Rightarrow> (nat \<Rightarrow> string) \<Rightarrow> (gateway \<Rightarrow> fetch_request \<Rightarrow> fetch_reply \<times> gateway) \<Rightarrow>
   gateway \<Rightarrow> fetch_request \<Rightarrow> fetch_reply \<times> gateway" where
  "handleAdminAPI sha mint rest g r =
    (let path = admin_path r in
     if path = ''/setup/status'' \<and> f_method r = ''GET''
     then (respond 200 [(''configured'', JBool (isConfigured g))], g)
     else if path = ''/setup'' \<and> f_method r = ''POST'' then apiCompleteSetup sha mint g r
     else if path = ''/login'' \<and> f_method r = ''POST'' then apiAdminLogin sha mint g r
     else if path = ''/logout'' \<and> f_method r = ''POST'' then apiAdminLogout sha g r
     else
       (let token = session_token r in
        if \<not> isConfigured g
        then (respond 401 [(''error'', JStr ''Setup required''), (''setupRequired'', JStr ''true'')], g)
        else
          (let (ok, st) = validate sha (clock g) token (password g) (store g);
               g = g\<lparr>store := st\<rparr> in
           if \<not> ok then (respond 401 [(''error'', JStr ''Unauthorized'')], g)
           else rest g r)))"

lemma admin_path_of:
  "f_url r = ''/admin/api'' @ p \<Longrightarrow> list_all (\<lambda>c. c \<noteq> CHR ''?'') p \<Longrightarrow> admin_path r = p"
  by (simp add: admin_path_def url_path_def starts_with_def list_all_iff)

lemma admin_path_api: "url_path r = ''/admin/api'' @ p \<Longrightarrow> admin_path r = p"
  by (simp add: admin_path_def starts_with_def)

section \<open>The table as a set of live tokens\<close>

definition live_token :: "(string \<Rightarrow> string) \<Rightarrow> gateway \<Rightarrow> string \<Rightarrow> bool" where
  "live_token sha g t \<longleftrightarrow> t \<noteq> [] \<and>
     (\<exists>s. sessions (store g) (sha t) = Some s \<and> clock g \<le> expires s \<and> pwHash s = sha (password g))"

lemmas session_defs = pruneLocked_def issue_def validate_def revoke_def remembered_def
  allowLoginAttempt_def resetLoginAttempts_def revokeAll_def Let_def

lemma validate_live: "fst (validate sha (clock g) t (password g) (store g)) = live_token sha g t"
  by (auto simp: validate_def live_token_def Let_def split: option.splits)

lemma validate_keeps_live:
  "live_token sha (g\<lparr>store := snd (validate sha (clock g) t (password g) (store g))\<rparr>) u = live_token sha g u"
  by (auto simp: validate_def live_token_def Let_def split: option.splits if_splits)

lemma issue_live:
  "inj sha \<Longrightarrow> t \<noteq> [] \<Longrightarrow>
   live_token sha (g\<lparr>store := issue sha (clock g) t (password g) rem st\<rparr>) u \<longleftrightarrow>
     u = t \<or> live_token sha (g\<lparr>store := st\<rparr>) u"
  by (auto simp: live_token_def session_defs rememberTTL_def sessionTTL_def dest: injD
      split: option.splits if_splits)

lemma revoke_live:
  "inj sha \<Longrightarrow> live_token sha (g\<lparr>store := revoke sha t st\<rparr>) u \<longleftrightarrow>
     u \<noteq> t \<and> live_token sha (g\<lparr>store := st\<rparr>) u"
  by (auto simp: live_token_def session_defs dest: injD split: if_splits)

lemma live_token_counters [simp]:
  "live_token sha (g\<lparr>drawn := n\<rparr>) u = live_token sha g u"
  "live_token sha (g\<lparr>store := st\<lparr>attempts := k\<rparr>\<rparr>) u = live_token sha (g\<lparr>store := st\<rparr>) u"
  "live_token sha (g\<lparr>store := st\<lparr>attemptStart := a\<rparr>\<rparr>) u = live_token sha (g\<lparr>store := st\<rparr>) u"
  by (simp_all add: live_token_def)

lemma allowLoginAttempt_sessions:
  "sessions (snd (allowLoginAttempt now st)) = sessions st"
  by (simp add: allowLoginAttempt_def Let_def)

end
