(* ===== verification/Admin_Client.thy ===== *)
theory Admin_Client
  imports Admin_Session
begin

text \<open>
  The console's side of a session: the API client \<open>dashboard/src/lib/api.ts\<close> (token storage, the
  \<open>api\<close> wrapper, \<open>login\<close>, \<open>logout\<close>) and the provider \<open>dashboard/src/lib/auth.tsx\<close>, whose state is
  \<open>loading\<close>, \<open>setup\<close>, \<open>anonymous\<close> or \<open>authed\<close>.

  The two browser storages are maps; a page reload keeps both, a new tab only the local one. The
  server is a function on its own state; the contract the console relies on is the locale
  \<open>admin_server\<close>, which \<open>handleAdminAPI\<close> keeps.
\<close>

section \<open>lib/api.ts\<close>

record browser =
  sessionStorage :: "string \<rightharpoonup> string"
  localStorage :: "string \<rightharpoonup> string"

definition TOKEN_KEY :: string where "TOKEN_KEY = ''admin_session_token''"
definition REMEMBER_KEY :: string where "REMEMBER_KEY = ''kiro_remember''"
definition LEGACY_PASSWORD_KEY :: string where "LEGACY_PASSWORD_KEY = ''admin_password''"

lemma storage_keys_distinct [simp]:
  "TOKEN_KEY \<noteq> REMEMBER_KEY" "REMEMBER_KEY \<noteq> TOKEN_KEY" "LEGACY_PASSWORD_KEY \<noteq> TOKEN_KEY"
  "TOKEN_KEY \<noteq> LEGACY_PASSWORD_KEY" "LEGACY_PASSWORD_KEY \<noteq> REMEMBER_KEY"
  "REMEMBER_KEY \<noteq> LEGACY_PASSWORD_KEY"
  by (simp_all add: TOKEN_KEY_def REMEMBER_KEY_def LEGACY_PASSWORD_KEY_def)

text \<open>\<open>available\<close>: whether the storages can be used (they throw in private mode).\<close>

definition purgeLegacyPassword :: "bool \<Rightarrow> browser \<Rightarrow> browser" where
  "purgeLegacyPassword available b =
    (if available then b\<lparr>sessionStorage := (sessionStorage b)(LEGACY_PASSWORD_KEY := None),
                         localStorage := (localStorage b)(LEGACY_PASSWORD_KEY := None)\<rparr>
     else b)"

definition getToken :: "browser \<Rightarrow> string" where
  "getToken b = str_or (sessionStorage b TOKEN_KEY) (str_or (localStorage b TOKEN_KEY) [])"

definition setToken :: "string \<Rightarrow> bool \<Rightarrow> browser \<Rightarrow> browser" where
  "setToken token rem b =
    (let b = b\<lparr>sessionStorage := (sessionStorage b)(TOKEN_KEY \<mapsto> token)\<rparr> in
     if rem then b\<lparr>localStorage := (localStorage b)(TOKEN_KEY \<mapsto> token, REMEMBER_KEY \<mapsto> ''1'')\<rparr>
     else b\<lparr>localStorage := (localStorage b)(TOKEN_KEY := None, REMEMBER_KEY := None)\<rparr>)"

definition isRemembered :: "browser \<Rightarrow> bool" where
  "isRemembered b \<longleftrightarrow> localStorage b REMEMBER_KEY = Some ''1''"

definition clearToken :: "browser \<Rightarrow> browser" where
  "clearToken b = b\<lparr>sessionStorage := (sessionStorage b)(TOKEN_KEY := None),
     localStorage := (localStorage b)(TOKEN_KEY := None, REMEMBER_KEY := None)\<rparr>"

text \<open>\<open>RequestInit\<close>, as far as the client reads it.\<close>

record request_init =
  i_method :: string
  i_headers :: headers
  i_body :: body

fun body_truthy :: "body \<Rightarrow> bool" where
  "body_truthy NoBody = False"
| "body_truthy (JsonBody v) = True"
| "body_truthy (RawBody s) = (s \<noteq> [])"

definition api_request :: "browser \<Rightarrow> string \<Rightarrow> request_init \<Rightarrow> fetch_request" where
  "api_request b path init =
    (let headers = i_headers init;
         token = getToken b;
         headers = (if token \<noteq> [] then hset headers ''X-Admin-Session'' token else headers);
         headers = (if body_truthy (i_body init) \<and> hget headers ''Content-Type'' = None
                    then hset headers ''Content-Type'' ''application/json'' else headers) in
     \<lparr>f_url = ''/admin/api'' @ path, f_method = i_method init, f_headers = headers, f_body = i_body init\<rparr>)"

definition resp_ok :: "fetch_response \<Rightarrow> bool" where
  "resp_ok res \<longleftrightarrow> 200 \<le> f_status res \<and> f_status res \<le> 299"

text \<open>The error of a response that is not ok, and whether it says that setup is required.\<close>

definition error_of :: "fetch_response \<Rightarrow> jsv \<Rightarrow> jerr \<times> bool" where
  "error_of res data =
    (let ob = (if is_object data then data else JObj []);
         setupRequired = (get_prop ob ''setupRequired'' = JStr ''true'' \<or>
                          get_prop ob ''setupRequired'' = JBool True);
         msg = js_string (js_or (get_prop ob ''error'')
                 (js_or (JStr (f_statusText res)) (JStr ''Request failed''))) in
     (ApiErr (f_status res) msg setupRequired, setupRequired))"

text \<open>What \<open>api\<close> returns or throws for a reply, and the call it makes to the handler that is
  registered for lost authorization (with its argument).\<close>

definition api_result :: "fetch_reply \<Rightarrow> (jerr + jsv) \<times> bool option" where
  "api_result p = (case p of
     NetworkFail m \<Rightarrow> (Inl (JsErr m), None)
   | Got res \<Rightarrow>
       (let data = (case f_payload res of EmptyText \<Rightarrow> JNull | JsonText v \<Rightarrow> v | PlainText s \<Rightarrow> JStr s) in
        if \<not> resp_ok res then
          (let (e, setupRequired) = error_of res data in
           (Inl e, if f_status res = 401 then Some setupRequired else None))
        else (Inr data, None)))"

definition login_request :: "string \<Rightarrow> bool \<Rightarrow> fetch_request" where
  "login_request pw rem =
    \<lparr>f_url = ''/admin/api/login'', f_method = ''POST'',
     f_headers = [(''content-type'', ''application/json'')],
     f_body = JsonBody (JObj [(''password'', JStr pw), (''remember'', JBool rem)])\<rparr>"

text \<open>Whether the server reads the request of a login to its end.\<close>

definition login_fits :: "string \<Rightarrow> bool \<Rightarrow> bool" where
  "login_fits pw rem \<longleftrightarrow>
     length (json_line (JObj [(''password'', JStr pw), (''remember'', JBool rem)])) \<le> maxLoginBody"

definition login_result :: "fetch_reply \<Rightarrow> (jerr + string) \<times> bool option" where
  "login_result p = (case p of
     NetworkFail m \<Rightarrow> (Inl (JsErr m), None)
   | Got res \<Rightarrow>
       (let data = (case f_payload res of EmptyText \<Rightarrow> JNull | JsonText v \<Rightarrow> v | PlainText s \<Rightarrow> JNull) in
        if \<not> resp_ok res then
          (let (e, setupRequired) = error_of res data in
           (Inl e, if f_status res = 401 then Some setupRequired else None))
        else
          (let token = js_string (js_or (get_prop data ''token'') (JStr [])) in
           if token = [] then (Inl (ApiErr (f_status res) ''Login did not return a session token'' False), None)
           else (Inr token, None))))"

section \<open>lib/auth.tsx\<close>

datatype status = Loading | Setup | Anonymous | Authed

record console =
  status :: status
  browser :: browser

type_synonym 'w fserver = "'w \<Rightarrow> fetch_request \<Rightarrow> fetch_reply \<times> 'w"

text \<open>The handler \<open>AuthProvider\<close> registers.\<close>

definition on_unauthorized :: "bool option \<Rightarrow> console \<Rightarrow> console" where
  "on_unauthorized x c = (case x of None \<Rightarrow> c
     | Some setupRequired \<Rightarrow> c\<lparr>status := (if setupRequired then Setup else Anonymous)\<rparr>)"

definition get_init :: request_init where
  "get_init = \<lparr>i_method = ''GET'', i_headers = [], i_body = NoBody\<rparr>"

definition post_init :: "body \<Rightarrow> request_init" where
  "post_init b = \<lparr>i_method = ''POST'', i_headers = [], i_body = b\<rparr>"

definition api ::
  "'w fserver \<Rightarrow> string \<Rightarrow> request_init \<Rightarrow> console \<Rightarrow> 'w \<Rightarrow> (jerr + jsv) \<times> console \<times> 'w" where
  "api srv path init c w =
    (let (p, w') = srv w (api_request (browser c) path init); (res, lost) = api_result p in
     (res, on_unauthorized lost c, w'))"

definition apiLogin ::
  "'w fserver \<Rightarrow> string \<Rightarrow> bool \<Rightarrow> console \<Rightarrow> 'w \<Rightarrow> (jerr + string) \<times> console \<times> 'w" where
  "apiLogin srv pw rem c w =
    (let (p, w') = srv w (login_request pw rem); (res, lost) = login_result p in
     (res, on_unauthorized lost c, w'))"

definition boot_failed :: "console \<Rightarrow> console" where
  "boot_failed c = c\<lparr>status := (if status c = Loading then Anonymous else status c)\<rparr>"

text \<open>The effect that runs when the provider mounts.\<close>

definition boot :: "'w fserver \<Rightarrow> console \<Rightarrow> 'w \<Rightarrow> console \<times> 'w" where
  "boot srv c w =
    (case api srv ''/setup/status'' get_init c w of
       (Inl e, c, w) \<Rightarrow> (boot_failed c, w)
     | (Inr s, c, w) \<Rightarrow>
         if nullish s then (boot_failed c, w)
         else if \<not> truthy (get_prop s ''configured'') then (c\<lparr>status := Setup\<rparr>, w)
         else if getToken (browser c) = [] then (c\<lparr>status := Anonymous\<rparr>, w)
         else (case api srv ''/version'' get_init c w of
             (Inl e, c, w) \<Rightarrow> (boot_failed c, w)
           | (Inr v, c, w) \<Rightarrow> (c\<lparr>status := Authed\<rparr>, w)))"

definition login :: "'w fserver \<Rightarrow> string \<Rightarrow> bool \<Rightarrow> console \<Rightarrow> 'w \<Rightarrow> jerr option \<times> console \<times> 'w" where
  "login srv pw rem c w =
    (case apiLogin srv pw rem c w of
       (Inl e, c, w) \<Rightarrow> (Some e, c, w)
     | (Inr token, c, w) \<Rightarrow>
         (let c = c\<lparr>browser := setToken token rem (browser c)\<rparr> in
          case api srv ''/version'' get_init c w of
            (Inr v, c, w) \<Rightarrow> (None, c\<lparr>status := Authed\<rparr>, w)
          | (Inl e, c, w) \<Rightarrow> (Some e, c\<lparr>browser := clearToken (browser c)\<rparr>, w)))"

definition completeSetup_ui :: "'w fserver \<Rightarrow> string \<Rightarrow> console \<Rightarrow> 'w \<Rightarrow> jerr option \<times> console \<times> 'w" where
  "completeSetup_ui srv pw c w =
    (case api srv ''/setup'' (post_init (JsonBody (JObj [(''password'', JStr pw)]))) c w of
       (Inl e, c, w) \<Rightarrow> (Some e, c, w)
     | (Inr res, c, w) \<Rightarrow>
         (let token = js_string (js_or (get_prop res ''token'') (JStr [])) in
          if token = [] then (Some (JsErr ''Setup did not return a session token''), c, w)
          else (None, c\<lparr>browser := setToken token True (browser c), status := Authed\<rparr>, w)))"

text \<open>\<open>apiLogout\<close> swallows every error; the token is dropped and the state changes in any case.\<close>

definition logout :: "'w fserver \<Rightarrow> console \<Rightarrow> 'w \<Rightarrow> console \<times> 'w" where
  "logout srv c w =
    (case api srv ''/logout'' (post_init NoBody) c w of
       (_, c, w) \<Rightarrow> (c\<lparr>browser := clearToken (browser c), status := Anonymous\<rparr>, w))"

text \<open>Opening the console again: in the same tab, or in a new one, which starts with an empty
  session storage.\<close>

definition reload :: "console \<Rightarrow> console" where
  "reload c = c\<lparr>status := Loading, browser := purgeLegacyPassword True (browser c)\<rparr>"

definition new_tab :: "console \<Rightarrow> console" where
  "new_tab c = reload (c\<lparr>browser := (browser c)\<lparr>sessionStorage := Map.empty\<rparr>\<rparr>)"

lemmas token_defs = getToken_def setToken_def clearToken_def isRemembered_def purgeLegacyPassword_def
  Let_def

lemma getToken_setToken [simp]: "t \<noteq> [] \<Longrightarrow> getToken (setToken t r b) = t"
  by (simp add: token_defs str_or_def)

lemma getToken_clearToken [simp]: "getToken (clearToken b) = []"
  by (simp add: token_defs str_or_def)

lemma getToken_purge [simp]: "getToken (purgeLegacyPassword a b) = getToken b"
  by (simp add: token_defs)

lemma getToken_new_tab:
  "getToken (browser (new_tab (c\<lparr>browser := setToken t r b\<rparr>))) = (if r then t else [])"
  by (simp add: new_tab_def reload_def token_defs str_or_def)

section \<open>What the console relies on\<close>

text \<open>The contract of the admin server, over the set of tokens it accepts: with a token it accepts,
  an authenticated request is answered; without one it is a 401; a correct password yields a token
  that is accepted from then on, unless the request is too long to be read; logging out revokes the
  token sent.\<close>

definition session_header :: "fetch_request \<Rightarrow> string" where
  "session_header r = str_or (hget (f_headers r) ''X-Admin-Session'') []"

locale admin_server =
  fixes srv :: "'w fserver"
    and ok :: "'w \<Rightarrow> bool"
    and accepts :: "'w \<Rightarrow> string \<Rightarrow> bool"
    and pw_of :: "'w \<Rightarrow> string"
    and ready :: "'w \<Rightarrow> bool"
  assumes ok_keeps: "ok w \<Longrightarrow> ok (snd (srv w r))"
    and status_reply: "f_url r = ''/admin/api/setup/status'' \<Longrightarrow> f_method r = ''GET'' \<Longrightarrow>
        srv w r = (respond 200 [(''configured'', JBool (pw_of w \<noteq> []))], w)"
    and version_reply: "ok w \<Longrightarrow> f_url r = ''/admin/api/version'' \<Longrightarrow> f_method r = ''GET'' \<Longrightarrow> pw_of w \<noteq> [] \<Longrightarrow>
        \<exists>v. fst (srv w r) = (if accepts w (session_header r) then respond 200 v
                              else respond 401 [(''error'', JStr ''Unauthorized'')])"
    and version_keeps: "ok w \<Longrightarrow> f_url r = ''/admin/api/version'' \<Longrightarrow> f_method r = ''GET'' \<Longrightarrow>
        accepts (snd (srv w r)) t = accepts w t \<and> pw_of (snd (srv w r)) = pw_of w"
    and login_ok: "ok w \<Longrightarrow> ready w \<Longrightarrow> pw_of w \<noteq> [] \<Longrightarrow> login_fits (pw_of w) rem \<Longrightarrow>
        \<exists>t ps w'. srv w (login_request (pw_of w) rem) = (respond 200 ((''token'', JStr t) # ps), w') \<and>
                  t \<noteq> [] \<and> accepts w' t \<and> pw_of w' = pw_of w"
    and login_oversized: "pw_of w \<noteq> [] \<Longrightarrow> \<not> login_fits pw rem \<Longrightarrow>
        srv w (login_request pw rem) = (respond 400 [(''error'', JStr ''Invalid JSON'')], w)"
    and login_refused: "ok w \<Longrightarrow> pw \<noteq> pw_of w \<Longrightarrow>
        \<exists>st ps w'. srv w (login_request pw rem) = (respond st ps, w') \<and> 400 \<le> st \<and>
                   (\<forall>t. accepts w' t = accepts w t) \<and> pw_of w' = pw_of w"
    and logout_reply: "ok w \<Longrightarrow> f_url r = ''/admin/api/logout'' \<Longrightarrow> f_method r = ''POST'' \<Longrightarrow>
        (\<exists>ps. fst (srv w r) = respond 200 ps) \<and> pw_of (snd (srv w r)) = pw_of w \<and>
        (\<forall>t. accepts (snd (srv w r)) t \<longleftrightarrow> t \<noteq> session_header r \<and> accepts w t)"
    and empty_token: "\<not> accepts w []"
begin

lemma request_url [simp]:
  "f_url (api_request b path i) = ''/admin/api'' @ path" "f_method (api_request b path i) = i_method i"
  by (simp_all add: api_request_def Let_def)

lemma request_token [simp]:
  "i_headers i = [] \<Longrightarrow> session_header (api_request b path i) = getToken b"
proof -
  have "js_lower ''X-Admin-Session'' \<noteq> js_lower ''Content-Type''" by code_simp
  then show "i_headers i = [] \<Longrightarrow> session_header (api_request b path i) = getToken b"
    by (auto simp: api_request_def session_header_def Let_def hget_hset str_or_def hget_def [of "[]"])
qed

lemma init_simps [simp]: "i_method get_init = ''GET''" "i_headers get_init = []"
  "i_method (post_init x) = ''POST''" "i_headers (post_init x) = []"
  by (simp_all add: get_init_def post_init_def)

lemma api_status:
  "api srv ''/setup/status'' get_init c w = (Inr (JObj [(''configured'', JBool (pw_of w \<noteq> []))]), c, w)"
  by (simp add: api_def status_reply api_result_def respond_def resp_ok_def on_unauthorized_def)

lemma api_version:
  assumes "ok w" and "pw_of w \<noteq> []"
  shows "\<exists>e v w'. api srv ''/version'' get_init c w =
      (if accepts w (getToken (browser c)) then (Inr v, c, w') else (Inl e, c\<lparr>status := Anonymous\<rparr>, w')) \<and>
      (\<forall>t. accepts w' t = accepts w t) \<and> pw_of w' = pw_of w \<and> ok w'"
proof -
  let ?r = "api_request (browser c) ''/version'' get_init"
  have u: "f_url ?r = ''/admin/api/version''" "f_method ?r = ''GET''" by simp_all
  obtain v where "fst (srv w ?r) = (if accepts w (getToken (browser c)) then respond 200 v
      else respond 401 [(''error'', JStr ''Unauthorized'')])"
    using version_reply [OF assms(1) u assms(2)] by auto
  then show ?thesis
    using version_keeps [OF assms(1) u] ok_keeps [OF assms(1), of ?r]
    by (cases "srv w ?r")
      (auto simp: api_def api_result_def respond_def resp_ok_def error_of_def on_unauthorized_def Let_def)
qed

lemma boot_status:
  assumes "ok w" and "status c = Loading"
  shows "status (fst (boot srv c w)) =
      (if pw_of w = [] then Setup else if accepts w (getToken (browser c)) then Authed else Anonymous)"
    and "browser (fst (boot srv c w)) = browser c"
    and "accepts (snd (boot srv c w)) t = accepts w t"
proof -
  have "status (fst (boot srv c w)) =
      (if pw_of w = [] then Setup else if accepts w (getToken (browser c)) then Authed else Anonymous) \<and>
      browser (fst (boot srv c w)) = browser c \<and> accepts (snd (boot srv c w)) t = accepts w t"
  proof (cases "pw_of w = [] \<or> getToken (browser c) = []")
    case True
    then show ?thesis by (auto simp: boot_def api_status empty_token)
  next
    case False
    then obtain e v w' where "api srv ''/version'' get_init c w =
        (if accepts w (getToken (browser c)) then (Inr v, c, w') else (Inl e, c\<lparr>status := Anonymous\<rparr>, w'))"
      "\<forall>t. accepts w' t = accepts w t"
      using api_version [OF assms(1)] by blast
    with False show ?thesis by (auto simp: boot_def api_status boot_failed_def)
  qed
  then show "status (fst (boot srv c w)) =
      (if pw_of w = [] then Setup else if accepts w (getToken (browser c)) then Authed else Anonymous)"
    "browser (fst (boot srv c w)) = browser c" "accepts (snd (boot srv c w)) t = accepts w t"
    by simp_all
qed

lemma login_succeeds:
  assumes "ok w" "ready w" "pw_of w \<noteq> []" "login_fits (pw_of w) rem"
  shows "\<exists>t c' w'. login srv (pw_of w) rem c w = (None, c', w') \<and> status c' = Authed \<and> t \<noteq> [] \<and>
      browser c' = setToken t rem (browser c) \<and> accepts w' t \<and> pw_of w' = pw_of w \<and> ok w'"
proof -
  obtain t ps w1 where s: "srv w (login_request (pw_of w) rem) = (respond 200 ((''token'', JStr t) # ps), w1)"
    "t \<noteq> []" "accepts w1 t" "pw_of w1 = pw_of w"
    using login_ok [OF assms] by blast
  from ok_keeps [OF assms(1), of "login_request (pw_of w) rem"] s(1) have ok1: "ok w1" by simp
  let ?c = "c\<lparr>browser := setToken t rem (browser c)\<rparr>"
  have l: "apiLogin srv (pw_of w) rem c w = (Inr t, c, w1)"
    using s by (simp add: apiLogin_def login_result_def respond_def resp_ok_def on_unauthorized_def js_or_def)
  from ok1 assms(3) s obtain v w2 where "api srv ''/version'' get_init ?c w1 = (Inr v, ?c, w2)"
    "\<forall>t. accepts w2 t = accepts w1 t" "pw_of w2 = pw_of w1" "ok w2"
    using api_version [of w1 ?c] by auto
  with l s show ?thesis by (auto simp: login_def)
qed

lemma login_cut_off:
  assumes "pw_of w \<noteq> []" "\<not> login_fits pw rem"
  shows "login srv pw rem c w = (Some (ApiErr 400 ''Invalid JSON'' False), c, w)"
  by (simp add: login_def apiLogin_def login_oversized [OF assms] login_result_def respond_def resp_ok_def
      error_of_def on_unauthorized_def js_or_def Let_def)

lemma login_fails:
  assumes "ok w" "pw \<noteq> pw_of w"
  shows "\<exists>e c' w'. login srv pw rem c w = (Some e, c', w') \<and> browser c' = browser c \<and>
      (\<forall>t. accepts w' t = accepts w t) \<and> status c' \<in> {status c, Setup, Anonymous}"
proof -
  obtain st ps w1 where "srv w (login_request pw rem) = (respond st ps, w1)" "400 \<le> st"
    "\<forall>t. accepts w1 t = accepts w t"
    using login_refused [OF assms] by blast
  then show ?thesis
    by (auto simp: login_def apiLogin_def login_result_def respond_def resp_ok_def error_of_def
        on_unauthorized_def Let_def)
qed

lemma logout_ends:
  assumes "ok w"
  shows "\<exists>c' w'. logout srv c w = (c', w') \<and> status c' = Anonymous \<and> getToken (browser c') = [] \<and>
      (\<forall>t. accepts w' t \<longleftrightarrow> t \<noteq> getToken (browser c) \<and> accepts w t) \<and> ok w'"
proof -
  let ?r = "api_request (browser c) ''/logout'' (post_init NoBody)"
  obtain ps where "fst (srv w ?r) = respond 200 ps"
    "\<forall>t. accepts (snd (srv w ?r)) t \<longleftrightarrow> t \<noteq> getToken (browser c) \<and> accepts w t"
    using logout_reply [OF assms, of ?r] by auto
  then show ?thesis
    using ok_keeps [OF assms, of ?r]
    by (cases "srv w ?r")
      (auto simp: logout_def api_def api_result_def respond_def resp_ok_def on_unauthorized_def)
qed

end

section \<open>The gateway keeps the contract\<close>

text \<open>The server's state together with its parameters, so that what is assumed of them is a
  well-formedness condition: SHA-256 does not collide, drawn tokens are not empty, and the
  version endpoint behind the gate answers without touching the sessions.\<close>

type_synonym deployment =
  "(string \<Rightarrow> string) \<times> (nat \<Rightarrow> string) \<times> (gateway \<Rightarrow> fetch_request \<Rightarrow> fetch_reply \<times> gateway) \<times> gateway"

fun serve :: "deployment fserver" where
  "serve (sha, mint, rest, g) r = (let (p, g') = handleAdminAPI sha mint rest g r in (p, sha, mint, rest, g'))"

fun deployed_ok :: "deployment \<Rightarrow> bool" where
  "deployed_ok (sha, mint, rest, g) \<longleftrightarrow> inj sha \<and> (\<forall>n. mint n \<noteq> []) \<and>
     (\<forall>g r. f_url r = ''/admin/api/version'' \<and> f_method r = ''GET'' \<longrightarrow> (\<exists>v. rest g r = (respond 200 v, g)))"

fun accepted :: "deployment \<Rightarrow> string \<Rightarrow> bool" where
  "accepted (sha, mint, rest, g) t = live_token sha g t"

fun admin_password :: "deployment \<Rightarrow> string" where
  "admin_password (sha, mint, rest, g) = password g"

fun attempts_left :: "deployment \<Rightarrow> bool" where
  "attempts_left (sha, mint, rest, g) = fst (allowLoginAttempt (clock g) (store g))"

lemma live_token_cong:
  "sessions (store g) = sessions (store g') \<Longrightarrow> clock g = clock g' \<Longrightarrow> password g = password g' \<Longrightarrow>
   live_token sha g t = live_token sha g' t"
  by (simp add: live_token_def)

lemma login_gate:
  "apiAdminLogin sha mint g (login_request pw rem) =
    (if \<not> isConfigured g
     then (respond 401 [(''error'', JStr ''Setup required''), (''setupRequired'', JStr ''true'')], g)
     else if \<not> login_fits pw rem then (respond 400 [(''error'', JStr ''Invalid JSON'')], g)
     else
       (let (ok, st) = allowLoginAttempt (clock g) (store g); g = g\<lparr>store := st\<rparr> in
        if \<not> ok then (respond 429 [(''error'', JStr ''Too many login attempts, try again in a minute'')], g)
        else if pw \<noteq> password g then (respond 401 [(''error'', JStr ''Unauthorized'')], g)
        else
          (let token = mint (drawn g);
               st = issue sha (clock g) token (password g) rem (resetLoginAttempts (store g));
               ttl = (if rem then rememberTTL else sessionTTL) in
           if token = []
           then (respond 500 [(''error'', JStr ''Failed to create session'')], g\<lparr>store := st, drawn := drawn g + 1\<rparr>)
           else (respond 200 [(''token'', JStr token), (''expiresAt'', JNum (of_int (clock g + ttl)))],
            g\<lparr>store := st, drawn := drawn g + 1\<rparr>))))"
proof (cases "login_fits pw rem")
  case True
  then have "decode_login (f_body (login_request pw rem)) = Some (pw, rem)"
    by (simp add: login_request_def decode_login_def read_json_def login_fits_def str_field_def bool_field_def
        struct_like_def del: json_line.simps)
  then show ?thesis using True by (simp add: apiAdminLogin_def Let_def split: prod.splits)
next
  case False
  then have "decode_login (f_body (login_request pw rem)) = None"
    by (simp add: login_request_def decode_login_def read_json_def login_fits_def del: json_line.simps)
  then show ?thesis using False by (simp add: apiAdminLogin_def)
qed

lemma admin_paths [simp]:
  "starts_with ''/admin/api'' (CHR ''/'' # CHR ''a'' # CHR ''d'' # CHR ''m'' # CHR ''i'' # CHR ''n''
     # CHR ''/'' # CHR ''a'' # CHR ''p'' # CHR ''i'' # p)"
  by (simp add: starts_with_def)

lemma login_url [simp]: "f_url (login_request pw rem) = ''/admin/api/login''"
  "f_method (login_request pw rem) = ''POST''"
  by (simp_all add: login_request_def)

lemma session_header_token: "session_header r = session_token r"
  by (simp add: session_header_def session_token_def)

lemma serve_version:
  assumes "deployed_ok (sha, mint, rest, g)" "f_url r = ''/admin/api/version''" "f_method r = ''GET''"
  shows "\<exists>v. handleAdminAPI sha mint rest g r =
     (if password g = []
      then (respond 401 [(''error'', JStr ''Setup required''), (''setupRequired'', JStr ''true'')], g)
      else (let st = snd (validate sha (clock g) (session_token r) (password g) (store g)) in
        if live_token sha g (session_token r) then (respond 200 v, g\<lparr>store := st\<rparr>)
        else (respond 401 [(''error'', JStr ''Unauthorized'')], g\<lparr>store := st\<rparr>)))"
proof -
  let ?g = "g\<lparr>store := snd (validate sha (clock g) (session_token r) (password g) (store g))\<rparr>"
  obtain v where "rest ?g r = (respond 200 v, ?g)"
    using assms by (metis deployed_ok.simps)
  then show ?thesis
    using assms(2,3) validate_live [of sha g "session_token r"]
    by (auto simp: handleAdminAPI_def admin_path_of Let_def isConfigured_def split: prod.splits)
qed

lemma serve_login:
  "serve (sha, mint, rest, g) (login_request pw rem) =
     (let (p, g') = apiAdminLogin sha mint g (login_request pw rem) in (p, sha, mint, rest, g'))"
  by (simp add: handleAdminAPI_def admin_path_of)

lemma serve_params: "\<exists>g'. snd (serve (sha, mint, rest, g) r) = (sha, mint, rest, g')"
  by (simp split: prod.splits)

interpretation gateway_server: admin_server serve deployed_ok accepted admin_password attempts_left
proof (unfold_locales, goal_cases)
  case (1 w r)
  then show ?case
    by (cases w) (use serve_params in \<open>metis deployed_ok.simps\<close>)
next
  case (2 r w)
  then show ?case by (cases w) (simp add: handleAdminAPI_def admin_path_of isConfigured_def)
next
  case (3 w r)
  obtain sha mint rest g where w: "w = (sha, mint, rest, g)" by (cases w)
  from serve_version [OF 3(1) [unfolded w] 3(2,3)] 3 show ?case
    by (auto simp: w session_header_token Let_def)
next
  case (4 w r t)
  obtain sha mint rest g where w: "w = (sha, mint, rest, g)" by (cases w)
  from serve_version [OF 4(1) [unfolded w] 4(2,3)] show ?case
    by (cases "password g = []"; cases "live_token sha g (session_token r)")
      (auto simp: w Let_def validate_keeps_live)
next
  case (5 w rem)
  obtain sha mint rest g where w: "w = (sha, mint, rest, g)" by (cases w)
  from 5 obtain st where "allowLoginAttempt (clock g) (store g) = (True, st)"
    by (cases "allowLoginAttempt (clock g) (store g)") (simp add: w)
  moreover from 5 have "inj sha" "mint (drawn g) \<noteq> []" "password g \<noteq> []" "login_fits (password g) rem"
    by (simp_all add: w)
  ultimately show ?case
    using issue_live [where sha = sha and t = "mint (drawn g)" and g = g and rem = rem
      and st = "resetLoginAttempts st"]
    by (auto simp: w serve_login login_gate isConfigured_def Let_def respond_def simp del: serve.simps)
next
  case (6 w pw rem)
  then show ?case
    by (cases w) (simp add: serve_login login_gate isConfigured_def del: serve.simps)
next
  case (7 w pw rem)
  obtain sha mint rest g where w: "w = (sha, mint, rest, g)" by (cases w)
  have "sessions (snd (allowLoginAttempt (clock g) (store g))) = sessions (store g)"
    by (rule allowLoginAttempt_sessions)
  with 7 show ?case
    by (auto simp: w serve_login login_gate isConfigured_def Let_def live_token_def respond_def
        simp del: serve.simps split: prod.splits)
next
  case (8 w r)
  obtain sha mint rest g where w: "w = (sha, mint, rest, g)" by (cases w)
  from 8 have "inj sha" by (simp add: w)
  from 8(2,3) show ?case
    using revoke_live [OF \<open>inj sha\<close>, where g = g and t = "session_token r" and st = "store g"]
    by (auto simp: w handleAdminAPI_def admin_path_of apiAdminLogout_def session_header_token)
next
  case (9 w)
  then show ?case by (cases w) (simp add: live_token_def)
qed


section \<open>Properties\<close>

text \<open>C5: signing in with the admin password, while login attempts are left, opens a session that
  lasts across page loads: the console is authed with a token the server accepts, a reload of the tab
  finds it authed again, and a new tab does exactly when "remember me" was chosen. The password is not
  among what is stored. The exception is a password so long that the request exceeds the 64 KB the
  server reads: it may be set in the settings, but signing in with it is answered with 400 and changes
  nothing on either side.\<close>

theorem login_opens_session:
  assumes "deployed_ok w" "attempts_left w" "admin_password w \<noteq> []"
  shows "if login_fits (admin_password w) rem
    then \<exists>t c' w'. login serve (admin_password w) rem c w = (None, c', w') \<and> status c' = Authed \<and>
      browser c' = setToken t rem (browser c) \<and> accepted w' t \<and>
      status (fst (boot serve (reload c') w')) = Authed \<and>
      status (fst (boot serve (new_tab c') w')) = (if rem then Authed else Anonymous)
    else login serve (admin_password w) rem c w = (Some (ApiErr 400 ''Invalid JSON'' False), c, w)"
proof (cases "login_fits (admin_password w) rem")
  case True
  obtain t c' w' where l: "login serve (admin_password w) rem c w = (None, c', w')" "status c' = Authed"
    "t \<noteq> []" "browser c' = setToken t rem (browser c)" "accepted w' t"
    "admin_password w' = admin_password w" "deployed_ok w'"
    using gateway_server.login_succeeds [OF assms True, of c] by auto
  then have "c' = c'\<lparr>browser := setToken t rem (browser c)\<rparr>" by simp
  then have tab: "getToken (browser (new_tab c')) = (if rem then t else [])"
    by (metis getToken_new_tab)
  have "status (reload c') = Loading" "status (new_tab c') = Loading"
    by (simp_all add: reload_def new_tab_def)
  then have "status (fst (boot serve (reload c') w')) = Authed"
    "status (fst (boot serve (new_tab c') w')) = (if rem then Authed else Anonymous)"
    using l assms(3) tab
    by (simp_all add: gateway_server.boot_status gateway_server.empty_token, simp add: reload_def)
  with l True show ?thesis by auto
next
  case False
  then show ?thesis using gateway_server.login_cut_off [OF assms(3)] by simp
qed

lemma short_login_fits:
  "6 * length pw \<le> 60000 \<Longrightarrow> login_fits pw rem"
proof -
  assume "6 * length pw \<le> 60000"
  moreover have "length (concat (map escape_char pw)) \<le> 6 * length pw"
    by (induction pw) (auto simp: escape_char_def)
  ultimately have "length (concat (map escape_char pw)) \<le> 60000" using order_trans by blast
  then have "length (quote pw) \<le> 60002" by (simp add: quote_def)
  moreover have "length (quote ''password'') = 10" "length (quote ''remember'') = 10" by code_simp+
  ultimately show "login_fits pw rem" by (simp add: login_fits_def maxLoginBody_def)
qed

definition sample_gateway :: "string \<Rightarrow> gateway" where
  "sample_gateway pw = \<lparr>password = pw, store = newSessionStore, clock = 1000, drawn = 0\<rparr>"

definition sample_deployment :: "string \<Rightarrow> deployment" where
  "sample_deployment pw = ((\<lambda>s. s), (\<lambda>n. show_nat (n + 7)), (\<lambda>g r. (respond 200 [], g)), sample_gateway pw)"

definition sample_console :: console where
  "sample_console = \<lparr>status = Anonymous, browser = \<lparr>sessionStorage = Map.empty, localStorage = Map.empty\<rparr>\<rparr>"

lemma sample_deployment_ok:
  "deployed_ok (sample_deployment pw)" "attempts_left (sample_deployment pw)"
  "admin_password (sample_deployment pw) = pw"
  by (auto simp: sample_deployment_def sample_gateway_def newSessionStore_def allowLoginAttempt_def
      loginAttemptWindow_def loginAttemptLimit_def inj_on_def Let_def)

theorem login_opens_session_witness:
  "\<exists>c' w'. login serve ''hunter22'' True sample_console (sample_deployment ''hunter22'') = (None, c', w') \<and>
     status (fst (boot serve (new_tab c') w')) = Authed"
  using login_opens_session [of "sample_deployment ''hunter22''" True sample_console]
    short_login_fits [of "''hunter22''" True]
  by (auto simp: sample_deployment_ok)

text \<open>A wrong password opens nothing: login fails, the browser keeps exactly what it had, and the
  server accepts exactly the tokens it accepted before.\<close>

theorem wrong_password_opens_nothing:
  assumes "deployed_ok w" "pw \<noteq> admin_password w"
  shows "\<exists>e c' w'. login serve pw rem c w = (Some e, c', w') \<and> browser c' = browser c \<and>
      (\<forall>t. accepted w' t = accepted w t) \<and> (status c \<noteq> Authed \<longrightarrow> status c' \<noteq> Authed)"
proof -
  obtain e c' w' where "login serve pw rem c w = (Some e, c', w')" "browser c' = browser c"
    "\<forall>t. accepted w' t = accepted w t" "status c' \<in> {status c, Setup, Anonymous}"
    using gateway_server.login_fails [OF assms, of rem c] by blast
  then show ?thesis by auto
qed

theorem wrong_password_opens_nothing_witness:
  "\<exists>e c' w'. login serve ''hunter23'' True sample_console (sample_deployment ''hunter22'') = (Some e, c', w') \<and>
     status c' \<noteq> Authed"
  using wrong_password_opens_nothing [of "sample_deployment ''hunter22''" "''hunter23''" True sample_console]
  by (auto simp: sample_deployment_ok) (auto simp: sample_console_def)

text \<open>C6: signing out ends the session on both sides: the console is anonymous and holds no token, the
  server no longer accepts the one it held and keeps every other session, and opening the console
  again, in this tab or a new one, leads to the login page.\<close>

theorem logout_ends_session:
  assumes "deployed_ok w" "admin_password w \<noteq> []"
  shows "\<exists>c' w'. logout serve c w = (c', w') \<and> status c' = Anonymous \<and> getToken (browser c') = [] \<and>
      (\<forall>t. accepted w' t \<longleftrightarrow> t \<noteq> getToken (browser c) \<and> accepted w t) \<and>
      status (fst (boot serve (reload c') w')) \<noteq> Authed \<and>
      status (fst (boot serve (new_tab c') w')) \<noteq> Authed"
proof -
  obtain c' w' where l: "logout serve c w = (c', w')" "status c' = Anonymous" "getToken (browser c') = []"
    "\<forall>t. accepted w' t \<longleftrightarrow> t \<noteq> getToken (browser c) \<and> accepted w t" "deployed_ok w'"
    using gateway_server.logout_ends [OF assms(1), of c] by blast
  have tab: "getToken (browser (reload c')) = []" "getToken (browser (new_tab c')) = []"
    using l(3) by (auto simp: reload_def new_tab_def token_defs str_or_def split: option.splits if_splits)
  have "status (reload c') = Loading" "status (new_tab c') = Loading"
    by (simp_all add: reload_def new_tab_def)
  then show ?thesis
    using l by (simp add: gateway_server.boot_status tab gateway_server.empty_token)
qed

theorem logout_ends_session_witness:
  "\<exists>c' w'. logout serve sample_console (sample_deployment ''hunter22'') = (c', w') \<and> status c' = Anonymous \<and>
     getToken (browser c') = []"
  using logout_ends_session [of "sample_deployment ''hunter22''" sample_console]
  by (auto simp: sample_deployment_ok)

text \<open>C7: the gate of the admin API: a request for any path other than setup, its status, login and
  logout reaches the endpoints behind the gate only with a live token; without one the answer is a 401
  whatever those endpoints are, and no token becomes live.\<close>

theorem admin_gate:
  assumes "\<not> live_token sha g (session_token r)"
    and "(url_path r, f_method r) \<notin> {(''/admin/api/setup/status'', ''GET''), (''/admin/api/setup'', ''POST''),
           (''/admin/api/login'', ''POST''), (''/admin/api/logout'', ''POST'')}"
    and "starts_with ''/admin/api/'' (url_path r)"
  shows "\<exists>ps g'. (\<forall>rest. handleAdminAPI sha mint rest g r = (respond 401 ps, g')) \<and>
      password g' = password g \<and> (\<forall>t. live_token sha g' t = live_token sha g t)"
proof -
  obtain p where url: "url_path r = ''/admin/api'' @ p" "p = CHR ''/'' # tl p"
    using assms(3) by (auto simp: starts_with_iff)
  let ?g = "g\<lparr>store := snd (validate sha (clock g) (session_token r) (password g) (store g))\<rparr>"
  have "handleAdminAPI sha mint rest g r =
      (if isConfigured g then (respond 401 [(''error'', JStr ''Unauthorized'')], ?g)
       else (respond 401 [(''error'', JStr ''Setup required''), (''setupRequired'', JStr ''true'')], g))" for rest
    using assms(1,2) url(1) validate_live [of sha g "session_token r"]
    by (auto simp: handleAdminAPI_def admin_path_api Let_def split: prod.splits)
  then show ?thesis
    by (cases "isConfigured g") (auto simp: validate_keeps_live)
qed

theorem admin_gate_witness:
  "\<exists>ps g'. handleAdminAPI (\<lambda>s. s) show_nat (\<lambda>g r. (respond 200 [], g)) (sample_gateway ''hunter22'')
     (api_request (browser sample_console) ''/accounts'' get_init) = (respond 401 ps, g')"
proof -
  have "session_token (api_request (browser sample_console) ''/accounts'' get_init) = []"
    using gateway_server.request_token [of get_init "browser sample_console" "''/accounts''"]
    by (simp add: session_header_token [symmetric] get_init_def sample_console_def getToken_def str_or_def)
  then have "\<not> live_token (\<lambda>s. s) (sample_gateway ''hunter22'')
      (session_token (api_request (browser sample_console) ''/accounts'' get_init))"
    by (simp add: live_token_def)
  then show ?thesis
    using admin_gate [of "\<lambda>s. s" "sample_gateway ''hunter22''"
        "api_request (browser sample_console) ''/accounts'' get_init" show_nat]
    by (auto simp: api_request_def url_path_def Let_def get_init_def starts_with_def)
qed

text \<open>A series of requests, each with the time it arrives at, and the answers to those that are logins.
  An answer to a compared password is the refusal of a wrong one, or what follows a right one.\<close>

definition is_login :: "fetch_request \<Rightarrow> bool" where
  "is_login r \<longleftrightarrow> admin_path r = ''/login'' \<and> f_method r = ''POST''"

fun login_answers ::
  "(string \<Rightarrow> string) \<Rightarrow> (nat \<Rightarrow> string) \<Rightarrow> (gateway \<Rightarrow> fetch_request \<Rightarrow> fetch_reply \<times> gateway) \<Rightarrow>
   (int \<times> fetch_request) list \<Rightarrow> gateway \<Rightarrow> fetch_reply list" where
  "login_answers sha mint rest [] g = []"
| "login_answers sha mint rest ((t, r) # rs) g =
     (let (p, g') = handleAdminAPI sha mint rest (g\<lparr>clock := t\<rparr>) r in
      (if is_login r then [p] else []) @ login_answers sha mint rest rs g')"

definition wrong_answer :: "fetch_reply \<Rightarrow> bool" where
  "wrong_answer p \<longleftrightarrow> p = respond 401 [(''error'', JStr ''Unauthorized'')]"

definition right_answer :: "fetch_reply \<Rightarrow> bool" where
  "right_answer p \<longleftrightarrow> (case p of Got res \<Rightarrow> f_status res = 200 \<or> f_status res = 500 | _ \<Rightarrow> False)"

text \<open>The counters of the window, which only a login touches.\<close>

definition window_of :: "gateway \<Rightarrow> int \<times> nat" where
  "window_of g = (attemptStart (store g), attempts (store g))"

lemma window_counters [simp]:
  "attemptStart (issue sha now t pw rem st) = attemptStart st" "attempts (issue sha now t pw rem st) = attempts st"
  "attemptStart (revoke sha t st) = attemptStart st" "attempts (revoke sha t st) = attempts st"
  "attemptStart (snd (validate sha now t pw st)) = attemptStart st"
  "attempts (snd (validate sha now t pw st)) = attempts st"
  by (auto simp: session_defs split: option.splits)

lemma validate_counters:
  "validate sha now t pw st = (b, st') \<Longrightarrow> attemptStart st' = attemptStart st \<and> attempts st' = attempts st"
  using window_counters(5,6) [of sha now t pw st] by simp

lemma other_requests_keep_window:
  assumes "\<And>g r. window_of (snd (rest g r)) = window_of g" "\<not> is_login r"
  shows "window_of (snd (handleAdminAPI sha mint rest g r)) = window_of g"
proof -
  have "window_of (snd (apiCompleteSetup sha mint g r)) = window_of g" "window_of (snd (apiAdminLogout sha g r)) = window_of g"
    by (auto simp: apiCompleteSetup_def completeSetup_def apiAdminLogout_def window_of_def Let_def split: option.splits)
  moreover obtain b st where v: "validate sha (clock g) (session_token r) (password g) (store g) = (b, st)"
    by fastforce
  moreover have "window_of (snd (rest (g\<lparr>store := st\<rparr>) r)) = window_of g"
    using assms(1) validate_counters [OF v] by (simp add: window_of_def)
  moreover have "window_of (g\<lparr>store := st\<rparr>) = window_of g"
    using validate_counters [OF v] by (simp add: window_of_def)
  ultimately show ?thesis
    using assms(2) by (auto simp: handleAdminAPI_def is_login_def Let_def)
qed

lemma answer_kinds [simp]:
  "wrong_answer (respond st ps) \<longleftrightarrow> st = 401 \<and> ps = [(''error'', JStr ''Unauthorized'')]"
  "right_answer (respond st ps) \<longleftrightarrow> st = 200 \<or> st = 500"
  by (auto simp: wrong_answer_def right_answer_def respond_def)

lemma login_window_step:
  assumes "handleAdminAPI sha mint rest g r = (p, g')" "is_login r"
    and "clock g \<le> attemptStart (store g) + loginAttemptWindow"
  shows "attemptStart (store g') = attemptStart (store g) \<and>
    (if wrong_answer p then attempts (store g) < loginAttemptLimit \<and> attempts (store g') = attempts (store g) + 1
     else if right_answer p then attempts (store g) < loginAttemptLimit \<and> attempts (store g') = 0
     else attempts (store g') = attempts (store g))"
proof -
  have r: "apiAdminLogin sha mint g r = (p, g')"
    using assms(1,2) by (simp add: handleAdminAPI_def is_login_def Let_def)
  have allow: "allowLoginAttempt (clock g) (store g) =
      (if loginAttemptLimit \<le> attempts (store g) then (False, store g)
       else (True, (store g)\<lparr>attempts := attempts (store g) + 1\<rparr>))"
    using assms(3) by (simp add: allowLoginAttempt_def Let_def)
  show ?thesis
  proof (cases "isConfigured g \<and> decode_login (f_body r) \<noteq> None \<and> attempts (store g) < loginAttemptLimit")
    case False
    then consider "\<not> isConfigured g" | "isConfigured g" "decode_login (f_body r) = None"
      | pw rem where "isConfigured g" "decode_login (f_body r) = Some (pw, rem)" "loginAttemptLimit \<le> attempts (store g)"
      by fastforce
    then show ?thesis using r allow by cases (auto simp: apiAdminLogin_def Let_def)
  next
    case True
    then obtain pw rem where "decode_login (f_body r) = Some (pw, rem)" by auto
    with True r allow show ?thesis
      by (cases "pw = password g"; cases "mint (drawn g) = []")
        (auto simp: apiAdminLogin_def resetLoginAttempts_def Let_def)
  qed
qed

text \<open>C8: password guessing is throttled: whatever requests arrive at the admin API inside one window of
  a minute, and whatever the endpoints behind the gate do with them, only so many logins get to compare
  a password: those the window has left of its ten, and ten more after every login with the right
  password, which starts the count again. Without a right password that is ten in all.\<close>

theorem login_throttled:
  assumes "\<And>g r. window_of (snd (rest g r)) = window_of g"
    and "list_all (\<lambda>(t, r). t \<le> attemptStart (store g) + loginAttemptWindow) rs"
  shows "let ans = login_answers sha mint rest rs g in
    length (filter wrong_answer ans) + length (filter right_answer ans) \<le>
    (loginAttemptLimit - attempts (store g)) + loginAttemptLimit * length (filter right_answer ans)"
  using assms(2) unfolding Let_def
proof (induction rs arbitrary: g)
  case Nil
  then show ?case by simp
next
  case (Cons tr rs)
  obtain t r where tr: "tr = (t, r)" by (cases tr)
  let ?g = "g\<lparr>clock := t\<rparr>"
  obtain p g' where h: "handleAdminAPI sha mint rest ?g r = (p, g')" by fastforce
  have not_both: "\<not> (wrong_answer p \<and> right_answer p)" by (auto simp: wrong_answer_def right_answer_def respond_def)
  show ?case
  proof (cases "is_login r")
    case False
    have "window_of g' = window_of g"
      using other_requests_keep_window [where rest = rest and sha = sha and mint = mint and g = ?g, OF assms(1) False] h by (simp add: window_of_def)
    then show ?thesis
      using Cons.IH [of g'] Cons.prems h False by (simp add: tr window_of_def)
  next
    case True
    have "clock ?g \<le> attemptStart (store ?g) + loginAttemptWindow" using Cons.prems by (simp add: tr)
    from login_window_step [OF h True this] Cons.IH [of g'] Cons.prems h True not_both show ?thesis
      by (auto simp: tr split: if_splits)
  qed
qed

definition guesses :: "string list \<Rightarrow> (int \<times> fetch_request) list" where
  "guesses pws = map (\<lambda>pw. (1003, login_request pw True)) pws"

definition guessed :: gateway where
  "guessed = sample_gateway ''hunter22'' \<lparr>store := newSessionStore\<lparr>attemptStart := 1000, attempts := 4\<rparr>\<rparr>"

lemma login_routed:
  "handleAdminAPI sha mint rest g (login_request pw rem) = apiAdminLogin sha mint g (login_request pw rem)"
  "is_login (login_request pw rem)"
  by (simp_all add: handleAdminAPI_def is_login_def admin_path_of)

lemma guesses_Cons: "guesses (pw # pws) = (1003, login_request pw True) # guesses pws"
  by (simp add: guesses_def)

lemma wrong_guesses_not_right:
  "password g = pw \<Longrightarrow> pw \<noteq> [] \<Longrightarrow> pw \<notin> set pws \<Longrightarrow>
   filter right_answer (login_answers sha mint rest (guesses pws) g) = []"
proof (induction pws arbitrary: g)
  case Nil
  then show ?case by (simp add: guesses_def)
next
  case (Cons p pws)
  obtain ok st where "allowLoginAttempt 1003 (store g) = (ok, st)" by fastforce
  with Cons.IH [of "g\<lparr>clock := 1003\<rparr>"] Cons.IH [of "g\<lparr>clock := 1003, store := st\<rparr>"] Cons.prems show ?case
    by (auto simp: guesses_def login_routed login_gate isConfigured_def right_answer_def respond_def Let_def)
qed

definition brute_force :: "(int \<times> fetch_request) list" where
  "brute_force = guesses (''hunter22'' # replicate 18 ''letmein'')"

lemma brute_force_times: "list_all (\<lambda>(t, r). t \<le> 1060) brute_force"
  by (auto simp: brute_force_def guesses_def list_all_iff)

lemma brute_force_right:
  "length (filter right_answer (login_answers sha (\<lambda>n. show_nat (n + 7)) rest brute_force guessed)) = 1"
proof -
  define pws where "pws = replicate 18 ''letmein''"
  then have "''hunter22'' \<notin> set pws" by simp
  then show ?thesis
    unfolding brute_force_def pws_def [symmetric] guesses_Cons
    using short_login_fits [of "''hunter22''" True] wrong_guesses_not_right [of _ "''hunter22''" pws]
    by (simp add: guessed_def sample_gateway_def newSessionStore_def login_routed login_gate isConfigured_def
        allowLoginAttempt_def loginAttemptWindow_def loginAttemptLimit_def right_answer_def respond_def Let_def)
qed

text \<open>Six attempts are left; after the right password the count is ten again, so of the eighteen wrong
  guesses that follow no more than fifteen are compared.\<close>

theorem login_throttled_witness:
  "length (filter wrong_answer (login_answers (\<lambda>s. s) (\<lambda>n. show_nat (n + 7)) (\<lambda>g r. (respond 200 [], g))
     brute_force guessed)) \<le> 15"
proof -
  have "attemptStart (store guessed) + loginAttemptWindow = 1060" "loginAttemptLimit = 10" "attempts (store guessed) = 4"
    by (simp_all add: guessed_def loginAttemptWindow_def loginAttemptLimit_def)
  with login_throttled [of "\<lambda>g r. (respond 200 [], g)" guessed brute_force "\<lambda>s. s" "\<lambda>n. show_nat (n + 7)"]
  show ?thesis by (simp add: brute_force_times brute_force_right Let_def)
qed

text \<open>Changing the password ends every session but the caller's new one, which keeps the
  lifetime the old one had.\<close>

theorem password_change_revokes:
  assumes "inj sha" "mint (drawn g) \<noteq> []" "newPassword \<noteq> []"
  shows "\<exists>g'. changePassword sha mint g r newPassword =
      (respond 200 [(''success'', JBool True), (''token'', JStr (mint (drawn g)))], g') \<and>
      password g' = newPassword \<and> (\<forall>t. live_token sha g' t \<longleftrightarrow> t = mint (drawn g)) \<and>
      remembered sha (mint (drawn g)) (store g') = remembered sha (session_token r) (store g)"
proof -
  let ?g = "g\<lparr>password := newPassword, store := revokeAll (store g)\<rparr>"
  let ?rem = "remembered sha (session_token r) (store g)"
  have dead: "\<not> live_token sha (?g\<lparr>store := revokeAll (store g)\<rparr>) t" for t
    by (simp add: live_token_def revokeAll_def)
  show ?thesis
    using issue_live [OF assms(1,2), where g = ?g and rem = ?rem and st = "revokeAll (store g)"] dead assms(2,3)
    by (simp add: changePassword_def Let_def remembered_def issue_def)
qed

theorem password_change_revokes_witness:
  "\<exists>g'. changePassword (\<lambda>s. s) (\<lambda>n. show_nat n) (sample_gateway ''hunter22'')
      (api_request (browser sample_console) ''/settings'' get_init) ''correct horse'' =
      (respond 200 [(''success'', JBool True), (''token'', JStr (show_nat 0))], g') \<and>
      (\<forall>t. live_token (\<lambda>s. s) g' t \<longleftrightarrow> t = show_nat 0)"
  using password_change_revokes [of "\<lambda>s. s" show_nat "sample_gateway ''hunter22''" "''correct horse''"
      "api_request (browser sample_console) ''/settings'' get_init"]
  by (auto simp: inj_on_def sample_gateway_def)

end
