(* ===== verification/Accounts_Shared.thy ===== *)
theory Accounts_Shared
  imports Common
begin

text \<open>
  \<open>dashboard/src/pages/accounts/shared.ts\<close>: the account as the admin API reports it, its derived
  status, the labels and the small text and number functions of the accounts page.

  Optional fields are options; \<open>undefined\<close> and \<open>null\<close> are both \<open>None\<close>, which is how the page treats
  them. Times are whole seconds, as the API sends them.
\<close>

section \<open>The account\<close>

record Account =
  a_id :: string
  a_email :: string
  a_userId :: string
  a_nickname :: string
  a_authMethod :: string
  a_providerKind :: "string option"
  a_pool :: "string option"
  a_probeModel :: "string option"
  a_extraModels :: "string list option"
  a_enabledModels :: "string list option"
  a_allowPaidModels :: "bool option"
  a_provider :: string
  a_region :: string
  a_enabled :: bool
  a_banStatus :: string
  a_banReason :: string
  a_banTime :: int
  a_expiresAt :: int
  a_hasToken :: bool
  a_machineId :: string
  a_weight :: int
  a_maxConcurrency :: "int option"
  a_overageStatus :: string
  a_overageCapability :: string
  a_overageCap :: rat
  a_overageRate :: rat
  a_currentOverages :: rat
  a_overageCheckedAt :: int
  a_proxyURL :: string
  a_relayURL :: string
  a_hasRelaySecret :: bool
  a_subscriptionType :: string
  a_subscriptionTitle :: string
  a_daysRemaining :: int
  a_usageCurrent :: rat
  a_usageLimit :: rat
  a_usagePercent :: rat
  a_nextResetDate :: string
  a_lastRefresh :: int
  a_trialUsageCurrent :: rat
  a_trialUsageLimit :: rat
  a_trialUsagePercent :: rat
  a_trialStatus :: string
  a_trialExpiresAt :: int
  a_requestCount :: rat
  a_errorCount :: rat
  a_totalTokens :: rat
  a_totalCredits :: rat
  a_lastUsed :: int
  a_warmupStatus :: string
  a_warmupError :: string
  a_lastWarmup :: int
  a_baseUrl :: "string option"
  a_compatProtocol :: "string option"
  a_hasCompatKey :: "bool option"

text \<open>An account with every field at its zero value, to build examples from.\<close>

definition blank_account :: Account where
  "blank_account = \<lparr>a_id = [], a_email = [], a_userId = [], a_nickname = [], a_authMethod = [],
     a_providerKind = None, a_pool = None, a_probeModel = None, a_extraModels = None,
     a_enabledModels = None, a_allowPaidModels = None, a_provider = [], a_region = [],
     a_enabled = False, a_banStatus = [], a_banReason = [], a_banTime = 0, a_expiresAt = 0,
     a_hasToken = False, a_machineId = [], a_weight = 0, a_maxConcurrency = None,
     a_overageStatus = [], a_overageCapability = [], a_overageCap = 0, a_overageRate = 0,
     a_currentOverages = 0, a_overageCheckedAt = 0, a_proxyURL = [], a_relayURL = [],
     a_hasRelaySecret = False, a_subscriptionType = [], a_subscriptionTitle = [],
     a_daysRemaining = 0, a_usageCurrent = 0, a_usageLimit = 0, a_usagePercent = 0,
     a_nextResetDate = [], a_lastRefresh = 0, a_trialUsageCurrent = 0, a_trialUsageLimit = 0,
     a_trialUsagePercent = 0, a_trialStatus = [], a_trialExpiresAt = 0, a_requestCount = 0,
     a_errorCount = 0, a_totalTokens = 0, a_totalCredits = 0, a_lastUsed = 0, a_warmupStatus = [],
     a_warmupError = [], a_lastWarmup = 0, a_baseUrl = None, a_compatProtocol = None,
     a_hasCompatKey = None\<rparr>"

definition has :: "string option \<Rightarrow> bool" where
  "has x = (case x of None \<Rightarrow> False | Some s \<Rightarrow> s \<noteq> [])"

definition text_of :: "string option \<Rightarrow> string" where
  "text_of x = (case x of None \<Rightarrow> [] | Some s \<Rightarrow> s)"

lemma has_text_of: "has x \<longleftrightarrow> text_of x \<noteq> []"
  by (simp add: has_def text_of_def split: option.splits)

section \<open>Warmup results\<close>

record WarmupResult =
  w_status :: string
  w_recovered :: bool

definition warmupCounts :: "WarmupResult list option \<Rightarrow> string list" where
  "warmupCounts results = (let r = (case results of None \<Rightarrow> [] | Some r \<Rightarrow> r) in
     map show_nat [length (filter (\<lambda>x. w_status x = ''ok'') r),
       length (filter (\<lambda>x. w_status x = ''error'') r), length (filter w_recovered r)])"

text \<open>The results as they come in a reply.\<close>

definition warmup_results :: "jsv \<Rightarrow> WarmupResult list option" where
  "warmup_results v = (case v of JArr rs \<Rightarrow>
       Some (map (\<lambda>r. \<lparr>w_status = (case get_prop r ''status'' of JStr s \<Rightarrow> s | _ \<Rightarrow> []),
                       w_recovered = truthy (get_prop r ''recovered'')\<rparr>) rs)
     | _ \<Rightarrow> None)"

section \<open>Status\<close>

definition ago :: "ui \<Rightarrow> int \<Rightarrow> string" where
  "ago E unixSeconds = (if unixSeconds = 0 then [] else
    (let s = js_round (of_int unixSeconds - of_int (now_ms E) / 1000); a = \<bar>s\<bar> in
     if a < 60 then rel_format E (lang E) s ''second''
     else if a < 3600 then rel_format E (lang E) (js_round (of_int s / 60)) ''minute''
     else if a < 86400 then rel_format E (lang E) (js_round (of_int s / 3600)) ''hour''
     else rel_format E (lang E) (js_round (of_int s / 86400)) ''day''))"

datatype Status = Active | Disabled | AutoDisabled | Banned | NoToken | Expired | OverQuota

fun status_name :: "Status \<Rightarrow> string" where
  "status_name Active = ''active''"
| "status_name Disabled = ''disabled''"
| "status_name AutoDisabled = ''autoDisabled''"
| "status_name Banned = ''banned''"
| "status_name NoToken = ''noToken''"
| "status_name Expired = ''expired''"
| "status_name OverQuota = ''overQuota''"

definition accountStatus :: "ui \<Rightarrow> Account \<Rightarrow> Status" where
  "accountStatus E a =
    (if \<not> a_enabled a then (if a_banReason a \<noteq> [] then AutoDisabled else Disabled)
     else if a_banStatus a \<noteq> [] \<and> a_banStatus a \<noteq> ''ACTIVE'' then Banned
     else if \<not> a_hasToken a then NoToken
     else if a_expiresAt a \<noteq> 0 \<and> a_expiresAt a * 1000 < now_ms E then Expired
     else if a_usageLimit a > 0 \<and> a_usageCurrent a \<ge> a_usageLimit a then OverQuota
     else Active)"

fun statusTone :: "Status \<Rightarrow> tone" where
  "statusTone Active = ToneSuccess"
| "statusTone Disabled = ToneMuted"
| "statusTone AutoDisabled = ToneWarning"
| "statusTone Banned = ToneDanger"
| "statusTone NoToken = ToneWarning"
| "statusTone Expired = ToneWarning"
| "statusTone OverQuota = ToneWarning"

fun statusKey :: "Status \<Rightarrow> string" where
  "statusKey Active = ''accounts.normal''"
| "statusKey Disabled = ''accounts.disabled''"
| "statusKey AutoDisabled = ''accounts.autoDisabled''"
| "statusKey Banned = ''accounts.banned''"
| "statusKey NoToken = ''accounts.noToken''"
| "statusKey Expired = ''accounts.expired''"
| "statusKey OverQuota = ''accounts.overQuota''"

lemma status_name_inj [simp]: "status_name s = status_name s' \<longleftrightarrow> s = s'"
  by (cases s; cases s'; simp)

lemma accountStatus_enabled:
  "accountStatus E a \<in> {Disabled, AutoDisabled} \<longleftrightarrow> \<not> a_enabled a"
  by (simp add: accountStatus_def)

section \<open>Labels\<close>

definition subKeys :: "(string \<times> string) list" where
  "subKeys = [(''FREE'', ''subscription.free''), (''PRO'', ''subscription.pro''),
     (''PRO_PLUS'', ''subscription.proPlus''), (''POWER'', ''subscription.power'')]"

definition subscriptionLabel :: "ui \<Rightarrow> Account \<Rightarrow> string" where
  "subscriptionLabel E a = (case map_of subKeys (js_upper (a_subscriptionType a)) of
     Some key \<Rightarrow> tx E key
   | None \<Rightarrow> or_str (a_subscriptionTitle a) (or_str (a_subscriptionType a) em_dash))"

definition countdown :: "ui \<Rightarrow> int \<Rightarrow> string" where
  "countdown E unixSeconds =
    (let diff = unixSeconds * 1000 - now_ms E in
     if diff \<le> 0 then []
     else let m = diff div 60000 in
     if m < 60 then show_int m @ ''m''
     else let h = m div 60 in
     if h < 48 then show_int h @ ''h '' @ show_int (m mod 60) @ ''m''
     else show_int (h div 24) @ ''d'')"

definition pct :: "rat option \<Rightarrow> int" where
  "pct v = (let n = (case v of None \<Rightarrow> 0 | Some x \<Rightarrow> x);
                scaled = (if n > 0 \<and> n \<le> 1 then n * 100 else n) in
     max 0 (min 100 (js_round scaled)))"

section \<open>Text forms\<close>

definition isProxyUrl :: "string \<Rightarrow> bool" where
  "isProxyUrl v \<longleftrightarrow> starts_with ''http://'' v \<or> starts_with ''https://'' v \<or>
     starts_with ''socks5://'' v \<or> starts_with ''socks5h://'' v"

definition isHttpUrl :: "string \<Rightarrow> bool" where
  "isHttpUrl v \<longleftrightarrow> starts_with ''http://'' v \<or> starts_with ''https://'' v"

definition is_hex :: "char \<Rightarrow> bool" where
  "is_hex c \<longleftrightarrow> c \<in> set ''0123456789abcdefABCDEF''"

definition hex_run :: "nat \<Rightarrow> string \<Rightarrow> bool" where
  "hex_run n s \<longleftrightarrow> length s = n \<and> list_all is_hex s"

definition isMachineId :: "string \<Rightarrow> bool" where
  "isMachineId v \<longleftrightarrow>
     (case js_split ''-'' v of [a, b, c, d, e] \<Rightarrow>
          hex_run 8 a \<and> hex_run 4 b \<and> hex_run 4 c \<and> hex_run 4 d \<and> hex_run 12 e
        | _ \<Rightarrow> False)
     \<or> hex_run 32 v"

definition downloadJson :: "string \<Rightarrow> string \<Rightarrow> 's act" where
  "downloadJson filename txt = Emit (Download filename txt) Done"

section \<open>Kinds of accounts\<close>

definition hasFreeTier :: "Account \<Rightarrow> bool" where
  "hasFreeTier a \<longleftrightarrow> a_providerKind a = Some ''opencode_zen''"

definition isKiroAccount :: "Account \<Rightarrow> bool" where
  "isKiroAccount a \<longleftrightarrow>
    (if has (a_providerKind a) then a_providerKind a = Some ''kiro''
     else let key = js_lower (a_authMethod a @ '' '' @ a_provider a) in
       \<not> list_ex (\<lambda>p. js_includes p key) [''codebuddy'', ''grok'', ''xai'', ''codex'', ''openai'',
            ''cline'', ''opencode'', ''command'', ''anthropic''])"

section \<open>Properties\<close>

lemma js_round_mono: "x \<le> y \<Longrightarrow> js_round x \<le> js_round y"
  by (simp add: js_round_def floor_mono)

lemma js_round_int [simp]: "js_round (of_int i) = i"
  unfolding js_round_def by linarith

text \<open>The usage bar of an account that reports a fraction within its quota is exact: it is
  between 0 and 100, grows with the usage, is full at the quota, and is off the true percentage by
  at most one half.\<close>

theorem pct_of_fraction:
  assumes "0 \<le> u" "u \<le> v" "v \<le> 1"
  shows "0 \<le> pct (Some u) \<and> pct (Some u) \<le> pct (Some v) \<and> pct (Some v) \<le> 100 \<and>
    pct (Some 1) = 100 \<and> \<bar>of_int (pct (Some u)) - 100 * u\<bar> \<le> 1 / 2"
proof -
  have eq: "pct (Some x) = js_round (100 * x)" if "0 \<le> x" "x \<le> 1" for x
  proof -
    have "js_round 0 \<le> js_round (100 * x)" "js_round (100 * x) \<le> js_round 100"
      using that by (auto intro!: js_round_mono)
    then have "0 \<le> js_round (100 * x)" "js_round (100 * x) \<le> 100"
      using js_round_int [of 0] js_round_int [of 100] by (simp_all only: of_int_0 of_int_numeral)
    then show ?thesis using that
      by (cases "x = 0") (auto simp: pct_def Let_def max_def min_def mult.commute)
  qed
  have "js_round 0 \<le> js_round (100 * u)" "js_round (100 * u) \<le> js_round (100 * v)"
    "js_round (100 * v) \<le> js_round 100"
    using assms by (auto intro!: js_round_mono)
  moreover have "js_round 0 = 0" "js_round 100 = 100"
    using js_round_int [of 0] js_round_int [of 100] by (simp_all only: of_int_0 of_int_numeral)
  moreover have "\<bar>of_int (js_round (100 * u)) - 100 * u\<bar> \<le> 1 / 2"
    unfolding js_round_def by linarith
  ultimately show ?thesis using assms by (simp add: eq)
qed

theorem pct_of_fraction_witness:
  "pct (Some (53 / 60)) \<le> pct (Some (59 / 60)) \<and> \<bar>of_int (pct (Some (53 / 60))) - 100 * (53 / 60 :: rat)\<bar> \<le> 1 / 2"
  using pct_of_fraction [of "53 / 60" "59 / 60"] by simp

text \<open>The bar cannot tell a fraction above the quota from a percentage: an account that has used
  more than its quota, but not one and a half times as much, is shown as using one percent, and one
  that reports a usage of one percent as using all of its quota.\<close>

theorem pct_overage:
  assumes "a_usageLimit a > 0" "a_usagePercent a = a_usageCurrent a / a_usageLimit a"
    and "a_usageCurrent a > a_usageLimit a" "2 * a_usageCurrent a < 3 * a_usageLimit a"
  shows "pct (Some (a_usagePercent a)) = 1 \<and> pct (Some 1) = 100 \<and>
    accountStatus E a \<noteq> Active"
proof -
  have n: "1 < a_usagePercent a" "a_usagePercent a < 3 / 2"
    unfolding assms(2) using assms(1,3,4) by (simp_all add: less_divide_eq divide_less_eq)
  then have "js_round (a_usagePercent a) = 1"
    unfolding js_round_def by linarith
  moreover have "js_round 100 = 100"
    using js_round_int [of 100] by (simp only: of_int_numeral)
  ultimately show ?thesis using n assms
    by (auto simp: pct_def Let_def accountStatus_def)
qed

theorem pct_overage_witness:
  "pct (Some (a_usagePercent (blank_account\<lparr>a_usageLimit := 100, a_usageCurrent := 120,
      a_usagePercent := 6 / 5\<rparr>))) = 1"
  using pct_overage [of "blank_account\<lparr>a_usageLimit := 100, a_usageCurrent := 120, a_usagePercent := 6 / 5\<rparr>"]
  by simp

lemma countdown_empty: "countdown E u = [] \<longleftrightarrow> u * 1000 \<le> now_ms E"
  by (simp add: countdown_def Let_def)

text \<open>The countdown and the status agree: while a countdown is shown the account is not expired;
  an enabled account with a token and no ban whose countdown is empty is expired, or expires at this
  very instant, or has no expiry.\<close>

theorem countdown_agrees:
  assumes "a_enabled a" "a_hasToken a" "a_banStatus a \<in> {[], ''ACTIVE''}"
  shows "(countdown E (a_expiresAt a) \<noteq> [] \<longrightarrow> accountStatus E a \<noteq> Expired) \<and>
    (countdown E (a_expiresAt a) = [] \<longrightarrow>
       accountStatus E a = Expired \<or> a_expiresAt a = 0 \<or> a_expiresAt a * 1000 = now_ms E)"
  using assms by (auto simp: countdown_empty accountStatus_def split: if_splits)

theorem countdown_agrees_witness:
  "accountStatus sample_ui (blank_account\<lparr>a_enabled := True, a_hasToken := True, a_expiresAt := 1600000000\<rparr>) = Expired"
  using countdown_agrees [of "blank_account\<lparr>a_enabled := True, a_hasToken := True, a_expiresAt := 1600000000\<rparr>" sample_ui]
  by (simp add: blank_account_def countdown_def sample_ui_def Let_def)

end
