(* ===== verification/Exclusive.thy ===== *)
theory Exclusive
  imports Common
begin

text \<open>
  The discipline of the \<open>busy\<close> mark. Most pages run one changing request at a time: a handler sets a
  mark, awaits, and clears the mark; buttons are disabled while it is set. The locale
  \<open>exclusive_page\<close> states what a component has to keep for this, and shows once what it gives: in
  every reachable state, under any order of replies, at most one changing request is in flight, none
  when the mark is clear, and the mark is never left set with nothing to clear it.
\<close>

section \<open>Handlers in normal form\<close>

lemma catch_await: "catch (await r k) h =
    Await r (\<lambda>p. case p of Resolved v \<Rightarrow> catch (k v) h | Rejected e \<Rightarrow> h e)"
  by (simp add: await_def) (rule ext, simp split: reply.split)

lemma andThen_await: "andThen (await r k) b =
    Await r (\<lambda>p. case p of Resolved v \<Rightarrow> andThen (k v) b | Rejected e \<Rightarrow> Throw e)"
  by (simp add: await_def) (rule ext, simp split: reply.split)

lemma catch_get_field: "catch (get_field v k c) h =
    (if nullish v then h (JsErr (''Cannot read properties of '' @ js_string v @ '' (reading '' @ [CHR 0x27] @ k
            @ [CHR 0x27] @ '')'')) else catch (c (get_prop v k)) h)"
  by (simp add: get_field_def)

lemma andThen_get_field: "andThen (get_field v k c) b =
    (if nullish v then Throw (JsErr (''Cannot read properties of '' @ js_string v @ '' (reading '' @ [CHR 0x27] @ k
            @ [CHR 0x27] @ '')'')) else andThen (c (get_prop v k)) b)"
  by (simp add: get_field_def)

lemma catch_if: "catch (if b then x else y) h = (if b then catch x h else catch y h)"
  by simp

lemma andThen_if: "andThen (if b then x else y) c = (if b then andThen x c else andThen y c)"
  by simp

lemma catch_case_reply: "catch (case p of Resolved v \<Rightarrow> f v | Rejected e \<Rightarrow> g e) h =
    (case p of Resolved v \<Rightarrow> catch (f v) h | Rejected e \<Rightarrow> catch (g e) h)"
  by (simp split: reply.split)

lemma andThen_case_reply: "andThen (case p of Resolved v \<Rightarrow> f v | Rejected e \<Rightarrow> g e) c =
    (case p of Resolved v \<Rightarrow> andThen (f v) c | Rejected e \<Rightarrow> andThen (g e) c)"
  by (simp split: reply.split)

lemmas act_nf = get_def post_def put_def del_def finally_do_def catch_await andThen_await catch_get_field
  andThen_get_field catch_if andThen_if catch_case_reply andThen_case_reply

section \<open>Handlers that hold the mark\<close>

fun mutating :: "request \<Rightarrow> bool" where
  "mutating (Http v p b) = (v \<noteq> ''GET'')"
| "mutating (WriteClipboard x) = False"
| "mutating (Fetch p t) = False"

fun deletes :: "request \<Rightarrow> bool" where
  "deletes (Http v p b) = (v = ''DELETE'')"
| "deletes (WriteClipboard x) = False"
| "deletes (Fetch p t) = False"

fun pending_mutation :: "'s pending \<Rightarrow> bool" where
  "pending_mutation (Req r k) = mutating r"
| "pending_mutation (ReqAll rs k) = list_ex mutating rs"
| "pending_mutation (Timer n k) = False"

text \<open>Code that neither reads nor moves the mark and sends no changing request.\<close>

primrec detached :: "('s \<Rightarrow> bool) \<Rightarrow> 's act \<Rightarrow> bool" where
  "detached held Done = True"
| "detached held (Throw e) = True"
| "detached held (Upd f k) = ((\<forall>s. held (f s) = held s) \<and> detached held k)"
| "detached held (Look f) = (\<forall>s. detached held (f s))"
| "detached held (Emit x k) = detached held k"
| "detached held (Await r k) = (\<not> mutating r \<and> (\<forall>p. detached held (k p)))"
| "detached held (AwaitAll rs k) = False"
| "detached held (Sleep n k) = detached held k"
| "detached held (Fork c k) = (detached held c \<and> detached held k)"

text \<open>Code that runs with the mark set or clear as its second argument says: it waits only while the
  mark is set, ends only when it is clear, and leaves nothing else behind but detached code. An
  assignment sets the mark, clears it, or leaves it alone.\<close>

primrec guarded :: "('s \<Rightarrow> bool) \<Rightarrow> bool \<Rightarrow> 's act \<Rightarrow> bool" where
  "guarded held b Done = (\<not> b)"
| "guarded held b (Throw e) = (\<not> b)"
| "guarded held b (Upd f k) =
     (if \<forall>s. held (f s) then guarded held True k
      else if \<forall>s. \<not> held (f s) then guarded held False k
      else (\<forall>s. held (f s) = held s) \<and> guarded held b k)"
| "guarded held b (Look f) = (\<forall>s. held s = b \<longrightarrow> guarded held b (f s))"
| "guarded held b (Emit x k) = guarded held b k"
| "guarded held b (Await r k) = (b \<and> (\<forall>p. guarded held True (k p)))"
| "guarded held b (AwaitAll rs k) = (b \<and> (\<forall>ps. length ps = length rs \<longrightarrow> guarded held True (k ps)))"
| "guarded held b (Sleep n k) = (b \<and> guarded held True k)"
| "guarded held b (Fork c k) = (detached held c \<and> guarded held b k)"

lemma guarded_case_reply [simp]:
  "guarded held b (case p of Resolved v \<Rightarrow> f v | Rejected e \<Rightarrow> g e) =
     (case p of Resolved v \<Rightarrow> guarded held b (f v) | Rejected e \<Rightarrow> guarded held b (g e))"
  by (simp split: reply.split)

lemma detached_case_reply [simp]:
  "detached held (case p of Resolved v \<Rightarrow> f v | Rejected e \<Rightarrow> g e) =
     (case p of Resolved v \<Rightarrow> detached held (f v) | Rejected e \<Rightarrow> detached held (g e))"
  by (simp split: reply.split)

lemma all_reply [simp]:
  "(\<forall>p. case p of Resolved v \<Rightarrow> P v | Rejected e \<Rightarrow> Q e) \<longleftrightarrow> (\<forall>v. P v) \<and> (\<forall>e. Q e)"
proof
  assume all: "\<forall>p. case p of Resolved v \<Rightarrow> P v | Rejected e \<Rightarrow> Q e"
  have "P v" for v using spec [OF all, of "Resolved v"] by simp
  moreover have "Q e" for e using spec [OF all, of "Rejected e"] by simp
  ultimately show "(\<forall>v. P v) \<and> (\<forall>e. Q e)" by blast
qed (simp split: reply.split)

lemma guarded_Upd: "guarded held b (Upd f k) \<longleftrightarrow>
    (\<forall>s. held (f s)) \<and> guarded held True k \<or>
    \<not> (\<forall>s. held (f s)) \<and> (\<forall>s. \<not> held (f s)) \<and> guarded held False k \<or>
    \<not> (\<forall>s. held (f s)) \<and> \<not> (\<forall>s. \<not> held (f s)) \<and> (\<forall>s. held (f s) = held s) \<and> guarded held b k"
proof -
  have "(if p then x else if q then y else r \<and> z) \<longleftrightarrow> p \<and> x \<or> \<not> p \<and> q \<and> y \<or> \<not> p \<and> \<not> q \<and> r \<and> z"
    for p q r x y z :: bool by simp
  then show ?thesis unfolding guarded.simps .
qed

lemma guarded_catch: "guarded held b a \<Longrightarrow> (\<And>e. guarded held False (h e)) \<Longrightarrow> guarded held b (catch a h)"
proof (induction a arbitrary: b)
  case (Upd f k)
  note IH = Upd.IH [OF _ Upd.prems(2)]
  from Upd.prems(1) IH [of True] IH [of False] IH [of b] show ?case
    unfolding catch.simps andThen.simps guarded_Upd by blast
qed auto

lemma guarded_andThen: "guarded held b a \<Longrightarrow> guarded held False c \<Longrightarrow> guarded held b (andThen a c)"
proof (induction a arbitrary: b)
  case (Upd f k)
  note IH = Upd.IH [OF _ Upd.prems(2)]
  from Upd.prems(1) IH [of True] IH [of False] IH [of b] show ?case
    unfolding catch.simps andThen.simps guarded_Upd by blast
qed auto

lemma fire_cases:
  assumes "fire h inp = Some a"
  obtains "h = Plain a" "inp = Click"
  | f x where "h = WithText f" "inp = Type x" "a = f x"
  | f b where "h = WithFlag f" "inp = Check b" "a = f b"
  using assms by (cases h; cases inp) auto

text \<open>A condition on everything a handler can start.\<close>

definition handler_all :: "('e \<Rightarrow> bool) \<Rightarrow> 'e handler \<Rightarrow> bool" where
  "handler_all P h \<longleftrightarrow> (\<forall>inp a. fire h inp = Some a \<longrightarrow> P a)"

lemma handler_all_simps [simp]:
  "handler_all P (Plain a) = P a"
  "handler_all P (WithText f) = (\<forall>x. P (f x))"
  "handler_all P (WithFlag g) = (\<forall>x. P (g x))"
proof -
  show "handler_all P (Plain a) = P a"
    by (auto simp: handler_all_def elim: fire_cases) (metis fire.simps(1))
  show "handler_all P (WithText f) = (\<forall>x. P (f x))"
    by (auto simp: handler_all_def elim: fire_cases) (metis fire.simps(2))
  show "handler_all P (WithFlag g) = (\<forall>x. P (g x))"
    by (auto simp: handler_all_def elim: fire_cases) (metis fire.simps(3))
qed

lemma list_all_if [simp]: "list_all P (if b then xs else ys) = (if b then list_all P xs else list_all P ys)"
  by simp

lemma list_all_map [simp]: "list_all P (map f xs) = (\<forall>x\<in>set xs. P (f x))"
  by (simp add: list_all_iff)

lemma detached_copy:
  "(\<And>b s. held (sd b s) = held s) \<Longrightarrow> detached held (copy_value E sd v)"
  by (simp add: copy_value_def act_nf)

section \<open>The mark and the calls in flight\<close>

fun carries :: "('s \<Rightarrow> bool) \<Rightarrow> bool \<Rightarrow> 's pending \<Rightarrow> bool" where
  "carries held True (Req r k) = (\<forall>p. guarded held True (k p))"
| "carries held True (ReqAll rs k) = (\<forall>ps. length ps = length rs \<longrightarrow> guarded held True (k ps))"
| "carries held True (Timer n k) = guarded held True k"
| "carries held False (Req r k) = (\<not> mutating r \<and> (\<forall>p. detached held (k p)))"
| "carries held False (ReqAll rs k) = False"
| "carries held False (Timer n k) = detached held k"

definition one_holder :: "('s \<Rightarrow> bool) \<Rightarrow> 's \<Rightarrow> 's pending list \<Rightarrow> bool" where
  "one_holder held s ps \<longleftrightarrow>
     (\<exists>ts. list_all2 (carries held) ts ps \<and> count_list ts True = (if held s then 1 else 0))"

lemma sync_detached:
  "detached held a \<Longrightarrow> sync a s = (s', l, qs) \<Longrightarrow>
     held s' = held s \<and> list_all2 (carries held) (replicate (length qs) False) qs"
proof (induction a arbitrary: s s' l qs)
  case (Fork c k)
  obtain s1 l1 q1 where c: "sync c s = (s1, l1, q1)" by (cases "sync c s")
  obtain s2 l2 q2 where k: "sync k s1 = (s2, l2, q2)" by (cases "sync k s1")
  from Fork.prems(2) c k have "s' = s2" "qs = q1 @ q2" by auto
  with Fork.IH(1) [OF _ c] Fork.IH(2) [OF _ k] Fork.prems(1) show ?case
    by (simp add: replicate_add list_all2_appendI)
qed (fastforce split: prod.splits)+

lemma sync_guarded:
  "guarded held b a \<Longrightarrow> held s = b \<Longrightarrow> sync a s = (s', l, qs) \<Longrightarrow> one_holder held s' qs"
proof (induction a arbitrary: b s s' l qs)
  case (Fork c k)
  obtain s1 l1 q1 where c: "sync c s = (s1, l1, q1)" by (cases "sync c s")
  obtain s2 l2 q2 where k: "sync k s1 = (s2, l2, q2)" by (cases "sync k s1")
  from Fork.prems(3) c k have q: "s' = s2" "qs = q1 @ q2" by auto
  have c': "held s1 = held s" "list_all2 (carries held) (replicate (length q1) False) q1"
    using sync_detached [OF _ c] Fork.prems(1) by auto
  have "one_holder held s2 q2" using Fork.IH(2) [of b, OF _ _ k] Fork.prems(1,2) c'(1) by simp
  then obtain ts where
    ts: "list_all2 (carries held) ts q2" "count_list ts True = (if held s2 then 1 else 0)"
    by (auto simp: one_holder_def)
  have "count_list (replicate (length q1) False @ ts) True = (if held s' then 1 else 0)"
    using ts(2) q(1) by (simp add: count_list_append count_list_0_iff)
  with c'(2) ts(1) q(2) show ?case
    unfolding one_holder_def by (blast intro: list_all2_appendI)
next
  case (Upd f k)
  have run: "sync k (f s) = (s', l, qs)" using Upd.prems(3) by simp
  have "guarded held (held (f s)) k"
  proof (cases "\<forall>s. held (f s)")
    case True
    with Upd.prems(1) show ?thesis by simp
  next
    case False
    with Upd.prems(1,2) show ?thesis by (cases "\<forall>s. \<not> held (f s)") auto
  qed
  with run show ?case by (auto intro: Upd.IH)
next
  case (Look f)
  have "sync (f s) s = (s', l, qs)" using Look.prems(3) by simp
  with Look.prems(1,2) show ?case by (auto intro: Look.IH)
next
  case (Emit x k)
  then show ?case by (auto split: prod.splits)
next
  case (Await r k)
  then show ?case by (auto simp: one_holder_def intro!: exI [of _ "[True]"])
next
  case (AwaitAll rs k)
  then show ?case by (auto simp: one_holder_def intro!: exI [of _ "[True]"])
next
  case (Sleep n k)
  then show ?case by (auto simp: one_holder_def intro!: exI [of _ "[True]"])
qed (auto simp: one_holder_def)

lemma one_holder_append:
  "list_all2 (carries held) (replicate (length qs) False) qs \<Longrightarrow> one_holder held s ps \<Longrightarrow>
     one_holder held s (ps @ qs)"
  by (fastforce simp: one_holder_def count_list_0_iff intro: list_all2_appendI
      intro!: exI [of _ "_ @ replicate (length qs) False"])

lemma one_holder_free:
  "one_holder held s ps \<Longrightarrow> \<not> held s \<Longrightarrow> list_all2 (carries held) (replicate (length ps) False) ps"
proof -
  assume "one_holder held s ps" "\<not> held s"
  then obtain ts where ts: "list_all2 (carries held) ts ps" "True \<notin> set ts"
    by (auto simp: one_holder_def count_list_0_iff)
  then have "ts = replicate (length ps) False"
    by (metis (full_types) list_all2_lengthD replicate_eqI)
  with ts show ?thesis by simp
qed

lemma one_holder_prepend:
  "list_all2 (carries held) (replicate (length ps) False) ps \<Longrightarrow> one_holder held s qs \<Longrightarrow>
     one_holder held s (ps @ qs)"
  by (fastforce simp: one_holder_def count_list_0_iff intro: list_all2_appendI
      intro!: exI [of _ "replicate (length ps) False @ _"])

lemma count_drop_nth:
  "i < length ts \<Longrightarrow> count_list (drop_nth i ts) x + (if ts ! i = x then 1 else 0) = count_list ts x"
proof -
  assume i: "i < length ts"
  then have "ts = take i ts @ ts ! i # drop (Suc i) ts" by (simp add: id_take_nth_drop)
  then have "count_list ts x = count_list (take i ts @ ts ! i # drop (Suc i) ts) x" by simp
  then show ?thesis by (simp add: drop_nth_def)
qed

lemma list_all2_drop_nth:
  "list_all2 P xs ys \<Longrightarrow> list_all2 P (drop_nth i xs) (drop_nth i ys)"
  by (simp add: drop_nth_def list_all2_appendI)

lemma one_holder_wake:
  assumes inv: "one_holder held s ps" and i: "i < length ps"
    and w: "woken (ps ! i) rs = Some a" and run: "sync a s = (s', l, qs)"
  shows "one_holder held s' (drop_nth i ps @ qs)"
proof -
  from inv obtain ts where ts: "list_all2 (carries held) ts ps"
    "count_list ts True = (if held s then 1 else 0)" by (auto simp: one_holder_def)
  have len: "length ts = length ps" using ts(1) by (rule list_all2_lengthD)
  have here: "carries held (ts ! i) (ps ! i)" using ts(1) i by (auto dest: list_all2_nthD2)
  have rest: "list_all2 (carries held) (drop_nth i ts) (drop_nth i ps)"
    using ts(1) by (rule list_all2_drop_nth)
  have count: "count_list (drop_nth i ts) True + (if ts ! i then 1 else 0) = (if held s then 1 else 0)"
    using count_drop_nth [of i ts True] i len ts(2) by simp
  show ?thesis
  proof (cases "ts ! i")
    case True
    with count have held: "held s" and free: "count_list (drop_nth i ts) True = 0" by (auto split: if_splits)
    have "guarded held True a"
      using here True w by (cases "ps ! i"; cases rs) (auto split: if_splits list.splits elim: woken.elims)
    with held run have "one_holder held s' qs" by (auto intro: sync_guarded)
    moreover have "list_all2 (carries held) (replicate (length (drop_nth i ps)) False) (drop_nth i ps)"
      using rest free by (metis (full_types) count_list_0_iff list_all2_lengthD replicate_eqI)
    ultimately show ?thesis by (blast intro: one_holder_prepend)
  next
    case False
    with here w have "detached held a"
      by (cases "ps ! i"; cases rs) (auto split: if_splits elim: woken.elims)
    with run have "held s' = held s" "list_all2 (carries held) (replicate (length qs) False) qs"
      by (auto dest: sync_detached)
    moreover have "one_holder held s (drop_nth i ps)"
      using rest count False by (auto simp: one_holder_def)
    ultimately show ?thesis by (metis one_holder_append one_holder_def)
  qed
qed

text \<open>Code under which a condition on the state (what the data the page shows looks like) stays true.\<close>

primrec steady :: "('s \<Rightarrow> bool) \<Rightarrow> 's act \<Rightarrow> bool" where
  "steady good Done = True"
| "steady good (Throw e) = True"
| "steady good (Upd f k) = ((\<forall>s. good s \<longrightarrow> good (f s)) \<and> steady good k)"
| "steady good (Look f) = (\<forall>s. steady good (f s))"
| "steady good (Emit x k) = steady good k"
| "steady good (Await r k) = (\<forall>p. steady good (k p))"
| "steady good (AwaitAll rs k) = (\<forall>ps. steady good (k ps))"
| "steady good (Sleep n k) = steady good k"
| "steady good (Fork c k) = (steady good c \<and> steady good k)"

lemma steady_case_reply [simp]:
  "steady good (case p of Resolved v \<Rightarrow> f v | Rejected e \<Rightarrow> g e) =
     (case p of Resolved v \<Rightarrow> steady good (f v) | Rejected e \<Rightarrow> steady good (g e))"
  by (simp split: reply.split)

lemma steady_catch: "steady good a \<Longrightarrow> (\<And>e. steady good (h e)) \<Longrightarrow> steady good (catch a h)"
  by (induction a) auto

lemma steady_True [simp]: "steady (\<lambda>_. True) a"
  by (induction a) auto

fun steady_pending :: "('s \<Rightarrow> bool) \<Rightarrow> 's pending \<Rightarrow> bool" where
  "steady_pending good (Req r k) = (\<forall>p. steady good (k p))"
| "steady_pending good (ReqAll rs k) = (\<forall>ps. steady good (k ps))"
| "steady_pending good (Timer n k) = steady good k"

lemma sync_steady:
  "steady good a \<Longrightarrow> good s \<Longrightarrow> sync a s = (s', l, qs) \<Longrightarrow> good s' \<and> list_all (steady_pending good) qs"
proof (induction a arbitrary: s s' l qs)
  case (Fork c k)
  obtain s1 l1 q1 where c: "sync c s = (s1, l1, q1)" by (cases "sync c s")
  obtain s2 l2 q2 where k: "sync k s1 = (s2, l2, q2)" by (cases "sync k s1")
  from Fork.prems(3) c k have "s' = s2" "qs = q1 @ q2" by auto
  with Fork.IH(1) [OF _ _ c] Fork.IH(2) [OF _ _ k] Fork.prems(1,2) show ?case by simp
qed (fastforce split: prod.splits)+

lemma woken_steady: "steady_pending good p \<Longrightarrow> woken p rs = Some a \<Longrightarrow> steady good a"
  by (cases p; cases rs) (auto split: if_splits elim: woken.elims)

text \<open>What a page has to show of each handler it offers in a state where the mark is as \<open>b\<close> says.\<close>

definition act_ok :: "('s \<Rightarrow> bool) \<Rightarrow> ('s \<Rightarrow> bool) \<Rightarrow> bool \<Rightarrow> 's act \<Rightarrow> bool" where
  "act_ok held good b a \<longleftrightarrow> (detached held a \<or> \<not> b \<and> guarded held False a) \<and> steady good a"

definition handler_ok :: "('s \<Rightarrow> bool) \<Rightarrow> ('s \<Rightarrow> bool) \<Rightarrow> bool \<Rightarrow> 's act handler \<Rightarrow> bool" where
  "handler_ok held good b = handler_all (act_ok held good b)"

lemma handler_ok_simps [simp]:
  "handler_ok held good b (Plain a) = act_ok held good b a"
  "handler_ok held good b (WithText f) = (\<forall>x. act_ok held good b (f x))"
  "handler_ok held good b (WithFlag g) = (\<forall>x. act_ok held good b (g x))"
  by (simp_all add: handler_ok_def)

lemma act_ok_detached: "detached held a \<Longrightarrow> steady good a \<Longrightarrow> act_ok held good b a"
  by (simp add: act_ok_def)

lemma act_ok_guarded: "guarded held False a \<Longrightarrow> steady good a \<Longrightarrow> act_ok held good False a"
  by (simp add: act_ok_def)

locale exclusive_page =
  fixes V :: "'s \<Rightarrow> 's act view"
    and env :: "'s \<Rightarrow> 's \<Rightarrow> bool"
    and s0 :: 's
    and held :: "'s \<Rightarrow> bool"
    and good :: "'s \<Rightarrow> bool"
  assumes free_start: "\<not> held s0"
    and good_start: "good s0"
    and handlers_ok: "good s \<Longrightarrow> list_all (handler_ok held good (held s)) (live (V s))"
    and world_kept: "env s s' \<Longrightarrow> held s' = held s"
    and world_good: "env s s' \<Longrightarrow> good s \<Longrightarrow> good s'"

sublocale exclusive_page \<subseteq> page_invariant V env s0
  "\<lambda>s ps. good s \<and> list_all (steady_pending good) ps \<and> one_holder held s ps"
proof
  show "good s0 \<and> list_all (steady_pending good) [] \<and> one_holder held s0 []"
    by (simp add: one_holder_def free_start good_start)
next
  fix s ps h inp a s' l qs
  assume inv: "good s \<and> list_all (steady_pending good) ps \<and> one_holder held s ps"
    and h: "h \<in> set (live (V s))" "fire h inp = Some a" and run: "sync a s = (s', l, qs)"
  from inv have "good s" ..
  from handlers_ok [OF this] h have ok: "detached held a \<or> \<not> held s \<and> guarded held False a" "steady good a"
    by (auto simp: list_all_iff handler_ok_def handler_all_def act_ok_def)
  from ok(1) have "one_holder held s' (ps @ qs)"
  proof
    assume "detached held a"
    from sync_detached [OF this run] inv show ?thesis by (metis one_holder_append one_holder_def)
  next
    assume "\<not> held s \<and> guarded held False a"
    with run inv show ?thesis
      by (blast intro: one_holder_prepend one_holder_free sync_guarded)
  qed
  with inv sync_steady [OF ok(2) \<open>good s\<close> run]
  show "good s' \<and> list_all (steady_pending good) (ps @ qs) \<and> one_holder held s' (ps @ qs)" by simp
next
  fix s ps i rs a s' l qs
  assume inv: "good s \<and> list_all (steady_pending good) ps \<and> one_holder held s ps" and i: "i < length ps"
    and w: "woken (ps ! i) rs = Some a" and run: "sync a s = (s', l, qs)"
  have "one_holder held s' (drop_nth i ps @ qs)"
    using inv i w run by (blast intro: one_holder_wake)
  moreover have st: "steady good a" using inv i w by (auto simp: list_all_length intro: woken_steady)
  moreover have "list_all (steady_pending good) (drop_nth i ps)"
    using inv set_drop_nth [of i ps] by (auto simp: list_all_iff)
  ultimately show "good s' \<and> list_all (steady_pending good) (drop_nth i ps @ qs) \<and>
      one_holder held s' (drop_nth i ps @ qs)"
    using sync_steady [OF st _ run] inv by simp
next
  fix s ps s'
  assume "good s \<and> list_all (steady_pending good) ps \<and> one_holder held s ps" "env s s'"
  then show "good s' \<and> list_all (steady_pending good) ps \<and> one_holder held s' ps"
    by (auto simp: one_holder_def world_kept world_good)
qed

lemma carries_False: "carries held False p \<Longrightarrow> \<not> pending_mutation p"
  by (cases p) auto

lemma holders_bound:
  "list_all2 (carries held) ts ps \<Longrightarrow> length (filter pending_mutation ps) \<le> count_list ts True"
  by (induction ts ps rule: list_all2_induct) (auto dest: carries_False split: if_splits)

lemma holder_exists:
  "list_all2 (carries held) ts ps \<Longrightarrow> True \<in> set ts \<Longrightarrow> \<exists>p \<in> set ps. carries held True p"
  by (induction ts ps rule: list_all2_induct) auto

context exclusive_page begin

lemma at_most_one:
  assumes "mreach V env s0 m"
  shows "length (filter pending_mutation (inflight m)) \<le> (if held (cst m) then 1 else 0)"
  using reach_inv [OF assms] by (auto simp: one_holder_def dest!: holders_bound)

lemma never_stuck:
  assumes "mreach V env s0 m" "held (cst m)"
  shows "\<exists>p \<in> set (inflight m). carries held True p"
proof -
  from reach_inv [OF assms(1)] assms(2) obtain ts where
    ts: "list_all2 (carries held) ts (inflight m)" "count_list ts True = 1"
    by (auto simp: one_holder_def)
  then have "True \<in> set ts" by (metis count_notin zero_neq_one)
  with ts(1) show ?thesis by (rule holder_exists)
qed

end

end
