(* ===== verification/Export_Dialog.thy ===== *)
theory Export_Dialog
  imports Accounts_Shared Json Exclusive
begin

text \<open>
  \<open>dashboard/src/pages/accounts/export-dialog.tsx\<close>: choosing accounts and showing the export document
  as text. The state holds the properties the parent passes and the component's own state; a change
  of properties is followed by the adjustment the component makes while it renders.
\<close>

record export_st =
  e_open :: bool
  e_accounts :: "Account list"
  e_preselected :: "string list"
  e_ids :: "string list"
  e_json :: string
  e_busy :: bool
  e_wasOpen :: bool
  e_copied :: bool

text \<open>A set is a list in insertion order without repetitions.\<close>

definition new_Set :: "string list \<Rightarrow> string list" where
  "new_Set xs = rev (remdups (rev xs))"

definition set_add :: "string \<Rightarrow> string list \<Rightarrow> string list" where
  "set_add x xs = (if x \<in> set xs then xs else xs @ [x])"

definition set_delete :: "string \<Rightarrow> string list \<Rightarrow> string list" where
  "set_delete x xs = filter (\<lambda>y. y \<noteq> x) xs"

definition export_mount :: "bool \<Rightarrow> Account list \<Rightarrow> string list \<Rightarrow> export_st" where
  "export_mount opn accs pre = \<lparr>e_open = opn, e_accounts = accs, e_preselected = pre, e_ids = [],
     e_json = [], e_busy = False, e_wasOpen = opn, e_copied = False\<rparr>"

definition export_render :: "export_st \<Rightarrow> export_st" where
  "export_render s = (if e_open s \<noteq> e_wasOpen s then
     (let s = s\<lparr>e_wasOpen := e_open s\<rparr> in
      if e_open s then s\<lparr>e_ids := new_Set (if e_preselected s \<noteq> [] then e_preselected s
                                          else map a_id (e_accounts s)), e_json := []\<rparr>
      else s)
     else s)"

definition export_toggle :: "string \<Rightarrow> bool \<Rightarrow> export_st act" where
  "export_toggle i b = Upd (\<lambda>s. s\<lparr>e_ids := (if b then set_add i (e_ids s) else set_delete i (e_ids s))\<rparr>) Done"

definition exportNow :: "ui \<Rightarrow> export_st \<Rightarrow> export_st act" where
  "exportNow E s =
    (if e_ids s = [] then Emit (ToastErr (tx E ''export.noSelection'')) Done
     else Upd (\<lambda>s. s\<lparr>e_busy := True\<rparr>)
       (finally_do
         (catch (post ''/export'' (JsonBody (obj [(''ids'', jstrs (e_ids s))])) (\<lambda>doc.
             Upd (\<lambda>s. s\<lparr>e_json := JSON_stringify doc\<rparr>) Done))
           (\<lambda>e. Emit (ToastErr (errorMessage e)) Done))
         (Upd (\<lambda>s. s\<lparr>e_busy := False\<rparr>) Done)))"

definition export_filename :: "ui \<Rightarrow> string" where
  "export_filename E = ''hekato-accounts-'' @ iso_date E @ ''.json''"

definition export_row :: "export_st \<Rightarrow> Account \<Rightarrow> export_st act view" where
  "export_row s a = El ''label'' [] [
     El ''Checkbox'' [aB ''checked'' (a_id a \<in> set (e_ids s)), onB ''onCheckedChange'' (export_toggle (a_id a))] [],
     El ''span'' [] [Txt (or_str (a_nickname a) (a_email a))],
     El ''span'' [] [Txt (a_provider a)]]"

definition export_body :: "ui \<Rightarrow> export_st \<Rightarrow> export_st act view" where
  "export_body E s =
    (if e_json s \<noteq> [] then El ''ScrollArea'' [] [El ''pre'' [] [Txt (e_json s)]]
     else El ''div'' [] [
       El ''div'' [] [
         El ''span'' [] [Txt (tr E ''export.selected'' [show_nat (length (e_ids s))])],
         El ''div'' [] [
           El ''Button'' [aS ''variant'' ''ghost'',
               on ''onClick'' (Upd (\<lambda>x. x\<lparr>e_ids := new_Set (map a_id (e_accounts s))\<rparr>) Done)]
             [Txt (tx E ''export.selectAll'')],
           El ''Button'' [aS ''variant'' ''ghost'', on ''onClick'' (Upd (\<lambda>x. x\<lparr>e_ids := []\<rparr>) Done)]
             [Txt (tx E ''export.deselectAll'')]]],
       El ''ScrollArea'' [] [El ''div'' [] (map (export_row s) (e_accounts s))]])"

definition export_footer :: "ui \<Rightarrow> export_st \<Rightarrow> export_st act view" where
  "export_footer E s =
    (if e_json s \<noteq> [] then frag [
       El ''Button'' [aS ''variant'' ''outline'', on ''onClick'' (Upd (\<lambda>x. x\<lparr>e_json := []\<rparr>) Done)]
         [Txt (tx E ''common.back'')],
       CopyButton E (e_copied s) (\<lambda>b x. x\<lparr>e_copied := b\<rparr>) (e_json s) (tx E ''export.copyJson''),
       El ''Button'' [on ''onClick'' (downloadJson (export_filename E) (e_json s))]
         [ic ''LuDownload'', Txt (tx E ''export.downloadJson'')]]
     else frag [
       El ''Button'' [aS ''variant'' ''outline'', on ''onClick'' (Emit (Parent ''onOpenChange'' (JBool False)) Done)]
         [Txt (tx E ''common.cancel'')],
       El ''Button'' [on ''onClick'' (exportNow E s), aB ''disabled'' (e_busy s \<or> e_ids s = [])]
         [shown (e_busy s) spinner, Txt (tx E ''export.showJson'')]])"

definition ExportDialog :: "ui \<Rightarrow> export_st \<Rightarrow> export_st act view" where
  "ExportDialog E s =
     El ''Dialog'' [aB ''open'' (e_open s), onB ''onOpenChange'' (\<lambda>o1. Emit (Parent ''onOpenChange'' (JBool o1)) Done)] [
       El ''DialogContent'' [] [
         El ''DialogHeader'' [] [
           El ''DialogTitle'' [] [Txt (tx E ''export.title'')],
           El ''DialogDescription'' [] [Txt (tx E ''accounts.exportHint'')]],
         export_body E s,
         El ''DialogFooter'' [] [export_footer E s]]]"

text \<open>The parent passes new properties.\<close>

definition export_env :: "export_st \<Rightarrow> export_st \<Rightarrow> bool" where
  "export_env s s' \<longleftrightarrow> (\<exists>opn accs pre.
     s' = export_render (s\<lparr>e_open := opn, e_accounts := accs, e_preselected := pre\<rparr>))"

section \<open>Lemmas\<close>

lemma set_new_Set [simp]: "set (new_Set xs) = set xs" "distinct (new_Set xs)"
  by (auto simp: new_Set_def)

lemma set_set_add [simp]: "set (set_add x xs) = insert x (set xs)"
  by (auto simp: set_add_def)

lemma set_set_delete [simp]: "set (set_delete x xs) = set xs - {x}"
  by (auto simp: set_delete_def)

lemma live_ExportDialog [view_live]:
  "live (ExportDialog E s) = (if \<not> e_open s then [] else
     WithFlag (\<lambda>o1. Emit (Parent ''onOpenChange'' (JBool o1)) Done) #
     (if e_json s \<noteq> [] then
        [Plain (Upd (\<lambda>x. x\<lparr>e_json := []\<rparr>) Done),
         Plain (copy_value E (\<lambda>b x. x\<lparr>e_copied := b\<rparr>) (e_json s)),
         Plain (downloadJson (export_filename E) (e_json s))]
      else
        [Plain (Upd (\<lambda>x. x\<lparr>e_ids := new_Set (map a_id (e_accounts s))\<rparr>) Done),
         Plain (Upd (\<lambda>x. x\<lparr>e_ids := []\<rparr>) Done)] @
        map (\<lambda>a. WithFlag (export_toggle (a_id a))) (e_accounts s) @
        Plain (Emit (Parent ''onOpenChange'' (JBool False)) Done) #
        (if e_busy s \<or> e_ids s = [] then [] else [Plain (exportNow E s)])))"
proof -
  have "concat (map (live \<circ> export_row s) as) = map (\<lambda>a. WithFlag (export_toggle (a_id a))) as" for as
    by (induction as) (auto simp: export_row_def)
  then show ?thesis
    by (simp add: ExportDialog_def export_body_def export_footer_def view_live)
qed

lemma export_mark [simp]: "(\<forall>s. e_busy s) = False" "(\<forall>s. \<not> e_busy s) = False"
  by (auto intro: exI [of _ "undefined\<lparr>e_busy := False\<rparr>"] exI [of _ "undefined\<lparr>e_busy := True\<rparr>"])

lemma guarded_exportNow: "guarded e_busy False (exportNow E s)"
  by (simp add: exportNow_def act_nf)

lemma export_render_simps [simp]:
  "e_busy (export_render s) = e_busy s" "e_open (export_render s) = e_open s"
  by (simp_all add: export_render_def Let_def)

interpretation export_dialog: exclusive_page "ExportDialog E" export_env "export_mount False accs pre" e_busy "\<lambda>_. True"
proof
  show "\<not> e_busy (export_mount False accs pre)" by (simp add: export_mount_def)
next
  fix s
  show "list_all (handler_ok e_busy (\<lambda>_. True) (e_busy s)) (live (ExportDialog E s))"
    by (simp add: view_live act_ok_def downloadJson_def export_toggle_def detached_copy guarded_exportNow)
next
  fix s s' assume "export_env s s'"
  then show "e_busy s' = e_busy s" by (auto simp: export_env_def)
qed simp_all

section \<open>Properties\<close>

text \<open>C22: the export dialog runs one export at a time: in every state it can reach, under any order of
  clicks, replies and property changes, at most one export request is in flight, and none while the
  button is enabled again.\<close>

theorem export_one_at_a_time:
  assumes "mreach (ExportDialog E) export_env (export_mount False accs pre) m"
  shows "length (filter pending_mutation (inflight m)) \<le> (if e_busy (cst m) then 1 else 0)"
  using assms by (rule export_dialog.at_most_one)

text \<open>The parent opens the dialog for one account, the button is clicked, and the selection is changed
  while the request is under way.\<close>

theorem export_one_at_a_time_witness:
  "\<exists>m. mreach (ExportDialog sample_ui) export_env (export_mount False [] []) m \<and> e_busy (cst m) \<and>
     e_ids (cst m) = [] \<and> length (filter pending_mutation (inflight m)) = 1"
proof -
  let ?V = "ExportDialog sample_ui"
  let ?s0 = "export_mount False [] []"
  let ?s1 = "export_render (?s0\<lparr>e_open := True, e_accounts := [], e_preselected := [''acc-1'']\<rparr>)"
  let ?m0 = "\<lparr>cst = ?s0, inflight = [], trace = []\<rparr>"
  let ?m1 = "\<lparr>cst = ?s1, inflight = [], trace = []\<rparr>"
  let ?m2 = "resume ?m1 (exportNow sample_ui ?s1)"
  let ?clear = "Upd (\<lambda>x. x\<lparr>e_ids := []\<rparr>) Done"
  let ?m3 = "resume ?m2 ?clear"
  have s1: "e_open ?s1" "e_json ?s1 = []" "e_ids ?s1 = [''acc-1'']" "\<not> e_busy ?s1"
    by (simp_all add: export_mount_def export_render_def new_Set_def Let_def)
  have "export_env ?s0 ?s1" unfolding export_env_def by blast
  then have m1: "mreach ?V export_env ?s0 ?m1"
    using mreach.step [OF mreach.start mstep.world, of export_env ?s0 ?s1 ?V] by simp
  have "Plain (exportNow sample_ui ?s1) \<in> set (live (?V ?s1))" using s1 by (simp add: view_live)
  then have m2: "mreach ?V export_env ?s0 ?m2"
    using mreach.step [OF m1 mstep.event [where inp = Click]] by simp
  obtain k where k: "?m2 = \<lparr>cst = ?s1\<lparr>e_busy := True\<rparr>,
      inflight = [Req (Http ''POST'' ''/export'' (JsonBody (obj [(''ids'', jstrs [''acc-1''])]))) k], trace = []\<rparr>"
    using s1(3) by (simp add: resume_def exportNow_def act_nf)
  have "Plain ?clear \<in> set (live (?V (cst ?m2)))" using s1 by (simp add: k view_live)
  then have m3: "mreach ?V export_env ?s0 ?m3"
    using mreach.step [OF m2 mstep.event [where inp = Click]] by simp
  have "e_busy (cst ?m3)" "e_ids (cst ?m3) = []" "length (filter pending_mutation (inflight ?m3)) \<ge> 1"
    by (simp_all add: k resume_def [of _ ?clear])
  with m3 export_one_at_a_time [OF m3] show ?thesis by (intro exI [of _ ?m3]) simp
qed

text \<open>Opening the dialog selects the preselected accounts, or all when there are none, and shows
  no old document; ticking and unticking boxes changes exactly the account of the box; and the
  button then sends one request that names exactly the ticked accounts, each once, and shows the
  document that comes back.\<close>

theorem export_sends_selection:
  assumes "\<not> e_open s" "\<not> e_wasOpen s" "e_preselected s \<noteq> [] \<or> e_accounts s \<noteq> []"
    and "s1 = export_render (s\<lparr>e_open := True\<rparr>)"
    and "exec (export_toggle i b) srv s1 w = (None, s2, [], w)" "e_ids s2 \<noteq> []"
    and "srv w (Http ''POST'' ''/export'' (JsonBody (obj [(''ids'', jstrs (e_ids s2))]))) = (Resolved doc, w')"
  shows "e_json s1 = [] \<and> distinct (e_ids s2) \<and>
     set (e_ids s1) = (if e_preselected s \<noteq> [] then set (e_preselected s) else a_id ` set (e_accounts s)) \<and>
     set (e_ids s2) = (if b then insert i (set (e_ids s1)) else set (e_ids s1) - {i}) \<and>
     exec (exportNow E s2) srv s2 w = (None, s2\<lparr>e_json := JSON_stringify doc, e_busy := False\<rparr>, [], w')"
proof -
  have s1: "e_json s1 = []" "distinct (e_ids s1)"
    "set (e_ids s1) = (if e_preselected s \<noteq> [] then set (e_preselected s) else a_id ` set (e_accounts s))"
    using assms(1-4) by (simp_all add: export_render_def Let_def)
  have s2: "s2 = s1\<lparr>e_ids := (if b then set_add i (e_ids s1) else set_delete i (e_ids s1))\<rparr>"
    using assms(5) by (simp add: export_toggle_def)
  have "distinct (e_ids s2)" using s1(2) by (simp add: s2 set_add_def set_delete_def)
  moreover have "exec (exportNow E s2) srv s2 w = (None, s2\<lparr>e_json := JSON_stringify doc, e_busy := False\<rparr>, [], w')"
    using assms(6,7) by (simp add: exportNow_def exec_finally exec_catch act_defs)
  ultimately show ?thesis using s1 by (simp add: s2)
qed

theorem export_sends_selection_witness:
  "\<exists>s2. set (e_ids s2) = {''acc-2''} \<and>
     exec (exportNow sample_ui s2) (\<lambda>w r. (Resolved (JNum 7), w)) s2 () =
       (None, s2\<lparr>e_json := ''7'', e_busy := False\<rparr>, [], ())"
proof -
  let ?s = "(export_mount False [] [''acc-1'', ''acc-2''])"
  let ?s1 = "export_render (?s\<lparr>e_open := True\<rparr>)"
  let ?s2 = "?s1\<lparr>e_ids := [''acc-2'']\<rparr>"
  have ids: "e_ids ?s1 = [''acc-1'', ''acc-2'']" by (simp add: export_mount_def export_render_def new_Set_def Let_def)
  have "JSON_stringify (JNum 7) = ''7''" by code_simp
  moreover have "exec (export_toggle ''acc-1'' False) (\<lambda>w r. (Resolved (JNum 7), w)) ?s1 () = (None, ?s2, [], ())"
    using ids by (simp add: export_toggle_def set_delete_def)
  ultimately have "exec (exportNow sample_ui ?s2) (\<lambda>w r. (Resolved (JNum 7), w)) ?s2 () =
       (None, ?s2\<lparr>e_json := ''7'', e_busy := False\<rparr>, [], ())"
    using export_sends_selection [of ?s ?s1 "''acc-1''" False "\<lambda>w r. (Resolved (JNum 7), w)" "()" ?s2 "JNum 7" "()" sample_ui]
    by (simp add: export_mount_def)
  then show ?thesis by (intro exI [of _ ?s2]) simp
qed

end
