(* ===== verification/Pool_Dialog.thy ===== *)
theory Pool_Dialog
  imports Accounts_Shared Exclusive "HOL-Library.Char_ord" "HOL-Library.List_Lexorder"
begin

text \<open>
  \<open>dashboard/src/pages/accounts/pool-dialog.tsx\<close>: the model switches of all members of an account
  pool, the pool's prefix and its test model. The state holds the properties (\<open>pool\<close>, \<open>members\<close>),
  what the queries have returned so far (\<open>settings\<close>, one catalog per member) and the component's own
  state. The dialog stays mounted when it is closed.
\<close>

record catalog =
  c_loading :: bool
  c_models :: "string list option"

record pool_st =
  p_pool :: "string option"
  p_members :: "Account list"
  p_settings :: jsv
  p_catalogs :: "string \<Rightarrow> catalog"
  p_busy :: "string option"
  p_prefix :: "string option"
  p_testModel :: "string option"
  p_filter :: string
  p_newModel :: string

section \<open>What is shown\<close>

definition props_of :: "jsv \<Rightarrow> (string \<times> jsv) list" where
  "props_of v = (case v of JObj ps \<Rightarrow> ps | _ \<Rightarrow> [])"

definition prop_str :: "(string \<times> jsv) list \<Rightarrow> string \<Rightarrow> string" where
  "prop_str ps k = (case map_of ps k of None \<Rightarrow> [] | Some v \<Rightarrow> if nullish v then [] else js_string v)"

definition pool_prefixes :: "pool_st \<Rightarrow> (string \<times> jsv) list" where
  "pool_prefixes s = props_of (get_prop (p_settings s) ''poolPrefixes'')"

definition savedPrefix :: "pool_st \<Rightarrow> string" where
  "savedPrefix s = (if has (p_pool s) then prop_str (pool_prefixes s) (text_of (p_pool s)) else [])"

definition pool_testModels :: "pool_st \<Rightarrow> (string \<times> jsv) list" where
  "pool_testModels s = props_of (get_prop (p_settings s) ''poolTestModels'')"

definition savedTestModel :: "pool_st \<Rightarrow> string" where
  "savedTestModel s = (if has (p_pool s) then prop_str (pool_testModels s) (text_of (p_pool s)) else [])"

definition pool_loading :: "pool_st \<Rightarrow> bool" where
  "pool_loading s = list_ex (\<lambda>a. c_loading (p_catalogs s (a_id a))) (p_members s)"

definition cached_models :: "pool_st \<Rightarrow> Account \<Rightarrow> string list" where
  "cached_models s a = (case c_models (p_catalogs s (a_id a)) of None \<Rightarrow> [] | Some ms \<Rightarrow> ms)"

text \<open>A \<open>Map\<close> in insertion order; per model how many members advertise it and on how many it is on.\<close>

type_synonym stats = "(string \<times> (nat \<times> nat)) list"

fun map_set :: "'k \<Rightarrow> 'v \<Rightarrow> ('k \<times> 'v) list \<Rightarrow> ('k \<times> 'v) list" where
  "map_set k v [] = [(k, v)]"
| "map_set k v ((k', v') # xs) = (if k' = k then (k, v) # xs else (k', v') # map_set k v xs)"

definition allowed :: "Account \<Rightarrow> string \<Rightarrow> bool" where
  "allowed a k = (case a_enabledModels a of None \<Rightarrow> True | Some ms \<Rightarrow> k \<in> set (map js_lower ms))"

definition bump :: "Account \<Rightarrow> string \<Rightarrow> stats \<Rightarrow> stats" where
  "bump a m st =
    (let k = js_lower m; (h, n) = (case map_of st k of None \<Rightarrow> (0, 0) | Some x \<Rightarrow> x) in
     map_set k (h + 1, if allowed a k then n + 1 else n) st)"

definition pool_stats :: "pool_st \<Rightarrow> stats" where
  "pool_stats s = fold (\<lambda>a. fold (bump a) (cached_models s a)) (p_members s) []"

definition pool_models :: "pool_st \<Rightarrow> string list" where
  "pool_models s = sort (filter (js_includes (js_lower (js_trim (p_filter s)))) (map fst (pool_stats s)))"

section \<open>What is done\<close>

abbreviation set_p_busy :: "string option \<Rightarrow> pool_st \<Rightarrow> pool_st" where
  "set_p_busy b \<equiv> (\<lambda>s. s\<lparr>p_busy := b\<rparr>)"

definition pool_busy :: "pool_st \<Rightarrow> bool" where
  "pool_busy s = has (p_busy s)"

definition member_ids :: "pool_st \<Rightarrow> jsv" where
  "member_ids s = jstrs (map a_id (p_members s))"

definition pool_apply :: "ui \<Rightarrow> pool_st \<Rightarrow> string \<Rightarrow> (string \<times> jsv) list \<Rightarrow> pool_st act" where
  "pool_apply E s key bdy = Upd (set_p_busy (Some key))
    (finally_do
      (catch (post ''/accounts/batch''
           (JsonBody (obj ([(''ids'', member_ids s), (''action'', JStr ''models'')] @ bdy)))
           (\<lambda>r. get_field r ''count'' (\<lambda>c. Emit (ToastOk (tr E ''pool.modelsSaved'' [js_string c])) Done)))
         (\<lambda>e. Emit (ToastErr (errorMessage e)) Done))
      (Upd (set_p_busy None) (Emit (Invalidate [''accounts'']) Done)))"

definition saveSetting :: "ui \<Rightarrow> string \<Rightarrow> jsv \<Rightarrow> (pool_st \<Rightarrow> pool_st) \<Rightarrow> pool_st act" where
  "saveSetting E key bdy reset = Upd (set_p_busy (Some key))
    (finally_do
      (catch (post ''/settings'' (JsonBody bdy) (\<lambda>_.
           Emit (ToastOk (tx E ''detail.saved'')) (Upd reset (Emit (Invalidate [''settings'']) Done))))
         (\<lambda>e. Emit (ToastErr (errorMessage e)) Done))
      (Upd (set_p_busy None) Done))"

definition prefix_value :: "pool_st \<Rightarrow> string" where
  "prefix_value s = (case p_prefix s of None \<Rightarrow> savedPrefix s | Some x \<Rightarrow> x)"

definition testModel_value :: "pool_st \<Rightarrow> string" where
  "testModel_value s = (case p_testModel s of None \<Rightarrow> savedTestModel s | Some x \<Rightarrow> x)"

definition savePrefix :: "ui \<Rightarrow> pool_st \<Rightarrow> pool_st act" where
  "savePrefix E s = (if has (p_pool s) then saveSetting E ''prefix''
      (obj [(''poolPrefixes'', JObj (set_prop (text_of (p_pool s)) (JStr (js_trim (prefix_value s))) (pool_prefixes s)))])
      (\<lambda>s. s\<lparr>p_prefix := None\<rparr>)
    else Done)"

definition saveTestModel :: "ui \<Rightarrow> pool_st \<Rightarrow> pool_st act" where
  "saveTestModel E s = (if has (p_pool s) then saveSetting E ''testModel''
      (obj [(''poolTestModels'', JObj (set_prop (text_of (p_pool s)) (JStr (js_trim (testModel_value s))) (pool_testModels s)))])
      (\<lambda>s. s\<lparr>p_testModel := None\<rparr>)
    else Done)"

definition pool_addModel :: "ui \<Rightarrow> pool_st \<Rightarrow> pool_st act" where
  "pool_addModel E s = (let i = js_trim (p_newModel s) in
     if i = [] then Done
     else Upd (set_p_busy (Some ''addModel''))
      (finally_do
        (catch (post ''/accounts/batch''
             (JsonBody (obj [(''ids'', member_ids s), (''action'', JStr ''addModel''), (''model'', JStr i)]))
             (\<lambda>r. get_field r ''count'' (\<lambda>c. Emit (ToastOk (tr E ''pool.modelAdded'' [js_string c]))
               (Upd (\<lambda>s. s\<lparr>p_newModel := []\<rparr>) (Emit (Invalidate [''accounts''])
                 (Fork (Sleep 3000 (Emit (Invalidate [''account-models'']) Done)) Done))))))
           (\<lambda>e. Emit (ToastErr (errorMessage e)) Done))
        (Upd (set_p_busy None) Done)))"

definition first_enabled :: "Account list \<Rightarrow> Account option" where
  "first_enabled as = (case find a_enabled as of Some a \<Rightarrow> Some a
     | None \<Rightarrow> (case as of [] \<Rightarrow> None | a # _ \<Rightarrow> Some a))"

definition pool_probeAndAdd :: "ui \<Rightarrow> pool_st \<Rightarrow> pool_st act" where
  "pool_probeAndAdd E s = (let i = js_trim (p_newModel s) in
     case first_enabled (p_members s) of None \<Rightarrow> Done | Some via \<Rightarrow>
     if i = [] then Done
     else Upd (set_p_busy (Some ''probeNew''))
       (catch (post (''/accounts/'' @ a_id via @ ''/test'') (JsonBody (obj [(''model'', JStr i)]))
            (\<lambda>r. get_field r ''model'' (\<lambda>m. get_field r ''reply'' (\<lambda>rep.
               Emit (ToastOk (tr E ''detail.probeNewOk'' [js_string m, js_string rep])) (pool_addModel E s)))))
          (\<lambda>e. Emit (ToastErr (tr E ''detail.probeNewFail'' [i, errorMessage e])) (Upd (set_p_busy None) Done))))"

section \<open>The dialog\<close>

definition prefix_same :: "pool_st \<Rightarrow> bool" where
  "prefix_same s = (case p_prefix s of None \<Rightarrow> True | Some x \<Rightarrow> js_trim x = savedPrefix s)"

definition testModel_same :: "pool_st \<Rightarrow> bool" where
  "testModel_same s = (case p_testModel s of None \<Rightarrow> True | Some x \<Rightarrow> js_trim x = savedTestModel s)"

definition pool_prefix_row :: "ui \<Rightarrow> pool_st \<Rightarrow> pool_st act view" where
  "pool_prefix_row E s = El ''div'' [] [
     El ''div'' [] [Txt (tx E ''pool.prefix'')],
     El ''div'' [] [
       El ''Input'' [aS ''value'' (prefix_value s), onS ''onChange'' (\<lambda>v. Upd (\<lambda>x. x\<lparr>p_prefix := Some v\<rparr>) Done),
                     aS ''placeholder'' (text_of (p_pool s))] [],
       El ''Button'' [aS ''variant'' ''outline'', on ''onClick'' (savePrefix E s),
           aB ''disabled'' (pool_busy s \<or> prefix_same s)]
         [shown (p_busy s = Some ''prefix'') spinner, Txt (tx E ''detail.save'')]],
     El ''div'' [] [Txt (tr E ''pool.prefixHint''
        [or_str (js_trim (prefix_value s)) (case p_pool s of None \<Rightarrow> ''null'' | Some x \<Rightarrow> x) @ ''/<model>''])]]"

definition pool_test_row :: "ui \<Rightarrow> pool_st \<Rightarrow> pool_st act view" where
  "pool_test_row E s = El ''div'' [] [
     El ''div'' [] [Txt (tx E ''pool.testModel'')],
     El ''div'' [] [
       El ''Input'' [aS ''value'' (testModel_value s), onS ''onChange'' (\<lambda>v. Upd (\<lambda>x. x\<lparr>p_testModel := Some v\<rparr>) Done),
                     aS ''list'' ''pool-test-models'', aS ''placeholder'' ''glm-5.3''] [],
       El ''datalist'' [aS ''id'' ''pool-test-models'']
         (map (\<lambda>m. El ''option'' [aS ''value'' m] []) (sort (map fst (pool_stats s)))),
       El ''Button'' [aS ''variant'' ''outline'', on ''onClick'' (saveTestModel E s),
           aB ''disabled'' (pool_busy s \<or> testModel_same s)]
         [shown (p_busy s = Some ''testModel'') spinner, Txt (tx E ''detail.save'')]],
     El ''div'' [] [Txt (tx E ''pool.testModelHint'')]]"

definition pool_add_row :: "ui \<Rightarrow> pool_st \<Rightarrow> pool_st act view" where
  "pool_add_row E s = El ''div'' [] [
     El ''div'' [] [Txt (tx E ''pool.addModel'')],
     El ''div'' [] [
       El ''Input'' [aS ''value'' (p_newModel s), onS ''onChange'' (\<lambda>v. Upd (\<lambda>x. x\<lparr>p_newModel := v\<rparr>) Done),
           onS ''onKeyDown'' (\<lambda>k. if k = ''Enter'' \<and> \<not> pool_busy s then pool_probeAndAdd E s else Done),
           aS ''placeholder'' (tx E ''detail.addModelPlaceholder'')] [],
       El ''Button'' [aS ''variant'' ''outline'', on ''onClick'' (pool_probeAndAdd E s),
           aB ''disabled'' (pool_busy s \<or> js_trim (p_newModel s) = []), aS ''title'' (tx E ''detail.probeNewHint'')]
         [if p_busy s = Some ''probeNew'' then spinner else ic ''LuFlaskConical'', Txt (tx E ''detail.probeNew'')],
       El ''Button'' [aS ''variant'' ''outline'', on ''onClick'' (pool_addModel E s),
           aB ''disabled'' (pool_busy s \<or> js_trim (p_newModel s) = [])]
         [if p_busy s = Some ''addModel'' then spinner else ic ''LuPlus'', Txt (tx E ''detail.addModel'')]],
     El ''div'' [] [Txt (tx E ''pool.addModelHint'')]]"

definition pool_model_row :: "ui \<Rightarrow> pool_st \<Rightarrow> string \<Rightarrow> pool_st act view" where
  "pool_model_row E s m =
    (let (h, n) = (case map_of (pool_stats s) m of None \<Rightarrow> (0, 0) | Some x \<Rightarrow> x); allOn = (n = h) in
     El ''label'' [] [
       El ''Checkbox'' [aB ''checked'' allOn, aB ''indeterminate'' (n > 0 \<and> \<not> allOn), aB ''disabled'' (pool_busy s),
           onB ''onCheckedChange'' (\<lambda>_. pool_apply E s m
             (if allOn then [(''disable'', jstrs [m])] else [(''enable'', jstrs [m])]))] [],
       El ''span'' [aS ''title'' m] [Txt m],
       shown (p_busy s = Some m) spinner,
       El ''Badge'' [aS ''variant'' ''outline''] [Txt (show_nat n @ ''/'' @ show_nat h)]])"

definition pool_models_block :: "ui \<Rightarrow> pool_st \<Rightarrow> pool_st act view" where
  "pool_models_block E s = (let models = pool_models s in El ''div'' [] [
     El ''div'' [] [
       El ''div'' [] [Txt (tx E ''pool.models'')],
       El ''Input'' [aS ''value'' (p_filter s), onS ''onChange'' (\<lambda>v. Upd (\<lambda>x. x\<lparr>p_filter := v\<rparr>) Done),
           aS ''placeholder'' (tx E ''pool.filter'')] [],
       El ''Button'' [aS ''variant'' ''outline'', aB ''disabled'' (pool_busy s \<or> models = []),
           on ''onClick'' (pool_apply E s ''all-on'' [(''enable'', jstrs models)])] [Txt (tx E ''pool.enableAll'')],
       El ''Button'' [aS ''variant'' ''outline'', aB ''disabled'' (pool_busy s \<or> models = []),
           on ''onClick'' (pool_apply E s ''all-off'' [(''disable'', jstrs models)])] [Txt (tx E ''pool.disableAll'')]],
     (if pool_loading s then El ''div'' [] [spinner]
      else if models = [] then El ''div'' [] [Txt (tx E (if pool_stats s \<noteq> [] then ''common.noData'' else ''pool.noModels''))]
      else El ''ScrollArea'' [] [El ''div'' [] (map (pool_model_row E s) models)])])"

definition PoolDialog :: "ui \<Rightarrow> pool_st \<Rightarrow> pool_st act view" where
  "PoolDialog E s =
     El ''Dialog'' [aB ''open'' (has (p_pool s)), onB ''onOpenChange'' (\<lambda>o1. if o1 then Done else Emit (Parent ''onClose'' JUndef) Done)] [
       El ''DialogContent'' [] [
         El ''DialogHeader'' [] [
           El ''DialogTitle'' [] [Txt (tr E ''pool.title'' [text_of (p_pool s)])],
           El ''DialogDescription'' [] [Txt (tr E ''pool.subtitle'' [show_nat (length (p_members s))])]],
         pool_prefix_row E s, pool_test_row E s, pool_add_row E s, pool_models_block E s]]"

definition pool_mount :: pool_st where
  "pool_mount = \<lparr>p_pool = None, p_members = [], p_settings = JUndef,
     p_catalogs = (\<lambda>_. \<lparr>c_loading = False, c_models = None\<rparr>), p_busy = None, p_prefix = None,
     p_testModel = None, p_filter = [], p_newModel = []\<rparr>"

text \<open>A catalog names its models by non-empty texts.\<close>

definition named_catalogs :: "pool_st \<Rightarrow> bool" where
  "named_catalogs s \<longleftrightarrow> (\<forall>i ms. c_models (p_catalogs s i) = Some ms \<longrightarrow> [] \<notin> set ms)"

text \<open>New properties and replies of the queries.\<close>

definition pool_env :: "pool_st \<Rightarrow> pool_st \<Rightarrow> bool" where
  "pool_env s s' \<longleftrightarrow> (\<exists>pl ms st cs. s' = s\<lparr>p_pool := pl, p_members := ms, p_settings := st, p_catalogs := cs\<rparr>)
     \<and> (named_catalogs s \<longrightarrow> named_catalogs s')"

section \<open>The counts\<close>

lemma map_of_map_set [simp]: "map_of (map_set k v xs) = (map_of xs)(k \<mapsto> v)"
  by (induction k v xs rule: map_set.induct) auto

lemma keys_map_set: "set (map fst (map_set k v xs)) = insert k (set (map fst xs))"
  by (induction k v xs rule: map_set.induct) auto

lemma distinct_map_set: "distinct (map fst xs) \<Longrightarrow> distinct (map fst (map_set k v xs))"
proof (induction k v xs rule: map_set.induct)
  case (2 k v k' v' xs)
  then show ?case using keys_map_set [of k v xs] by auto
qed simp

definition tally :: "stats \<Rightarrow> string \<Rightarrow> nat \<times> nat" where
  "tally st k = (case map_of st k of None \<Rightarrow> (0, 0) | Some x \<Rightarrow> x)"

definition offers :: "pool_st \<Rightarrow> Account \<Rightarrow> string \<Rightarrow> nat" where
  "offers s a k = count_list (map js_lower (cached_models s a)) k"

lemma tally_bump: "tally (bump a m st) k = (if js_lower m = k
    then (fst (tally st k) + 1, snd (tally st k) + (if allowed a k then 1 else 0)) else tally st k)"
  by (auto simp: bump_def tally_def Let_def split: prod.splits option.splits)

lemma keys_bump: "set (map fst (bump a m st)) = insert (js_lower m) (set (map fst st))"
  by (simp add: bump_def Let_def keys_map_set del: set_map split: prod.split)

lemma distinct_bump: "distinct (map fst st) \<Longrightarrow> distinct (map fst (bump a m st))"
  by (simp add: bump_def Let_def distinct_map_set split: prod.splits)

lemma tally_member: "tally (fold (bump a) ms st) k =
    (fst (tally st k) + count_list (map js_lower ms) k,
     snd (tally st k) + (if allowed a k then count_list (map js_lower ms) k else 0))"
  by (induction ms arbitrary: st) (auto simp: tally_bump)

lemma keys_member: "set (map fst (fold (bump a) ms st)) = set (map js_lower ms) \<union> set (map fst st)"
proof (induction ms arbitrary: st)
  case (Cons m ms)
  then show ?case using keys_bump [of a m st] by auto
qed simp

lemma distinct_member: "distinct (map fst st) \<Longrightarrow> distinct (map fst (fold (bump a) ms st))"
  by (induction ms arbitrary: st) (auto simp: distinct_bump)

lemma tally_members:
  "tally (fold (\<lambda>a. fold (bump a) (cached_models s a)) as st) k =
    (fst (tally st k) + (\<Sum>a\<leftarrow>as. offers s a k),
     snd (tally st k) + (\<Sum>a\<leftarrow>as. if allowed a k then offers s a k else 0))"
  by (induction as arbitrary: st) (auto simp: tally_member offers_def)

lemma keys_members: "set (map fst (fold (\<lambda>a. fold (bump a) (cached_models s a)) as st)) =
    (\<Union>a\<in>set as. set (map js_lower (cached_models s a))) \<union> set (map fst st)"
proof (induction as arbitrary: st)
  case (Cons a as)
  have "set (map fst (fold (\<lambda>a. fold (bump a) (cached_models s a)) (a # as) st)) =
      (\<Union>a\<in>set as. set (map js_lower (cached_models s a))) \<union> set (map fst (fold (bump a) (cached_models s a) st))"
    using Cons.IH [of "fold (bump a) (cached_models s a) st"] by simp
  also have "\<dots> = (\<Union>a\<in>set (a # as). set (map js_lower (cached_models s a))) \<union> set (map fst st)"
    using keys_member [of a "cached_models s a" st] by auto
  finally show ?case .
qed simp

lemma distinct_members:
  "distinct (map fst st) \<Longrightarrow> distinct (map fst (fold (\<lambda>a. fold (bump a) (cached_models s a)) as st))"
  by (induction as arbitrary: st) (auto simp: distinct_member)

lemma tally_stats: "tally (pool_stats s) k =
    ((\<Sum>a\<leftarrow>p_members s. offers s a k), (\<Sum>a\<leftarrow>p_members s. if allowed a k then offers s a k else 0))"
  by (simp add: pool_stats_def tally_members) (simp add: tally_def)

lemma keys_stats: "set (map fst (pool_stats s)) = (\<Union>a\<in>set (p_members s). set (map js_lower (cached_models s a)))"
  unfolding pool_stats_def using keys_members [of s "p_members s" "[]"] by simp

lemma distinct_stats: "distinct (map fst (pool_stats s))"
  by (simp add: pool_stats_def distinct_members)

lemma sum_filter: "(\<And>a. a \<in> set as \<Longrightarrow> f a = (if P a then 1 else 0)) \<Longrightarrow> (\<Sum>a\<leftarrow>as. f a) = length (filter P as)"
  by (induction as) auto

lemma count_distinct: "distinct xs \<Longrightarrow> count_list xs x = (if x \<in> set xs then 1 else 0)"
  by (induction xs) auto

section \<open>One change at a time\<close>

lemma pool_mark [simp]: "(\<forall>s. pool_busy s) = False" "(\<forall>s. \<not> pool_busy s) = False"
  by (auto simp: pool_busy_def has_def intro: exI [of _ "undefined\<lparr>p_busy := None\<rparr>"]
      exI [of _ "undefined\<lparr>p_busy := Some ''x''\<rparr>"])

lemma pool_busy_simps [simp]:
  "pool_busy (s\<lparr>p_busy := None\<rparr>) = False" "pool_busy (s\<lparr>p_busy := Some k\<rparr>) = (k \<noteq> [])"
  "pool_busy (s\<lparr>p_prefix := x\<rparr>) = pool_busy s" "pool_busy (s\<lparr>p_testModel := x\<rparr>) = pool_busy s"
  "pool_busy (s\<lparr>p_filter := f\<rparr>) = pool_busy s" "pool_busy (s\<lparr>p_newModel := f\<rparr>) = pool_busy s"
  by (simp_all add: pool_busy_def has_def)

lemma named_simps [simp]:
  "named_catalogs (s\<lparr>p_busy := b\<rparr>) = named_catalogs s"
  "named_catalogs (s\<lparr>p_prefix := x\<rparr>) = named_catalogs s" "named_catalogs (s\<lparr>p_testModel := x\<rparr>) = named_catalogs s"
  "named_catalogs (s\<lparr>p_filter := f\<rparr>) = named_catalogs s" "named_catalogs (s\<lparr>p_newModel := f\<rparr>) = named_catalogs s"
  by (simp_all add: named_catalogs_def)

lemma guarded_apply: "k \<noteq> [] \<Longrightarrow> guarded pool_busy False (pool_apply E s k b)"
  by (simp add: pool_apply_def act_nf)

lemma guarded_save: "guarded pool_busy False (savePrefix E s)" "guarded pool_busy False (saveTestModel E s)"
  by (simp_all add: savePrefix_def saveTestModel_def saveSetting_def act_nf)

lemma guarded_addModel: "guarded pool_busy b (pool_addModel E s)" if "b \<longrightarrow> js_trim (p_newModel s) \<noteq> []"
  using that by (auto simp: pool_addModel_def act_nf Let_def)

lemma guarded_probe: "guarded pool_busy False (pool_probeAndAdd E s)"
  by (simp add: pool_probeAndAdd_def act_nf Let_def guarded_addModel guarded_catch split: option.split)

lemma steady_pool:
  "steady named_catalogs (pool_apply E s k b)" "steady named_catalogs (savePrefix E s)"
  "steady named_catalogs (saveTestModel E s)"
  by (simp_all add: pool_apply_def savePrefix_def saveTestModel_def saveSetting_def act_nf)

lemma steady_addModel: "steady named_catalogs (pool_addModel E s)"
  by (simp add: pool_addModel_def act_nf Let_def)

lemma steady_probe: "steady named_catalogs (pool_probeAndAdd E s)"
  by (simp add: pool_probeAndAdd_def act_nf Let_def steady_addModel steady_catch split: option.split)

definition close_pool :: "bool \<Rightarrow> pool_st act" where
  "close_pool o1 = (if o1 then Done else Emit (Parent ''onClose'' JUndef) Done)"

definition pool_enter :: "ui \<Rightarrow> pool_st \<Rightarrow> string \<Rightarrow> pool_st act" where
  "pool_enter E s k = (if k = ''Enter'' \<and> \<not> pool_busy s then pool_probeAndAdd E s else Done)"

definition pool_toggle :: "ui \<Rightarrow> pool_st \<Rightarrow> string \<Rightarrow> pool_st act" where
  "pool_toggle E s m = pool_apply E s m
     (if fst (tally (pool_stats s) m) = snd (tally (pool_stats s) m) then [(''disable'', jstrs [m])]
      else [(''enable'', jstrs [m])])"

lemma live_model_row: "live (pool_model_row E s m) =
    (if pool_busy s then [] else [WithFlag (\<lambda>_. pool_toggle E s m)])"
  by (auto simp: pool_model_row_def pool_toggle_def tally_def Let_def split: prod.splits option.splits)

lemma live_PoolDialog [view_live]:
  "live (PoolDialog E s) = (if \<not> has (p_pool s) then [] else
     [WithFlag close_pool, WithText (\<lambda>v. Upd (\<lambda>x. x\<lparr>p_prefix := Some v\<rparr>) Done)] @
     (if pool_busy s \<or> prefix_same s then []
      else [Plain (savePrefix E s)]) @
     WithText (\<lambda>v. Upd (\<lambda>x. x\<lparr>p_testModel := Some v\<rparr>) Done) #
     (if pool_busy s \<or> testModel_same s then []
      else [Plain (saveTestModel E s)]) @
     [WithText (\<lambda>v. Upd (\<lambda>x. x\<lparr>p_newModel := v\<rparr>) Done), WithText (pool_enter E s)] @
     (if pool_busy s \<or> js_trim (p_newModel s) = [] then []
      else [Plain (pool_probeAndAdd E s), Plain (pool_addModel E s)]) @
     WithText (\<lambda>v. Upd (\<lambda>x. x\<lparr>p_filter := v\<rparr>) Done) #
     (if pool_busy s \<or> pool_models s = [] then []
      else [Plain (pool_apply E s ''all-on'' [(''enable'', jstrs (pool_models s))]),
            Plain (pool_apply E s ''all-off'' [(''disable'', jstrs (pool_models s))])]) @
     (if pool_loading s \<or> pool_busy s then [] else map (\<lambda>m. WithFlag (\<lambda>_. pool_toggle E s m)) (pool_models s)))"
proof -
  have opts: "concat (map (live \<circ> (\<lambda>m. El ''option'' [aS ''value'' m] [])) ms) = []" for ms
    by (rule no_handlers_concat) simp
  have rows: "concat (map (live \<circ> pool_model_row E s) ms) =
      (if pool_busy s then [] else map (\<lambda>m. WithFlag (\<lambda>_. pool_toggle E s m)) ms)" for ms
    by (induction ms) (auto simp: live_model_row)
  have eta: "(\<lambda>o1. if o1 then Done else Emit (Parent ''onClose'' JUndef) Done) = close_pool"
    "(\<lambda>k. if k = ''Enter'' \<and> \<not> pool_busy s then pool_probeAndAdd E s else Done) = pool_enter E s"
    by (simp_all add: close_pool_def pool_enter_def fun_eq_iff)
  show ?thesis
    by (simp add: PoolDialog_def pool_prefix_row_def pool_test_row_def pool_add_row_def eta
        pool_models_block_def Let_def opts rows)
qed

lemma model_named: "named_catalogs s \<Longrightarrow> m \<in> set (pool_models s) \<Longrightarrow> m \<noteq> []"
proof -
  assume named: "named_catalogs s" and "m \<in> set (pool_models s)"
  then have "m \<in> set (map fst (pool_stats s))" by (auto simp: pool_models_def)
  then obtain a x where "m = js_lower x" "x \<in> set (cached_models s a)"
    by (auto simp: keys_stats simp del: set_map) auto
  with named show "m \<noteq> []"
    by (auto simp: named_catalogs_def cached_models_def js_lower_def split: option.splits)
qed

lemmas pool_act_ok = act_ok_def guarded_apply guarded_save guarded_probe guarded_addModel
  steady_pool steady_addModel steady_probe

interpretation pool_dialog: exclusive_page "PoolDialog E" pool_env pool_mount pool_busy named_catalogs
proof
  show "\<not> pool_busy pool_mount" by (simp add: pool_mount_def pool_busy_def has_def)
  show "named_catalogs pool_mount" by (simp add: pool_mount_def named_catalogs_def)
next
  fix s assume "named_catalogs s"
  then have "\<forall>m\<in>set (pool_models s). m \<noteq> []" by (auto dest: model_named)
  then show "list_all (handler_ok pool_busy named_catalogs (pool_busy s)) (live (PoolDialog E s))"
    by (simp add: view_live close_pool_def pool_enter_def pool_toggle_def pool_act_ok)
next
  fix s s' assume "pool_env s s'"
  then show "pool_busy s' = pool_busy s" "named_catalogs s \<Longrightarrow> named_catalogs s'"
    by (auto simp: pool_env_def pool_busy_def)
qed

section \<open>Properties\<close>

text \<open>The pool dialog makes one change at a time: in every state it can reach, under any order of
  clicks, key presses, replies and refreshed data with named models, at most one changing request is
  in flight and none while its buttons are enabled; and while they are disabled a request is pending
  whose reply enables them again.\<close>

theorem pool_one_at_a_time:
  assumes "mreach (PoolDialog E) pool_env pool_mount m"
  shows "length (filter pending_mutation (inflight m)) \<le> (if pool_busy (cst m) then 1 else 0) \<and>
    (pool_busy (cst m) \<longrightarrow> (\<exists>p \<in> set (inflight m). carries pool_busy True p))"
  using pool_dialog.at_most_one [OF assms] pool_dialog.never_stuck [OF assms] by blast

theorem pool_one_at_a_time_witness:
  "length (filter pending_mutation (inflight \<lparr>cst = pool_mount, inflight = [], trace = []\<rparr>)) \<le> 0"
  using pool_one_at_a_time [OF mreach.start [of "PoolDialog sample_ui" pool_env pool_mount]]
  by (simp add: pool_mount_def pool_busy_def has_def)

text \<open>The switches show the pool as it is: for catalogs without repetitions, the models listed are
  exactly those that some member advertises and whose name contains the filter, in order and without
  repetition; the two counts of a model are the number of members that advertise it and the number
  of those on which its use is allowed.\<close>

theorem pool_counts:
  assumes "\<forall>a \<in> set (p_members s). distinct (map js_lower (cached_models s a))"
  shows "sorted (pool_models s) \<and> distinct (pool_models s) \<and>
    set (pool_models s) = {k. (\<exists>a \<in> set (p_members s). k \<in> js_lower ` set (cached_models s a)) \<and>
                             js_includes (js_lower (js_trim (p_filter s))) k} \<and>
    (\<forall>k \<in> set (pool_models s). map_of (pool_stats s) k =
       Some (length (filter (\<lambda>a. k \<in> js_lower ` set (cached_models s a)) (p_members s)),
             length (filter (\<lambda>a. k \<in> js_lower ` set (cached_models s a) \<and> allowed a k) (p_members s))))"
proof -
  have offer: "offers s a k = (if k \<in> js_lower ` set (cached_models s a) then 1 else 0)"
    if "a \<in> set (p_members s)" for a k
    using assms that by (simp add: offers_def count_distinct)
  have counts: "tally (pool_stats s) k =
      (length (filter (\<lambda>a. k \<in> js_lower ` set (cached_models s a)) (p_members s)),
       length (filter (\<lambda>a. k \<in> js_lower ` set (cached_models s a) \<and> allowed a k) (p_members s)))" for k
    by (simp add: tally_stats offer sum_filter cong: map_cong)
  have "map_of (pool_stats s) k = Some (tally (pool_stats s) k)" if "k \<in> set (pool_models s)" for k
  proof -
    from that have "k \<in> set (map fst (pool_stats s))" by (auto simp: pool_models_def)
    then obtain x where "map_of (pool_stats s) k = Some x"
      by (metis domIff dom_map_of_conv_image_fst not_Some_eq set_map)
    then show ?thesis by (simp add: tally_def)
  qed
  moreover have "set (pool_models s) = {k. (\<exists>a \<in> set (p_members s). k \<in> js_lower ` set (cached_models s a)) \<and>
      js_includes (js_lower (js_trim (p_filter s))) k}"
    using keys_stats [of s] by (auto simp: pool_models_def simp del: set_map) auto
  moreover have "sorted (pool_models s)" "distinct (pool_models s)"
    using distinct_stats [of s] by (simp_all add: pool_models_def)
  ultimately show ?thesis by (simp add: counts)
qed

definition sample_pool :: pool_st where
  "sample_pool = pool_mount\<lparr>p_pool := Some ''codebuddy-cn'',
     p_members := [blank_account\<lparr>a_id := ''a1'', a_enabled := True\<rparr>,
                   blank_account\<lparr>a_id := ''a2'', a_enabledModels := Some [''GLM-5'']\<rparr>],
     p_catalogs := (\<lambda>i. \<lparr>c_loading = False, c_models = Some [''glm-5'', ''Kimi'']\<rparr>)\<rparr>"

theorem pool_counts_witness:
  "map_of (pool_stats sample_pool) ''kimi'' = Some (2, 1)"
proof -
  have "js_lower ''glm-5'' = ''glm-5''" "js_lower ''Kimi'' = ''kimi''" "js_lower ''GLM-5'' = ''glm-5''"
    by code_simp+
  then have low: "js_lower ` set [''glm-5'', ''Kimi''] = {''glm-5'', ''kimi''}"
    "distinct (map js_lower [''glm-5'', ''Kimi''])" by auto
  then have "''kimi'' \<in> set (pool_models sample_pool)"
    using keys_stats [of sample_pool] by (auto simp: pool_models_def sample_pool_def cached_models_def
        pool_mount_def image_iff starts_with_def)
  with pool_counts [of sample_pool] low \<open>js_lower ''GLM-5'' = ''glm-5''\<close> show ?thesis
    by (simp add: sample_pool_def cached_models_def allowed_def blank_account_def pool_mount_def)
qed

text \<open>C23: a model is added through the probe only after a member has answered with it: the first
  request asks one member (an enabled one if there is one) for the model; if it fails, nothing else
  is sent, the error is shown and the buttons are enabled again; if it succeeds, the same model is
  added to all members.\<close>

theorem pool_probe_first:
  assumes "first_enabled (p_members s) = Some via" "js_trim (p_newModel s) \<noteq> []"
    and "rq = Http ''POST'' (''/accounts/'' @ a_id via @ ''/test'') (JsonBody (obj [(''model'', JStr (js_trim (p_newModel s)))]))"
  shows "(srv w rq = (Rejected e, w') \<longrightarrow>
      exec (pool_probeAndAdd E s) srv s w = (None, s\<lparr>p_busy := None\<rparr>,
        [ToastErr (tr E ''detail.probeNewFail'' [js_trim (p_newModel s), errorMessage e])], w')) \<and>
    (srv w rq = (Resolved (JObj r), w') \<and>
     srv w' (Http ''POST'' ''/accounts/batch'' (JsonBody (obj [(''ids'', member_ids s), (''action'', JStr ''addModel''),
        (''model'', JStr (js_trim (p_newModel s)))]))) = (Resolved (JObj r2), w2) \<longrightarrow>
      (\<exists>l. exec (pool_probeAndAdd E s) srv s w = (None, s\<lparr>p_busy := None, p_newModel := []\<rparr>, l, w2)))"
  using assms by (simp add: pool_probeAndAdd_def pool_addModel_def act_nf get_field_def Let_def)

theorem pool_probe_first_witness:
  "exec (pool_probeAndAdd sample_ui (sample_pool\<lparr>p_newModel := ''qwen''\<rparr>))
     (\<lambda>w r. (Rejected (JsErr ''offline''), r # w)) (sample_pool\<lparr>p_newModel := ''qwen''\<rparr>) [] =
   (None, sample_pool\<lparr>p_newModel := ''qwen''\<rparr>, [ToastErr ''detail.probeNewFail qwen offline''],
    [Http ''POST'' ''/accounts/a1/test'' (JsonBody (obj [(''model'', JStr ''qwen'')]))])"
proof -
  have trim: "js_trim ''qwen'' = ''qwen''" by code_simp
  show ?thesis
    using pool_probe_first [of "sample_pool\<lparr>p_newModel := ''qwen''\<rparr>" "blank_account\<lparr>a_id := ''a1'', a_enabled := True\<rparr>"
        _ "\<lambda>w r. (Rejected (JsErr ''offline''), r # w)" "[]" "JsErr ''offline''" _ sample_ui]
    by (simp add: trim sample_pool_def first_enabled_def sample_ui_def pool_mount_def)
qed

text \<open>A draft survives the pool it was typed for: what was typed as the prefix of one pool and not
  saved is shown, and saved with the button enabled, as the prefix of the pool opened next.\<close>

theorem pool_draft_survives:
  assumes "p_prefix s = Some x" "p_pool s = Some p" "q \<noteq> []"
    and "s' = s\<lparr>p_pool := Some q, p_members := ms\<rparr>" "\<not> pool_busy s" "js_trim x \<noteq> savedPrefix s'"
  shows "prefix_value s' = x \<and> Plain (savePrefix E s') \<in> set (live (PoolDialog E s')) \<and>
    savePrefix E s' = saveSetting E ''prefix''
      (obj [(''poolPrefixes'', JObj (set_prop q (JStr (js_trim x)) (pool_prefixes s)))])
      (\<lambda>s. s\<lparr>p_prefix := None\<rparr>)"
proof -
  have "\<not> pool_busy s'" "\<not> prefix_same s'" "has (p_pool s')"
    using assms by (simp_all add: pool_busy_def prefix_same_def has_def)
  then show ?thesis
    using assms(1-4) by (simp add: view_live prefix_value_def savePrefix_def has_def text_of_def pool_prefixes_def)
qed

theorem pool_draft_survives_witness:
  "prefix_value (sample_pool\<lparr>p_prefix := Some ''cb'', p_pool := Some ''grok'', p_members := []\<rparr>) = ''cb''"
proof -
  have "js_trim ''cb'' = ''cb''" by code_simp
  then show ?thesis
    using pool_draft_survives [of "sample_pool\<lparr>p_prefix := Some ''cb''\<rparr>" "''cb''" "''codebuddy-cn''" "''grok''"
        "sample_pool\<lparr>p_prefix := Some ''cb'', p_pool := Some ''grok'', p_members := []\<rparr>" "[]" sample_ui]
    by (simp add: sample_pool_def pool_mount_def savedPrefix_def pool_prefixes_def prop_str_def props_of_def
        has_def pool_busy_def)
qed

end
