(* ===== verification/Data_Table.thy ===== *)
theory Data_Table
  imports Exclusive
begin

text \<open>
  \<open>dashboard/src/components/data-table.tsx\<close>: the table every page shows its rows in. The table
  library (sorting, filtering, grouping, paging) is a parameter, the function \<open>lib\<close>: given the rows,
  the group of a row, the table's own state and the selected row ids it yields what the component
  reads from it (\<open>table_model\<close>), with the next state or selection for every control.

  The component's state is \<open>table_state\<close>; the parent keeps it and passes the update of its part.
\<close>

record table_state =
  t_sorting :: "(string \<times> bool) list"
  t_expanded :: "string list"
  t_globalFilter :: string
  t_pageIndex :: nat
  t_pageSize :: nat

record 'a leaf =
  l_original :: 'a
  l_selected :: bool
  l_toggle :: "bool \<Rightarrow> string list"

record 'a group_row =
  g_value :: string
  g_subRows :: "'a leaf list"
  g_expanded :: bool
  g_toggleExpanded :: table_state
  g_allSelected :: bool
  g_someSelected :: bool
  g_toggle :: "bool \<Rightarrow> string list"

datatype 'a trow = LeafRow "'a leaf" | Grouped "'a group_row"

record head =
  h_column :: string
  h_placeholder :: bool
  h_canSort :: bool
  h_sorted :: "string option"
  h_toggle :: table_state

record 'a table_model =
  m_heads :: "head list list"
  m_rows :: "'a trow list"
  m_total :: nat
  m_pageIndex :: nat
  m_size :: nat
  m_pageCount :: nat
  m_canPrevious :: bool
  m_canNext :: bool
  m_previous :: table_state
  m_next :: table_state
  m_setSize :: "string \<Rightarrow> table_state"
  m_filter :: "string \<Rightarrow> table_state"
  m_allSelected :: bool
  m_someSelected :: bool
  m_toggleAll :: "bool \<Rightarrow> string list"

type_synonym 'a table_lib =
  "'a list \<Rightarrow> ('a \<Rightarrow> nat \<Rightarrow> string) option \<Rightarrow> table_state \<Rightarrow> string list \<Rightarrow> 'a table_model"

text \<open>A column: how its header and its cells are shown. Both may change the selection.\<close>

record ('a, 's) column =
  col_id :: string
  col_header :: "'a table_model \<Rightarrow> 's act view"
  col_cell :: "'a leaf \<Rightarrow> 's act view"

text \<open>What a page gets to render a group's header row.\<close>

record ('a, 's) group_info =
  gi_key :: string
  gi_rows :: "'a list"
  gi_expanded :: bool
  gi_toggleExpanded :: "'s act"
  gi_all :: bool
  gi_some :: bool
  gi_toggleSelected :: "bool \<Rightarrow> 's act"

definition initial_table :: "nat \<Rightarrow> table_state" where
  "initial_table pageSize = \<lparr>t_sorting = [], t_expanded = [], t_globalFilter = [], t_pageIndex = 0,
     t_pageSize = (if pageSize > 0 then pageSize else 9007199254740991)\<rparr>"

definition SOLO :: string where
  "SOLO = CHR 0x00 # ''solo:''"

definition group_key :: "('a \<Rightarrow> string option) \<Rightarrow> 'a \<Rightarrow> nat \<Rightarrow> string" where
  "group_key groupBy r i = (case groupBy r of Some k \<Rightarrow> k | None \<Rightarrow> SOLO @ show_nat i)"

text \<open>The properties of the component: selection and its setter, row click, grouping, and the update
  of the table's own state.\<close>

record ('a, 's) table_props =
  tp_columns :: "('a, 's) column list"
  tp_searchable :: bool
  tp_searchPlaceholder :: "string option"
  tp_toolbar :: "'s act view"
  tp_emptyState :: "'s act view"
  tp_rowSelection :: "string list"
  tp_onSelect :: "(string list \<Rightarrow> 's act) option"
  tp_onRowClick :: "('a \<Rightarrow> 's act) option"
  tp_pageSize :: nat
  tp_groupBy :: "('a \<Rightarrow> string option) option"
  tp_renderGroup :: "(('a, 's) group_info \<Rightarrow> 's act view) option"
  tp_set :: "table_state \<Rightarrow> 's \<Rightarrow> 's"

definition set_table :: "('a, 's) table_props \<Rightarrow> table_state \<Rightarrow> 's act" where
  "set_table P st = Upd (tp_set P st) Done"

definition select_rows :: "('a, 's) table_props \<Rightarrow> string list \<Rightarrow> 's act" where
  "select_rows P sel = (case tp_onSelect P of None \<Rightarrow> Done | Some f \<Rightarrow> f sel)"

definition table_of :: "'a table_lib \<Rightarrow> ('a, 's) table_props \<Rightarrow> 'a list \<Rightarrow> table_state \<Rightarrow> 'a table_model" where
  "table_of lib P data st = lib data (map_option group_key (tp_groupBy P)) st (tp_rowSelection P)"

section \<open>Rows\<close>

definition leafRow :: "('a, 's) table_props \<Rightarrow> 'a leaf \<Rightarrow> 's act view" where
  "leafRow P row = El ''TableRow''
     ((if l_selected row then [aS ''data-state'' ''selected''] else []) @
      (case tp_onRowClick P of None \<Rightarrow> [] | Some f \<Rightarrow> [on ''onClick'' (f (l_original row))]))
     (map (\<lambda>c. El ''TableCell'' [] [col_cell c row]) (tp_columns P))"

definition groupRow :: "('a, 's) table_props \<Rightarrow> 'a group_row \<Rightarrow> 's act view" where
  "groupRow P row =
    (let key = g_value row in
     case (if starts_with SOLO key then None else tp_renderGroup P) of
       None \<Rightarrow> leafRow P (g_subRows row ! 0)
     | Some f \<Rightarrow> El ''TableRow'' [] [El ''TableCell'' [aN ''colSpan'' (of_nat (length (tp_columns P)))]
         [f \<lparr>gi_key = key, gi_rows = map l_original (g_subRows row), gi_expanded = g_expanded row,
             gi_toggleExpanded = set_table P (g_toggleExpanded row),
             gi_all = g_allSelected row, gi_some = (\<not> g_allSelected row \<and> g_someSelected row),
             gi_toggleSelected = (\<lambda>b. select_rows P (g_toggle row b))\<rparr>]])"

definition table_row :: "('a, 's) table_props \<Rightarrow> 'a trow \<Rightarrow> 's act view" where
  "table_row P r = (case r of LeafRow l \<Rightarrow> leafRow P l | Grouped g \<Rightarrow> groupRow P g)"

section \<open>The table\<close>

definition head_cell :: "('a, 's) table_props \<Rightarrow> 'a table_model \<Rightarrow> head \<Rightarrow> 's act view" where
  "head_cell P m h = El ''TableHead'' (if h_canSort h then [on ''onClick'' (set_table P (h_toggle h))] else [])
     [El ''span'' [] [
        (if h_placeholder h then Nothing
         else case find (\<lambda>c. col_id c = h_column h) (tp_columns P) of None \<Rightarrow> Nothing | Some c \<Rightarrow> col_header c m),
        shown (h_canSort h) (ic (if h_sorted h = Some ''asc'' then ''LuArrowUp''
           else if h_sorted h = Some ''desc'' then ''LuArrowDown'' else ''LuArrowUpDown''))]]"

definition table_body :: "ui \<Rightarrow> ('a, 's) table_props \<Rightarrow> 'a table_model \<Rightarrow> 's act view" where
  "table_body E P m = El ''TableBody'' []
    (if m_rows m = [] then
       [El ''TableRow'' [] [El ''TableCell'' [aN ''colSpan'' (of_nat (length (tp_columns P)))]
          [if tp_emptyState P \<noteq> Nothing then tp_emptyState P
           else El ''div'' [] [Txt (tx E ''common.noData'')]]]]
     else map (table_row P) (m_rows m))"

definition table_pager :: "ui \<Rightarrow> ('a, 's) table_props \<Rightarrow> 'a table_model \<Rightarrow> 's act view" where
  "table_pager E P m = El ''div'' [] [
     El ''span'' [] [Txt (tr E ''table.range'' [show_nat (m_pageIndex m * m_size m + 1),
        show_nat (min (m_total m) ((m_pageIndex m + 1) * m_size m)), show_nat (m_total m)])],
     El ''div'' [] [
       El ''select'' [aS ''value'' (show_nat (m_size m)), onS ''onChange'' (\<lambda>v. set_table P (m_setSize m v)),
                      aS ''aria-label'' (tx E ''table.pageSize'')]
         (map (\<lambda>n. El ''option'' [aS ''value'' (show_nat n)] [Txt (tr E ''table.perPage'' [show_nat n])])
            [10, 25, 50, 100]),
       El ''Button'' [aS ''variant'' ''outline'', on ''onClick'' (set_table P (m_previous m)),
                      aB ''disabled'' (\<not> m_canPrevious m), aS ''aria-label'' (tx E ''table.prev'')] [ic ''LuChevronLeft''],
       El ''span'' [] [Txt (show_nat (m_pageIndex m + 1) @ '' / '' @ show_nat (max 1 (m_pageCount m)))],
       El ''Button'' [aS ''variant'' ''outline'', on ''onClick'' (set_table P (m_next m)),
                      aB ''disabled'' (\<not> m_canNext m), aS ''aria-label'' (tx E ''table.next'')] [ic ''LuChevronRight'']]]"

definition DataTable ::
  "ui \<Rightarrow> 'a table_lib \<Rightarrow> ('a, 's) table_props \<Rightarrow> 'a list \<Rightarrow> table_state \<Rightarrow> 's act view" where
  "DataTable E lib P data st =
    (let m = table_of lib P data st in El ''div'' [] [
       shown (tp_searchable P \<or> tp_toolbar P \<noteq> Nothing) (El ''div'' [] [
         shown (tp_searchable P) (El ''Input'' [aS ''value'' (t_globalFilter st),
            onS ''onChange'' (\<lambda>v. set_table P (m_filter m v)),
            aS ''placeholder'' (case tp_searchPlaceholder P of Some p \<Rightarrow> p | None \<Rightarrow> tx E ''common.search'')] []),
         tp_toolbar P]),
       El ''div'' [] [El ''Table'' [] [
         El ''TableHeader'' [] (map (\<lambda>hs. El ''TableRow'' [] (map (head_cell P m) hs)) (m_heads m)),
         table_body E P m]],
       shown (tp_pageSize P > 0 \<and> m_total m > 0) (table_pager E P m)])"

section \<open>The handlers a table offers\<close>

lemma list_all_concat_map: "list_all Q (concat (map f xs)) \<longleftrightarrow> (\<forall>x\<in>set xs. list_all Q (f x))"
  by (induction xs) auto

text \<open>A condition on all handlers of a table holds if it holds of the changes the table itself makes
  (its own state, the selection), and of the page's own parts: toolbar, empty state, header and cell
  content, row clicks and group headers.\<close>

lemma list_all_DataTable:
  assumes state: "\<And>st'. Q (Plain (set_table P st'))" "\<And>f. Q (WithText (\<lambda>v. set_table P (f v)))"
    and parts: "list_all Q (live (tp_toolbar P))" "list_all Q (live (tp_emptyState P))"
    and heads: "\<And>c m. c \<in> set (tp_columns P) \<Longrightarrow> list_all Q (live (col_header c m))"
    and cells: "\<And>c l. c \<in> set (tp_columns P) \<Longrightarrow> list_all Q (live (col_cell c l))"
    and click: "\<And>f r. tp_onRowClick P = Some f \<Longrightarrow> Q (Plain (f r))"
    and group: "\<And>f k rs x a o1 g. tp_renderGroup P = Some f \<Longrightarrow>
        list_all Q (live (f \<lparr>gi_key = k, gi_rows = rs, gi_expanded = x, gi_toggleExpanded = set_table P a,
           gi_all = o1, gi_some = (\<not> o1 \<and> fst g), gi_toggleSelected = (\<lambda>b. select_rows P (snd g b))\<rparr>))"
  shows "list_all Q (live (DataTable E lib P data st))"
proof -
  have leaf: "list_all Q (live (leafRow P row))" for row
    using cells click by (auto simp: leafRow_def list_all_concat_map split: option.split)
  have row: "list_all Q (live (table_row P r))" for r
  proof (cases r)
    case (Grouped g)
    have "list_all Q (live (groupRow P g))"
      using leaf group [where g = "(g_someSelected g, g_toggle g)"]
      by (auto simp: groupRow_def Let_def split: option.split)
    with Grouped show ?thesis by (simp add: table_row_def)
  qed (simp add: table_row_def leaf)
  have head: "list_all Q (live (head_cell P m h))" for m h
    using state(1) heads by (auto simp: head_cell_def split: option.split dest: find_Some_iff [THEN iffD1])
  have body: "list_all Q (live (table_body E P m))" for m
    using row parts(2) by (auto simp: table_body_def list_all_concat_map)
  have pager: "list_all Q (live (table_pager E P m))" for m
    using state by (auto simp: table_pager_def)
  show ?thesis
    using state(2) parts(1) head body pager
    by (auto simp: DataTable_def Let_def shown_def list_all_concat_map)
qed

text \<open>A table library that shows every row, to evaluate examples with.\<close>

definition plain_lib :: "'a table_lib" where
  "plain_lib data key st sel = \<lparr>m_heads = [], m_rows = map (\<lambda>r. LeafRow \<lparr>l_original = r, l_selected = False, l_toggle = (\<lambda>_. [])\<rparr>) data,
     m_total = length data, m_pageIndex = 0, m_size = 25, m_pageCount = 1, m_canPrevious = False, m_canNext = False,
     m_previous = st, m_next = st, m_setSize = (\<lambda>_. st), m_filter = (\<lambda>_. st), m_allSelected = False,
     m_someSelected = False, m_toggleAll = (\<lambda>_. [])\<rparr>"

end
