(* ===== verification/Accounts_Page.thy ===== *)
theory Accounts_Page
  imports Accounts_Shared Data_Table Json "HOL-Library.Char_ord" "HOL-Library.List_Lexorder"
begin

text \<open>
  \<open>dashboard/src/pages/accounts/index.tsx\<close>: the accounts page. Its state holds what the query has
  returned, the filters, the selection, which dialog is open and the mark of the running action. A
  pending confirmation is a value (\<open>confirm\<close>): which deletion it is for, with what the code's closure
  has captured. The dialogs the page opens are components of their own and stand in its tree as
  elements with their properties and callbacks. An event reaches the handler of its own element only;
  the calls of \<open>stopPropagation\<close>, which keep it from the row around, have nothing left to do.
\<close>

datatype confirm = DeleteAccount Account | DeleteSelected "string list"

record accounts_st =
  ac_data :: "Account list option"
  ac_isLoading :: bool
  ac_search :: string
  ac_provider :: string
  ac_status :: string
  ac_selection :: "string list"
  ac_detailId :: "string option"
  ac_addMethod :: "string option"
  ac_exportOpen :: bool
  ac_confirm :: "confirm option"
  ac_busy :: "string option"
  ac_poolOpen :: "string option"
  ac_table :: table_state
  ac_confirmBusy :: bool

type_synonym aact = "accounts_st act"

definition STATUS_KEY :: string where "STATUS_KEY = ''kiro_accounts_status''"

definition accounts_mount :: "string option \<Rightarrow> accounts_st" where
  "accounts_mount stored = \<lparr>ac_data = None, ac_isLoading = True, ac_search = [], ac_provider = ''all'',
     ac_status = (case stored of None \<Rightarrow> ''active'' | Some v \<Rightarrow> v), ac_selection = [], ac_detailId = None,
     ac_addMethod = None, ac_exportOpen = False, ac_confirm = None, ac_busy = None, ac_poolOpen = None,
     ac_table = initial_table 25, ac_confirmBusy = False\<rparr>"

section \<open>What is shown\<close>

definition accounts :: "accounts_st \<Rightarrow> Account list" where
  "accounts s = (case ac_data s of None \<Rightarrow> [] | Some as \<Rightarrow> as)"

record counts =
  n_total :: nat
  n_active :: nat
  n_disabled :: nat
  n_autoDisabled :: nat
  n_banned :: nat
  n_overQuota :: nat

definition count_status :: "Status \<Rightarrow> counts \<Rightarrow> counts" where
  "count_status st c = (case st of
     Active \<Rightarrow> c\<lparr>n_active := n_active c + 1\<rparr>
   | Disabled \<Rightarrow> c\<lparr>n_disabled := n_disabled c + 1\<rparr>
   | AutoDisabled \<Rightarrow> c\<lparr>n_autoDisabled := n_autoDisabled c + 1\<rparr>
   | Banned \<Rightarrow> c\<lparr>n_banned := n_banned c + 1\<rparr>
   | OverQuota \<Rightarrow> c\<lparr>n_overQuota := n_overQuota c + 1\<rparr>
   | _ \<Rightarrow> c)"

definition status_counts :: "ui \<Rightarrow> Account list \<Rightarrow> counts" where
  "status_counts E as =
    (let c = fold (\<lambda>a. count_status (accountStatus E a)) as
          \<lparr>n_total = length as, n_active = 0, n_disabled = 0, n_autoDisabled = 0, n_banned = 0, n_overQuota = 0\<rparr> in
     c\<lparr>n_disabled := n_disabled c + n_autoDisabled c\<rparr>)"

definition providers_of :: "Account list \<Rightarrow> string list" where
  "providers_of as = sort (remdups (filter (\<lambda>p. p \<noteq> []) (map a_provider as)))"

definition row_shown :: "ui \<Rightarrow> accounts_st \<Rightarrow> Account \<Rightarrow> bool" where
  "row_shown E s a =
    (let q = js_lower (js_trim (ac_search s)); st = ac_status s in
     if ac_provider s \<noteq> ''all'' \<and> a_provider a \<noteq> ac_provider s then False
     else if st = ''enabled'' \<and> \<not> a_enabled a then False
     else if st = ''disabled'' \<and> a_enabled a then False
     else if st \<noteq> ''all'' \<and> st \<noteq> ''enabled'' \<and> st \<noteq> ''disabled'' \<and> status_name (accountStatus E a) \<noteq> st then False
     else q = [] \<or> js_includes q (js_lower (a_email a)) \<or> js_includes q (js_lower (a_nickname a)))"

definition rows :: "ui \<Rightarrow> accounts_st \<Rightarrow> Account list" where
  "rows E s = filter (row_shown E s) (accounts s)"

definition poolSize :: "ui \<Rightarrow> accounts_st \<Rightarrow> string \<Rightarrow> nat" where
  "poolSize E s p = length (filter (\<lambda>a. has (a_pool a) \<and> a_pool a = Some p) (rows E s))"

definition account_group :: "ui \<Rightarrow> accounts_st \<Rightarrow> Account \<Rightarrow> string option" where
  "account_group E s a = (if has (a_pool a) \<and> poolSize E s (text_of (a_pool a)) > 1 then a_pool a else None)"

definition selectedIds :: "accounts_st \<Rightarrow> string list" where
  "selectedIds s = map a_id (filter (\<lambda>a. a_id a \<in> set (ac_selection s)) (accounts s))"

section \<open>Actions\<close>

text \<open>Runs an action with a busy marker, error toast and list refresh.\<close>

definition run :: "string \<Rightarrow> aact \<Rightarrow> aact" where
  "run key f = Upd (\<lambda>s. s\<lparr>ac_busy := Some key\<rparr>)
    (finally_do (catch f (\<lambda>e. Emit (ToastErr (errorMessage e)) Done))
      (Upd (\<lambda>s. s\<lparr>ac_busy := None\<rparr>) (Emit (Invalidate [''accounts'']) Done)))"

definition setStatus :: "string \<Rightarrow> aact" where
  "setStatus v = Emit (SetItem STATUS_KEY v) (Upd (\<lambda>s. s\<lparr>ac_status := v\<rparr>) Done)"

definition account_path :: "Account \<Rightarrow> string \<Rightarrow> string" where
  "account_path a rest = ''/accounts/'' @ a_id a @ rest"

definition testAccount :: "ui \<Rightarrow> Account \<Rightarrow> aact" where
  "testAccount E a = run (''test:'' @ a_id a)
    (post (account_path a ''/test'') NoBody (\<lambda>r. get_field r ''model'' (\<lambda>m. get_field r ''reply'' (\<lambda>rep.
       Emit (ToastOkDesc (tx E ''accounts.testSuccess'' @ '' '' @ mid_dot @ '' '' @ js_string m) (js_string rep)) Done))))"

definition refreshAccount :: "ui \<Rightarrow> Account \<Rightarrow> aact" where
  "refreshAccount E a = run (''refresh:'' @ a_id a)
    (post (account_path a ''/refresh'') NoBody (\<lambda>_. Emit (ToastOk (tx E ''accounts.refreshed'')) Done))"

definition refreshModels :: "ui \<Rightarrow> Account \<Rightarrow> aact" where
  "refreshModels E a = run (''models:'' @ a_id a)
    (post (account_path a ''/models/refresh'') NoBody (\<lambda>r. get_field r ''count'' (\<lambda>c.
       Emit (ToastOk (tr E ''accounts.modelsRefreshed'' [js_string c])) Done)))"

definition toggleEnabled :: "ui \<Rightarrow> Account \<Rightarrow> aact" where
  "toggleEnabled E a = run (''toggle:'' @ a_id a)
    (put (account_path a []) (JsonBody (obj [(''enabled'', JBool (\<not> a_enabled a))])) (\<lambda>_.
       Emit (ToastOk (tx E (if a_enabled a then ''accounts.disabled'' else ''accounts.enabled''))) Done))"

definition copyJson :: "ui \<Rightarrow> Account \<Rightarrow> aact" where
  "copyJson E a = run (''copy:'' @ a_id a)
    (get (account_path a ''/full'') (\<lambda>full. await (WriteClipboard (JSON_stringify full)) (\<lambda>_.
       Emit (ToastOk (tx E ''accounts.copyJSONSuccess'')) Done)))"

definition deleteAccount :: "Account \<Rightarrow> aact" where
  "deleteAccount a = Upd (\<lambda>s. s\<lparr>ac_confirm := Some (DeleteAccount a)\<rparr>) Done"

definition batch :: "ui \<Rightarrow> string \<Rightarrow> string list \<Rightarrow> aact" where
  "batch E action ids = run (''batch:'' @ action)
    (post ''/accounts/batch'' (JsonBody (obj [(''ids'', jstrs ids), (''action'', JStr action)])) (\<lambda>r.
       if action = ''refresh'' then
         get_field r ''refreshed'' (\<lambda>n. get_field r ''failed'' (\<lambda>f.
           Emit (ToastOk (tr E ''batch.refreshResult'' [js_string (coalesce n (JNum 0)), js_string (coalesce f (JNum 0))]))
             (Upd (\<lambda>s. s\<lparr>ac_selection := []\<rparr>) Done)))
       else
         get_field r ''count'' (\<lambda>c.
           Emit (ToastOk (tr E (if action = ''enable'' then ''batch.enableResult'' else ''batch.disableResult'')
                [js_string (coalesce c (JNum (of_nat (length ids))))]))
             (Upd (\<lambda>s. s\<lparr>ac_selection := []\<rparr>) Done))))"

definition fulfilled :: "reply list \<Rightarrow> nat" where
  "fulfilled ps = length (filter (\<lambda>p. \<exists>v. p = Resolved v) ps)"

lemma fulfilled_code [code, simp]:
  "fulfilled [] = 0" "fulfilled (Resolved v # ps) = Suc (fulfilled ps)" "fulfilled (Rejected e # ps) = fulfilled ps"
  by (simp_all add: fulfilled_def)

text \<open>\<open>Promise.allSettled\<close> over one request per id: how many succeeded and how many did not.\<close>

definition loop :: "string list \<Rightarrow> (string \<Rightarrow> request) \<Rightarrow> (nat \<Rightarrow> nat \<Rightarrow> aact) \<Rightarrow> aact" where
  "loop ids f k = AwaitAll (map f ids) (\<lambda>ps. let ok = fulfilled ps in k ok (length ids - ok))"

definition bulkRefreshModels :: "ui \<Rightarrow> string list \<Rightarrow> aact" where
  "bulkRefreshModels E ids = run ''batch:models''
    (loop ids (\<lambda>i. Http ''POST'' (''/accounts/'' @ i @ ''/models/refresh'') NoBody) (\<lambda>ok fail.
       Emit (ToastOk (tr E ''batch.refreshModelsResult'' [show_nat ok, show_nat fail])) Done))"

definition bulkDelete :: "string list \<Rightarrow> aact" where
  "bulkDelete ids = Upd (\<lambda>s. s\<lparr>ac_confirm := Some (DeleteSelected ids)\<rparr>) Done"

definition refreshAllModels :: "ui \<Rightarrow> aact" where
  "refreshAllModels E = run ''models:all''
    (post ''/accounts/models/refresh'' NoBody (\<lambda>r. get_field r ''refreshed'' (\<lambda>n.
       Emit (ToastOk (tr E ''models.refreshAllDone'' [js_string n])) Done)))"

definition warmup :: "ui \<Rightarrow> string list option \<Rightarrow> string \<Rightarrow> aact" where
  "warmup E ids key =
    (let some = (case ids of None \<Rightarrow> [] | Some is \<Rightarrow> is) in
     run key
      (post ''/warmup'' (JsonBody (if some \<noteq> [] then obj [(''ids'', jstrs some)] else obj [])) (\<lambda>r.
         get_field r ''results'' (\<lambda>rs.
           Emit (ToastOk (tr E ''accounts.warmup.result'' (warmupCounts (warmup_results rs))))
             (if 1 < length some then Upd (\<lambda>s. s\<lparr>ac_selection := []\<rparr>) Done else Done)))))"

section \<open>Confirmation\<close>

definition confirm_title :: "ui \<Rightarrow> confirm \<Rightarrow> string" where
  "confirm_title E c = (case c of DeleteAccount a \<Rightarrow> tx E ''accounts.confirmDelete''
     | DeleteSelected ids \<Rightarrow> tx E ''batch.delete'')"

definition confirm_description :: "ui \<Rightarrow> confirm \<Rightarrow> string" where
  "confirm_description E c = (case c of DeleteAccount a \<Rightarrow> a_email a
     | DeleteSelected ids \<Rightarrow> tr E ''batch.confirmDelete'' [show_nat (length ids)])"

definition onConfirm :: "ui \<Rightarrow> confirm \<Rightarrow> aact" where
  "onConfirm E c = (case c of
     DeleteAccount a \<Rightarrow> run (''delete:'' @ a_id a)
       (del (account_path a []) (\<lambda>_. Emit (ToastOk (tx E ''accounts.deleteSuccess'')) Done))
   | DeleteSelected ids \<Rightarrow> run ''batch:delete''
       (loop ids (\<lambda>i. Http ''DELETE'' (''/accounts/'' @ i) NoBody) (\<lambda>ok fail.
          Emit (ToastOk (tr E ''batch.deleteResult'' [show_nat ok, show_nat fail]))
            (Upd (\<lambda>s. s\<lparr>ac_selection := []\<rparr>) Done))))"

definition close_confirm :: "bool \<Rightarrow> aact" where
  "close_confirm o1 = (if o1 then Done else Upd (\<lambda>s. s\<lparr>ac_confirm := None\<rparr>) Done)"

section \<open>Columns\<close>

definition plain_head :: "string \<Rightarrow> Account table_model \<Rightarrow> aact view" where
  "plain_head txt m = Txt txt"

definition select_head :: "ui \<Rightarrow> Account table_model \<Rightarrow> aact view" where
  "select_head E m = El ''Checkbox'' [aB ''checked'' (m_allSelected m), aB ''indeterminate'' (m_someSelected m),
     onB ''onCheckedChange'' (\<lambda>v. Upd (\<lambda>s. s\<lparr>ac_selection := m_toggleAll m v\<rparr>) Done),
     aS ''aria-label'' (tx E ''batch.selectAll'')] []"

definition select_cell :: "ui \<Rightarrow> Account leaf \<Rightarrow> aact view" where
  "select_cell E r = El ''Checkbox'' [aB ''checked'' (l_selected r),
     onB ''onCheckedChange'' (\<lambda>v. Upd (\<lambda>s. s\<lparr>ac_selection := l_toggle r v\<rparr>) Done),
     aS ''aria-label'' (tr E ''accounts.selectAccount'' [a_email (l_original r)])] []"

definition account_cell :: "Account leaf \<Rightarrow> aact view" where
  "account_cell r = (let a = l_original r in El ''div'' [] [
     El ''div'' [] [Txt (or_str (a_nickname a) (a_email a))],
     shown (a_nickname a \<noteq> []) (El ''div'' [] [Txt (a_email a)]),
     El ''div'' [] [
       El ''Badge'' [aS ''variant'' ''secondary''] [Txt (or_str (a_provider a) em_dash)],
       El ''span'' [] [Txt (a_authMethod a),
         shown (a_region a \<noteq> []) (Txt ('' '' @ mid_dot @ '' '' @ a_region a))]]])"

definition ban_reason :: "string \<Rightarrow> string" where
  "ban_reason s = (if starts_with ''Auto-disabled:'' s then trim_start (drop 14 s) else s)"

definition status_cell :: "ui \<Rightarrow> Account leaf \<Rightarrow> aact view" where
  "status_cell E r = (let a = l_original r; s = accountStatus E a; left = countdown E (a_expiresAt a) in
     El ''div'' [] [
       StatusDot (statusTone s) (tx E (statusKey s)),
       shown (s = Banned \<and> a_banStatus a \<noteq> []) (El ''div'' [] [Txt (a_banStatus a)]),
       shown (s = AutoDisabled) (El ''div'' [aS ''title'' (a_banReason a)] [Txt (ban_reason (a_banReason a))]),
       shown (a_expiresAt a > 0) (El ''div'' []
         [Txt (tx E ''accounts.expiry'' @ '': '' @ or_str left (tx E ''accounts.expired''))]),
       El ''div'' (if a_warmupStatus a = ''error'' then [aS ''title'' (a_warmupError a)] else []) [
         StatusDot (if a_warmupStatus a = ''ok'' then ToneSuccess else if a_warmupStatus a = ''error'' then ToneDanger
                    else ToneMuted)
           (tx E ''accounts.warmup.label'' @ '': '' @ or_str (ago E (a_lastWarmup a)) (tx E ''accounts.warmup.never''))]])"

definition usage_cell :: "ui \<Rightarrow> Account leaf \<Rightarrow> aact view" where
  "usage_cell E r = (let a = l_original r in El ''div'' [] [
     El ''div'' [] [
       El ''Badge'' [aS ''variant'' ''outline''] [Txt (subscriptionLabel E a)],
       El ''span'' [] [Txt (formatNumber E (Some (a_usageCurrent a)) @ ''/'' @ formatNumber E (Some (a_usageLimit a)))]],
     El ''Progress'' [aN ''value'' (of_int (pct (Some (a_usagePercent a))))] [],
     shown (a_trialUsageLimit a > 0) (frag [
       El ''div'' [] [
         El ''span'' [] [Txt (tx E ''accounts.trial'')],
         El ''span'' [] [Txt (formatNumber E (Some (a_trialUsageCurrent a)) @ ''/'' @ formatNumber E (Some (a_trialUsageLimit a)))]],
       El ''Progress'' [aN ''value'' (of_int (pct (Some (a_trialUsagePercent a))))] []])])"

definition weight_cell :: "Account leaf \<Rightarrow> aact view" where
  "weight_cell r = (let a = l_original r in
     if a_weight a \<ge> 2 then El ''Badge'' [] [Txt (show_int (a_weight a))]
     else El ''span'' [] [Txt (show_int (a_weight a))])"

definition stats_cell :: "ui \<Rightarrow> Account leaf \<Rightarrow> aact view" where
  "stats_cell E r = (let a = l_original r in El ''div'' [] [
     El ''div'' [] [Txt (formatNumber E (Some (a_requestCount a)) @ '' ''), El ''span'' [] [Txt (tx E ''accounts.requests'')]],
     El ''div'' [] [Txt (formatNumber E (Some (a_totalTokens a)) @ '' ''), El ''span'' [] [Txt (tx E ''accounts.tokens'')]],
     El ''div'' [] [Txt (to_fixed 2 (a_totalCredits a) @ '' ''), El ''span'' [] [Txt (tx E ''accounts.credits'')]]])"

definition lastUsed_cell :: "ui \<Rightarrow> Account leaf \<Rightarrow> aact view" where
  "lastUsed_cell E r = El ''span'' [] [Txt (formatTime E (a_lastUsed (l_original r)))]"

definition menu_item :: "aact \<Rightarrow> aact view list \<Rightarrow> aact view" where
  "menu_item h cs = El ''DropdownMenuItem'' [on ''onClick'' h] cs"

definition actions_cell :: "ui \<Rightarrow> accounts_st \<Rightarrow> Account leaf \<Rightarrow> aact view" where
  "actions_cell E s r =
    (let a = l_original r;
         rowBusy = (case ac_busy s of None \<Rightarrow> False | Some b \<Rightarrow> ends_with ('':'' @ a_id a) b) in
     El ''div'' [] [El ''DropdownMenu'' [] [
       El ''DropdownMenuTrigger'' [] [
         El ''Button'' [aS ''variant'' ''ghost'', aS ''aria-label'' (tx E ''common.actions'')]
           [if rowBusy then spinner else ic ''LuEllipsis'']],
       El ''DropdownMenuContent'' [] [
         menu_item (testAccount E a) [ic ''LuFlaskConical'', Txt (tx E ''accounts.test'')],
         menu_item (refreshAccount E a) [ic ''LuRefreshCw'', Txt (tx E ''accounts.refresh'')],
         menu_item (refreshModels E a) [ic ''LuGauge'', Txt (tx E ''batch.refreshModels'')],
         menu_item (warmup E (Some [a_id a]) (''warmup:'' @ a_id a)) [ic ''LuFlame'', Txt (tx E ''accounts.warmup.run'')],
         shown (has (a_pool a)) (menu_item (Upd (\<lambda>x. x\<lparr>ac_poolOpen := a_pool a\<rparr>) Done)
           [ic ''LuSlidersHorizontal'', Txt (tx E ''pool.manage'')]),
         menu_item (copyJson E a) [Txt (tx E ''accounts.copyJSON'')],
         El ''DropdownMenuSeparator'' [] [],
         menu_item (toggleEnabled E a) [ic (if a_enabled a then ''LuCircleOff'' else ''LuCircleCheck''),
           Txt (tx E (if a_enabled a then ''accounts.disable'' else ''accounts.enable''))],
         El ''DropdownMenuItem'' [aS ''variant'' ''destructive'', on ''onClick'' (deleteAccount a)]
           [ic ''LuTrash2'', Txt (tx E ''accounts.delete'')]]]])"

definition column :: "string \<Rightarrow> (Account table_model \<Rightarrow> aact view) \<Rightarrow> (Account leaf \<Rightarrow> aact view) \<Rightarrow>
    (Account, accounts_st) column" where
  "column i h c = \<lparr>col_id = i, col_header = h, col_cell = c\<rparr>"

definition account_columns :: "ui \<Rightarrow> accounts_st \<Rightarrow> (Account, accounts_st) column list" where
  "account_columns E s = [
     column ''select'' (select_head E) (select_cell E),
     column ''account'' (plain_head (tx E ''accounts.account'')) account_cell,
     column ''status'' (plain_head (tx E ''filter.status'')) (status_cell E),
     column ''usage'' (plain_head (tx E ''detail.usage'')) (usage_cell E),
     column ''weight'' (plain_head (tx E ''accounts.weight'')) weight_cell,
     column ''stats'' (plain_head (tx E ''detail.statistics'')) (stats_cell E),
     column ''lastUsed'' (plain_head (tx E ''accounts.lastUsed'')) (lastUsed_cell E),
     column ''actions'' (plain_head []) (actions_cell E s)]"

section \<open>The page\<close>

definition is_busy :: "accounts_st \<Rightarrow> bool" where
  "is_busy s = has (ac_busy s)"

definition busy_icon :: "accounts_st \<Rightarrow> string \<Rightarrow> string \<Rightarrow> aact view" where
  "busy_icon s key icon = (if ac_busy s = Some key then spinner else ic icon)"

definition renderPool :: "ui \<Rightarrow> accounts_st \<Rightarrow> (Account, accounts_st) group_info \<Rightarrow> aact view" where
  "renderPool E s g =
    (let ids = map a_id (gi_rows g);
         active = length (filter (\<lambda>a. accountStatus E a = Active) (gi_rows g));
         total = (\<lambda>f. sum_list (map f (gi_rows g)));
         key = gi_key g in
     El ''div'' [] [
       El ''Button'' [aS ''variant'' ''ghost'', on ''onClick'' (gi_toggleExpanded g),
           aS ''aria-label'' (tx E (if gi_expanded g then ''pool.collapse'' else ''pool.expand''))]
         [ic (if gi_expanded g then ''LuChevronDown'' else ''LuChevronRight'')],
       El ''Checkbox'' [aB ''checked'' (gi_all g), aB ''indeterminate'' (gi_some g),
           onB ''onCheckedChange'' (gi_toggleSelected g), aS ''aria-label'' (tr E ''pool.select'' [key])] [],
       El ''button'' [on ''onClick'' (gi_toggleExpanded g)] [
         El ''span'' [] [Txt (or_str (a_provider (gi_rows g ! 0)) key)],
         El ''Badge'' [aS ''variant'' ''secondary''] [Txt key],
         El ''span'' [] [Txt (tr E ''pool.summary'' [show_nat (length (gi_rows g)), show_nat active])]],
       El ''span'' [] [Txt (formatNumber E (Some (total a_usageCurrent)) @ ''/'' @ formatNumber E (Some (total a_usageLimit))
          @ '' '' @ mid_dot @ '' '' @ formatNumber E (Some (total a_requestCount)) @ '' '' @ tx E ''accounts.requests'')],
       El ''div'' [] [
         El ''Button'' [aS ''variant'' ''outline'', aB ''disabled'' (is_busy s),
             on ''onClick'' (Upd (\<lambda>x. x\<lparr>ac_poolOpen := Some key\<rparr>) Done)]
           [ic ''LuSlidersHorizontal'', Txt (tx E ''pool.manage'')],
         El ''Button'' [aS ''variant'' ''outline'', aB ''disabled'' (is_busy s), on ''onClick'' (batch E ''enable'' ids)]
           [ic ''LuCircleCheck'', Txt (tx E ''accounts.enable'')],
         El ''Button'' [aS ''variant'' ''outline'', aB ''disabled'' (is_busy s), on ''onClick'' (batch E ''disable'' ids)]
           [ic ''LuCircleOff'', Txt (tx E ''accounts.disable'')],
         El ''Button'' [aS ''variant'' ''outline'', aB ''disabled'' (is_busy s),
             on ''onClick'' (warmup E (Some ids) (''warmup:pool:'' @ key))]
           [busy_icon s (''warmup:pool:'' @ key) ''LuFlame'', Txt (tx E ''accounts.warmup.run'')]]])"

definition statusOptions :: "ui \<Rightarrow> opt list" where
  "statusOptions E = [(''active'', tx E ''filter.active''), (''all'', tx E ''filter.all''),
     (''enabled'', tx E ''filter.enabled''), (''disabled'', tx E ''filter.disabled''),
     (''autoDisabled'', tx E ''accounts.autoDisabled''), (''banned'', tx E ''filter.banned''),
     (''overQuota'', tx E ''accounts.overQuota''), (''expired'', tx E ''accounts.expired''),
     (''noToken'', tx E ''accounts.noToken'')]"

definition header_actions :: "ui \<Rightarrow> accounts_st \<Rightarrow> aact view" where
  "header_actions E s = (let idle = (is_busy s \<or> accounts s = []) in frag [
     El ''Button'' [aS ''variant'' ''outline'', on ''onClick'' (batch E ''refresh'' (map a_id (accounts s))), aB ''disabled'' idle]
       [busy_icon s ''batch:refresh'' ''LuRefreshCw'', Txt (tx E ''accounts.refreshAll'')],
     El ''Button'' [aS ''variant'' ''outline'', on ''onClick'' (refreshAllModels E), aB ''disabled'' idle]
       [busy_icon s ''models:all'' ''LuGauge'', Txt (tx E ''models.refreshAll'')],
     El ''Button'' [aS ''variant'' ''outline'', on ''onClick'' (warmup E None ''warmup:all''), aB ''disabled'' idle]
       [busy_icon s ''warmup:all'' ''LuFlame'', Txt (tx E ''accounts.warmup.run'')],
     El ''Button'' [aS ''variant'' ''outline'', on ''onClick'' (Upd (\<lambda>x. x\<lparr>ac_exportOpen := True\<rparr>) Done),
         aB ''disabled'' (accounts s = [])] [ic ''LuDownload'', Txt (tx E ''accounts.export'')],
     El ''Button'' [aS ''variant'' ''outline'', on ''onClick'' (Upd (\<lambda>x. x\<lparr>ac_addMethod := Some ''credentials''\<rparr>) Done)]
       [ic ''LuUpload'', Txt (tx E ''accounts.import'')],
     El ''Button'' [on ''onClick'' (Upd (\<lambda>x. x\<lparr>ac_addMethod := Some ''pick''\<rparr>) Done)]
       [ic ''LuPlus'', Txt (tx E ''accounts.add'')]])"

definition status_cards :: "ui \<Rightarrow> accounts_st \<Rightarrow> aact view" where
  "status_cards E s = (let c = status_counts E (accounts s) in El ''div'' [] [
     StatCard (tx E ''accounts.total'') (show_nat (n_total c)) Nothing (ic ''LuUsers'') ToneDefault,
     StatCard (tx E ''accounts.available'') (show_nat (n_active c)) Nothing (ic ''LuCircleCheck'') ToneSuccess,
     StatCard (tx E ''accounts.disabled'') (show_nat (n_disabled c))
       (if n_autoDisabled c > 0 then Txt (tr E ''accounts.autoDisabledCount'' [show_nat (n_autoDisabled c)]) else Nothing)
       (ic ''LuCircleOff'') (if n_autoDisabled c > 0 then ToneWarning else ToneDefault),
     StatCard (tx E ''accounts.banned'') (show_nat (n_banned c)) Nothing (ic ''LuBan'')
       (if n_banned c > 0 then ToneDanger else ToneDefault),
     StatCard (tx E ''accounts.overQuota'') (show_nat (n_overQuota c)) Nothing (ic ''LuGauge'')
       (if n_overQuota c > 0 then ToneWarning else ToneDefault)])"

definition selection_bar :: "ui \<Rightarrow> accounts_st \<Rightarrow> aact view" where
  "selection_bar E s = (let ids = selectedIds s; b = is_busy s in shown (ids \<noteq> []) (El ''div'' [] [
     El ''span'' [] [Txt (tr E ''batch.selected'' [show_nat (length ids)])],
     El ''div'' [] [],
     El ''Button'' [aS ''variant'' ''outline'', aB ''disabled'' b, on ''onClick'' (batch E ''enable'' ids)]
       [ic ''LuCircleCheck'', Txt (tx E ''batch.enable'')],
     El ''Button'' [aS ''variant'' ''outline'', aB ''disabled'' b, on ''onClick'' (batch E ''disable'' ids)]
       [ic ''LuCircleOff'', Txt (tx E ''batch.disable'')],
     El ''Button'' [aS ''variant'' ''outline'', aB ''disabled'' b, on ''onClick'' (batch E ''refresh'' ids)]
       [ic ''LuRefreshCw'', Txt (tx E ''batch.refresh'')],
     El ''Button'' [aS ''variant'' ''outline'', aB ''disabled'' b, on ''onClick'' (bulkRefreshModels E ids)]
       [ic ''LuGauge'', Txt (tx E ''batch.refreshModels'')],
     El ''Button'' [aS ''variant'' ''outline'', aB ''disabled'' b, on ''onClick'' (warmup E (Some ids) ''warmup:selected'')]
       [busy_icon s ''warmup:selected'' ''LuFlame'', Txt (tx E ''accounts.warmup.runSelected'')],
     El ''Button'' [aS ''variant'' ''destructive'', aB ''disabled'' b, on ''onClick'' (bulkDelete ids)]
       [ic ''LuTrash2'', Txt (tx E ''batch.delete'')],
     El ''Button'' [aS ''variant'' ''ghost'', on ''onClick'' (Upd (\<lambda>x. x\<lparr>ac_selection := []\<rparr>) Done)]
       [Txt (tx E ''common.cancel'')]]))"

definition filter_bar :: "ui \<Rightarrow> accounts_st \<Rightarrow> aact view" where
  "filter_bar E s = frag [
     El ''Input'' [aS ''value'' (ac_search s), onS ''onChange'' (\<lambda>v. Upd (\<lambda>x. x\<lparr>ac_search := v\<rparr>) Done),
                   aS ''placeholder'' (tx E ''filter.search'')] [],
     SimpleSelect (ac_provider s) (\<lambda>v. Upd (\<lambda>x. x\<lparr>ac_provider := v\<rparr>) Done)
       ((''all'', tx E ''accounts.allProviders'') # map (\<lambda>p. (p, p)) (providers_of (accounts s))) False,
     SimpleSelect (ac_status s) setStatus (statusOptions E) False,
     El ''span'' [] [Txt (tr E ''accounts.showing'' [show_nat (length (rows E s)), show_nat (length (accounts s))])]]"

definition add_button :: "ui \<Rightarrow> aact view" where
  "add_button E = El ''Button'' [on ''onClick'' (Upd (\<lambda>x. x\<lparr>ac_addMethod := Some ''pick''\<rparr>) Done)]
     [ic ''LuPlus'', Txt (tx E ''accounts.add'')]"

definition accounts_table :: "ui \<Rightarrow> accounts_st \<Rightarrow> (Account, accounts_st) table_props" where
  "accounts_table E s = \<lparr>tp_columns = account_columns E s, tp_searchable = False, tp_searchPlaceholder = None,
     tp_toolbar = filter_bar E s,
     tp_emptyState = EmptyState (tx E ''accounts.empty'') (if accounts s \<noteq> [] then [] else tx E ''accounts.emptyHint'')
        (shown (accounts s = []) (add_button E)),
     tp_rowSelection = ac_selection s, tp_onSelect = Some (\<lambda>sel. Upd (\<lambda>x. x\<lparr>ac_selection := sel\<rparr>) Done),
     tp_onRowClick = Some (\<lambda>a. Upd (\<lambda>x. x\<lparr>ac_detailId := Some (a_id a)\<rparr>) Done),
     tp_pageSize = 25, tp_groupBy = Some (account_group E s), tp_renderGroup = Some (renderPool E s),
     tp_set = (\<lambda>st x. x\<lparr>ac_table := st\<rparr>)\<rparr>"

definition page_dialogs :: "ui \<Rightarrow> accounts_st \<Rightarrow> aact view" where
  "page_dialogs E s = frag [
     El ''AccountDetailSheet''
       [aS ''account'' (case find (\<lambda>a. Some (a_id a) = ac_detailId s) (accounts s) of None \<Rightarrow> [] | Some a \<Rightarrow> a_id a),
        on ''onClose'' (Upd (\<lambda>x. x\<lparr>ac_detailId := None\<rparr>) Done)] [],
     El ''AddAccountDialog'' [aB ''open'' (ac_addMethod s \<noteq> None),
        aS ''initialMethod'' (case ac_addMethod s of None \<Rightarrow> [] | Some m \<Rightarrow> if m = ''pick'' then [] else m),
        on ''onClose'' (Upd (\<lambda>x. x\<lparr>ac_addMethod := None\<rparr>) Done)] [],
     El ''PoolDialog'' [aS ''pool'' (text_of (ac_poolOpen s)),
        aS ''members'' (js_join '','' (map a_id (filter (\<lambda>a. ac_poolOpen s \<noteq> None \<and> a_pool a = ac_poolOpen s) (accounts s)))),
        on ''onClose'' (Upd (\<lambda>x. x\<lparr>ac_poolOpen := None\<rparr>) Done)] [],
     El ''ExportDialog'' [aB ''open'' (ac_exportOpen s),
        onB ''onOpenChange'' (\<lambda>o1. Upd (\<lambda>x. x\<lparr>ac_exportOpen := o1\<rparr>) Done),
        aS ''accounts'' (js_join '','' (map a_id (accounts s))), aS ''preselected'' (js_join '','' (selectedIds s))] [],
     ConfirmDialog E (ac_confirm s \<noteq> None) close_confirm
       (case ac_confirm s of None \<Rightarrow> [] | Some c \<Rightarrow> confirm_title E c)
       (case ac_confirm s of None \<Rightarrow> Nothing | Some c \<Rightarrow> Txt (confirm_description E c))
       (Some (tx E ''common.delete'')) True
       (case ac_confirm s of None \<Rightarrow> Done | Some c \<Rightarrow> onConfirm E c)
       (ac_confirmBusy s) (\<lambda>b x. x\<lparr>ac_confirmBusy := b\<rparr>)]"

definition AccountsPage :: "ui \<Rightarrow> Account table_lib \<Rightarrow> accounts_st \<Rightarrow> aact view" where
  "AccountsPage E lib s = El ''div'' [] [
     PageHeader E (tx E ''accounts.title'') (tx E ''accounts.subtitle'') (header_actions E s),
     status_cards E s,
     selection_bar E s,
     (if ac_isLoading s then LoadingBlock E None 3
      else DataTable E lib (accounts_table E s) (rows E s) (ac_table s)),
     page_dialogs E s]"

section \<open>Lemmas\<close>

lemma may_send_run: "may_send P (run key f) \<Longrightarrow> may_send P f"
  by (auto simp: run_def finally_do_def dest!: may_send_andThen may_send_catch)

lemma no_delete:
  "\<not> may_send deletes (testAccount E a)" "\<not> may_send deletes (refreshAccount E a)"
  "\<not> may_send deletes (refreshModels E a)" "\<not> may_send deletes (toggleEnabled E a)"
  "\<not> may_send deletes (copyJson E a)" "\<not> may_send deletes (batch E action ids)"
  "\<not> may_send deletes (bulkRefreshModels E ids)" "\<not> may_send deletes (refreshAllModels E)"
  "\<not> may_send deletes (warmup E is key)"
  by (auto simp: testAccount_def refreshAccount_def refreshModels_def toggleEnabled_def copyJson_def
      batch_def bulkRefreshModels_def refreshAllModels_def warmup_def post_def put_def get_def get_field_def
      loop_def list_ex_iff Let_def dest!: may_send_run split: if_splits)

lemma no_delete_local:
  "\<not> may_send deletes (deleteAccount a)" "\<not> may_send deletes (bulkDelete ids)"
  "\<not> may_send deletes (setStatus v)" "\<not> may_send deletes (close_confirm b)"
  by (simp_all add: deleteAccount_def bulkDelete_def setStatus_def close_confirm_def)

lemma may_send_confirm: "may_send P (confirm_run close_confirm cf sb) \<Longrightarrow> may_send P cf"
  by (auto simp: close_confirm_def dest!: may_send_confirm_run)

definition confirm_act :: "ui \<Rightarrow> accounts_st \<Rightarrow> aact" where
  "confirm_act E s = confirm_run close_confirm (case ac_confirm s of None \<Rightarrow> Done | Some c \<Rightarrow> onConfirm E c)
     (\<lambda>b x. x\<lparr>ac_confirmBusy := b\<rparr>)"

text \<open>Every handler of the page but the button of an open confirmation.\<close>

definition harmless :: "ui \<Rightarrow> accounts_st \<Rightarrow> aact \<Rightarrow> bool" where
  "harmless E s a \<longleftrightarrow> may_send deletes a \<longrightarrow> a = confirm_act E s \<and> ac_confirm s \<noteq> None \<and> \<not> ac_confirmBusy s"

lemma harmless_rules: "\<not> may_send deletes a \<Longrightarrow> harmless E s a"
  by (simp add: harmless_def)

lemma harmless_actions [simp]:
  "harmless E s (testAccount E' a)" "harmless E s (refreshAccount E' a)" "harmless E s (refreshModels E' a)"
  "harmless E s (toggleEnabled E' a)" "harmless E s (copyJson E' a)" "harmless E s (batch E' action ids)"
  "harmless E s (bulkRefreshModels E' ids)" "harmless E s (refreshAllModels E')" "harmless E s (warmup E' is key)"
  "harmless E s (deleteAccount a)" "harmless E s (bulkDelete ids)" "harmless E s (setStatus v)"
  "harmless E s (close_confirm b)" "harmless E s (Upd f Done)"
  by (auto intro!: harmless_rules simp: no_delete no_delete_local)

lemma harmless_page: "list_all (handler_all (harmless E s)) (live (AccountsPage E lib s))"
proof -
  have cols: "list_all (handler_all (harmless E s)) (live (col_header c m))"
    "list_all (handler_all (harmless E s)) (live (col_cell c l))" if "c \<in> set (account_columns E s)" for c m l
    using that by (auto simp: account_columns_def column_def plain_head_def select_head_def select_cell_def
        account_cell_def status_cell_def usage_cell_def weight_cell_def stats_cell_def lastUsed_cell_def
        actions_cell_def menu_item_def view_live Let_def)
  have table: "list_all (handler_all (harmless E s)) (live (DataTable E lib (accounts_table E s) (rows E s) (ac_table s)))"
    by (rule list_all_DataTable)
      (auto simp: accounts_table_def set_table_def select_rows_def filter_bar_def add_button_def renderPool_def
        busy_icon_def view_live cols Let_def)
  have dialogs: "list_all (handler_all (harmless E s)) (live (page_dialogs E s))"
    by (auto simp: page_dialogs_def view_live confirm_act_def [symmetric] split: option.split)
      (auto simp: harmless_def confirm_act_def)
  have head: "list_all (handler_all (harmless E s)) (live (header_actions E s))"
    "list_all (handler_all (harmless E s)) (live (selection_bar E s))"
    by (auto simp: header_actions_def selection_bar_def busy_icon_def Let_def)
  have cards: "live (status_cards E s) = []"
    by (simp add: status_cards_def view_live Let_def)
  show ?thesis
    using table dialogs head by (simp add: AccountsPage_def view_live cards)
qed

text \<open>Counting by status.\<close>

lemma count_status_simps [simp]:
  "n_total (count_status st c) = n_total c"
  "n_active (count_status st c) = n_active c + (if st = Active then 1 else 0)"
  "n_disabled (count_status st c) = n_disabled c + (if st = Disabled then 1 else 0)"
  "n_autoDisabled (count_status st c) = n_autoDisabled c + (if st = AutoDisabled then 1 else 0)"
  "n_banned (count_status st c) = n_banned c + (if st = Banned then 1 else 0)"
  "n_overQuota (count_status st c) = n_overQuota c + (if st = OverQuota then 1 else 0)"
  by (cases st; simp add: count_status_def)+

lemma count_statuses:
  "n_total (fold (\<lambda>a. count_status (accountStatus E a)) as c) = n_total c"
  "n_active (fold (\<lambda>a. count_status (accountStatus E a)) as c) = n_active c + length (filter (\<lambda>a. accountStatus E a = Active) as)"
  "n_disabled (fold (\<lambda>a. count_status (accountStatus E a)) as c) = n_disabled c + length (filter (\<lambda>a. accountStatus E a = Disabled) as)"
  "n_autoDisabled (fold (\<lambda>a. count_status (accountStatus E a)) as c) = n_autoDisabled c + length (filter (\<lambda>a. accountStatus E a = AutoDisabled) as)"
  "n_banned (fold (\<lambda>a. count_status (accountStatus E a)) as c) = n_banned c + length (filter (\<lambda>a. accountStatus E a = Banned) as)"
  "n_overQuota (fold (\<lambda>a. count_status (accountStatus E a)) as c) = n_overQuota c + length (filter (\<lambda>a. accountStatus E a = OverQuota) as)"
  by (induction as arbitrary: c; simp)+

lemma disabled_split:
  "length (filter (\<lambda>a. accountStatus E a = Disabled) as) + length (filter (\<lambda>a. accountStatus E a = AutoDisabled) as) =
     length (filter (\<lambda>a. \<not> a_enabled a) as)"
proof (induction as)
  case (Cons a as)
  then show ?case using accountStatus_enabled [of E a] by auto
qed simp

lemma status_partition:
  "length as = length (filter (\<lambda>a. accountStatus E a = Active) as) + length (filter (\<lambda>a. \<not> a_enabled a) as)
     + length (filter (\<lambda>a. accountStatus E a = Banned) as) + length (filter (\<lambda>a. accountStatus E a = OverQuota) as)
     + length (filter (\<lambda>a. accountStatus E a = Expired) as) + length (filter (\<lambda>a. accountStatus E a = NoToken) as)"
proof (induction as)
  case (Cons a as)
  have "accountStatus E a = Active \<and> a_enabled a \<or> accountStatus E a \<in> {Disabled, AutoDisabled} \<and> \<not> a_enabled a
      \<or> accountStatus E a \<in> {Banned, OverQuota, Expired, NoToken} \<and> a_enabled a"
    by (simp add: accountStatus_def)
  with Cons show ?case by auto
qed simp

definition with_status :: "string \<Rightarrow> accounts_st \<Rightarrow> accounts_st" where
  "with_status v s = s\<lparr>ac_status := v, ac_search := [], ac_provider := ''all''\<rparr>"

lemma row_shown_with_status: "row_shown E (with_status v s) = (\<lambda>a.
    if v = ''all'' then True else if v = ''enabled'' then a_enabled a
    else if v = ''disabled'' then \<not> a_enabled a else status_name (accountStatus E a) = v)"
  by (rule ext) (simp add: row_shown_def with_status_def Let_def)

lemma accounts_with_status [simp]: "accounts (with_status v s) = accounts s"
  by (simp add: accounts_def with_status_def)

lemma rows_with_status:
  "rows E (with_status (status_name st) s) = (if st = Disabled then filter (\<lambda>a. \<not> a_enabled a) (accounts s)
     else filter (\<lambda>a. accountStatus E a = st) (accounts s))"
  "rows E (with_status ''all'' s) = accounts s"
proof -
  have "status_name st \<noteq> ''all''" "status_name st \<noteq> ''enabled''" "status_name st = ''disabled'' \<longleftrightarrow> st = Disabled"
    by (cases st; simp)+
  then show "rows E (with_status (status_name st) s) = (if st = Disabled then filter (\<lambda>a. \<not> a_enabled a) (accounts s)
     else filter (\<lambda>a. accountStatus E a = st) (accounts s))"
    by (simp add: rows_def row_shown_with_status)
  show "rows E (with_status ''all'' s) = accounts s"
    by (simp add: rows_def row_shown_with_status)
qed

lemma answers_length: "length (fst (answer_all srv w rs)) = length rs"
proof (induction rs arbitrary: w)
  case (Cons r rs)
  obtain p w1 where 1: "srv w r = (p, w1)" by fastforce
  obtain ps w2 where "answer_all srv w1 rs = (ps, w2)" by fastforce
  with 1 Cons.IH [of w1] show ?case by simp
qed simp

lemma fulfilled_le: "fulfilled ps \<le> length ps"
  by (simp add: fulfilled_def)

section \<open>Properties\<close>

text \<open>Each card counts what its filter shows: the number on the cards for all, active, disabled,
  banned and over-quota accounts is the number of rows the table lists under the status filter of
  that name, and all accounts are the sum of the rows under the six filters that exclude each other.\<close>

theorem cards_match_filters:
  "n_total (status_counts E (accounts s)) = length (rows E (with_status ''all'' s)) \<and>
   n_active (status_counts E (accounts s)) = length (rows E (with_status ''active'' s)) \<and>
   n_disabled (status_counts E (accounts s)) = length (rows E (with_status ''disabled'' s)) \<and>
   n_autoDisabled (status_counts E (accounts s)) = length (rows E (with_status ''autoDisabled'' s)) \<and>
   n_banned (status_counts E (accounts s)) = length (rows E (with_status ''banned'' s)) \<and>
   n_overQuota (status_counts E (accounts s)) = length (rows E (with_status ''overQuota'' s)) \<and>
   n_total (status_counts E (accounts s)) =
     (\<Sum>v\<leftarrow>[''active'', ''disabled'', ''banned'', ''overQuota'', ''expired'', ''noToken'']. length (rows E (with_status v s)))"
  using rows_with_status(1) [of E Active s] rows_with_status(1) [of E Disabled s]
    rows_with_status(1) [of E AutoDisabled s] rows_with_status(1) [of E Banned s]
    rows_with_status(1) [of E OverQuota s] rows_with_status(1) [of E Expired s]
    rows_with_status(1) [of E NoToken s] rows_with_status(2) [of E s]
    status_partition [of "accounts s" E] disabled_split [of E "accounts s"]
  by (simp add: status_counts_def Let_def count_statuses)

text \<open>C26: nothing is deleted without a confirmation: of everything a user can click or type on the
  page, in any state and whatever the table library shows, only the button of an open confirmation
  dialog can lead to a DELETE request, and then only for the accounts the dialog was opened for.\<close>

theorem delete_needs_confirmation:
  assumes "h \<in> set (live (AccountsPage E lib s))" "fire h inp = Some a"
    and "may_send (\<lambda>r. deletes r \<and> r = d) a"
  shows "\<exists>c. ac_confirm s = Some c \<and> \<not> ac_confirmBusy s \<and> a = confirm_act E s \<and>
    (\<exists>i. d = Http ''DELETE'' (''/accounts/'' @ i) NoBody \<and>
         (case c of DeleteAccount x \<Rightarrow> i = a_id x | DeleteSelected ids \<Rightarrow> i \<in> set ids))"
proof -
  have "may_send deletes a" using assms(3) by (rule may_send_mono) simp
  moreover have "harmless E s a"
    using harmless_page [of E s lib] assms(1,2) by (auto simp: list_all_iff handler_all_def)
  ultimately have a: "a = confirm_act E s" "ac_confirm s \<noteq> None" "\<not> ac_confirmBusy s"
    by (auto simp: harmless_def)
  then obtain c where c: "ac_confirm s = Some c" by blast
  with assms(3) a(1) have "may_send (\<lambda>r. deletes r \<and> r = d) (onConfirm E c)"
    by (auto simp: confirm_act_def dest: may_send_confirm)
  then have "\<exists>i. d = Http ''DELETE'' (''/accounts/'' @ i) NoBody \<and>
      (case c of DeleteAccount x \<Rightarrow> i = a_id x | DeleteSelected ids \<Rightarrow> i \<in> set ids)"
    by (auto simp: onConfirm_def del_def loop_def account_path_def list_ex_iff Let_def
        split: confirm.splits dest!: may_send_run)
  with a c show ?thesis by blast
qed

definition confirming :: accounts_st where
  "confirming = (accounts_mount None)\<lparr>ac_confirm := Some (DeleteSelected [''a1'', ''a2''])\<rparr>"

theorem delete_needs_confirmation_witness:
  "\<exists>c. ac_confirm confirming = Some c \<and> (case c of DeleteAccount x \<Rightarrow> ''a2'' = a_id x | DeleteSelected ids \<Rightarrow> ''a2'' \<in> set ids)"
proof -
  have shown: "Plain (confirm_act sample_ui confirming) \<in> set (live (AccountsPage sample_ui plain_lib confirming))"
    by (simp add: AccountsPage_def page_dialogs_def view_live confirm_act_def confirming_def accounts_mount_def)
  have sends: "may_send (\<lambda>r. deletes r \<and> r = Http ''DELETE'' ''/accounts/a2'' NoBody) (confirm_act sample_ui confirming)"
    by (simp add: confirm_act_def confirm_run_def confirming_def onConfirm_def run_def loop_def finally_do_def Let_def)
  from delete_needs_confirmation [OF shown _ sends, of Click] show ?thesis by auto
qed

text \<open>An action settles: whatever an action of the page does and whatever the server answers, the
  handler ends without an escaping error, the busy mark is clear, the list is refreshed last, and an
  error of the action is shown.\<close>

theorem run_settles:
  assumes "exec f srv (s\<lparr>ac_busy := Some key\<rparr>) w = (e, s1, l1, w1)"
  shows "exec (run key f) srv s w = (None, s1\<lparr>ac_busy := None\<rparr>,
    l1 @ (case e of None \<Rightarrow> [] | Some x \<Rightarrow> [ToastErr (errorMessage x)]) @ [Invalidate [''accounts'']], w1)"
  using assms by (simp add: run_def exec_finally exec_catch split: option.split)

theorem run_settles_witness:
  "exec (refreshAccount sample_ui blank_account) (\<lambda>w r. (Rejected (ApiErr 500 ''boom'' False), w)) (accounts_mount None) () =
    (None, accounts_mount None, [ToastErr ''boom'', Invalidate [''accounts'']], ())"
  using run_settles [of "post (account_path blank_account ''/refresh'') NoBody (\<lambda>_. Emit (ToastOk (tx sample_ui ''accounts.refreshed'')) Done)"
      "\<lambda>w r. (Rejected (ApiErr 500 ''boom'' False), w)" "''refresh:''" "accounts_mount None" "()" "Some (ApiErr 500 ''boom'' False)"
      "(accounts_mount None)\<lparr>ac_busy := Some ''refresh:''\<rparr>" "[]" "()"]
  by (simp add: refreshAccount_def post_def exec_await blank_account_def accounts_mount_def)

text \<open>A confirmed bulk deletion asks for every selected account once, whatever the single answers
  are, and reports how many requests succeeded and how many failed, which together are all of them;
  then nothing is selected and the dialog is closed.\<close>

theorem bulk_delete_accounts_for_all:
  assumes "ac_confirm s = Some (DeleteSelected ids)"
    and "answer_all srv w (map (\<lambda>i. Http ''DELETE'' (''/accounts/'' @ i) NoBody) ids) = (ps, w')"
  shows "exec (confirm_act E s) srv s w =
      (None, s\<lparr>ac_selection := [], ac_busy := None, ac_confirm := None, ac_confirmBusy := False\<rparr>,
       [ToastOk (tr E ''batch.deleteResult'' [show_nat (fulfilled ps), show_nat (length ids - fulfilled ps)]),
        Invalidate [''accounts'']], w') \<and>
    length ps = length ids \<and> fulfilled ps \<le> length ids"
proof -
  have len: "length ps = length ids"
    using answers_length [of srv w "map (\<lambda>i. Http ''DELETE'' (''/accounts/'' @ i) NoBody) ids"] assms(2) by simp
  then have "fulfilled ps \<le> length ids" using fulfilled_le [of ps] by simp
  moreover have "exec (confirm_act E s) srv s w =
      (None, s\<lparr>ac_selection := [], ac_busy := None, ac_confirm := None, ac_confirmBusy := False\<rparr>,
       [ToastOk (tr E ''batch.deleteResult'' [show_nat (fulfilled ps), show_nat (length ids - fulfilled ps)]),
        Invalidate [''accounts'']], w')"
    using assms by (simp add: confirm_act_def exec_confirm_run onConfirm_def run_def loop_def close_confirm_def
        exec_finally exec_catch Let_def)
  ultimately show ?thesis using len by blast
qed

theorem bulk_delete_accounts_for_all_witness:
  "exec (confirm_act sample_ui confirming) (\<lambda>n r. (if n = 0 then Resolved JNull else Rejected NonErr, n + 1 :: nat)) confirming 0 =
    (None, (accounts_mount None), [ToastOk ''batch.deleteResult 1 1'', Invalidate [''accounts'']], 2)"
proof -
  have "show_nat 1 = ''1''" by code_simp
  then show ?thesis
    using bulk_delete_accounts_for_all [of confirming "[''a1'', ''a2'']" "\<lambda>n r. (if n = 0 then Resolved JNull else Rejected NonErr, n + 1 :: nat)"
        0 "[Resolved JNull, Rejected NonErr]" 2 sample_ui]
    by (simp add: confirming_def sample_ui_def accounts_mount_def)
qed

end
