(* ===== verification/Model_Combobox.thy ===== *)
theory Model_Combobox
  imports Exclusive
begin

text \<open>
  \<open>dashboard/src/components/model-combobox.tsx\<close>: the searchable model picker and the list of chosen
  models built on it. The picker's state is whether it is open and the query; its choice is reported
  to the parent (\<open>onChange\<close>).
\<close>

record combo_props =
  cp_value :: string
  cp_options :: "string list"
  cp_placeholder :: string
  cp_emptyLabel :: string
  cp_allowCustom :: bool

record combo_st =
  cb_open :: bool
  cb_query :: string

definition combo_mount :: combo_st where
  "combo_mount = \<lparr>cb_open = False, cb_query = []\<rparr>"

definition combo_q :: "combo_st \<Rightarrow> string" where
  "combo_q s = js_lower (js_trim (cb_query s))"

definition combo_filtered :: "combo_props \<Rightarrow> combo_st \<Rightarrow> string list" where
  "combo_filtered P s = (if combo_q s \<noteq> [] then filter (\<lambda>x. js_includes (combo_q s) (js_lower x)) (cp_options P)
     else cp_options P)"

definition combo_exact :: "combo_props \<Rightarrow> combo_st \<Rightarrow> bool" where
  "combo_exact P s = list_ex (\<lambda>x. js_lower x = combo_q s) (cp_options P)"

definition pick :: "string \<Rightarrow> combo_st act" where
  "pick v = Emit (Parent ''onChange'' (JStr v)) (Upd (\<lambda>s. s\<lparr>cb_open := False\<rparr>) (Upd (\<lambda>s. s\<lparr>cb_query := []\<rparr>) Done))"

definition combo_enter :: "combo_props \<Rightarrow> combo_st \<Rightarrow> string \<Rightarrow> combo_st act" where
  "combo_enter P s key = (if key = ''Enter'' \<and> cp_allowCustom P \<and> combo_q s \<noteq> [] \<and> \<not> combo_exact P s
      \<and> combo_filtered P s = [] then pick (js_trim (cb_query s)) else Done)"

definition combo_empty :: "ui \<Rightarrow> combo_props \<Rightarrow> combo_st \<Rightarrow> combo_st act view" where
  "combo_empty E P s = El ''CommandEmpty'' [] [
     (if cp_allowCustom P \<and> combo_q s \<noteq> [] then
        El ''button'' [on ''onClick'' (pick (js_trim (cb_query s)))] [Txt (tr E ''models.useCustom'' [js_trim (cb_query s)])]
      else Txt (tx E ''common.noData''))]"

definition combo_items :: "ui \<Rightarrow> combo_props \<Rightarrow> combo_st \<Rightarrow> combo_st act view" where
  "combo_items E P s = (let filtered = combo_filtered P s in El ''CommandGroup'' [] (
     [shown (cp_emptyLabel P \<noteq> [] \<and> combo_q s = [])
        (El ''CommandItem'' [aS ''value'' ''__auto__'', on ''onSelect'' (pick []), aB ''data-checked'' (cp_value P = [])]
          [El ''span'' [] [Txt (cp_emptyLabel P)]])] @
     map (\<lambda>x. El ''CommandItem'' [aS ''value'' x, on ''onSelect'' (pick x), aB ''data-checked'' (x = cp_value P)] [Txt x])
       (take 300 filtered) @
     [shown (length filtered > 300)
        (El ''div'' [] [Txt (tr E ''models.moreResults'' [show_nat (length filtered - 300)])])]))"

text \<open>The command list shows its empty part when it has no items. The trigger, which is shown also while
  the popover is closed, stands beside it.\<close>

definition ModelCombobox :: "ui \<Rightarrow> combo_props \<Rightarrow> combo_st \<Rightarrow> combo_st act view" where
  "ModelCombobox E P s = frag [
     El ''PopoverTrigger'' [aB ''aria-expanded'' (cb_open s), on ''onClick'' (Upd (\<lambda>x. x\<lparr>cb_open := \<not> cb_open x\<rparr>) Done)] [
       El ''Button'' [aS ''variant'' ''outline'', aS ''role'' ''combobox''] [
         El ''span'' [] [Txt (or_str (cp_value P) (or_str (cp_placeholder P) (tx E ''common.search'')))],
         ic ''LuChevronsUpDown'']],
     El ''Popover'' [aB ''open'' (cb_open s), onB ''onOpenChange'' (\<lambda>o1. Upd (\<lambda>x. x\<lparr>cb_open := o1\<rparr>) Done)] [
       El ''PopoverContent'' [] [El ''Command'' [aB ''shouldFilter'' False] [
         El ''CommandInput'' [aS ''placeholder'' (tx E ''models.searchPlaceholder''), aS ''value'' (cb_query s),
           onS ''onValueChange'' (\<lambda>v. Upd (\<lambda>x. x\<lparr>cb_query := v\<rparr>) Done),
           onS ''onKeyDown'' (combo_enter P s)] [],
         El ''CommandList'' [] [combo_empty E P s, combo_items E P s]]]]]"

section \<open>The list of models\<close>

definition has_model :: "string list \<Rightarrow> string \<Rightarrow> bool" where
  "has_model val m = list_ex (\<lambda>x. js_lower x = js_lower m) val"

definition add_chosen :: "string list \<Rightarrow> (string list \<Rightarrow> 's act) \<Rightarrow> string \<Rightarrow> 's act" where
  "add_chosen val onChange m = (if m \<noteq> [] \<and> \<not> has_model val m then onChange (val @ [m]) else Done)"

definition ModelListPicker ::
  "ui \<Rightarrow> string list \<Rightarrow> (string list \<Rightarrow> 's act) \<Rightarrow> string list \<Rightarrow> string \<Rightarrow> string \<Rightarrow> 's act view" where
  "ModelListPicker E val onChange options hint variant = El ''div'' [] [
     shown (val \<noteq> []) (El ''div'' [] (map (\<lambda>m.
       El ''Badge'' [aS ''variant'' variant] [
         El ''span'' [] [Txt m],
         El ''button'' [aS ''aria-label'' (tx E ''common.remove''),
             on ''onClick'' (onChange (filter (\<lambda>x. x \<noteq> m) val))] [ic ''LuX'']]) val)),
     El ''ModelCombobox'' [aS ''value'' [], onS ''onChange'' (add_chosen val onChange),
       aS ''options'' (js_join '','' (filter (\<lambda>m. \<not> has_model val m) options)), aS ''placeholder'' hint] []]"

section \<open>Properties\<close>

definition fresh_models :: "string list \<Rightarrow> bool" where
  "fresh_models val \<longleftrightarrow> [] \<notin> set val \<and> distinct (map js_lower val)"

lemma live_combo_items: "live (combo_items E P s) =
    (if cp_emptyLabel P \<noteq> [] \<and> combo_q s = [] then [Plain (pick [])] else []) @
    map (\<lambda>x. Plain (pick x)) (take 300 (combo_filtered P s))"
proof -
  have "concat (map (live \<circ> (\<lambda>x. El ''CommandItem'' [aS ''value'' x, on ''onSelect'' (pick x),
      aB ''data-checked'' (x = cp_value P)] [Txt x])) xs) = map (\<lambda>x. Plain (pick x)) xs" for xs
    by (induction xs) auto
  then show ?thesis by (simp add: combo_items_def Let_def)
qed

text \<open>The picker reports only what it offers: a choice it sends to the page is one of the options,
  the empty choice where there is an entry for it, or, where free entries are allowed and no option
  contains the query, the trimmed query; and after a choice it is closed with an empty query.\<close>

theorem picker_reports_offered:
  assumes "h \<in> set (live (ModelCombobox E P s))" "fire h inp = Some a"
    and "exec a srv s w = (e, s', l, w')" "Parent ''onChange'' v \<in> set l"
  shows "\<exists>x. v = JStr x \<and> l = [Parent ''onChange'' (JStr x)] \<and> s' = combo_mount \<and> w' = w \<and>
    (x \<in> set (cp_options P) \<or> x = [] \<and> cp_emptyLabel P \<noteq> [] \<or>
     x = js_trim (cb_query s) \<and> cp_allowCustom P \<and> combo_q s \<noteq> [])"
proof -
  let ?Q = "\<lambda>a. (\<forall>w e s' l w'. exec a srv s w = (e, s', l, w') \<longrightarrow> Parent ''onChange'' v \<in> set l \<longrightarrow>
    (\<exists>x. v = JStr x \<and> l = [Parent ''onChange'' (JStr x)] \<and> s' = combo_mount \<and> w' = w \<and>
    (x \<in> set (cp_options P) \<or> x = [] \<and> cp_emptyLabel P \<noteq> [] \<or>
     x = js_trim (cb_query s) \<and> cp_allowCustom P \<and> combo_q s \<noteq> [])))"
  have sub: "x \<in> set (take 300 (combo_filtered P s)) \<Longrightarrow> x \<in> set (cp_options P)" for x
    by (auto simp: combo_filtered_def dest!: in_set_takeD split: if_splits)
  have "list_all (handler_all ?Q) (live (ModelCombobox E P s))"
    by (auto simp: ModelCombobox_def combo_empty_def live_combo_items pick_def combo_enter_def combo_mount_def
        dest: sub)
  with assms show ?thesis by (fastforce simp: list_all_iff handler_all_def)
qed

theorem picker_reports_offered_witness:
  "\<exists>x. exec (pick ''gpt-5'') (\<lambda>w r. (Resolved JNull, w)) \<lparr>cb_open = True, cb_query = []\<rparr> () =
     (None, combo_mount, [Parent ''onChange'' (JStr x)], ()) \<and> x \<in> {''gpt-5'', ''glm-5''}"
proof -
  let ?P = "\<lparr>cp_value = [], cp_options = [''gpt-5'', ''glm-5''], cp_placeholder = [], cp_emptyLabel = [], cp_allowCustom = False\<rparr>"
  let ?s = "\<lparr>cb_open = True, cb_query = []\<rparr>"
  have "Plain (pick ''gpt-5'') \<in> set (live (ModelCombobox sample_ui ?P ?s))"
    by (simp add: ModelCombobox_def live_combo_items combo_filtered_def combo_q_def)
  from picker_reports_offered [OF this, of Click "pick ''gpt-5''" "\<lambda>w r. (Resolved JNull, w)" "()" None combo_mount
      "[Parent ''onChange'' (JStr ''gpt-5'')]" "()" "JStr ''gpt-5''"]
  show ?thesis by (simp add: pick_def combo_mount_def)
qed

text \<open>The list of models stays free of blanks and of repetitions that differ only in case: adding
  a choice to such a list and removing an entry from it both give such a list, adding keeps the order
  and puts a new model last, and removing takes away exactly the one entry.\<close>

theorem model_list_stays_fresh:
  assumes "fresh_models val" "exec (add_chosen val (\<lambda>xs. Upd (\<lambda>_. xs) Done) m) srv val w = (e, val', l, w')"
  shows "fresh_models val' \<and> (val' = val \<or> val' = val @ [m]) \<and>
    (m \<noteq> [] \<longrightarrow> has_model val' m) \<and>
    (x \<in> set val \<longrightarrow> fresh_models (filter (\<lambda>y. y \<noteq> x) val) \<and> \<not> has_model (filter (\<lambda>y. y \<noteq> x) val) x)"
proof -
  have has: "has_model xs y \<longleftrightarrow> js_lower y \<in> set (map js_lower xs)" for xs y
    by (auto simp: has_model_def list_ex_iff image_iff) metis+
  have fresh': "fresh_models (filter P val)" for P
    using assms(1) by (auto simp: fresh_models_def distinct_map_filter)
  have "\<not> has_model (filter (\<lambda>y. y \<noteq> x) val) x" if "x \<in> set val"
    using assms(1) that by (auto simp: has fresh_models_def distinct_map inj_on_def)
  with fresh' have "x \<in> set val \<longrightarrow> fresh_models (filter (\<lambda>y. y \<noteq> x) val) \<and> \<not> has_model (filter (\<lambda>y. y \<noteq> x) val) x"
    by simp
  then show ?thesis
    using assms by (auto simp: add_chosen_def fresh_models_def has split: if_splits)
qed

theorem model_list_stays_fresh_witness:
  "fresh_models [''GLM-5'', ''Kimi'']"
proof -
  have low: "js_lower ''GLM-5'' = ''glm-5''" "js_lower ''Kimi'' = ''kimi''" by code_simp+
  then show ?thesis
    using model_list_stays_fresh [of "[''GLM-5'']" "''Kimi''" "\<lambda>w r. (Resolved JNull, w)" "()" None
        "[''GLM-5'', ''Kimi'']" "[]" "()" "''GLM-5''"]
    by (simp add: fresh_models_def add_chosen_def has_model_def)
qed

end
