(* ===== verification/Detail_Sheet.thy ===== *)
theory Detail_Sheet
  imports Accounts_Shared Model_Combobox Json
begin

text \<open>
  \<open>dashboard/src/pages/accounts/detail-sheet.tsx\<close>: the sheet with everything about one account. The
  state holds the account (a property, replaced when the list is refreshed), what the two queries have
  returned, the clock, and the fields of the component. The model pickers are components of their own
  and stand in the tree as elements with their properties and callback.
\<close>

section \<open>State\<close>

record test_result =
  r_ok :: bool
  r_text :: string
  r_ms :: int

record detail_st =
  d_a :: Account
  d_models :: "string list option"
  d_modelsLoading :: bool
  d_settings :: jsv
  d_clock :: int
  d_busy :: "string option"
  d_nickname :: string
  d_weight :: string
  d_maxConcurrency :: string
  d_probeModel :: string
  d_newModel :: string
  d_machineId :: string
  d_baseUrl :: string
  d_compatKey :: string
  d_egress :: string
  d_proxyURL :: string
  d_relayURL :: string
  d_relaySecret :: string
  d_testModel :: "string option"
  d_testResult :: "test_result option"
  d_confirmDelete :: bool
  d_confirmBusy :: bool
  d_copied :: bool

type_synonym dact = "detail_st act"

definition detail_mount :: "Account \<Rightarrow> int \<Rightarrow> detail_st" where
  "detail_mount a now = \<lparr>d_a = a, d_models = None, d_modelsLoading = True, d_settings = JUndef, d_clock = now,
     d_busy = None, d_nickname = a_nickname a, d_weight = show_int (a_weight a),
     d_maxConcurrency = show_int (case a_maxConcurrency a of None \<Rightarrow> 0 | Some n \<Rightarrow> n),
     d_probeModel = text_of (a_probeModel a), d_newModel = [], d_machineId = a_machineId a,
     d_baseUrl = text_of (a_baseUrl a), d_compatKey = [],
     d_egress = (if a_relayURL a \<noteq> [] then ''relay'' else if a_proxyURL a \<noteq> [] then ''proxy'' else ''inherit''),
     d_proxyURL = a_proxyURL a, d_relayURL = a_relayURL a, d_relaySecret = [], d_testModel = None,
     d_testResult = None, d_confirmDelete = False, d_confirmBusy = False, d_copied = False\<rparr>"

text \<open>\<open>Number(v) || 0\<close>.\<close>

definition number_or_0 :: "string \<Rightarrow> jsv" where
  "number_or_0 v = JNum (case js_Number v of None \<Rightarrow> 0 | Some n \<Rightarrow> n)"

section \<open>What is derived\<close>

definition d_id :: "detail_st \<Rightarrow> string" where
  "d_id s = a_id (d_a s)"

definition extraModels :: "detail_st \<Rightarrow> string list" where
  "extraModels s = (case a_extraModels (d_a s) of None \<Rightarrow> [] | Some ms \<Rightarrow> ms)"

text \<open>Tri-state, mirroring the backend: none = no allowlist, \<open>[]\<close> = allow nothing, ids = only those.\<close>

definition allowlist :: "detail_st \<Rightarrow> string list option" where
  "allowlist s = a_enabledModels (d_a s)"

definition same_model :: "string \<Rightarrow> string \<Rightarrow> bool" where
  "same_model m x \<longleftrightarrow> js_lower x = js_lower m"

definition isModelEnabled :: "detail_st \<Rightarrow> string \<Rightarrow> bool" where
  "isModelEnabled s m = (case allowlist s of None \<Rightarrow> True | Some ms \<Rightarrow> list_ex (same_model m) ms)"

definition modelList :: "detail_st \<Rightarrow> string list" where
  "modelList s = (case d_models s of None \<Rightarrow> [] | Some ms \<Rightarrow> ms)"

definition isCompat :: "detail_st \<Rightarrow> bool" where
  "isCompat s = has (a_compatProtocol (d_a s))"

definition routableModelList :: "detail_st \<Rightarrow> string list" where
  "routableModelList s = filter (isModelEnabled s) (modelList s)"

definition configuredTestModel :: "detail_st \<Rightarrow> string" where
  "configuredTestModel s = (let v = get_prop (d_settings s) ''testModel'' in
     if nullish v then [] else js_trim (js_string v))"

definition accountDefaultModel :: "detail_st \<Rightarrow> string option" where
  "accountDefaultModel s =
    (case find (\<lambda>m. js_lower m = js_lower (text_of (a_probeModel (d_a s)))) (routableModelList s) of
       Some m \<Rightarrow> Some m
     | None \<Rightarrow> find (\<lambda>m. js_lower m = js_lower (configuredTestModel s)) (routableModelList s))"

definition selectedTestModel :: "detail_st \<Rightarrow> string" where
  "selectedTestModel s = (case d_testModel s of Some m \<Rightarrow> m
     | None \<Rightarrow> (case accountDefaultModel s of Some m \<Rightarrow> m
         | None \<Rightarrow> (case routableModelList s of [] \<Rightarrow> [] | m # _ \<Rightarrow> m)))"

section \<open>Actions\<close>

definition d_run :: "string \<Rightarrow> dact \<Rightarrow> dact" where
  "d_run key f = Upd (\<lambda>s. s\<lparr>d_busy := Some key\<rparr>)
    (finally_do (catch f (\<lambda>e. Emit (ToastErr (errorMessage e)) Done)) (Upd (\<lambda>s. s\<lparr>d_busy := None\<rparr>) Done))"

definition d_path :: "detail_st \<Rightarrow> string \<Rightarrow> string" where
  "d_path s rest = ''/accounts/'' @ d_id s @ rest"

definition d_put :: "detail_st \<Rightarrow> (string \<times> jsv) list \<Rightarrow> dact \<Rightarrow> dact" where
  "d_put s ps k = put (d_path s []) (JsonBody (obj ps)) (\<lambda>_. k)"

definition invalidate :: "dact \<Rightarrow> dact" where
  "invalidate k = Emit (Invalidate [''accounts'']) k"

definition invalidate_models :: "detail_st \<Rightarrow> dact \<Rightarrow> dact" where
  "invalidate_models s k = Emit (Invalidate [''account-models'', d_id s]) k"

text \<open>A request whose failure is ignored.\<close>

definition post_quietly :: "string \<Rightarrow> dact \<Rightarrow> dact" where
  "post_quietly p k = Await (Http ''POST'' p NoBody) (\<lambda>_. k)"

definition allow_value :: "string list option \<Rightarrow> jsv" where
  "allow_value l = (case l of None \<Rightarrow> JNull | Some ms \<Rightarrow> jstrs ms)"

definition saveEnabledModels :: "ui \<Rightarrow> detail_st \<Rightarrow> string list option \<Rightarrow> dact" where
  "saveEnabledModels E s l = d_run ''enabledModels''
    (d_put s [(''enabledModels'', allow_value l)] (Emit (ToastOk (tx E ''detail.saved'')) (invalidate Done)))"

definition toggled_models :: "detail_st \<Rightarrow> string \<Rightarrow> string list option" where
  "toggled_models s m =
    (let base = (case allowlist s of None \<Rightarrow> modelList s | Some ms \<Rightarrow> ms);
         next' = (if list_ex (same_model m) base then filter (\<lambda>x. \<not> same_model m x) base else base @ [m]) in
     if length next' = length (modelList s) then None else Some next')"

definition toggleModel :: "ui \<Rightarrow> detail_st \<Rightarrow> string \<Rightarrow> dact" where
  "toggleModel E s m = Fork (saveEnabledModels E s (toggled_models s m)) Done"

definition saveExtraModels :: "ui \<Rightarrow> detail_st \<Rightarrow> string list \<Rightarrow> dact" where
  "saveExtraModels E s l = d_run ''extra''
    (d_put s [(''extraModels'', jstrs l)] (post_quietly (d_path s ''/models/refresh'')
       (Emit (ToastOk (tx E ''detail.saved'')) (invalidate (invalidate_models s Done)))))"

definition d_addModel :: "ui \<Rightarrow> detail_st \<Rightarrow> dact" where
  "d_addModel E s = (let i = js_trim (d_newModel s) in
     if i = [] then Done
     else if list_ex (same_model i) (extraModels s) then Done
     else Upd (\<lambda>x. x\<lparr>d_newModel := []\<rparr>) (Fork (saveExtraModels E s (extraModels s @ [i])) Done))"

definition d_probeAndAdd :: "ui \<Rightarrow> detail_st \<Rightarrow> dact" where
  "d_probeAndAdd E s = (let i = js_trim (d_newModel s) in
     if i = [] then Done
     else Fork (d_run ''probeNew''
       (catch (post (d_path s ''/test'') (JsonBody (obj [(''model'', JStr i)])) (\<lambda>r.
            get_field r ''model'' (\<lambda>m. get_field r ''reply'' (\<lambda>rep.
              Emit (ToastOk (tr E ''detail.probeNewOk'' [js_string m, js_string rep])) (d_addModel E s)))))
          (\<lambda>e. Emit (ToastErr (tr E ''detail.probeNewFail'' [i, errorMessage e])) Done))) Done)"

definition saveIdentity :: "ui \<Rightarrow> detail_st \<Rightarrow> dact" where
  "saveIdentity E s = d_run ''identity''
    (if d_machineId s \<noteq> [] \<and> \<not> isMachineId (d_machineId s) then Throw (JsErr (tx E ''detail.machineIdError''))
     else d_put s ([(''nickname'', JStr (d_nickname s)), (''weight'', number_or_0 (d_weight s)),
         (''maxConcurrency'', number_or_0 (d_maxConcurrency s)), (''machineId'', JStr (d_machineId s)),
         (''probeModel'', JStr (d_probeModel s))] @
         (if isCompat s then (''baseUrl'', JStr (d_baseUrl s)) #
            (if js_trim (d_compatKey s) \<noteq> [] then [(''compatApiKey'', JStr (js_trim (d_compatKey s)))] else []) else []))
       (Upd (\<lambda>x. x\<lparr>d_compatKey := []\<rparr>) (Emit (ToastOk (tx E ''detail.saved'')) (invalidate Done))))"

definition generateMachineId :: dact where
  "generateMachineId = d_run ''gen''
    (get ''/generate-machine-id'' (\<lambda>r. get_field r ''machineId'' (\<lambda>m. Upd (\<lambda>x. x\<lparr>d_machineId := js_string m\<rparr>) Done)))"

definition setEnabled :: "detail_st \<Rightarrow> bool \<Rightarrow> dact" where
  "setEnabled s b = d_run ''enabled'' (d_put s [(''enabled'', JBool b)] (invalidate Done))"

definition pullOverage :: "detail_st \<Rightarrow> dact" where
  "pullOverage s = d_run ''overage'' (get (d_path s ''/overage'') (\<lambda>_. invalidate Done))"

definition setAllowPaid :: "detail_st \<Rightarrow> bool \<Rightarrow> dact" where
  "setAllowPaid s b = d_run ''allowPaid'' (d_put s [(''allowPaidModels'', JBool b)]
     (post_quietly (d_path s ''/models/refresh'') (invalidate (invalidate_models s Done))))"

definition setOverage :: "detail_st \<Rightarrow> bool \<Rightarrow> dact" where
  "setOverage s b = d_run ''overage'' (post (d_path s ''/overage'') (JsonBody (obj [(''enabled'', JBool b)])) (\<lambda>_. invalidate Done))"

definition saveEgress :: "ui \<Rightarrow> detail_st \<Rightarrow> dact" where
  "saveEgress E s =
    (let saved = Emit (ToastOk (tx E ''detail.proxySaved'')) (Upd (\<lambda>x. x\<lparr>d_relaySecret := []\<rparr>) (invalidate Done)) in
     d_run ''egress''
      (if d_egress s = ''inherit'' then d_put s [(''proxyURL'', JStr []), (''relayURL'', JStr [])] saved
       else if d_egress s = ''proxy'' then
         (if \<not> isProxyUrl (d_proxyURL s) then Throw (JsErr (tx E ''detail.proxyFormatError''))
          else d_put s [(''proxyURL'', JStr (d_proxyURL s))] saved)
       else
         (if \<not> isHttpUrl (d_relayURL s) then Throw (JsErr (tx E ''detail.relayFormatError''))
          else d_put s [(''relayURL'', JStr (d_relayURL s)), (''relaySecret'', JStr (d_relaySecret s))] saved)))"

definition refreshModelCache :: "ui \<Rightarrow> detail_st \<Rightarrow> dact" where
  "refreshModelCache E s = d_run ''models'' (post (d_path s ''/models/refresh'') NoBody (\<lambda>r. get_field r ''count'' (\<lambda>c.
     Emit (ToastOk (tr E ''accounts.modelsRefreshed'' [js_string c])) (invalidate_models s Done))))"

definition d_refreshAccount :: "ui \<Rightarrow> detail_st \<Rightarrow> dact" where
  "d_refreshAccount E s = d_run ''refresh'' (post (d_path s ''/refresh'') NoBody (\<lambda>_.
     Emit (ToastOk (tx E ''accounts.refreshed'')) (invalidate Done)))"

definition d_warmup :: "ui \<Rightarrow> detail_st \<Rightarrow> dact" where
  "d_warmup E s = d_run ''warmup'' (post ''/warmup'' (JsonBody (obj [(''ids'', jstrs [d_id s])])) (\<lambda>r.
     get_field r ''results'' (\<lambda>rs.
       Emit (ToastOk (tr E ''accounts.warmup.result'' (warmupCounts (warmup_results rs)))) (invalidate Done))))"

definition runTest :: "detail_st \<Rightarrow> dact" where
  "runTest s = d_run ''test'' (Look (\<lambda>s0. let started = d_clock s0 in
     catch (post (d_path s ''/test'')
          (if selectedTestModel s \<noteq> [] then JsonBody (obj [(''model'', JStr (selectedTestModel s))]) else NoBody) (\<lambda>r.
         get_field r ''model'' (\<lambda>m. get_field r ''reply'' (\<lambda>rep.
           Upd (\<lambda>x. x\<lparr>d_testResult := Some \<lparr>r_ok = True, r_text = js_string m @ '': '' @ js_string rep,
                  r_ms = d_clock x - started\<rparr>\<rparr>) Done))))
       (\<lambda>e. Upd (\<lambda>x. x\<lparr>d_testResult := Some \<lparr>r_ok = False, r_text = errorMessage e, r_ms = d_clock x - started\<rparr>\<rparr>) Done)))"

definition d_copyJson :: "ui \<Rightarrow> detail_st \<Rightarrow> dact" where
  "d_copyJson E s = d_run ''copy'' (get (d_path s ''/full'') (\<lambda>full.
     await (WriteClipboard (JSON_stringify full)) (\<lambda>_. Emit (ToastOk (tx E ''accounts.copyJSONSuccess'')) Done)))"

definition saveProbe :: "ui \<Rightarrow> detail_st \<Rightarrow> dact" where
  "saveProbe E s = d_run ''probe'' (d_put s [(''probeModel'', JStr (selectedTestModel s))]
     (Upd (\<lambda>x. x\<lparr>d_probeModel := selectedTestModel s\<rparr>)
       (Emit (ToastOk (tr E ''detail.probeModelSaved'' [selectedTestModel s])) (invalidate Done))))"

definition remove_account :: "ui \<Rightarrow> detail_st \<Rightarrow> dact" where
  "remove_account E s = del (d_path s []) (\<lambda>_. Emit (ToastOk (tx E ''accounts.deleteSuccess''))
     (invalidate (Emit (Parent ''onClose'' JUndef) Done)))"

section \<open>The sheet\<close>

definition Section :: "string \<Rightarrow> 'e view \<Rightarrow> 'e view list \<Rightarrow> 'e view" where
  "Section title action children = El ''section'' [] [
     El ''div'' [] [El ''h3'' [] [Txt title], action],
     El ''div'' [] children,
     El ''Separator'' [] []]"

definition Row :: "string \<Rightarrow> 'e view list \<Rightarrow> 'e view" where
  "Row label children = El ''div'' [] [El ''span'' [] [Txt label], El ''span'' [] children]"

definition d_is_busy :: "detail_st \<Rightarrow> bool" where
  "d_is_busy s = has (d_busy s)"

definition spin :: "detail_st \<Rightarrow> string \<Rightarrow> dact view" where
  "spin s k = (if d_busy s = Some k then spinner else Nothing)"

definition spin_or :: "detail_st \<Rightarrow> string \<Rightarrow> string \<Rightarrow> dact view" where
  "spin_or s k icon = (if d_busy s = Some k then spinner else ic icon)"

definition usd :: "rat \<Rightarrow> string" where
  "usd v = CHR ''$'' # to_fixed 2 v"

definition field_input :: "string \<Rightarrow> string \<Rightarrow> (string \<Rightarrow> detail_st \<Rightarrow> detail_st) \<Rightarrow> string \<Rightarrow> string \<Rightarrow> dact view" where
  "field_input i typ upd val hint = El ''Input''
     [aS ''id'' i, aS ''type'' typ, aS ''value'' val, onS ''onChange'' (\<lambda>v. Upd (upd v) Done), aS ''placeholder'' hint] []"

definition sheet_header :: "ui \<Rightarrow> detail_st \<Rightarrow> dact view" where
  "sheet_header E s = (let a = d_a s; st = accountStatus E a in El ''SheetHeader'' [] [
     El ''SheetTitle'' [] [Txt (or_str (a_nickname a) (a_email a))],
     El ''SheetDescription'' [] [Txt (a_email a)],
     El ''div'' [] [
       StatusDot (statusTone st) (tx E (statusKey st)),
       El ''Badge'' [aS ''variant'' ''secondary''] [Txt (a_provider a)],
       El ''Badge'' [aS ''variant'' ''outline''] [Txt (subscriptionLabel E a)],
       shown (a_overageStatus a \<noteq> []) (El ''Badge'' [aS ''variant'' ''outline'']
         [Txt (tx E (if a_overageStatus a = ''ENABLED'' then ''accounts.overageOn'' else ''accounts.overageOff''))]),
       El ''div'' [] [
         El ''span'' [] [Txt (tx E ''accounts.enabled'')],
         El ''Switch'' [aB ''checked'' (a_enabled a), onB ''onCheckedChange'' (setEnabled s),
                        aB ''disabled'' (d_busy s = Some ''enabled'')] []]]])"

definition expiry_text :: "ui \<Rightarrow> Account \<Rightarrow> string" where
  "expiry_text E a = (if a_expiresAt a \<noteq> 0
     then formatTime E (a_expiresAt a) @ '' ('' @ or_str (countdown E (a_expiresAt a)) (tx E ''accounts.expired'') @ '')''
     else tx E ''accounts.noToken'')"

definition compat_fields :: "ui \<Rightarrow> detail_st \<Rightarrow> dact view" where
  "compat_fields E s = (let a = d_a s in frag [
     Row (tx E ''compat.protocol'') [Txt (if a_compatProtocol a = Some ''anthropic_compat'' then ''Anthropic Messages''
        else ''OpenAI Chat Completions'')],
     El ''div'' [] [
       El ''Label'' [aS ''htmlFor'' ''c-base''] [Txt (tx E ''compat.baseUrl'')],
       field_input ''c-base'' ''text'' (\<lambda>v x. x\<lparr>d_baseUrl := v\<rparr>) (d_baseUrl s) []],
     El ''div'' [] [
       El ''Label'' [aS ''htmlFor'' ''c-key''] [Txt (tx E ''compat.key'')],
       field_input ''c-key'' ''password'' (\<lambda>v x. x\<lparr>d_compatKey := v\<rparr>) (d_compatKey s)
         (if a_hasCompatKey a = Some True then tx E ''compat.keyStored'' else tx E ''compat.keyMissing'')]])"

definition identity_fields :: "ui \<Rightarrow> detail_st \<Rightarrow> dact view" where
  "identity_fields E s = frag [
     El ''div'' [] [
       El ''div'' [] [
         El ''Label'' [aS ''htmlFor'' ''nick''] [Txt (tx E ''accounts.nickname'')],
         field_input ''nick'' ''text'' (\<lambda>v x. x\<lparr>d_nickname := v\<rparr>) (d_nickname s) []],
       El ''div'' [] [
         El ''Label'' [aS ''htmlFor'' ''weight''] [Txt (tx E ''detail.weight'')],
         field_input ''weight'' ''number'' (\<lambda>v x. x\<lparr>d_weight := v\<rparr>) (d_weight s) [],
         El ''p'' [] [Txt (tx E ''detail.weightHint'')]],
       El ''div'' [] [
         El ''Label'' [aS ''htmlFor'' ''max-concurrency''] [Txt (tx E ''detail.maxConcurrency'')],
         field_input ''max-concurrency'' ''number'' (\<lambda>v x. x\<lparr>d_maxConcurrency := v\<rparr>) (d_maxConcurrency s) [],
         El ''p'' [] [Txt (tx E ''detail.maxConcurrencyHint'')]]],
     El ''div'' [] [
       El ''Label'' [aS ''htmlFor'' ''probe-model''] [Txt (tx E ''detail.probeModel'')],
       El ''ModelCombobox'' [aS ''value'' (d_probeModel s), onS ''onChange'' (\<lambda>v. Upd (\<lambda>x. x\<lparr>d_probeModel := v\<rparr>) Done),
         aS ''options'' (js_join '','' (routableModelList s)), aS ''placeholder'' (tx E ''detail.probeModelDefault''),
         aS ''emptyLabel'' (tx E ''detail.probeModelDefault'')] [],
       El ''p'' [] [Txt (tx E ''detail.probeModelHint'')]],
     El ''div'' [] [
       El ''Label'' [aS ''htmlFor'' ''mid''] [Txt (tx E ''detail.machineId'')],
       El ''div'' [] [
         field_input ''mid'' ''text'' (\<lambda>v x. x\<lparr>d_machineId := v\<rparr>) (d_machineId s) [],
         El ''Button'' [aS ''variant'' ''outline'', on ''onClick'' generateMachineId, aB ''disabled'' (d_is_busy s)]
           [spin_or s ''gen'' ''LuWand'', Txt (tx E ''detail.generate'')]]],
     El ''div'' [] [
       El ''Button'' [on ''onClick'' (saveIdentity E s), aB ''disabled'' (d_is_busy s)]
         [spin s ''identity'', Txt (tx E ''detail.save'')]]]"

definition basic_section :: "ui \<Rightarrow> detail_st \<Rightarrow> dact view" where
  "basic_section E s = (let a = d_a s in Section (tx E ''detail.basicInfo'') Nothing [
     Row (tx E ''detail.userId'') [Txt (or_str (a_userId a) em_dash)],
     Row (tx E ''detail.authMethod'') [Txt (or_str (a_authMethod a) em_dash)],
     Row (tx E ''detail.region'') [Txt (or_str (a_region a) em_dash)],
     (if isCompat s then compat_fields E s else Row (tx E ''detail.tokenExpiry'') [Txt (expiry_text E a)]),
     shown (a_banStatus a \<noteq> [] \<and> a_banStatus a \<noteq> ''ACTIVE'') (El ''Alert'' [aS ''variant'' ''destructive''] [
       El ''AlertTitle'' [] [Txt (a_banStatus a)],
       El ''AlertDescription'' [] [Txt (a_banReason a @ '' '' @
         (if a_banTime a \<noteq> 0 then mid_dot @ '' '' @ formatTime E (a_banTime a) else []))]]),
     identity_fields E s])"

definition usage_section :: "ui \<Rightarrow> detail_st \<Rightarrow> dact view" where
  "usage_section E s = (let a = d_a s in Section (tx E ''detail.usage'')
     (El ''Button'' [aS ''variant'' ''ghost'', on ''onClick'' (d_refreshAccount E s), aB ''disabled'' (d_is_busy s)]
        [spin_or s ''refresh'' ''LuRefreshCw'', Txt (tx E ''accounts.refresh'')]) [
     Row (tx E ''detail.subscriptionType'') [Txt (subscriptionLabel E a),
       Txt (if a_subscriptionTitle a \<noteq> [] \<and> a_subscriptionTitle a \<noteq> subscriptionLabel E a
            then '' '' @ mid_dot @ '' '' @ a_subscriptionTitle a else []),
       Txt (if a_daysRemaining a > 0 then '' '' @ mid_dot @ '' '' @ show_int (a_daysRemaining a) @ tx E ''time.days'' else [])],
     El ''div'' [] [
       El ''div'' [] [
         El ''span'' [] [Txt (tx E ''detail.mainQuota'')],
         El ''span'' [] [Txt (formatNumber E (Some (a_usageCurrent a)) @ '' / '' @ formatNumber E (Some (a_usageLimit a))
            @ '' ('' @ show_int (pct (Some (a_usagePercent a))) @ ''%)'')]],
       El ''Progress'' [aN ''value'' (of_int (pct (Some (a_usagePercent a))))] []],
     shown (a_trialUsageLimit a > 0) (El ''div'' [] [
       El ''div'' [] [
         El ''span'' [] [Txt (tx E ''detail.trialQuota'')],
         El ''span'' [] [Txt (formatNumber E (Some (a_trialUsageCurrent a)) @ '' / '' @ formatNumber E (Some (a_trialUsageLimit a))
            @ '' ('' @ show_int (pct (Some (a_trialUsagePercent a))) @ ''%)'')]],
       El ''Progress'' [aN ''value'' (of_int (pct (Some (a_trialUsagePercent a))))] [],
       Row (tx E ''detail.trialStatus'') [Txt (or_str (a_trialStatus a) em_dash)],
       Row (tx E ''detail.trialExpiry'') [Txt (formatTime E (a_trialExpiresAt a))]]),
     Row (tx E ''detail.resetDate'') [Txt (or_str (a_nextResetDate a) em_dash)],
     Row (tx E ''accounts.lastRefresh'') [Txt (formatTime E (a_lastRefresh a))]])"

definition warmup_section :: "ui \<Rightarrow> detail_st \<Rightarrow> dact view" where
  "warmup_section E s = (let a = d_a s in Section (tx E ''accounts.warmup.label'')
     (El ''Button'' [aS ''variant'' ''ghost'', on ''onClick'' (d_warmup E s), aB ''disabled'' (d_is_busy s)]
        [spin_or s ''warmup'' ''LuFlame'', Txt (tx E ''accounts.warmup.runNow'')]) [
     Row (tx E ''accounts.warmup.last'') [Txt (formatTime E (a_lastWarmup a))],
     Row (tx E ''accounts.warmup.status'') [
       if a_warmupStatus a \<noteq> [] then
         StatusDot (if a_warmupStatus a = ''ok'' then ToneSuccess else ToneDanger)
           (tx E (if a_warmupStatus a = ''ok'' then ''accounts.warmup.ok'' else ''accounts.warmup.failed''))
       else Txt (tx E ''accounts.warmup.never'')],
     shown (a_warmupError a \<noteq> []) (Row (tx E ''accounts.warmup.error'') [Txt (a_warmupError a)])])"

definition paid_section :: "ui \<Rightarrow> detail_st \<Rightarrow> dact view" where
  "paid_section E s = shown (hasFreeTier (d_a s)) (Section (tx E ''detail.allowPaidModels'') Nothing [
     El ''p'' [] [Txt (tx E ''detail.allowPaidModelsHint'')],
     El ''div'' [] [
       El ''span'' [] [Txt (tx E ''detail.allowPaidModels'')],
       El ''Switch'' [aB ''checked'' (a_allowPaidModels (d_a s) = Some True), onB ''onCheckedChange'' (setAllowPaid s),
                      aB ''disabled'' (d_is_busy s)] []]])"

definition overage_section :: "ui \<Rightarrow> detail_st \<Rightarrow> dact view" where
  "overage_section E s = (let a = d_a s; capable = (a_overageCapability a = ''OVERAGE_CAPABLE'') in
     shown (isKiroAccount a) (Section (tx E ''detail.overage'')
      (El ''Button'' [aS ''variant'' ''ghost'', on ''onClick'' (pullOverage s), aB ''disabled'' (d_is_busy s)]
         [spin_or s ''overage'' ''LuCloudDownload'', Txt (tx E ''detail.overageRefresh'')]) [
      El ''p'' [] [Txt (tx E ''detail.overageHint'')],
      shown (\<not> capable \<and> a_overageCapability a \<noteq> []) (El ''p'' [] [Txt (tx E ''detail.overageNotCapable'')]),
      El ''div'' [] [
        El ''span'' [] [Txt (tx E ''detail.overageStatus'')],
        El ''div'' [] [
          El ''span'' [] [Txt (tx E (if a_overageStatus a = ''ENABLED'' then ''accounts.overageOn''
             else if a_overageStatus a = ''DISABLED'' then ''accounts.overageOff'' else ''detail.overageUnknown''))],
          El ''Switch'' [aB ''checked'' (a_overageStatus a = ''ENABLED''), onB ''onCheckedChange'' (setOverage s),
                         aB ''disabled'' (d_is_busy s \<or> \<not> capable)] []]],
      Row (tx E ''detail.overageCap'') [Txt (usd (a_overageCap a))],
      Row (tx E ''detail.overageRate'') [Txt (usd (a_overageRate a))],
      Row (tx E ''detail.overageCurrent'') [Txt (usd (a_currentOverages a))],
      Row (tx E ''detail.overageCheckedAt'') [Txt (formatTime E (a_overageCheckedAt a))]]))"

definition egress_section :: "ui \<Rightarrow> detail_st \<Rightarrow> dact view" where
  "egress_section E s = Section (tx E ''detail.proxyURL'') Nothing [
     El ''p'' [] [Txt (tx E ''detail.proxyHint'')],
     SimpleSelect (d_egress s) (\<lambda>v. Upd (\<lambda>x. x\<lparr>d_egress := v\<rparr>) Done)
       [(''inherit'', tx E ''detail.egressInherit''), (''proxy'', tx E ''detail.egressProxy''),
        (''relay'', tx E ''detail.egressRelay'')] False,
     shown (d_egress s = ''proxy'')
       (field_input [] ''text'' (\<lambda>v x. x\<lparr>d_proxyURL := v\<rparr>) (d_proxyURL s) ''socks5://host:port''),
     shown (d_egress s = ''relay'') (frag [
       field_input [] ''text'' (\<lambda>v x. x\<lparr>d_relayURL := v\<rparr>) (d_relayURL s) ''https://relay.example.com'',
       field_input [] ''password'' (\<lambda>v x. x\<lparr>d_relaySecret := v\<rparr>) (d_relaySecret s)
         (if a_hasRelaySecret (d_a s) then tx E ''accounts.relaySecretStored'' else tx E ''accounts.relaySecret'')]),
     El ''div'' [] [
       El ''Button'' [on ''onClick'' (saveEgress E s), aB ''disabled'' (d_is_busy s)]
         [spin s ''egress'', Txt (tx E ''detail.save'')]]]"

definition stat_tile :: "string \<times> string \<Rightarrow> dact view" where
  "stat_tile lv = El ''div'' [] [El ''div'' [] [Txt (fst lv)], El ''div'' [] [Txt (snd lv)]]"

definition statistics_section :: "ui \<Rightarrow> detail_st \<Rightarrow> dact view" where
  "statistics_section E s = (let a = d_a s in Section (tx E ''detail.statistics'') Nothing [
     El ''div'' [] (map stat_tile [
       (tx E ''detail.requestCount'', formatNumber E (Some (a_requestCount a))),
       (tx E ''detail.errorCount'', formatNumber E (Some (a_errorCount a))),
       (tx E ''detail.totalTokens'', formatNumber E (Some (a_totalTokens a))),
       (tx E ''detail.totalCredits'', to_fixed 2 (a_totalCredits a))]),
     Row (tx E ''accounts.lastUsed'') [Txt (formatTime E (a_lastUsed a))]])"

definition allow_summary :: "ui \<Rightarrow> detail_st \<Rightarrow> dact view" where
  "allow_summary E s = El ''div'' [] [
     El ''p'' [] [Txt (case allowlist s of None \<Rightarrow> tx E ''detail.allModelsRoutable''
        | Some ms \<Rightarrow> if ms = [] then tx E ''detail.noModelsRoutable''
            else tr E ''detail.someModelsRoutable'' [show_nat (length ms), show_nat (length (modelList s))])],
     El ''div'' [] [
       shown (allowlist s \<noteq> None) (El ''Button'' [aS ''variant'' ''ghost'', aB ''disabled'' (d_is_busy s),
           on ''onClick'' (Fork (saveEnabledModels E s None) Done)] [Txt (tx E ''detail.enableAllModels'')]),
       shown (allowlist s \<noteq> Some []) (El ''Button'' [aS ''variant'' ''ghost'', aB ''disabled'' (d_is_busy s),
           on ''onClick'' (Fork (saveEnabledModels E s (Some [])) Done)] [Txt (tx E ''detail.disableAllModels'')])]]"

definition model_chip :: "ui \<Rightarrow> detail_st \<Rightarrow> string \<Rightarrow> dact view" where
  "model_chip E s m = (let on1 = isModelEnabled s m in
     El ''button'' [aB ''disabled'' (d_is_busy s), aS ''title'' (tx E (if on1 then ''detail.disableModel'' else ''detail.enableModel'')),
         on ''onClick'' (toggleModel E s m)]
       [El ''Badge'' [aS ''variant'' (if on1 then ''outline'' else ''secondary'')] [Txt m]])"

definition extra_chip :: "ui \<Rightarrow> detail_st \<Rightarrow> string \<Rightarrow> dact view" where
  "extra_chip E s m = El ''Badge'' [aS ''variant'' ''secondary''] [
     El ''button'' [aB ''disabled'' (d_is_busy s),
         aS ''title'' (tx E (if isModelEnabled s m then ''detail.disableModel'' else ''detail.enableModel'')),
         on ''onClick'' (toggleModel E s m)] [Txt m],
     El ''button'' [aS ''title'' (tx E ''detail.removeModel''), aB ''disabled'' (d_is_busy s),
         on ''onClick'' (Fork (saveExtraModels E s (filter (\<lambda>x. \<not> same_model m x) (extraModels s))) Done)] [ic ''LuX'']]"

definition d_enter :: "ui \<Rightarrow> detail_st \<Rightarrow> string \<Rightarrow> dact" where
  "d_enter E s k = (if k = ''Enter'' then d_addModel E s else Done)"

definition models_section :: "ui \<Rightarrow> detail_st \<Rightarrow> dact view" where
  "models_section E s = Section (tx E ''detail.models'')
     (El ''Button'' [aS ''variant'' ''ghost'', on ''onClick'' (refreshModelCache E s), aB ''disabled'' (d_is_busy s)]
        [spin_or s ''models'' ''LuRefreshCw'', Txt (tx E ''detail.refreshModelCache'')]) [
     (if d_modelsLoading s then El ''p'' [] [Txt (tx E ''detail.loading'')]
      else if modelList s = [] then El ''p'' [] [Txt (tx E ''detail.noModels'')]
      else frag [
        allow_summary E s,
        El ''div'' [] (map (model_chip E s)
          (filter (\<lambda>m. \<not> list_ex (same_model m) (extraModels s)) (modelList s)))]),
     shown (extraModels s \<noteq> []) (El ''div'' [] [
       El ''p'' [] [Txt (tx E ''detail.manualModels'')],
       El ''div'' [] (map (extra_chip E s) (extraModels s))]),
     El ''div'' [] [
       El ''Input'' [aS ''value'' (d_newModel s), onS ''onChange'' (\<lambda>v. Upd (\<lambda>x. x\<lparr>d_newModel := v\<rparr>) Done),
           onS ''onKeyDown'' (d_enter E s), aS ''placeholder'' (tx E ''detail.addModelPlaceholder'')] [],
       El ''Button'' [aS ''variant'' ''outline'', on ''onClick'' (d_probeAndAdd E s),
           aB ''disabled'' (d_is_busy s \<or> js_trim (d_newModel s) = []), aS ''title'' (tx E ''detail.probeNewHint'')]
         [spin_or s ''probeNew'' ''LuFlaskConical'', Txt (tx E ''detail.probeNew'')],
       El ''Button'' [aS ''variant'' ''outline'', on ''onClick'' (d_addModel E s),
           aB ''disabled'' (d_is_busy s \<or> js_trim (d_newModel s) = [])]
         [spin_or s ''extra'' ''LuPlus'', Txt (tx E ''detail.addModel'')]],
     El ''p'' [] [Txt (tx E ''detail.addModelHint'')],
     shown (js_includes ''cline'' (js_lower (a_authMethod (d_a s) @ '' '' @ a_provider (d_a s))))
       (El ''p'' [] [Txt (tx E ''detail.clinepassModelsHint'')])]"

definition test_section :: "ui \<Rightarrow> detail_st \<Rightarrow> dact view" where
  "test_section E s = (let probe = text_of (a_probeModel (d_a s)) in Section (tx E ''accounts.testModalTitle'') Nothing [
     El ''div'' [] [
       El ''ModelCombobox'' [aS ''value'' (selectedTestModel s), onS ''onChange'' (\<lambda>v. Upd (\<lambda>x. x\<lparr>d_testModel := Some v\<rparr>) Done),
         aS ''options'' (js_join '','' (routableModelList s)), aS ''placeholder'' (tx E ''models.searchPlaceholder'')] [],
       El ''Button'' [on ''onClick'' (runTest s), aB ''disabled'' (d_is_busy s)]
         [spin_or s ''test'' ''LuFlaskConical'', Txt (tx E ''accounts.test'')]],
     El ''div'' [] [
       El ''span'' [] [Txt (if probe \<noteq> [] then tr E ''detail.probeModelCurrent'' [probe] else tx E ''detail.probeModelUnset'')],
       El ''Button'' [aS ''variant'' ''outline'',
           aB ''disabled'' (d_is_busy s \<or> selectedTestModel s = [] \<or> selectedTestModel s = probe),
           on ''onClick'' (saveProbe E s)] [spin s ''probe'', Txt (tx E ''detail.setAsDefault'')]],
     (case d_testResult s of None \<Rightarrow> Nothing | Some r \<Rightarrow>
       El ''Alert'' [aS ''variant'' (if r_ok r then ''default'' else ''destructive'')] [
         El ''AlertTitle'' [] [Txt (tx E (if r_ok r then ''accounts.testSuccess'' else ''accounts.testFailed'') @ '' '' @ mid_dot
            @ '' '' @ to_fixed 1 (of_int (r_ms r) / 1000) @ ''s'')],
         El ''AlertDescription'' [] [Txt (r_text r)]])])"

definition sheet_footer :: "ui \<Rightarrow> detail_st \<Rightarrow> dact view" where
  "sheet_footer E s = frag [
     El ''div'' [] [
       El ''div'' [] [
         CopyButton E (d_copied s) (\<lambda>b x. x\<lparr>d_copied := b\<rparr>) (d_id s) (tx E ''accounts.copyId''),
         El ''Button'' [aS ''variant'' ''outline'', on ''onClick'' (d_copyJson E s), aB ''disabled'' (d_is_busy s)]
           [spin s ''copy'', Txt (tx E ''accounts.copyJSON'')]],
       El ''Button'' [aS ''variant'' ''destructive'', on ''onClick'' (Upd (\<lambda>x. x\<lparr>d_confirmDelete := True\<rparr>) Done)]
         [ic ''LuTrash2'', Txt (tx E ''accounts.delete'')]],
     ConfirmDialog E (d_confirmDelete s) (\<lambda>o1. Upd (\<lambda>x. x\<lparr>d_confirmDelete := o1\<rparr>) Done)
       (tx E ''accounts.confirmDelete'') (Txt (a_email (d_a s))) (Some (tx E ''common.delete'')) True
       (remove_account E s) (d_confirmBusy s) (\<lambda>b x. x\<lparr>d_confirmBusy := b\<rparr>)]"

definition Body :: "ui \<Rightarrow> detail_st \<Rightarrow> dact view" where
  "Body E s = El ''div'' [] [
     sheet_header E s, basic_section E s, usage_section E s, warmup_section E s, paid_section E s,
     overage_section E s, egress_section E s, statistics_section E s, models_section E s, test_section E s,
     sheet_footer E s]"

text \<open>The sheet itself: open while there is an account; the body is remounted for another account.\<close>

definition AccountDetailSheet :: "ui \<Rightarrow> detail_st option \<Rightarrow> dact view" where
  "AccountDetailSheet E s = El ''Sheet'' [aB ''open'' (s \<noteq> None),
      onB ''onOpenChange'' (\<lambda>o1. if o1 then Done else Emit (Parent ''onClose'' JUndef) Done)] [
     El ''SheetContent'' [] [case s of None \<Rightarrow> Nothing | Some b \<Rightarrow> Body E b]]"

text \<open>The list is refreshed: a new account record with the same id; the queries answer; time passes.\<close>

definition detail_env :: "detail_st \<Rightarrow> detail_st \<Rightarrow> bool" where
  "detail_env s s' \<longleftrightarrow> (\<exists>a ms l st c. a_id a = d_id s \<and> d_clock s \<le> c \<and>
     s' = s\<lparr>d_a := a, d_models := ms, d_modelsLoading := l, d_settings := st, d_clock := c\<rparr>)"

section \<open>Lemmas\<close>

lemma may_send_d_run: "may_send P (d_run key f) \<Longrightarrow> may_send P f"
  by (auto simp: d_run_def finally_do_def dest!: may_send_andThen may_send_catch)

lemma no_delete_requests [simp]:
  "may_send deletes (d_put s ps k) \<longleftrightarrow> may_send deletes k"
  "may_send deletes (post_quietly p k) \<longleftrightarrow> may_send deletes k"
  "may_send deletes (invalidate k) \<longleftrightarrow> may_send deletes k"
  "may_send deletes (invalidate_models s k) \<longleftrightarrow> may_send deletes k"
  by (simp_all add: d_put_def put_def post_quietly_def invalidate_def invalidate_models_def)

lemma sheet_no_delete:
  "\<not> may_send deletes (saveEnabledModels E s l)" "\<not> may_send deletes (saveExtraModels E s ms)"
  "\<not> may_send deletes (saveIdentity E s)" "\<not> may_send deletes generateMachineId"
  "\<not> may_send deletes (setEnabled s b)" "\<not> may_send deletes (pullOverage s)"
  "\<not> may_send deletes (setAllowPaid s b)" "\<not> may_send deletes (setOverage s b)"
  "\<not> may_send deletes (saveEgress E s)" "\<not> may_send deletes (refreshModelCache E s)"
  "\<not> may_send deletes (d_refreshAccount E s)" "\<not> may_send deletes (d_warmup E s)"
  "\<not> may_send deletes (runTest s)" "\<not> may_send deletes (d_copyJson E s)"
  "\<not> may_send deletes (saveProbe E s)"
  by (auto simp: saveEnabledModels_def saveExtraModels_def saveIdentity_def generateMachineId_def setEnabled_def
      pullOverage_def setAllowPaid_def setOverage_def saveEgress_def refreshModelCache_def d_refreshAccount_def
      d_warmup_def runTest_def d_copyJson_def saveProbe_def post_def get_def get_field_def Let_def
      dest!: may_send_d_run may_send_catch split: if_splits)

lemma sheet_no_delete_models:
  "\<not> may_send deletes (toggleModel E s m)" "\<not> may_send deletes (d_addModel E s)"
  "\<not> may_send deletes (d_probeAndAdd E s)" "\<not> may_send deletes (d_enter E s k)"
  "\<not> may_send deletes (copy_value E sd v)"
proof -
  show add: "\<not> may_send deletes (d_addModel E s)"
    by (simp add: d_addModel_def sheet_no_delete Let_def)
  then show "\<not> may_send deletes (d_enter E s k)" by (simp add: d_enter_def)
  from add show "\<not> may_send deletes (d_probeAndAdd E s)"
    by (auto simp: d_probeAndAdd_def post_def get_field_def Let_def
        dest!: may_send_d_run may_send_catch split: if_splits)
  show "\<not> may_send deletes (toggleModel E s m)"
    by (simp add: toggleModel_def sheet_no_delete)
  show "\<not> may_send deletes (copy_value E sd v)"
    by (auto simp: copy_value_def dest!: may_send_catch)
qed

text \<open>What the button of the deletion dialog runs.\<close>

definition remove_act :: "ui \<Rightarrow> detail_st \<Rightarrow> dact" where
  "remove_act E s = confirm_run (\<lambda>o1. Upd (\<lambda>x. x\<lparr>d_confirmDelete := o1\<rparr>) Done) (remove_account E s)
     (\<lambda>b x. x\<lparr>d_confirmBusy := b\<rparr>)"

definition sheet_harmless :: "ui \<Rightarrow> detail_st \<Rightarrow> dact \<Rightarrow> bool" where
  "sheet_harmless E s a \<longleftrightarrow> may_send deletes a \<longrightarrow> a = remove_act E s \<and> d_confirmDelete s \<and> \<not> d_confirmBusy s"

lemma sheet_harmless_actions [simp]:
  "sheet_harmless E s (saveEnabledModels E' s' l)" "sheet_harmless E s (saveExtraModels E' s' ms)"
  "sheet_harmless E s (saveIdentity E' s')" "sheet_harmless E s generateMachineId"
  "sheet_harmless E s (setEnabled s' b)" "sheet_harmless E s (pullOverage s')"
  "sheet_harmless E s (setAllowPaid s' b)" "sheet_harmless E s (setOverage s' b)"
  "sheet_harmless E s (saveEgress E' s')" "sheet_harmless E s (refreshModelCache E' s')"
  "sheet_harmless E s (d_refreshAccount E' s')" "sheet_harmless E s (d_warmup E' s')"
  "sheet_harmless E s (runTest s')" "sheet_harmless E s (d_copyJson E' s')"
  "sheet_harmless E s (saveProbe E' s')" "sheet_harmless E s (toggleModel E' s' m)"
  "sheet_harmless E s (d_addModel E' s')" "sheet_harmless E s (d_probeAndAdd E' s')"
  "sheet_harmless E s (d_enter E' s' k)" "sheet_harmless E s (copy_value E' sd v)"
  "sheet_harmless E s (Upd f Done)" "sheet_harmless E s (Fork (saveEnabledModels E' s' l) Done)"
  "sheet_harmless E s (Fork (saveExtraModels E' s' ms) Done)"
  by (simp_all add: sheet_harmless_def sheet_no_delete sheet_no_delete_models)

lemma live_layout [simp]:
  "live (Section t act vs) = live act @ concat (map live vs)"
  "live (Row l vs) = concat (map live vs)"
  "live (spin s k) = []" "live (spin_or s k i) = []"
  "live (field_input i ty upd val h) = [WithText (\<lambda>v. Upd (upd v) Done)]"
  by (simp_all add: Section_def Row_def spin_def spin_or_def field_input_def)

lemma sheet_sections:
  "list_all (handler_all (sheet_harmless E s)) (live (sheet_header E s))"
  "list_all (handler_all (sheet_harmless E s)) (live (basic_section E s))"
  "list_all (handler_all (sheet_harmless E s)) (live (usage_section E s))"
  "list_all (handler_all (sheet_harmless E s)) (live (warmup_section E s))"
  "list_all (handler_all (sheet_harmless E s)) (live (paid_section E s))"
  "list_all (handler_all (sheet_harmless E s)) (live (overage_section E s))"
  "list_all (handler_all (sheet_harmless E s)) (live (egress_section E s))"
  "list_all (handler_all (sheet_harmless E s)) (live (statistics_section E s))"
  by (auto simp: sheet_header_def basic_section_def compat_fields_def identity_fields_def usage_section_def
      warmup_section_def paid_section_def overage_section_def egress_section_def statistics_section_def
      stat_tile_def view_live Let_def)

lemma sheet_sections_models:
  "list_all (handler_all (sheet_harmless E s)) (live (models_section E s))"
  "list_all (handler_all (sheet_harmless E s)) (live (test_section E s))"
  "list_all (handler_all (sheet_harmless E s)) (live (sheet_footer E s))"
proof -
  show "list_all (handler_all (sheet_harmless E s)) (live (models_section E s))"
    by (auto simp: models_section_def allow_summary_def model_chip_def extra_chip_def list_all_iff Let_def)
  show "list_all (handler_all (sheet_harmless E s)) (live (test_section E s))"
    by (auto simp: test_section_def Let_def split: option.split)
  show "list_all (handler_all (sheet_harmless E s)) (live (sheet_footer E s))"
    by (auto simp: sheet_footer_def view_live remove_act_def [symmetric])
      (auto simp: sheet_harmless_def)
qed

section \<open>Properties\<close>

text \<open>Deleting from the sheet takes two steps: of everything a user can click or type in the sheet,
  in any state, only the button of the open confirmation leads to a DELETE request, it asks for the
  account shown and nothing else, and the sheet is closed only when the server has agreed.\<close>

theorem sheet_delete_confirmed:
  assumes "h \<in> set (live (Body E s))" "fire h inp = Some a" "may_send (\<lambda>r. deletes r \<and> r = d) a"
  shows "d_confirmDelete s \<and> \<not> d_confirmBusy s \<and> d = Http ''DELETE'' (''/accounts/'' @ d_id s) NoBody \<and>
    (case exec a srv s w of (e, s', l, w') \<Rightarrow> (Parent ''onClose'' JUndef \<in> set l \<longleftrightarrow> (\<exists>v. fst (srv w d) = Resolved v)))"
proof -
  have mono: "may_send P b \<Longrightarrow> (\<And>r. P r \<Longrightarrow> P' r) \<Longrightarrow> may_send P' b" for P P' and b :: dact
    by (induction b) (auto simp: list_ex_iff)
  have "may_send deletes a" using assms(3) by (rule mono) simp
  moreover have "sheet_harmless E s a"
    using sheet_sections [of E s] sheet_sections_models [of E s] assms(1,2)
    by (auto simp: Body_def list_all_iff handler_all_def)
  ultimately have a: "a = remove_act E s" "d_confirmDelete s" "\<not> d_confirmBusy s"
    by (auto simp: sheet_harmless_def)
  have "d = Http ''DELETE'' (''/accounts/'' @ d_id s) NoBody"
    using assms(3) unfolding a(1)
    by (auto simp: remove_act_def confirm_run_def finally_do_def remove_account_def del_def d_path_def invalidate_def
        dest!: may_send_andThen may_send_catch)
  with a show ?thesis
    by (auto simp: remove_act_def exec_confirm_run remove_account_def del_def exec_await d_path_def invalidate_def
        split: prod.split reply.split)
qed

theorem sheet_delete_confirmed_witness:
  "effects (exec (remove_act sample_ui ((detail_mount (blank_account\<lparr>a_id := ''a7''\<rparr>) 0)\<lparr>d_confirmDelete := True\<rparr>))
      (\<lambda>w r. (Rejected NonErr, w)) ((detail_mount (blank_account\<lparr>a_id := ''a7''\<rparr>) 0)\<lparr>d_confirmDelete := True\<rparr>) ()) = [] \<and>
    d_id (detail_mount (blank_account\<lparr>a_id := ''a7''\<rparr>) 0) = ''a7''"
proof -
  let ?s = "(detail_mount (blank_account\<lparr>a_id := ''a7''\<rparr>) 0)\<lparr>d_confirmDelete := True\<rparr>"
  let ?d = "Http ''DELETE'' ''/accounts/a7'' NoBody"
  have i: "d_id ?s = ''a7''" by (simp add: d_id_def detail_mount_def)
  have live: "Plain (remove_act sample_ui ?s) \<in> set (live (Body sample_ui ?s))"
    by (simp add: Body_def sheet_footer_def view_live remove_act_def detail_mount_def)
  have sends: "may_send (\<lambda>r. deletes r \<and> r = ?d) (remove_act sample_ui ?s)"
    by (simp add: remove_act_def confirm_run_def act_nf remove_account_def d_path_def i)
  from sheet_delete_confirmed [OF live _ sends, of Click "\<lambda>w r. (Rejected NonErr, w)" "()"]
  show ?thesis
    by (simp add: effects_def remove_act_def exec_confirm_run remove_account_def del_def exec_await detail_mount_def d_id_def)
qed

text \<open>The account record as the server returns it after an allow list was stored.\<close>

definition with_allowlist :: "string list option \<Rightarrow> detail_st \<Rightarrow> detail_st" where
  "with_allowlist l s = s\<lparr>d_a := (d_a s)\<lparr>a_enabledModels := l\<rparr>\<rparr>"

lemma with_allowlist_simps [simp]:
  "allowlist (with_allowlist l s) = l" "modelList (with_allowlist l s) = modelList s"
  by (simp_all add: allowlist_def modelList_def with_allowlist_def)

lemma any_same_model: "list_ex (same_model m) xs \<longleftrightarrow> js_lower m \<in> js_lower ` set xs"
  by (auto simp: list_ex_iff same_model_def image_iff) metis+

lemma isModelEnabled_image: "isModelEnabled s x \<longleftrightarrow>
    (case allowlist s of None \<Rightarrow> True | Some ms \<Rightarrow> js_lower x \<in> js_lower ` set ms)"
  by (simp add: isModelEnabled_def any_same_model split: option.split)

lemma without_model: "js_lower ` set (filter (\<lambda>x. \<not> same_model m x) xs) = js_lower ` set xs - {js_lower m}"
  by (auto simp: same_model_def)

lemma all_of_catalog:
  assumes "distinct (map js_lower xs)" "distinct (map js_lower cs)" "js_lower ` set xs \<subseteq> js_lower ` set cs"
    and "length xs = length cs"
  shows "js_lower ` set xs = js_lower ` set cs"
proof (rule card_subset_eq)
  show "card (js_lower ` set xs) = card (js_lower ` set cs)"
    using assms(1,2,4) by (metis distinct_card length_map set_map)
qed (use assms(3) in auto)

text \<open>C27: what a click on a model chip sends, for a catalog without repetitions and an account whose allow
  list, if it has one, has no repetitions and names only models of the catalog (C28 is about the other
  lists): a list under which the clicked model has changed over and every other model of the catalog
  routes as before. For an account without a list, where every model routes, that is the catalog
  without the clicked model: all but this one, although the comment at the handler says that the
  first click means only this one.\<close>

theorem toggle_flips_one:
  assumes "distinct (map js_lower (modelList s))" "m \<in> set (modelList s)" "x \<in> set (modelList s)"
    and "\<forall>ms. allowlist s = Some ms \<longrightarrow> distinct (map js_lower ms) \<and> js_lower ` set ms \<subseteq> js_lower ` set (modelList s)"
  shows "\<exists>l k. sync (toggleModel E s m) s = (s\<lparr>d_busy := Some ''enabledModels''\<rparr>, [],
      [Req (Http ''PUT'' (''/accounts/'' @ d_id s) (JsonBody (obj [(''enabledModels'', allow_value l)]))) k]) \<and>
    (isModelEnabled (with_allowlist l s) x \<longleftrightarrow> (if same_model m x then \<not> isModelEnabled s m else isModelEnabled s x)) \<and>
    (allowlist s = None \<longrightarrow> l = Some (filter (\<lambda>y. \<not> same_model m y) (modelList s)))"
proof -
  define base where "base = (case allowlist s of None \<Rightarrow> modelList s | Some ms \<Rightarrow> ms)"
  have base: "distinct (map js_lower base)" "js_lower ` set base \<subseteq> js_lower ` set (modelList s)"
    "isModelEnabled s z \<longleftrightarrow> js_lower z \<in> js_lower ` set base" if "z \<in> set (modelList s)" for z
    using assms that by (auto simp: base_def isModelEnabled_image split: option.split)
  define l where "l = toggled_models s m"
  have sent: "\<exists>k. sync (toggleModel E s m) s = (s\<lparr>d_busy := Some ''enabledModels''\<rparr>, [],
      [Req (Http ''PUT'' (''/accounts/'' @ d_id s) (JsonBody (obj [(''enabledModels'', allow_value l)]))) k])"
    by (simp add: l_def toggleModel_def saveEnabledModels_def d_run_def d_put_def d_path_def act_nf)
  have "(isModelEnabled (with_allowlist l s) x \<longleftrightarrow> (if same_model m x then \<not> isModelEnabled s m else isModelEnabled s x)) \<and>
    (allowlist s = None \<longrightarrow> l = Some (filter (\<lambda>y. \<not> same_model m y) (modelList s)))"
  proof (cases "isModelEnabled s m")
    case True
    then have m: "js_lower m \<in> js_lower ` set base" using base(3) assms(2) by blast
    let ?n = "filter (\<lambda>x. \<not> same_model m x) base"
    have "length ?n \<noteq> length (modelList s)"
    proof
      assume "length ?n = length (modelList s)"
      moreover have "distinct (map js_lower ?n)" using base(1) [OF assms(2)] by (rule distinct_map_filter)
      ultimately have "js_lower ` set ?n = js_lower ` set (modelList s)"
        using assms(1) base(2) [OF assms(2)] by (intro all_of_catalog) auto
      then have "js_lower ` set base - {js_lower m} = js_lower ` set (modelList s)"
        by (simp only: without_model)
      with assms(2) show False by blast
    qed
    with m have "l = Some ?n" by (simp add: l_def toggled_models_def base_def [symmetric] any_same_model Let_def)
    moreover have "allowlist s = None \<longrightarrow> base = modelList s" by (simp add: base_def)
    ultimately show ?thesis using True assms(3) base(3) [of x]
      by (auto simp: isModelEnabled_image without_model same_model_def)
  next
    case False
    then have m: "js_lower m \<notin> js_lower ` set base" using base(3) assms(2) by blast
    have some: "allowlist s \<noteq> None" using False by (auto simp: isModelEnabled_def split: option.splits)
    have l: "l = (if length (base @ [m]) = length (modelList s) then None else Some (base @ [m]))"
      using m by (simp add: l_def toggled_models_def base_def [symmetric] any_same_model Let_def)
    show ?thesis
    proof (cases "length (base @ [m]) = length (modelList s)")
      case True
      have "js_lower ` set (base @ [m]) = js_lower ` set (modelList s)"
        using True m base(1,2) [OF assms(2)] assms(1,2) by (intro all_of_catalog) auto
      then have "js_lower x \<in> js_lower ` set (base @ [m])" using assms(3) by simp
      with True l False some base(3) [OF assms(3)] show ?thesis
        by (auto simp: isModelEnabled_image same_model_def)
    next
      case nfull: False
      with l False some base(3) [OF assms(3)] show ?thesis
        by (auto simp: isModelEnabled_image same_model_def)
    qed
  qed
  note flips = this
  from sent obtain k where k: "sync (toggleModel E s m) s = (s\<lparr>d_busy := Some ''enabledModels''\<rparr>, [],
      [Req (Http ''PUT'' (''/accounts/'' @ d_id s) (JsonBody (obj [(''enabledModels'', allow_value l)]))) k])" ..
  show ?thesis by (rule exI [of _ l], rule exI [of _ k], rule conjI [OF k flips])
qed

definition sample_sheet :: detail_st where
  "sample_sheet = (detail_mount (blank_account\<lparr>a_id := ''a1'', a_enabledModels := Some [''glm'']\<rparr>) 0)
     \<lparr>d_models := Some [''glm'', ''kimi'', ''qwen'']\<rparr>"

lemma sample_lower: "js_lower ''glm'' = ''glm''" "js_lower ''kimi'' = ''kimi''" "js_lower ''qwen'' = ''qwen''"
  "js_lower ''old'' = ''old''"
  by code_simp+

theorem toggle_flips_one_witness:
  "\<exists>l. isModelEnabled (with_allowlist l sample_sheet) ''kimi'' \<and>
     \<not> isModelEnabled sample_sheet ''kimi''"
proof -
  have "\<not> isModelEnabled sample_sheet ''kimi''"
    by (simp add: sample_sheet_def detail_mount_def isModelEnabled_image allowlist_def sample_lower)
  with toggle_flips_one [of sample_sheet "''kimi''" "''kimi''" sample_ui] show ?thesis
    by (fastforce simp: sample_sheet_def detail_mount_def modelList_def allowlist_def sample_lower same_model_def)
qed

text \<open>C28: counting the models is not comparing them: when the allow list still names models the catalog
  no longer lists, so that what remains after switching a model off is as long as the catalog, the click
  sends no allow list and everything routes, the model switched off included.\<close>

theorem toggle_stale_opens_all:
  assumes "allowlist s = Some ms" "isModelEnabled s m"
    and "length (filter (\<lambda>x. \<not> same_model m x) ms) = length (modelList s)"
  shows "exec (toggleModel E s m) (\<lambda>w r. (Resolved JNull, r # w)) s [] =
      (None, s\<lparr>d_busy := None\<rparr>, [ToastOk (tx E ''detail.saved''), Invalidate [''accounts'']],
       [Http ''PUT'' (''/accounts/'' @ d_id s) (JsonBody (obj [(''enabledModels'', JNull)]))]) \<and>
    isModelEnabled (with_allowlist None s) m"
proof -
  have "toggled_models s m = None"
    using assms by (simp add: toggled_models_def isModelEnabled_def Let_def)
  then show ?thesis
    by (simp add: toggleModel_def saveEnabledModels_def d_run_def d_put_def d_path_def act_nf invalidate_def
        allow_value_def isModelEnabled_def)
qed

theorem toggle_stale_opens_all_witness:
  "isModelEnabled (with_allowlist None (with_allowlist (Some [''old'', ''glm'', ''kimi'', ''qwen'']) sample_sheet)) ''kimi''"
  using toggle_stale_opens_all [of "with_allowlist (Some [''old'', ''glm'', ''kimi'', ''qwen'']) sample_sheet"
      "[''old'', ''glm'', ''kimi'', ''qwen'']" "''kimi''"]
  by (simp add: isModelEnabled_image sample_lower same_model_def sample_sheet_def modelList_def)

text \<open>A malformed machine id, proxy address or relay address is never sent: saving it shows the
  message for that field, reaches no server, changes no field and leaves the buttons enabled.\<close>

theorem invalid_fields_not_sent:
  assumes "a = saveIdentity E s \<and> msg = ''detail.machineIdError'' \<and> d_machineId s \<noteq> [] \<and> \<not> isMachineId (d_machineId s)
    \<or> a = saveEgress E s \<and> msg = ''detail.proxyFormatError'' \<and> d_egress s = ''proxy'' \<and> \<not> isProxyUrl (d_proxyURL s)
    \<or> a = saveEgress E s \<and> msg = ''detail.relayFormatError'' \<and> d_egress s \<noteq> ''proxy'' \<and> d_egress s \<noteq> ''inherit''
        \<and> \<not> isHttpUrl (d_relayURL s)"
  shows "exec a srv s w = (None, s\<lparr>d_busy := None\<rparr>, [ToastErr (tx E msg)], w)"
  using assms by (elim disjE conjE; simp add: saveIdentity_def saveEgress_def d_run_def act_nf)

theorem invalid_fields_not_sent_witness:
  "exec (saveEgress sample_ui (sample_sheet\<lparr>d_egress := ''proxy'', d_proxyURL := ''localhost:1080''\<rparr>)) (\<lambda>w r. (Resolved JNull, w))
     (sample_sheet\<lparr>d_egress := ''proxy'', d_proxyURL := ''localhost:1080''\<rparr>) () =
   (None, sample_sheet\<lparr>d_egress := ''proxy'', d_proxyURL := ''localhost:1080'', d_busy := None\<rparr>,
    [ToastErr ''detail.proxyFormatError''], ())"
proof -
  have "\<not> isProxyUrl ''localhost:1080''" by code_simp
  with invalid_fields_not_sent [of "saveEgress sample_ui (sample_sheet\<lparr>d_egress := ''proxy'', d_proxyURL := ''localhost:1080''\<rparr>)"
      sample_ui "sample_sheet\<lparr>d_egress := ''proxy'', d_proxyURL := ''localhost:1080''\<rparr>" "''detail.proxyFormatError''" "\<lambda>w r. (Resolved JNull, w)" "()"]
  show ?thesis by (simp add: sample_ui_def)
qed

text \<open>Unless the operator picked one, the account is tested with a model it routes: with its own
  probe model if that is routable, else with the model of the settings if that is, else with the first
  routable one; with none, no model is named in the request.\<close>

theorem tested_model_is_routable:
  assumes "d_testModel s = None"
  shows "(if routableModelList s = [] then selectedTestModel s = []
      else selectedTestModel s \<in> set (modelList s) \<and> isModelEnabled s (selectedTestModel s)) \<and>
    (list_ex (same_model (text_of (a_probeModel (d_a s)))) (routableModelList s) \<longrightarrow>
       same_model (text_of (a_probeModel (d_a s))) (selectedTestModel s)) \<and>
    (\<exists>k. sync (runTest s) s = (s\<lparr>d_busy := Some ''test''\<rparr>, [],
       [Req (Http ''POST'' (''/accounts/'' @ d_id s @ ''/test'')
         (if routableModelList s \<noteq> [] \<and> selectedTestModel s \<noteq> []
          then JsonBody (obj [(''model'', JStr (selectedTestModel s))]) else NoBody)) k]))"
proof -
  have hit: "x \<in> set xs \<and> P x" if "find P xs = Some x" for P x and xs :: "string list"
    using that by (induction xs) (auto split: if_splits)
  have miss: "\<not> list_ex P xs" if "find P xs = None" for P and xs :: "string list"
    using that by (auto simp: find_None_iff list_ex_iff)
  have routable: "x \<in> set (routableModelList s) \<longleftrightarrow> x \<in> set (modelList s) \<and> isModelEnabled s x" for x
    by (auto simp: routableModelList_def)
  have sel: "selectedTestModel s = (case accountDefaultModel s of Some m \<Rightarrow> m
      | None \<Rightarrow> (case routableModelList s of [] \<Rightarrow> [] | m # _ \<Rightarrow> m))"
    by (simp add: selectedTestModel_def assms)
  have in_list: "selectedTestModel s \<in> set (routableModelList s)" if "routableModelList s \<noteq> []"
    using that unfolding sel accountDefaultModel_def by (auto split: option.split list.split dest!: hit)
  moreover have none: "selectedTestModel s = []" if "routableModelList s = []"
    using that by (simp add: sel accountDefaultModel_def)
  moreover have "same_model (text_of (a_probeModel (d_a s))) (selectedTestModel s)"
    if "list_ex (same_model (text_of (a_probeModel (d_a s)))) (routableModelList s)"
    using that unfolding sel accountDefaultModel_def
    by (auto simp: same_model_def [symmetric] split: option.split dest!: hit miss)
  moreover have "\<exists>k. sync (runTest s) s = (s\<lparr>d_busy := Some ''test''\<rparr>, [],
       [Req (Http ''POST'' (''/accounts/'' @ d_id s @ ''/test'')
         (if routableModelList s \<noteq> [] \<and> selectedTestModel s \<noteq> []
          then JsonBody (obj [(''model'', JStr (selectedTestModel s))]) else NoBody)) k])"
    using none by (auto simp: runTest_def d_run_def d_path_def act_nf Let_def)
  ultimately show ?thesis by (simp add: routable)
qed

theorem tested_model_is_routable_witness:
  "selectedTestModel sample_sheet \<in> {''glm''}"
proof -
  have "routableModelList sample_sheet = [''glm'']"
    by (simp add: routableModelList_def isModelEnabled_image sample_sheet_def detail_mount_def modelList_def
        allowlist_def sample_lower)
  with tested_model_is_routable [of sample_sheet] show ?thesis
    by (simp add: isModelEnabled_image sample_lower)
      (auto simp: sample_sheet_def detail_mount_def modelList_def allowlist_def sample_lower isModelEnabled_image)
qed

text \<open>The Enter key adds a model whatever is running: typing a model and pressing Enter twice, before
  the first request is answered and the account is read again, puts two changing requests in flight,
  each with the models known at the start and its own; whichever the server handles last, one of the
  two models is lost.\<close>

theorem enter_drops_model:
  assumes "js_trim x \<noteq> []" "js_trim y \<noteq> []" "s = detail_mount acct now"
    and "\<not> list_ex (same_model (js_trim x)) (extraModels s)" "\<not> list_ex (same_model (js_trim y)) (extraModels s)"
  shows "\<exists>m k1 k2. mreach (Body E) detail_env s m \<and> d_busy (cst m) = Some ''extra'' \<and> inflight m =
    [Req (Http ''PUT'' (''/accounts/'' @ a_id acct) (JsonBody (obj [(''extraModels'', jstrs (extraModels s @ [js_trim x]))]))) k1,
     Req (Http ''PUT'' (''/accounts/'' @ a_id acct) (JsonBody (obj [(''extraModels'', jstrs (extraModels s @ [js_trim y]))]))) k2]"
proof -
  have inputs: "WithText (\<lambda>v. Upd (\<lambda>x. x\<lparr>d_newModel := v\<rparr>) Done) \<in> set (live (Body E z))"
    "WithText (d_enter E z) \<in> set (live (Body E z))" for z
    by (simp_all add: Body_def models_section_def)
  have type: "mreach (Body E) detail_env s (m\<lparr>cst := (cst m)\<lparr>d_newModel := v\<rparr>\<rparr>)"
    if "mreach (Body E) detail_env s m" for m v
    using mreach.step [OF that mstep.event [where inp = "Type v", OF inputs(1)]] by (simp add: resume_def)
  have enter: "\<exists>k. mreach (Body E) detail_env s (m\<lparr>cst := (cst m)\<lparr>d_newModel := [], d_busy := Some ''extra''\<rparr>,
      inflight := inflight m @ [Req (Http ''PUT'' (d_path (cst m) [])
        (JsonBody (obj [(''extraModels'', jstrs (extraModels (cst m) @ [js_trim (d_newModel (cst m))]))]))) k]\<rparr>)"
    if "mreach (Body E) detail_env s m" "js_trim (d_newModel (cst m)) \<noteq> []"
      "\<not> list_ex (same_model (js_trim (d_newModel (cst m)))) (extraModels (cst m))" for m
    using mreach.step [OF that(1) mstep.event [where inp = "Type ''Enter''", OF inputs(2)]] that(2,3)
    by (auto simp: resume_def d_enter_def d_addModel_def saveExtraModels_def d_run_def d_put_def act_nf Let_def)
  have keep: "extraModels (z\<lparr>d_newModel := v\<rparr>) = extraModels z" "extraModels (z\<lparr>d_busy := b\<rparr>) = extraModels z"
    "d_path (z\<lparr>d_newModel := v\<rparr>) r = d_path z r" "d_path (z\<lparr>d_busy := b\<rparr>) r = d_path z r" for z v b r
    by (simp_all add: extraModels_def d_path_def d_id_def)
  note m1 = type [OF mreach.start, of x]
  from enter [OF m1] assms(1,4) obtain k1 where m2: "mreach (Body E) detail_env s
      \<lparr>cst = s\<lparr>d_newModel := [], d_busy := Some ''extra''\<rparr>,
       inflight = [Req (Http ''PUT'' (d_path s []) (JsonBody (obj [(''extraModels'', jstrs (extraModels s @ [js_trim x]))]))) k1],
       trace = []\<rparr>"
    by (auto simp: keep)
  from enter [OF type [OF m2, of y]] assms(2,5) obtain k2 where "mreach (Body E) detail_env s
      \<lparr>cst = s\<lparr>d_newModel := [], d_busy := Some ''extra''\<rparr>,
       inflight = [Req (Http ''PUT'' (d_path s []) (JsonBody (obj [(''extraModels'', jstrs (extraModels s @ [js_trim x]))]))) k1,
                   Req (Http ''PUT'' (d_path s []) (JsonBody (obj [(''extraModels'', jstrs (extraModels s @ [js_trim y]))]))) k2],
       trace = []\<rparr>"
    by (auto simp: keep)
  moreover have "d_path s [] = ''/accounts/'' @ a_id acct"
    using assms(3) by (simp add: d_path_def d_id_def detail_mount_def)
  ultimately show ?thesis by fastforce
qed

theorem enter_drops_model_witness:
  "\<exists>m. mreach (Body sample_ui) detail_env (detail_mount blank_account 0) m \<and> length (inflight m) = 2"
proof -
  have trim: "js_trim ''glm'' = ''glm''" "js_trim ''kimi'' = ''kimi''" by code_simp+
  have "extraModels (detail_mount blank_account 0) = []"
    by (simp add: extraModels_def detail_mount_def blank_account_def)
  with trim enter_drops_model [of "''glm''" "''kimi''" "detail_mount blank_account 0" blank_account 0 sample_ui]
  show ?thesis by (fastforce simp: detail_mount_def)
qed

end
