(* ===== verification/Import_Formats.thy ===== *)
theory Import_Formats
  imports Common Json
begin

text \<open>
  The text formats the account imports accept, from
  \<open>dashboard/src/pages/accounts/add-account-dialog.tsx\<close>: pasted or uploaded credentials
  (\<open>parseCredentials\<close>), the two cache files of a local login (\<open>parse\<close> of \<open>LocalCacheForm\<close>) and the
  mixed list of keys, session tokens and token objects of CodeBuddy (\<open>creds\<close> of \<open>CodeBuddyForm\<close>).
  A thrown error is the left value of a sum.
\<close>

type_synonym cred = "(string \<times> jsv) list"

definition REGION :: string where
  "REGION = ''us-east-1''"

section \<open>Splitting\<close>

text \<open>\<open>s.split(/\s+/)\<close>.\<close>

fun split_ws :: "string \<Rightarrow> bool \<Rightarrow> string \<Rightarrow> string list" where
  "split_ws acc gap [] = [rev acc]"
| "split_ws acc gap (c # s) =
     (if is_ws c then (if gap then split_ws acc True s else rev acc # split_ws [] True s)
      else split_ws (c # acc) False s)"

text \<open>\<open>s.split(/\r?\n/).map(trim)\<close>: the carriage return before a line feed is white space, which
  \<open>trim\<close> takes away.\<close>

definition trimmed_lines :: "string \<Rightarrow> string list" where
  "trimmed_lines s = map js_trim (js_split LF s)"

definition strip_comma :: "string \<Rightarrow> string" where
  "strip_comma s = (if ends_with '','' s then butlast s else s)"

section \<open>\<open>parseCredentials\<close>\<close>

definition line_parts :: "string \<Rightarrow> string list" where
  "line_parts line = (if js_includes ''----'' line then js_split ''----'' line else split_ws [] False line)"

definition nth_or :: "string list \<Rightarrow> nat \<Rightarrow> string" where
  "nth_or xs i = (if i < length xs then xs ! i else [])"

definition line_cred :: "string list \<Rightarrow> cred" where
  "line_cred parts = (let p = (if length parts \<ge> 5 then parts else [] # [] # parts) in
     [(''email'', JStr (p ! 0)), (''refreshToken'', JStr (p ! 2)),
      (''clientId'', JStr (nth_or p 3)), (''clientSecret'', JStr (nth_or p 4))])"

fun parse_lines :: "string list \<Rightarrow> cred list \<times> nat" where
  "parse_lines [] = ([], 0)"
| "parse_lines (l # ls) = (case parse_lines ls of (items, skipped) \<Rightarrow>
     (let parts = line_parts l in
      if length parts < 3 then (items, Suc skipped) else (line_cred parts # items, skipped)))"

text \<open>\<open>{...v}\<close> of an object or an array.\<close>

definition own_props :: "jsv \<Rightarrow> cred" where
  "own_props v = (case v of JObj ps \<Rightarrow> ps | JArr vs \<Rightarrow> zip (map show_nat [0..<length vs]) vs | _ \<Rightarrow> [])"

definition prop_of :: "cred \<Rightarrow> string \<Rightarrow> jsv" where
  "prop_of c k = (case map_of c k of None \<Rightarrow> JUndef | Some v \<Rightarrow> v)"

definition cred_item :: "jsv \<Rightarrow> cred" where
  "cred_item x =
    (let nested = get_prop x ''credentials'';
         item = del_prop ''credentials''
                  (spread (own_props x) (if truthy nested \<and> is_object nested then own_props nested else []));
         item = (if \<not> truthy (prop_of item ''authMethod'') \<and> truthy (prop_of item ''tokenEndpoint'')
                 then set_prop ''authMethod'' (JStr ''external_idp'') item else item) in
     if \<not> truthy (prop_of item ''provider'') \<and> truthy (get_prop x ''idp'')
     then set_prop ''provider'' (get_prop x ''idp'') item else item)"

definition raw_items :: "jsv \<Rightarrow> jsv list" where
  "raw_items parsed = (case parsed of JArr vs \<Rightarrow> vs
     | JObj ps \<Rightarrow> (case map_of ps ''accounts'' of Some (JArr vs) \<Rightarrow> vs | _ \<Rightarrow> [parsed])
     | _ \<Rightarrow> [parsed])"

definition parseCredentials :: "string \<Rightarrow> cred list \<times> nat" where
  "parseCredentials txt = (let trimmed = js_trim txt in
     case JSON_parse trimmed of
       None \<Rightarrow> parse_lines (filter (\<lambda>l. l \<noteq> []) (trimmed_lines trimmed))
     | Some parsed \<Rightarrow> (map cred_item (filter is_object (raw_items parsed)), 0))"

section \<open>The files of a local login\<close>

text \<open>\<open>v.k\<close> as a value that may be a \<open>TypeError\<close>.\<close>

definition null_read :: "jsv \<Rightarrow> string \<Rightarrow> jerr" where
  "null_read v k = JsErr (''Cannot read properties of '' @ js_string v @ '' (reading '' @ [CHR 0x27] @ k
     @ [CHR 0x27] @ '')'')"

definition field_or_err :: "jsv \<Rightarrow> string \<Rightarrow> jerr + jsv" where
  "field_or_err v k = (if nullish v then Inl (null_read v k) else Inr (get_prop v k))"

definition uses_client :: "string \<Rightarrow> bool" where
  "uses_client channel \<longleftrightarrow> channel = ''BuilderId'' \<or> channel = ''Enterprise''"

definition local_item :: "string \<Rightarrow> jsv \<Rightarrow> jsv \<Rightarrow> cred" where
  "local_item channel tok client =
    [(''refreshToken'', get_prop tok ''refreshToken''),
     (''accessToken'', coalesce (get_prop tok ''accessToken'') (JStr [])),
     (''clientId'', coalesce (get_prop client ''clientId'') (JStr [])),
     (''clientSecret'', coalesce (get_prop client ''clientSecret'') (JStr [])),
     (''region'', coalesce (coalesce (get_prop tok ''region'') (get_prop client ''region'')) (JStr REGION)),
     (''authMethod'', JStr (if uses_client channel then ''idc'' else ''social'')),
     (''provider'', JStr channel)]"

definition local_client :: "ui \<Rightarrow> string \<Rightarrow> jerr + jsv" where
  "local_client E clientJson =
    (if js_trim clientJson = [] then Inl (JsErr (tx E ''local.clientMissing''))
     else case JSON_parse clientJson of None \<Rightarrow> Inl (JsErr (tx E ''local.clientInvalid''))
       | Some client \<Rightarrow> (case field_or_err client ''clientId'' of Inl e \<Rightarrow> Inl e
           | Inr i \<Rightarrow> if \<not> truthy i \<or> \<not> truthy (get_prop client ''clientSecret'')
               then Inl (JsErr (tx E ''local.clientSecretMissing'')) else Inr client))"

definition parse_local :: "ui \<Rightarrow> string \<Rightarrow> string \<Rightarrow> string \<Rightarrow> jerr + cred list" where
  "parse_local E channel tokenJson clientJson =
    (case JSON_parse tokenJson of None \<Rightarrow> Inl (JsErr (tx E ''local.tokenInvalid''))
     | Some tok \<Rightarrow> (case field_or_err tok ''refreshToken'' of Inl e \<Rightarrow> Inl e
         | Inr rt \<Rightarrow>
           if \<not> truthy rt then Inl (JsErr (tx E ''local.refreshTokenMissing''))
           else (case (if uses_client channel then local_client E clientJson else Inr (JObj [])) of
               Inl e \<Rightarrow> Inl e
             | Inr client \<Rightarrow> Inr [local_item channel tok client])))"

section \<open>CodeBuddy credentials\<close>

record cb_cred =
  cb_access :: string
  cb_refresh :: "string option"

definition isJwt :: "string \<Rightarrow> bool" where
  "isJwt v \<longleftrightarrow> starts_with ''eyJ'' v \<and> length (js_split ''.'' v) = 3"

definition url_safe :: "char \<Rightarrow> char" where
  "url_safe c = (if c = CHR ''-'' then CHR ''+'' else if c = CHR ''_'' then CHR ''/'' else c)"

definition jwtExpiry :: "string \<Rightarrow> rat option" where
  "jwtExpiry v = (case js_split ''.'' v of _ # p # _ \<Rightarrow>
       (case atob (map url_safe p) of None \<Rightarrow> None
        | Some txt \<Rightarrow> (case JSON_parse txt of None \<Rightarrow> None
            | Some payload \<Rightarrow> (case get_prop payload ''exp'' of JNum n \<Rightarrow> Some n | _ \<Rightarrow> None)))
     | _ \<Rightarrow> None)"

fun pick_str :: "jsv \<Rightarrow> string list \<Rightarrow> string option" where
  "pick_str m [] = None"
| "pick_str m (k # ks) = (case get_prop m k of
     JStr v \<Rightarrow> if js_trim v \<noteq> [] then Some (js_trim v) else pick_str m ks
   | _ \<Rightarrow> pick_str m ks)"

definition fromObj :: "jsv \<Rightarrow> cb_cred option" where
  "fromObj m = (if \<not> is_object m then None
     else case pick_str m [''access_token'', ''accessToken'', ''token'', ''api_key'', ''apiKey''] of None \<Rightarrow> None
       | Some access \<Rightarrow> Some \<lparr>cb_access = access, cb_refresh = pick_str m [''refresh_token'', ''refreshToken'']\<rparr>)"

fun cb_lines :: "string list \<Rightarrow> cb_cred list" where
  "cb_lines [] = []"
| "cb_lines (l # ls) = (let line = strip_comma l in
     if line = [] then cb_lines ls
     else if starts_with ''{'' line then
       (case JSON_parse line of None \<Rightarrow> cb_lines ls
        | Some v \<Rightarrow> (case fromObj v of None \<Rightarrow> cb_lines ls | Some c \<Rightarrow> c # cb_lines ls))
     else \<lparr>cb_access = line, cb_refresh = None\<rparr> # cb_lines ls)"

definition cb_json :: "string \<Rightarrow> cb_cred list" where
  "cb_json trimmed =
    (if starts_with ''{'' trimmed \<or> starts_with ''['' trimmed
     then (case JSON_parse trimmed of None \<Rightarrow> []
           | Some parsed \<Rightarrow> List.map_filter fromObj (case parsed of JArr vs \<Rightarrow> vs | _ \<Rightarrow> [parsed]))
     else [])"

definition cb_creds :: "string \<Rightarrow> cb_cred list" where
  "cb_creds txt = (let trimmed = js_trim txt in
     if trimmed = [] then []
     else if cb_json trimmed \<noteq> [] then cb_json trimmed
     else cb_lines (trimmed_lines trimmed))"

definition cb_keys :: "cb_cred list \<Rightarrow> cb_cred list" where
  "cb_keys cs = filter (\<lambda>c. \<not> isJwt (cb_access c)) cs"

definition cb_jwts :: "cb_cred list \<Rightarrow> cb_cred list" where
  "cb_jwts cs = filter (\<lambda>c. isJwt (cb_access c)) cs"

definition cb_refreshable :: "cb_cred list \<Rightarrow> cb_cred list" where
  "cb_refreshable cs = filter (\<lambda>c. case cb_refresh c of None \<Rightarrow> False | Some r \<Rightarrow> r \<noteq> [] \<and> isJwt r) cs"

definition cb_expired :: "int \<Rightarrow> cb_cred list \<Rightarrow> cb_cred list" where
  "cb_expired now cs = filter (\<lambda>c. case jwtExpiry (cb_access c) of None \<Rightarrow> False
     | Some e \<Rightarrow> e * 1000 < of_int now) (cb_jwts cs)"

section \<open>Lines of credentials\<close>

text \<open>A line that stands for a list of fields: joined by dashes, or by single spaces.\<close>

definition written :: "string list \<Rightarrow> string \<Rightarrow> bool" where
  "written ps l \<longleftrightarrow> l = js_join ''----'' ps \<or> [] \<notin> set ps \<and> l = js_join '' '' ps"

definition clean_field :: "string \<Rightarrow> bool" where
  "clean_field x = list_all (\<lambda>c. c \<noteq> CHR ''-'' \<and> \<not> is_ws c) x"

text \<open>What the fields mean: from five on, the layout of the comment at \<open>parseCredentials\<close>; three or
  four begin with the refresh token.\<close>

definition fields_item :: "string list \<Rightarrow> cred" where
  "fields_item ps = (if length ps \<ge> 5
     then [(''email'', JStr (ps ! 0)), (''refreshToken'', JStr (ps ! 2)), (''clientId'', JStr (ps ! 3)), (''clientSecret'', JStr (ps ! 4))]
     else [(''email'', JStr []), (''refreshToken'', JStr (ps ! 0)), (''clientId'', JStr (ps ! 1)), (''clientSecret'', JStr (ps ! 2))])"

lemma split_ws_field: "\<forall>c\<in>set x. \<not> is_ws c \<Longrightarrow> split_ws acc False (x @ r) = split_ws (rev x @ acc) False r"
  by (induction x arbitrary: acc) simp_all

lemma split_ws_gap: "x \<noteq> [] \<Longrightarrow> \<forall>c\<in>set x. \<not> is_ws c \<Longrightarrow> split_ws [] True (x @ r) = split_ws [] False (x @ r)"
  by (cases x) simp_all

lemma split_ws_join:
  "\<forall>x\<in>set ps. x \<noteq> [] \<and> (\<forall>c\<in>set x. \<not> is_ws c) \<Longrightarrow> ps \<noteq> [] \<Longrightarrow> split_ws [] False (js_join '' '' ps) = ps"
proof (induction "'' ''" ps rule: js_join.induct)
  case (2 x)
  then show ?case using split_ws_field [of x "[]" "[]"] by simp
next
  case (3 x y zs)
  have "split_ws [] True (js_join '' '' (y # zs)) = split_ws [] False (js_join '' '' (y # zs))"
    using 3(2) split_ws_gap [of y] split_ws_gap [of y "[]"] by (cases zs) auto
  with 3 split_ws_field [of x "[]" "CHR '' '' # js_join '' '' (y # zs)"] show ?case by (simp add: is_ws_def)
qed simp

lemma no_dash_join: "\<forall>x\<in>set ps. CHR ''-'' \<notin> set x \<Longrightarrow> CHR ''-'' \<notin> set (js_join '' '' ps)"
  by (induction "'' ''" ps rule: js_join.induct) auto

lemma includes_dash: "CHR ''-'' \<notin> set l \<Longrightarrow> \<not> js_includes ''----'' l"
  by (auto simp: js_includes_iff)

lemma written_parts:
  assumes "written ps l" "ps \<noteq> []" "list_all clean_field ps"
  shows "line_parts l = ps"
proof -
  have clean: "\<forall>x\<in>set ps. CHR ''-'' \<notin> set x" "\<forall>x\<in>set ps. \<forall>c\<in>set x. \<not> is_ws c"
    using assms(3) by (auto simp: list_all_iff clean_field_def)
  from assms(1) consider "l = js_join ''----'' ps" | "[] \<notin> set ps" "l = js_join '' '' ps" by (auto simp: written_def)
  then show ?thesis
  proof cases
    case 1
    show ?thesis
    proof (cases "tl ps = []")
      case True
      then obtain x where ps: "ps = [x]" using assms(2) by (cases ps) auto
      with 1 clean split_ws_field [of x "[]" "[]"] show ?thesis by (simp add: line_parts_def includes_dash)
    next
      case False
      then obtain x y zs where ps: "ps = x # y # zs" by (cases ps) (auto simp: neq_Nil_conv)
      have "js_includes ''----'' l" unfolding 1 js_includes_iff ps by (simp, blast)
      with split_join [OF clean(1) assms(2), of "''---''"] show ?thesis by (simp add: line_parts_def 1)
    qed
  next
    case 2
    have "\<not> js_includes ''----'' l" unfolding 2(2) by (rule includes_dash [OF no_dash_join [OF clean(1)]])
    moreover have "split_ws [] False l = ps"
      unfolding 2(2) using 2(1) clean(2) assms(2) by (intro split_ws_join) auto
    ultimately show ?thesis by (simp add: line_parts_def)
  qed
qed

lemma line_cred_fields: "3 \<le> length ps \<Longrightarrow> line_cred ps = fields_item ps"
  by (auto simp: line_cred_def fields_item_def nth_or_def nth_Cons' numeral_eq_Suc)

lemma parse_written:
  "list_all2 written rows ls \<Longrightarrow> \<forall>ps\<in>set rows. ps \<noteq> [] \<and> list_all clean_field ps \<Longrightarrow>
   parse_lines ls = (map fields_item (filter (\<lambda>ps. 3 \<le> length ps) rows), length (filter (\<lambda>ps. length ps < 3) rows))"
proof (induction rule: list_all2_induct)
  case (Cons ps rows l ls)
  then have "line_parts l = ps" by (simp add: written_parts)
  with Cons show ?case by (simp add: line_cred_fields)
qed simp

section \<open>Properties\<close>


definition pasted_lines :: string where
  "pasted_lines = ''me----pw----rt----ci----cs'' @ LF @ LF @ '' rt2 ci2 cs2 '' @ LF @ ''nothing----here'' @ LF"


end
