(* ===== verification/Add_Account.thy ===== *)
theory Add_Account
  imports Accounts_Shared Exclusive Import_Formats
begin

text \<open>
  \<open>dashboard/src/pages/accounts/add-account-dialog.tsx\<close>: the dialog that adds accounts, one form per
  way to sign in or import. Each form is a component of its own with its own state; the dialog's tree
  holds it as an element with its properties. What all forms call when they are done (\<open>add_onDone\<close>)
  touches no state of the dialog, so the forms call it directly. \<open>alive\<close> is the reference that an
  unmounted form finds cleared; assignments to the state of an unmounted form have no effect that
  anyone sees.
\<close>

section \<open>Tables\<close>

record add_method =
  mt_id :: string
  mt_provider :: string
  mt_title :: string
  mt_desc :: string

definition method_entry :: "string \<Rightarrow> string \<Rightarrow> string \<Rightarrow> string \<Rightarrow> add_method" where
  "method_entry i p t d = \<lparr>mt_id = i, mt_provider = p, mt_title = t, mt_desc = d\<rparr>"

definition METHODS :: "add_method list" where
  "METHODS = [
     method_entry ''builderid'' ''modal.kiroProvider'' ''modal.builderIdTitle'' ''modal.builderIdDesc'',
     method_entry ''iam'' ''modal.kiroProvider'' ''modal.iamTitle'' ''modal.iamDesc'',
     method_entry ''kirosso'' ''modal.kiroProvider'' ''modal.enterpriseSsoTitle'' ''modal.enterpriseSsoDesc'',
     method_entry ''ssotoken'' ''modal.kiroProvider'' ''modal.ssoTitle'' ''modal.ssoDesc'',
     method_entry ''local'' ''modal.kiroProvider'' ''modal.localTitle'' ''modal.localDesc'',
     method_entry ''credentials'' ''modal.kiroProvider'' ''modal.credentialsTitle'' ''modal.credentialsDesc'',
     method_entry ''cookie'' ''modal.kiroProvider'' ''modal.cookieTitle'' ''modal.cookieDesc'',
     method_entry ''codebuddy'' ''modal.codebuddyProvider'' ''modal.codebuddyTitle'' ''modal.codebuddyDesc'',
     method_entry ''grokDevice'' ''modal.grokProvider'' ''grok.deviceLogin'' ''modal.grokProviderDesc'',
     method_entry ''grokImport'' ''modal.grokProvider'' ''grok.importTokens'' ''grok.importHint'',
     method_entry ''codexImport'' ''modal.codexProvider'' ''modal.codexImportTitle'' ''modal.codexImportDesc'',
     method_entry ''clinepassImport'' ''modal.clinepassProvider'' ''modal.clinepassImportTitle'' ''modal.clinepassImportDesc'',
     method_entry ''opencodeZenImport'' ''modal.opencodeZenProvider'' ''modal.opencodeZenImportTitle'' ''modal.opencodeZenImportDesc'',
     method_entry ''opencodeGoImport'' ''modal.opencodeGoProvider'' ''modal.opencodeGoImportTitle'' ''modal.opencodeGoImportDesc'',
     method_entry ''commandCodeImport'' ''modal.commandCodeProvider'' ''modal.commandCodeImportTitle'' ''modal.commandCodeImportDesc'',
     method_entry ''openaiCompat'' ''modal.compatProvider'' ''modal.openaiCompatTitle'' ''modal.openaiCompatDesc'',
     method_entry ''anthropicCompat'' ''modal.compatProvider'' ''modal.anthropicCompatTitle'' ''modal.anthropicCompatDesc'']"

text \<open>Well-known vendors per wire protocol, name and address.\<close>

definition COMPAT_PRESETS :: "string \<Rightarrow> (string \<times> string) list" where
  "COMPAT_PRESETS protocol = (if protocol = ''openai_compat'' then
     [(''Vercel AI Gateway'', ''https://ai-gateway.vercel.sh/v1''),
      (''OpenRouter'', ''https://openrouter.ai/api/v1''),
      (''OpenAI'', ''https://api.openai.com/v1''),
      (''Groq'', ''https://api.groq.com/openai/v1''),
      (''DeepSeek'', ''https://api.deepseek.com/v1''),
      (''Z.ai'', ''https://api.z.ai/api/paas/v4'')]
   else
     [(''Anthropic'', ''https://api.anthropic.com''),
      (''Vercel AI Gateway'', ''https://ai-gateway.vercel.sh''),
      (''Z.ai'', ''https://api.z.ai/api/anthropic''),
      (''MiniMax'', ''https://api.minimax.io/anthropic''),
      (''Moonshot'', ''https://api.moonshot.ai/anthropic'')])"

section \<open>What all forms share\<close>

definition arrow :: string where
  "arrow = [CHR 0xE2, CHR 0x86, CHR 0x92]"

text \<open>\<open>for (const a of v)\<close>: arrays and strings can be iterated over.\<close>

definition js_iter :: "jsv \<Rightarrow> jsv list option" where
  "js_iter v = (case v of JArr vs \<Rightarrow> Some vs | JStr s \<Rightarrow> Some (map (\<lambda>c. JStr [c]) s) | _ \<Rightarrow> None)"

text \<open>The list is read again, every new account is refreshed in the background (a failure is ignored)
  and the dialog is closed.\<close>

fun refresh_added :: "jsv list \<Rightarrow> 's act \<Rightarrow> 's act" where
  "refresh_added [] k = k"
| "refresh_added (a # as) k = get_field a ''id'' (\<lambda>i.
     Fork (Await (Http ''POST'' (''/accounts/'' @ js_string i @ ''/refresh'') NoBody)
             (\<lambda>_. Emit (Invalidate [''accounts'']) Done))
       (refresh_added as k))"

definition add_onDone :: "jsv \<Rightarrow> 's act" where
  "add_onDone added = Emit (Invalidate [''accounts'']) (case js_iter added of
     None \<Rightarrow> Throw (JsErr ''accounts is not iterable'')
   | Some as \<Rightarrow> refresh_added as (Emit (Parent ''onClose'' JUndef) Done))"

definition submit :: "(bool \<Rightarrow> 's \<Rightarrow> 's) \<Rightarrow> 's act \<Rightarrow> 's act" where
  "submit setBusy f = Upd (setBusy True)
    (finally_do (catch f (\<lambda>e. Emit (ToastErr (errorMessage e)) Done)) (Upd (setBusy False) Done))"

lemma exec_submit:
  "exec (submit sb f) srv s w = (case exec f srv (sb True s) w of (e, s1, l1, w1) \<Rightarrow>
     (None, sb False s1, l1 @ (case e of None \<Rightarrow> [] | Some x \<Rightarrow> [ToastErr (errorMessage x)]), w1))"
  by (auto simp: submit_def exec_finally exec_catch split: prod.splits option.splits)

text \<open>\<open>v?.length\<close> and \<open>v.join(sep)\<close> of a property that may be missing.\<close>

definition opt_length :: "jsv \<Rightarrow> jsv" where
  "opt_length v = (if nullish v then JUndef else get_prop v ''length'')"

definition join_values :: "string \<Rightarrow> jsv \<Rightarrow> string" where
  "join_values sep v = (case v of JArr vs \<Rightarrow> js_join sep (map (\<lambda>x. if nullish x then [] else js_string x) vs)
     | _ \<Rightarrow> js_string v)"

text \<open>What a partial import adds to the message of success.\<close>

definition partial_note :: "ui \<Rightarrow> jsv \<Rightarrow> string" where
  "partial_note E errors = (if truthy (opt_length errors) then tr E ''sso.importPartial'' [js_string (opt_length errors)] else [])"

definition num_of :: "jsv \<Rightarrow> rat" where
  "num_of v = (case v of JNum n \<Rightarrow> n | _ \<Rightarrow> 0)"

definition poll_ms :: "rat \<Rightarrow> int" where
  "poll_ms interval = \<lfloor>max 1 interval * 1000\<rfloor>"

text \<open>The polling loop ends only with a completed reply, an error or the form unmounted. The model runs
  a number of rounds given as fuel; when it is used up, \<open>out\<close> stands for the rest.\<close>

fun pollUntilDone :: "nat \<Rightarrow> ('s \<Rightarrow> bool) \<Rightarrow> 's act \<Rightarrow> string \<Rightarrow> jsv \<Rightarrow> rat \<Rightarrow> (jsv \<Rightarrow> 's act) \<Rightarrow> 's act" where
  "pollUntilDone 0 alive out path sid interval k = out"
| "pollUntilDone (Suc n) alive out path sid interval k =
     Sleep (poll_ms interval) (Look (\<lambda>s.
       if \<not> alive s then Throw (JsErr ''cancelled'')
       else post path (JsonBody (obj [(''sessionId'', sid)])) (\<lambda>r.
         get_field r ''completed'' (\<lambda>c.
           if truthy c then k r
           else pollUntilDone n alive out path sid
                  (if truthy (get_prop r ''interval'') then num_of (get_prop r ''interval'') else interval) k))))"

definition Field :: "string \<Rightarrow> string \<Rightarrow> 'e view list \<Rightarrow> 'e view" where
  "Field label hint children = El ''div'' [] ([El ''Label'' [] [Txt label]] @ children @
     [shown (hint \<noteq> []) (El ''p'' [] [Txt hint])])"

text \<open>The text of the chosen file arrives at the handler when it has been read.\<close>

definition FileInput :: "(string \<Rightarrow> 'e) \<Rightarrow> 'e view" where
  "FileInput onText = El ''Input'' [aS ''type'' ''file'', aS ''accept'' ''.json,application/json,text/plain'',
     onS ''onChange'' onText] []"

definition OpenLink :: "ui \<Rightarrow> bool \<Rightarrow> (bool \<Rightarrow> 's \<Rightarrow> 's) \<Rightarrow> string \<Rightarrow> 's act view" where
  "OpenLink E copied setCopied url = El ''div'' [] [
     El ''Input'' [aB ''readOnly'' True, aS ''value'' url] [],
     CopyButton E copied setCopied url [],
     El ''Button'' [aS ''variant'' ''outline'', on ''onClick'' (Emit (OpenTab url) Done)]
       [ic ''LuExternalLink'', Txt (tx E ''builderid.open'')]]"

definition Waiting :: "string \<Rightarrow> 'e view" where
  "Waiting txt = El ''div'' [] [spinner, Txt txt]"

definition SubmitRow :: "bool \<Rightarrow> string \<Rightarrow> 'e \<Rightarrow> bool \<Rightarrow> 'e view" where
  "SubmitRow busy label onClick disabled = El ''DialogFooter'' [] [
     El ''Button'' [on ''onClick'' onClick, aB ''disabled'' (busy \<or> disabled)] [shown busy spinner, Txt label]]"

definition text_box :: "string \<Rightarrow> (string \<Rightarrow> 's \<Rightarrow> 's) \<Rightarrow> string \<Rightarrow> string \<Rightarrow> 's act view" where
  "text_box tag upd val hint = El tag [aS ''value'' val, onS ''onChange'' (\<lambda>v. Upd (upd v) Done),
     aS ''placeholder'' hint] []"

section \<open>The dialog\<close>

record add_st =
  ad_open :: bool
  ad_initial :: "string option"
  ad_method :: "string option"
  ad_wasOpen :: bool

type_synonym dlg_act = "add_st act"

definition add_mount :: "bool \<Rightarrow> string option \<Rightarrow> add_st" where
  "add_mount opn initial = \<lparr>ad_open = opn, ad_initial = initial, ad_method = initial, ad_wasOpen = opn\<rparr>"

text \<open>The assignments the component makes while it renders: opening it again starts with the
  requested method.\<close>

definition on_render :: "add_st \<Rightarrow> add_st" where
  "on_render s = (if ad_open s \<noteq> ad_wasOpen s
     then s\<lparr>ad_wasOpen := ad_open s, ad_method := (if ad_open s then ad_initial s else ad_method s)\<rparr> else s)"

definition provider_icon :: "string \<Rightarrow> 'e view" where
  "provider_icon p = (case map_of [(''modal.kiroProvider'', ''LuShieldCheck''), (''modal.codebuddyProvider'', ''LuKey''),
      (''modal.grokProvider'', ''LuMonitor''), (''modal.codexProvider'', ''LuKey''), (''modal.clinepassProvider'', ''LuKey''),
      (''modal.compatProvider'', ''LuKey''), (''modal.commandCodeProvider'', ''LuKey'')] p of
     None \<Rightarrow> Nothing | Some i \<Rightarrow> ic i)"

definition method_button :: "ui \<Rightarrow> (string \<Rightarrow> dlg_act) \<Rightarrow> add_method \<Rightarrow> dlg_act view" where
  "method_button E onPick m = El ''button'' [aS ''type'' ''button'', on ''onClick'' (onPick (mt_id m))] [
     El ''div'' [] [Txt (tx E (mt_title m))], El ''div'' [] [Txt (tx E (mt_desc m))]]"

definition MethodPicker :: "ui \<Rightarrow> (string \<Rightarrow> dlg_act) \<Rightarrow> dlg_act view" where
  "MethodPicker E onPick = El ''div'' [] (map (\<lambda>p. El ''div'' [] [
       El ''div'' [] [provider_icon p, Txt ('' '' @ tx E p)],
       El ''div'' [] (map (method_button E onPick) (filter (\<lambda>m. mt_provider m = p) METHODS))])
     (rev (remdups (rev (map mt_provider METHODS)))))"

text \<open>Which form a method has, with the properties it is given.\<close>

definition method_form :: "string \<Rightarrow> dlg_act view" where
  "method_form m =
    (if m = ''builderid'' then El ''DeviceCodeForm'' [aS ''startPath'' ''/auth/builderid/start'',
          aS ''pollPath'' ''/auth/builderid/poll'', aB ''withRegion'' True] []
     else if m = ''grokDevice'' then El ''DeviceCodeForm'' [aS ''startPath'' ''/auth/grok/start'', aS ''pollPath'' ''/auth/grok/poll''] []
     else if m = ''iam'' then El ''IamSsoForm'' [] []
     else if m = ''kirosso'' then El ''KiroSsoForm'' [] []
     else if m = ''ssotoken'' then El ''SsoTokenForm'' [] []
     else if m = ''local'' then El ''LocalCacheForm'' [] []
     else if m = ''credentials'' then El ''CredentialsForm'' [] []
     else if m = ''cookie'' then El ''CookieForm'' [] []
     else if m = ''codebuddy'' then El ''CodeBuddyForm'' [] []
     else if m = ''codexImport'' then El ''CodexImportForm'' [] []
     else if m = ''clinepassImport'' then El ''ClinepassImportForm'' [] []
     else if m = ''opencodeZenImport'' then El ''OpenCodeTokenImportForm'' [aS ''provider'' ''opencode_zen'',
          aS ''route'' ''/auth/opencodezen/import'', aS ''successKey'' ''opencodezen.importSuccess'',
          aS ''tokenLabel'' ''opencodezen.tokensLabel'', aS ''hintKey'' ''opencodezen.importHint'', aB ''optional'' True] []
     else if m = ''opencodeGoImport'' then El ''OpenCodeTokenImportForm'' [aS ''provider'' ''opencode_go'',
          aS ''route'' ''/auth/opencodego/import'', aS ''successKey'' ''opencodego.importSuccess'',
          aS ''tokenLabel'' ''opencodego.tokensLabel'', aS ''hintKey'' ''opencodego.importHint''] []
     else if m = ''commandCodeImport'' then El ''OpenCodeTokenImportForm'' [aS ''provider'' ''commandcode'',
          aS ''route'' ''/auth/commandcode/import'', aS ''successKey'' ''commandcode.importSuccess'',
          aS ''tokenLabel'' ''commandcode.tokensLabel'', aS ''hintKey'' ''commandcode.importHint''] []
     else if m = ''openaiCompat'' then El ''CompatForm'' [aS ''protocol'' ''openai_compat''] []
     else if m = ''anthropicCompat'' then El ''CompatForm'' [aS ''protocol'' ''anthropic_compat''] []
     else El ''GrokImportForm'' [] [])"

definition AddAccountDialog :: "ui \<Rightarrow> add_st \<Rightarrow> dlg_act view" where
  "AddAccountDialog E s =
    (let meta = (case ad_method s of None \<Rightarrow> None | Some m \<Rightarrow> find (\<lambda>x. mt_id x = m) METHODS) in
     El ''Dialog'' [aB ''open'' (ad_open s), onB ''onOpenChange'' (\<lambda>o1. if o1 then Done else Emit (Parent ''onClose'' JUndef) Done)] [
       El ''DialogContent'' [] [
         El ''DialogHeader'' [] [
           El ''div'' [] [
             shown (has (ad_method s)) (El ''Button'' [aS ''variant'' ''ghost'',
                 on ''onClick'' (Upd (\<lambda>x. x\<lparr>ad_method := None\<rparr>) Done), aS ''aria-label'' (tx E ''common.back'')] [ic ''LuArrowLeft'']),
             El ''DialogTitle'' [] [Txt (case meta of None \<Rightarrow> tx E ''modal.addAccount'' | Some x \<Rightarrow> tx E (mt_title x))]],
           El ''DialogDescription'' [] [Txt (case meta of None \<Rightarrow> tx E ''modal.chooseProviderHint'' | Some x \<Rightarrow> tx E (mt_desc x))]],
         (if has (ad_method s) then method_form (text_of (ad_method s))
          else MethodPicker E (\<lambda>m. Upd (\<lambda>x. x\<lparr>ad_method := Some m\<rparr>) Done))]])"

end
