(* ===== verification/Add_Forms.thy ===== *)
theory Add_Forms
  imports Add_Account
begin

text \<open>
  The forms of the Add Account dialog (\<open>dashboard/src/pages/accounts/add-account-dialog.tsx\<close>): the
  sign-ins that wait for another device or a browser (device code, IAM Identity Center, hosted SSO)
  and the imports of tokens and credentials. The state of a form holds the reference \<open>alive\<close> where the
  code has one; leaving the form clears it. A session is the reply of the start request, \<open>null\<close> before.
\<close>

section \<open>Device code\<close>

record device_st =
  dv_busy :: bool
  dv_alive :: bool
  dv_region :: string
  dv_session :: jsv
  dv_copied :: bool
  dv_copied2 :: bool

record device_props =
  dp_startPath :: string
  dp_pollPath :: string
  dp_withRegion :: bool

definition device_mount :: device_st where
  "device_mount = \<lparr>dv_busy = False, dv_alive = True, dv_region = REGION, dv_session = JNull, dv_copied = False, dv_copied2 = False\<rparr>"

definition device_submit :: "device_st act \<Rightarrow> device_st act" where
  "device_submit = submit (\<lambda>b x. x\<lparr>dv_busy := b\<rparr>)"

text \<open>\<open>n\<close> is the fuel of the polling loop, \<open>out\<close> what stands for the rounds beyond it.\<close>

definition device_wait :: "nat \<Rightarrow> device_st act \<Rightarrow> ui \<Rightarrow> device_props \<Rightarrow> jsv \<Rightarrow> device_st act" where
  "device_wait n out E P s = catch
     (pollUntilDone n dv_alive out (dp_pollPath P) (get_prop s ''sessionId'') (num_of (js_or (get_prop s ''interval'') (JNum 5))) (\<lambda>r.
        Emit (ToastOk (tx E ''builderid.success''))
          (if truthy (get_prop r ''account'') then add_onDone (JArr [get_prop r ''account'']) else Done)))
     (\<lambda>e. Look (\<lambda>x. if dv_alive x then Throw e else Done))"

definition device_start :: "nat \<Rightarrow> device_st act \<Rightarrow> ui \<Rightarrow> device_props \<Rightarrow> device_st \<Rightarrow> device_st act" where
  "device_start n out E P c = device_submit
    (post (dp_startPath P) (if dp_withRegion P then JsonBody (obj [(''region'', JStr (dv_region c))]) else NoBody) (\<lambda>s.
       Upd (\<lambda>x. x\<lparr>dv_session := s\<rparr>) (get_field s ''verificationUri'' (\<lambda>u.
         Emit (OpenTab (js_string u)) (device_wait n out E P s)))))"

definition DeviceCodeForm :: "nat \<Rightarrow> device_st act \<Rightarrow> ui \<Rightarrow> device_props \<Rightarrow> device_st \<Rightarrow> device_st act view" where
  "DeviceCodeForm n out E P c =
    (if \<not> truthy (dv_session c) then frag [
       shown (dp_withRegion P) (Field (tx E ''detail.region'') [] [text_box ''Input'' (\<lambda>v x. x\<lparr>dv_region := v\<rparr>) (dv_region c) []]),
       SubmitRow (dv_busy c) (tx E ''builderid.startLogin'') (device_start n out E P c) False]
     else El ''div'' [] [
       El ''div'' [] [
         El ''div'' [] [Txt (tx E ''builderid.verifyCode'')],
         El ''div'' [] [Txt (js_string (get_prop (dv_session c) ''userCode'')),
           CopyButton E (dv_copied c) (\<lambda>b x. x\<lparr>dv_copied := b\<rparr>) (js_string (get_prop (dv_session c) ''userCode'')) []]],
       Field (tx E ''builderid.verifyUrl'') [] [OpenLink E (dv_copied2 c) (\<lambda>b x. x\<lparr>dv_copied2 := b\<rparr>)
         (js_string (get_prop (dv_session c) ''verificationUri''))],
       Waiting (tx E ''builderid.waiting'')])"

section \<open>IAM Identity Center\<close>

record iam_st =
  ia_busy :: bool
  ia_startUrl :: string
  ia_region :: string
  ia_session :: jsv
  ia_callbackUrl :: string
  ia_copied :: bool

definition iam_mount :: iam_st where
  "iam_mount = \<lparr>ia_busy = False, ia_startUrl = [], ia_region = REGION, ia_session = JNull, ia_callbackUrl = [], ia_copied = False\<rparr>"

definition iam_start :: "iam_st \<Rightarrow> iam_st act" where
  "iam_start c = submit (\<lambda>b x. x\<lparr>ia_busy := b\<rparr>)
    (post ''/auth/iam-sso/start'' (JsonBody (obj [(''startUrl'', JStr (js_trim (ia_startUrl c))), (''region'', JStr (ia_region c))])) (\<lambda>s.
       Upd (\<lambda>x. x\<lparr>ia_session := s\<rparr>) (get_field s ''authorizeUrl'' (\<lambda>u. Emit (OpenTab (js_string u)) Done))))"

definition iam_complete :: "ui \<Rightarrow> iam_st \<Rightarrow> iam_st act" where
  "iam_complete E c = submit (\<lambda>b x. x\<lparr>ia_busy := b\<rparr>)
    (post ''/auth/iam-sso/complete'' (JsonBody (obj [(''sessionId'', get_prop (ia_session c) ''sessionId''),
        (''callbackUrl'', JStr (js_trim (ia_callbackUrl c)))])) (\<lambda>r.
       Emit (ToastOk (tx E ''builderid.success'')) (get_field r ''account'' (\<lambda>a. add_onDone (JArr [a])))))"

definition IamSsoForm :: "ui \<Rightarrow> iam_st \<Rightarrow> iam_st act view" where
  "IamSsoForm E c =
    (if \<not> truthy (ia_session c) then frag [
       Field (tx E ''iam.startUrl'') [] [text_box ''Input'' (\<lambda>v x. x\<lparr>ia_startUrl := v\<rparr>) (ia_startUrl c) ''https://d-xxxxxxxxxx.awsapps.com/start''],
       Field (tx E ''detail.region'') [] [text_box ''Input'' (\<lambda>v x. x\<lparr>ia_region := v\<rparr>) (ia_region c) []],
       SubmitRow (ia_busy c) (tx E ''builderid.startLogin'') (iam_start c) (js_trim (ia_startUrl c) = [])]
     else frag [
       Field (tx E ''iam.loginUrl'') (tx E ''iam.completeLogin'') [OpenLink E (ia_copied c) (\<lambda>b x. x\<lparr>ia_copied := b\<rparr>)
         (js_string (get_prop (ia_session c) ''authorizeUrl''))],
       Field (tx E ''iam.callbackUrl'') [] [text_box ''Textarea'' (\<lambda>v x. x\<lparr>ia_callbackUrl := v\<rparr>) (ia_callbackUrl c)
         (''http://127.0.0.1/oauth/callback?code='' @ ellipsis @ ''&state='' @ ellipsis)],
       SubmitRow (ia_busy c) (tx E ''iam.complete'') (iam_complete E c) (js_trim (ia_callbackUrl c) = [])])"

section \<open>Kiro hosted SSO\<close>

record kiro_st =
  ks_busy :: bool
  ks_alive :: bool
  ks_session :: jsv
  ks_relayUrl :: string
  ks_relayBusy :: bool
  ks_relayNote :: string
  ks_done :: bool
  ks_copied :: bool

definition kiro_mount :: kiro_st where
  "kiro_mount = \<lparr>ks_busy = False, ks_alive = True, ks_session = JNull, ks_relayUrl = [], ks_relayBusy = False,
     ks_relayNote = [], ks_done = False, ks_copied = False\<rparr>"

text \<open>The clean-up of the effect, run when the form is left: the session is cancelled unless it is done.\<close>

definition kiro_leave :: "kiro_st \<Rightarrow> kiro_st act" where
  "kiro_leave c = Upd (\<lambda>x. x\<lparr>ks_alive := False\<rparr>)
    (if truthy (ks_session c) \<and> \<not> ks_done c
     then Fork (Await (Http ''POST'' ''/auth/kiro-sso/cancel''
            (JsonBody (obj [(''sessionId'', get_prop (ks_session c) ''sessionId'')]))) (\<lambda>_. Done)) Done
     else Done)"

definition kiro_wait :: "nat \<Rightarrow> kiro_st act \<Rightarrow> ui \<Rightarrow> jsv \<Rightarrow> kiro_st act" where
  "kiro_wait n out E s = catch
     (pollUntilDone n ks_alive out ''/auth/kiro-sso/poll'' (get_prop s ''sessionId'') (num_of (js_or (get_prop s ''interval'') (JNum 2))) (\<lambda>r.
        Upd (\<lambda>x. x\<lparr>ks_done := True\<rparr>) (Emit (ToastOk (tx E ''builderid.success''))
          (if truthy (get_prop r ''account'') then add_onDone (JArr [get_prop r ''account'']) else Done))))
     (\<lambda>e. Look (\<lambda>x. if ks_alive x then Throw e else Done))"

definition kiro_start :: "nat \<Rightarrow> kiro_st act \<Rightarrow> ui \<Rightarrow> kiro_st act" where
  "kiro_start n out E = submit (\<lambda>b x. x\<lparr>ks_busy := b\<rparr>)
    (post ''/auth/kiro-sso/start'' (JsonBody (obj [])) (\<lambda>s.
       Upd (\<lambda>x. x\<lparr>ks_session := s\<rparr>) (get_field s ''signInUrl'' (\<lambda>u.
         Emit (OpenTab (js_string u)) (kiro_wait n out E s)))))"

definition kiro_relay :: "ui \<Rightarrow> kiro_st \<Rightarrow> kiro_st act" where
  "kiro_relay E c =
    (if \<not> truthy (ks_session c) \<or> js_trim (ks_relayUrl c) = [] then Done
     else Upd (\<lambda>x. x\<lparr>ks_relayBusy := True\<rparr>) (finally_do
       (catch (post ''/auth/kiro-sso/relay'' (JsonBody (obj [(''sessionId'', get_prop (ks_session c) ''sessionId''),
            (''url'', JStr (js_trim (ks_relayUrl c)))])) (\<lambda>r.
          Upd (\<lambda>x. x\<lparr>ks_relayUrl := []\<rparr>) (get_field r ''authorizeUrl'' (\<lambda>u.
            if truthy u then Emit (OpenTab (js_string u)) (Upd (\<lambda>x. x\<lparr>ks_relayNote := tx E ''kirosso.relayContinue''\<rparr>) Done)
            else Upd (\<lambda>x. x\<lparr>ks_relayNote := tx E (if truthy (get_prop r ''done'') then ''accounts.relayDone''
                                                     else ''kirosso.relayContinue'')\<rparr>) Done))))
         (\<lambda>e. Emit (ToastErr (errorMessage e)) Done))
       (Upd (\<lambda>x. x\<lparr>ks_relayBusy := False\<rparr>) Done)))"

definition KiroSsoForm :: "nat \<Rightarrow> kiro_st act \<Rightarrow> ui \<Rightarrow> kiro_st \<Rightarrow> kiro_st act view" where
  "KiroSsoForm n out E c =
    (if \<not> truthy (ks_session c) then frag [
       El ''Alert'' [] [El ''AlertDescription'' [] [Txt (tx E ''kirosso.hostNote'')]],
       SubmitRow (ks_busy c) (tx E ''builderid.startLogin'') (kiro_start n out E) False]
     else El ''div'' [] [
       El ''p'' [] [Txt (tx E ''kirosso.openInstruction'')],
       OpenLink E (ks_copied c) (\<lambda>b x. x\<lparr>ks_copied := b\<rparr>) (js_string (get_prop (ks_session c) ''signInUrl'')),
       Waiting (tx E ''builderid.waiting''),
       El ''div'' [] [
         El ''div'' [] [Txt (tx E ''kirosso.relayLabel'')],
         El ''p'' [] [Txt (tx E ''kirosso.relayNote'')],
         El ''div'' [] [
           text_box ''Input'' (\<lambda>v x. x\<lparr>ks_relayUrl := v\<rparr>) (ks_relayUrl c) (''http://127.0.0.1:3128/'' @ ellipsis),
           El ''Button'' [aS ''variant'' ''outline'', on ''onClick'' (kiro_relay E c),
               aB ''disabled'' (ks_relayBusy c \<or> js_trim (ks_relayUrl c) = [])]
             [shown (ks_relayBusy c) spinner, Txt (tx E ''kirosso.relaySubmit'')]],
         shown (ks_relayNote c \<noteq> []) (El ''p'' [] [Txt (ks_relayNote c)])]])"

section \<open>SSO tokens\<close>

record sso_st =
  so_busy :: bool
  so_tokens :: string
  so_region :: string

definition sso_mount :: sso_st where
  "sso_mount = \<lparr>so_busy = False, so_tokens = [], so_region = REGION\<rparr>"

definition sso_go :: "ui \<Rightarrow> sso_st \<Rightarrow> sso_st act" where
  "sso_go E c = submit (\<lambda>b x. x\<lparr>so_busy := b\<rparr>)
    (post ''/auth/sso-token'' (JsonBody (obj [(''bearerToken'', JStr (js_trim (so_tokens c))), (''region'', JStr (so_region c))])) (\<lambda>r.
       get_field r ''accounts'' (\<lambda>as. get_field as ''length'' (\<lambda>len.
         Emit (ToastOk (tr E ''sso.importSuccess'' [js_string len] @ partial_note E (get_prop r ''errors''))) (add_onDone as)))))"

definition SsoTokenForm :: "ui \<Rightarrow> sso_st \<Rightarrow> sso_st act view" where
  "SsoTokenForm E c = frag [
     El ''Alert'' [] [El ''AlertDescription'' [] [
       Txt (tx E ''sso.step1'' @ '' ''), El ''a'' [aS ''href'' ''https://view.awsapps.com/start''] [Txt ''view.awsapps.com/start''],
       Txt ('' '' @ arrow @ '' '' @ tx E ''sso.step2'' @ '' '' @ arrow @ '' '' @ tx E ''sso.step3'' @ '' ''), El ''code'' [] [Txt (tx E ''sso.tokenLabel'')]]],
     Field (tx E ''sso.tokenLabel'') (tx E ''sso.tokenHint'') [text_box ''Textarea'' (\<lambda>v x. x\<lparr>so_tokens := v\<rparr>) (so_tokens c) (tx E ''sso.tokenPlaceholder'')],
     Field (tx E ''detail.region'') [] [text_box ''Input'' (\<lambda>v x. x\<lparr>so_region := v\<rparr>) (so_region c) []],
     SubmitRow (so_busy c) (tx E ''common.add'') (sso_go E c) (js_trim (so_tokens c) = [])]"

section \<open>Lemmas\<close>

text \<open>The server completes the login at its \<open>k\<close>-th further poll, with the reply and state given.\<close>

inductive polled :: "'w server \<Rightarrow> request \<Rightarrow> nat \<Rightarrow> 'w \<Rightarrow> jsv \<Rightarrow> 'w \<Rightarrow> bool" for srv rq where
  now: "srv w rq = (Resolved r, w') \<Longrightarrow> \<not> nullish r \<Longrightarrow> truthy (get_prop r ''completed'') \<Longrightarrow> polled srv rq 0 w r w'"
| later: "srv w rq = (Resolved q, w1) \<Longrightarrow> \<not> nullish q \<Longrightarrow> \<not> truthy (get_prop q ''completed'') \<Longrightarrow>
     polled srv rq k w1 r w' \<Longrightarrow> polled srv rq (Suc k) w r w'"

inductive_cases polled_zero: "polled srv rq 0 w r w'"
inductive_cases polled_Suc: "polled srv rq (Suc k) w r w'"

lemma polled_reply: "polled srv rq k w r w' \<Longrightarrow> \<not> nullish r"
  by (induction rule: polled.induct)

lemma poll_enough:
  "polled srv (Http ''POST'' path (JsonBody (obj [(''sessionId'', sid)]))) k w r w' \<Longrightarrow> alive s \<Longrightarrow> k < n \<Longrightarrow>
     exec (pollUntilDone n alive out path sid i cont) srv s w = exec (cont r) srv s w'"
proof (induction k w r w' arbitrary: n i rule: polled.induct)
  case (now w r w')
  then obtain m where "n = Suc m" by (cases n) auto
  with now show ?case by (simp add: post_def exec_await get_field_def)
next
  case (later w q w1 k r w')
  then obtain m where "n = Suc m" "k < m" by (cases n) auto
  with later show ?case by (simp add: post_def exec_await get_field_def)
qed

lemma exec_onDone_one: "exec (add_onDone (JArr [JObj ps])) srv s w =
    (None, s, [Invalidate [''accounts''], Invalidate [''accounts''], Parent ''onClose'' JUndef],
     snd (srv w (Http ''POST'' (''/accounts/'' @ js_string (get_prop (JObj ps) ''id'') @ ''/refresh'') NoBody)))"
  by (simp add: add_onDone_def js_iter_def get_field_def split: prod.split)

definition poll_request :: "device_props \<Rightarrow> jsv \<Rightarrow> request" where
  "poll_request P sess = Http ''POST'' (dp_pollPath P) (JsonBody (obj [(''sessionId'', get_prop sess ''sessionId'')]))"

definition start_request :: "device_props \<Rightarrow> device_st \<Rightarrow> request" where
  "start_request P c = Http ''POST'' (dp_startPath P)
     (if dp_withRegion P then JsonBody (obj [(''region'', JStr (dv_region c))]) else NoBody)"

section \<open>Properties\<close>

text \<open>C29: a device login comes to its end: if the server completes it at some poll, the loop returns with
  that reply whatever the intervals it was told, the browser page was opened, success is shown, the new
  account is handed on once, the dialog is closed and the form is enabled again (any fuel above the
  number of polls gives this one result); and a form that was left polls no more and shows nothing.\<close>

theorem device_login_settles:
  assumes "srv w (start_request P c) = (Resolved sess, w1)" "\<not> nullish sess" "dv_alive c"
    and "polled srv (poll_request P sess) k w1 r w2" "k < n" "get_prop r ''account'' = JObj ps"
  shows "exec (device_start n out E P c) srv c w =
      (None, c\<lparr>dv_session := sess, dv_busy := False\<rparr>,
       [OpenTab (js_string (get_prop sess ''verificationUri'')), ToastOk (tx E ''builderid.success''),
        Invalidate [''accounts''], Invalidate [''accounts''], Parent ''onClose'' JUndef],
       snd (srv w2 (Http ''POST'' (''/accounts/'' @ js_string (get_prop (JObj ps) ''id'') @ ''/refresh'') NoBody))) \<and>
    exec (device_wait (Suc m) out E P sess) srv (c\<lparr>dv_alive := False\<rparr>) w1 = (None, c\<lparr>dv_alive := False\<rparr>, [], w1)"
proof -
  have wait: "exec (device_wait n out E P sess) srv s w1 =
      (None, s, [ToastOk (tx E ''builderid.success''), Invalidate [''accounts''], Invalidate [''accounts''], Parent ''onClose'' JUndef],
       snd (srv w2 (Http ''POST'' (''/accounts/'' @ js_string (get_prop (JObj ps) ''id'') @ ''/refresh'') NoBody)))"
    if "dv_alive s" for s
    using poll_enough [OF assms(4) [unfolded poll_request_def], of dv_alive, OF that assms(5)] assms(6)
    by (simp add: device_wait_def exec_catch exec_onDone_one)
  have "exec (device_wait (Suc m) out E P sess) srv (c\<lparr>dv_alive := False\<rparr>) w1 = (None, c\<lparr>dv_alive := False\<rparr>, [], w1)"
    by (simp add: device_wait_def exec_catch)
  then show ?thesis
    using assms(1-3) wait
    by (simp add: device_start_def device_submit_def exec_submit post_def exec_await start_request_def [symmetric] get_field_def)
qed

definition grok_props :: device_props where
  "grok_props = \<lparr>dp_startPath = ''/auth/grok/start'', dp_pollPath = ''/auth/grok/poll'', dp_withRegion = False\<rparr>"

text \<open>A server that starts a session, answers the first poll with a longer interval and completes at the second.\<close>

definition grok_server :: "nat server" where
  "grok_server n rq = (Resolved (if n = 0 then JObj [(''sessionId'', JStr ''s1''), (''verificationUri'', JStr ''https://x.ai/device'')]
     else if n = 1 then JObj [(''completed'', JBool False), (''interval'', JNum 10)]
     else JObj [(''completed'', JBool True), (''account'', JObj [(''id'', JStr ''g1'')])]), n + 1)"

theorem device_login_settles_witness:
  "exec (device_start 5 (Throw NonErr) sample_ui grok_props device_mount) grok_server device_mount 0 =
     (None, device_mount\<lparr>dv_session := JObj [(''sessionId'', JStr ''s1''), (''verificationUri'', JStr ''https://x.ai/device'')]\<rparr>,
      [OpenTab ''https://x.ai/device'', ToastOk ''builderid.success'',
       Invalidate [''accounts''], Invalidate [''accounts''], Parent ''onClose'' JUndef], 4)"
proof -
  let ?sess = "JObj [(''sessionId'', JStr ''s1''), (''verificationUri'', JStr ''https://x.ai/device'')]"
  let ?r = "JObj [(''completed'', JBool True), (''account'', JObj [(''id'', JStr ''g1'')])]"
  have "polled grok_server (poll_request grok_props ?sess) 1 1 ?r 3"
    unfolding One_nat_def
    by (rule polled.later [where q = "JObj [(''completed'', JBool False), (''interval'', JNum 10)]" and ?w1.0 = 2])
      (auto simp: grok_server_def intro!: polled.now)
  from device_login_settles [OF _ _ _ this, of 0 device_mount 5 "[(''id'', JStr ''g1'')]" "Throw NonErr" sample_ui]
  show ?thesis by (simp add: grok_server_def device_mount_def sample_ui_def)
qed

text \<open>A failed login keeps waiting on the screen: when a poll fails while the form is open, the error
  is shown and polling ends, but the session stays, so the form goes on showing the code with the
  waiting mark, and nothing on it sends another request to the server: only going back starts again.\<close>

theorem failed_login_keeps_waiting:
  assumes "srv w (start_request P c) = (Resolved sess, w1)" "truthy sess" "dv_alive c"
    and "srv w1 (poll_request P sess) = (Rejected e, w2)"
  shows "\<exists>c'. exec (device_start (Suc n) out E P c) srv c w =
      (None, c', [OpenTab (js_string (get_prop sess ''verificationUri'')), ToastErr (errorMessage e)], w2) \<and>
    \<not> dv_busy c' \<and> tx E ''builderid.waiting'' \<in> set (texts (DeviceCodeForm (Suc n) out E P c')) \<and>
    (\<forall>h\<in>set (live (DeviceCodeForm (Suc n) out E P c')).
       handler_all (\<lambda>a. \<not> may_send (\<lambda>r. \<exists>m p b. r = Http m p b) a) h)"
proof -
  let ?c = "c\<lparr>dv_session := sess, dv_busy := False\<rparr>"
  have "\<not> nullish sess" using assms(2) by (cases sess) auto
  then have "exec (device_start (Suc n) out E P c) srv c w =
      (None, ?c, [OpenTab (js_string (get_prop sess ''verificationUri'')), ToastErr (errorMessage e)], w2)"
    using assms(1,3,4)
    by (simp add: device_start_def device_submit_def exec_submit post_def exec_await start_request_def [symmetric]
        device_wait_def exec_catch poll_request_def [symmetric] get_field_def)
  moreover have "\<not> may_send (\<lambda>r. \<exists>m p b. r = Http m p b) (copy_value E sd v :: device_st act)" for sd v
    by (auto simp: copy_value_def dest!: may_send_catch)
  then have "\<forall>h\<in>set (live (DeviceCodeForm (Suc n) out E P ?c)).
       handler_all (\<lambda>a. \<not> may_send (\<lambda>r. \<exists>m p b. r = Http m p b) a) h"
    using assms(2) by (auto simp: DeviceCodeForm_def Field_def OpenLink_def Waiting_def view_live)
  moreover have "tx E ''builderid.waiting'' \<in> set (texts (DeviceCodeForm (Suc n) out E P ?c))"
    using assms(2) by (simp add: DeviceCodeForm_def Waiting_def)
  ultimately show ?thesis by (intro exI [of _ ?c]) simp
qed

theorem failed_login_keeps_waiting_witness:
  "\<exists>c'. exec (device_start 1 Done sample_ui grok_props device_mount)
      (\<lambda>n rq. if n = 0 then grok_server n rq else (Rejected (ApiErr 410 ''expired'' False), n + 1)) device_mount 0 =
      (None, c', [OpenTab ''https://x.ai/device'', ToastErr ''expired''], 2) \<and> \<not> dv_busy c'"
  using failed_login_keeps_waiting [of "\<lambda>n rq. if n = 0 then grok_server n rq else (Rejected (ApiErr 410 ''expired'' False), n + 1)"
      0 grok_props device_mount "JObj [(''sessionId'', JStr ''s1''), (''verificationUri'', JStr ''https://x.ai/device'')]" 1
      "ApiErr 410 ''expired'' False" 2 0 Done sample_ui]
  by (auto simp: grok_server_def device_mount_def)

end
