(* ===== verification/Add_Imports.thy ===== *)
theory Add_Imports
  imports Add_Account
begin

text \<open>
  The forms of the Add Account dialog (\<open>dashboard/src/pages/accounts/add-account-dialog.tsx\<close>) that
  send pasted or uploaded credentials: Kiro credentials one by one, CodeBuddy keys and tokens, the
  token imports of Grok, Codex, ClinePass and OpenCode, and OpenAI or Anthropic compatible vendors.
\<close>

section \<open>Importing credentials one by one\<close>

definition reply_field :: "reply \<Rightarrow> string \<Rightarrow> jerr + jsv" where
  "reply_field p k = (case p of Resolved v \<Rightarrow> field_or_err v k | Rejected e \<Rightarrow> Inl e)"

fun importCredentials :: "cred list \<Rightarrow> jsv list \<Rightarrow> string list \<Rightarrow> (jsv list \<Rightarrow> string list \<Rightarrow> 's act) \<Rightarrow> 's act" where
  "importCredentials [] added errors k = k added errors"
| "importCredentials (item # items) added errors k =
     Await (Http ''POST'' ''/auth/credentials'' (JsonBody (obj item))) (\<lambda>p.
       case reply_field p ''account'' of
         Inr a \<Rightarrow> importCredentials items (added @ [a]) errors k
       | Inl e \<Rightarrow> importCredentials items added (errors @ [errorMessage e]) k)"

definition import_note :: "ui \<Rightarrow> nat \<Rightarrow> nat \<Rightarrow> nat \<Rightarrow> string" where
  "import_note E ok failed skipped = tr E ''sso.importSuccess'' [show_nat ok] @
     (if failed > 0 then tr E ''sso.importPartial'' [show_nat failed] else []) @
     (if skipped > 0 then tr E ''credentials.lineParseSkipped'' [show_nat skipped] else [])"

definition credential_import :: "ui \<Rightarrow> (bool \<Rightarrow> 's \<Rightarrow> 's) \<Rightarrow> cred list \<Rightarrow> nat \<Rightarrow> 's act" where
  "credential_import E setBusy items skipped = submit setBusy
    (if items = [] then Throw (JsErr (if skipped > 0 then tr E ''credentials.lineParseAllSkipped'' [show_nat skipped]
                                      else tx E ''credentials.jsonError''))
     else importCredentials items [] [] (\<lambda>added errors.
       if added = [] then Throw (JsErr (js_join ''; '' errors))
       else Emit (ToastOk (import_note E (length added) (length errors) skipped))
         ((if errors \<noteq> [] then Emit (ToastWarn (js_join LF errors)) else (\<lambda>k. k)) (add_onDone (JArr added)))))"

subsection \<open>Credentials\<close>

record cred_st =
  cr_busy :: bool
  cr_text :: string

definition cred_mount :: cred_st where
  "cred_mount = \<lparr>cr_busy = False, cr_text = []\<rparr>"

definition cred_go :: "ui \<Rightarrow> cred_st \<Rightarrow> cred_st act" where
  "cred_go E c = (case parseCredentials (cr_text c) of (items, skipped) \<Rightarrow>
     credential_import E (\<lambda>b x. x\<lparr>cr_busy := b\<rparr>) items skipped)"

definition cred_hint :: string where
  "cred_hint = CHR ''{'' # quote ''refreshToken'' @ '': '' @ quote ellipsis @ '', '' @ quote ''clientId'' @ '': '' @ quote ellipsis
     @ '', '' @ quote ''clientSecret'' @ '': '' @ quote ellipsis @ ''}''"

definition CredentialsForm :: "ui \<Rightarrow> cred_st \<Rightarrow> cred_st act view" where
  "CredentialsForm E c = frag [
     Field (tx E ''credentials.label'') (tx E ''credentials.batchHint'') [text_box ''Textarea'' (\<lambda>v x. x\<lparr>cr_text := v\<rparr>) (cr_text c) cred_hint],
     FileInput (\<lambda>v. Upd (\<lambda>x. x\<lparr>cr_text := v\<rparr>) Done),
     SubmitRow (cr_busy c) (tx E ''accounts.import'') (cred_go E c) (js_trim (cr_text c) = [])]"

subsection \<open>Files of a local login\<close>

record local_st =
  lo_busy :: bool
  lo_channel :: string
  lo_tokenJson :: string
  lo_clientJson :: string

definition local_mount :: local_st where
  "local_mount = \<lparr>lo_busy = False, lo_channel = ''BuilderId'', lo_tokenJson = [], lo_clientJson = []\<rparr>"

definition local_go :: "ui \<Rightarrow> local_st \<Rightarrow> local_st act" where
  "local_go E c = (case parse_local E (lo_channel c) (lo_tokenJson c) (lo_clientJson c) of
     Inl e \<Rightarrow> Emit (ToastErr (errorMessage e)) Done
   | Inr items \<Rightarrow> credential_import E (\<lambda>b x. x\<lparr>lo_busy := b\<rparr>) items 0)"

definition win_path :: string where
  "win_path = (let b = [CHR 0x5C] in ''%USERPROFILE%'' @ b @ ''.aws'' @ b @ ''sso'' @ b @ ''cache'' @ b)"

definition LocalCacheForm :: "ui \<Rightarrow> local_st \<Rightarrow> local_st act view" where
  "LocalCacheForm E c = frag [
     Field (tx E ''local.loginChannel'') [] [SimpleSelect (lo_channel c) (\<lambda>v. Upd (\<lambda>x. x\<lparr>lo_channel := v\<rparr>) Done)
       [(''BuilderId'', tx E ''local.providerBuilderId''), (''Enterprise'', tx E ''local.providerEnterprise''),
        (''Google'', tx E ''local.providerGoogle''), (''Github'', tx E ''local.providerGithub'')] False],
     El ''p'' [] [Txt (tx E ''local.fileLocation'' @ '': ''), El ''code'' [] [Txt ''~/.aws/sso/cache/''],
       Txt ('' ('' @ tx E ''local.macosLinux'' @ '') '' @ mid_dot @ '' ''), El ''code'' [] [Txt win_path],
       Txt ('' ('' @ tx E ''local.windows'' @ '')'')],
     Field (tx E ''local.tokenFile'' @ '' '' @ tx E ''local.tokenRequired'') (tx E ''local.pasteOrUpload'') [
       text_box ''Textarea'' (\<lambda>v x. x\<lparr>lo_tokenJson := v\<rparr>) (lo_tokenJson c) [],
       FileInput (\<lambda>v. Upd (\<lambda>x. x\<lparr>lo_tokenJson := v\<rparr>) Done)],
     shown (uses_client (lo_channel c)) (Field (tx E ''local.clientFile'' @ '' '' @ tx E ''local.clientRequired'') [] [
       text_box ''Textarea'' (\<lambda>v x. x\<lparr>lo_clientJson := v\<rparr>) (lo_clientJson c) [],
       FileInput (\<lambda>v. Upd (\<lambda>x. x\<lparr>lo_clientJson := v\<rparr>) Done)]),
     SubmitRow (lo_busy c) (tx E ''accounts.import'') (local_go E c) (js_trim (lo_tokenJson c) = [])]"

subsection \<open>Browser cookie\<close>

record cookie_st =
  ck_busy :: bool
  ck_refreshToken :: string
  ck_provider :: string

definition cookie_mount :: cookie_st where
  "cookie_mount = \<lparr>ck_busy = False, ck_refreshToken = [], ck_provider = ''Google''\<rparr>"

definition cookie_go :: "ui \<Rightarrow> cookie_st \<Rightarrow> cookie_st act" where
  "cookie_go E c = credential_import E (\<lambda>b x. x\<lparr>ck_busy := b\<rparr>)
     [[(''refreshToken'', JStr (js_trim (ck_refreshToken c))), (''accessToken'', JStr []), (''clientId'', JStr []),
       (''clientSecret'', JStr []), (''authMethod'', JStr ''social''), (''provider'', JStr (ck_provider c))]] 0"

definition CookieForm :: "ui \<Rightarrow> cookie_st \<Rightarrow> cookie_st act view" where
  "CookieForm E c = frag [
     El ''Alert'' [] [El ''AlertDescription'' [] [
       Txt (tx E ''cookie.step1'' @ '' ''), El ''a'' [aS ''href'' (tx E ''cookie.link'')] [Txt ''app.kiro.dev''],
       Txt ('' '' @ arrow @ '' '' @ tx E ''cookie.step2'' @ '' '' @ arrow @ '' '' @ tx E ''cookie.step3'')]],
     Field (tx E ''cookie.provider'') [] [SimpleSelect (ck_provider c) (\<lambda>v. Upd (\<lambda>x. x\<lparr>ck_provider := v\<rparr>) Done)
       [(''Google'', tx E ''cookie.google''), (''Github'', tx E ''cookie.github'')] False],
     Field (tx E ''cookie.refreshToken'') [] [text_box ''Textarea'' (\<lambda>v x. x\<lparr>ck_refreshToken := v\<rparr>) (ck_refreshToken c) (tx E ''cookie.refreshTokenPlaceholder'')],
     SubmitRow (ck_busy c) (tx E ''common.add'') (cookie_go E c) (js_trim (ck_refreshToken c) = [])]"

section \<open>CodeBuddy\<close>

record buddy_st =
  bd_busy :: bool
  bd_label :: string
  bd_variant :: string
  bd_text :: string

definition buddy_mount :: buddy_st where
  "buddy_mount = \<lparr>bd_busy = False, bd_label = [], bd_variant = ''global'', bd_text = []\<rparr>"

definition buddy_added :: "jsv \<Rightarrow> jsv" where
  "buddy_added r = (let as = get_prop r ''accounts'' in
     if truthy as \<and> truthy (get_prop as ''length'') then as else JArr [get_prop r ''account''])"

definition buddy_go :: "ui \<Rightarrow> buddy_st \<Rightarrow> buddy_st act" where
  "buddy_go E c = submit (\<lambda>b x. x\<lparr>bd_busy := b\<rparr>)
    (post ''/auth/codebuddy'' (JsonBody (obj [(''apiKey'', JStr (bd_text c)), (''label'', JStr (js_trim (bd_label c))),
        (''variant'', JStr (bd_variant c))])) (\<lambda>r. get_field r ''accounts'' (\<lambda>_.
       Emit (ToastOk (tr E ''codebuddy.importCount'' [js_string (get_prop (buddy_added r) ''length'')]))
         ((if truthy (opt_length (get_prop r ''errors'')) then Emit (ToastWarn (join_values ''; '' (get_prop r ''errors''))) else (\<lambda>k. k))
           (add_onDone (buddy_added r))))))"

text \<open>An uploaded file goes below what is in the box.\<close>

definition append_file :: "string \<Rightarrow> string \<Rightarrow> string" where
  "append_file s prev = (if js_trim prev \<noteq> [] then trim_end prev @ LF @ s else s)"

definition buddy_badge :: "ui \<Rightarrow> string \<Rightarrow> string \<Rightarrow> nat \<Rightarrow> 'e view" where
  "buddy_badge E variant key n = shown (n > 0) (El ''Badge'' [aS ''variant'' variant] [Txt (tr E key [show_nat n])])"

definition buddy_badges :: "ui \<Rightarrow> cb_cred list \<Rightarrow> 'e view" where
  "buddy_badges E cs = shown (cs \<noteq> []) (El ''div'' [] [
     buddy_badge E ''secondary'' ''codebuddy.detectedKeys'' (length (cb_keys cs)),
     buddy_badge E ''secondary'' ''codebuddy.detectedTokens'' (length (cb_jwts cs)),
     buddy_badge E ''secondary'' ''codebuddy.detectedRefresh'' (length (cb_refreshable cs)),
     buddy_badge E ''destructive'' ''codebuddy.expiredTokens'' (length (cb_expired (now_ms E) cs))])"

definition buddy_hint :: string where
  "buddy_hint = ''sk-'' @ ellipsis @ LF @ ''eyJhbGciOi'' @ ellipsis @ LF @ CHR ''{'' # quote ''access_token'' @ '':'' @ quote (''eyJ'' @ ellipsis)
     @ '','' @ quote ''refresh_token'' @ '':'' @ quote (''eyJ'' @ ellipsis) @ '','' @ quote ''uid'' @ '':'' @ quote ellipsis @ ''}''"

definition CodeBuddyForm :: "ui \<Rightarrow> buddy_st \<Rightarrow> buddy_st act view" where
  "CodeBuddyForm E c = (let cs = cb_creds (bd_text c) in frag [
     Field (tx E ''codebuddy.label'') (tx E ''codebuddy.labelHint'') [text_box ''Input'' (\<lambda>v x. x\<lparr>bd_label := v\<rparr>) (bd_label c) (tx E ''codebuddy.labelPlaceholder'')],
     Field (tx E ''codebuddy.variant'') [] [SimpleSelect (bd_variant c) (\<lambda>v. Upd (\<lambda>x. x\<lparr>bd_variant := v\<rparr>) Done)
       [(''global'', tx E ''codebuddy.global''), (''cn'', tx E ''codebuddy.cn''), (''workbuddy'', tx E ''codebuddy.workbuddy'')] False],
     Field (tx E ''codebuddy.credentials'') (tx E ''codebuddy.credentialsHint'') [
       text_box ''Textarea'' (\<lambda>v x. x\<lparr>bd_text := v\<rparr>) (bd_text c) buddy_hint,
       El ''div'' [] [FileInput (\<lambda>v. Upd (\<lambda>x. x\<lparr>bd_text := append_file v (bd_text x)\<rparr>) Done)],
       buddy_badges E cs],
     SubmitRow (bd_busy c) (if length cs > 1 then tr E ''codebuddy.addMany'' [show_nat (length cs)] else tx E ''common.add'')
       (buddy_go E c) (cs = [])])"

section \<open>Token imports\<close>

text \<open>The four token imports share their state and their request, a raw text body; they differ in the
  address, the texts and what is sent for an empty box.\<close>

record token_st =
  tk_busy :: bool
  tk_text :: string

definition token_mount :: token_st where
  "token_mount = \<lparr>tk_busy = False, tk_text = []\<rparr>"

definition token_import :: "string \<Rightarrow> string \<Rightarrow> (jsv \<Rightarrow> string) \<Rightarrow> (jsv \<Rightarrow> string) \<Rightarrow> token_st act" where
  "token_import route txt message extra = submit (\<lambda>b x. x\<lparr>tk_busy := b\<rparr>)
    (await (Http ''POST'' route (RawBody txt)) (\<lambda>r. get_field r ''imported'' (\<lambda>n.
       Emit (ToastOk (message n @ extra (get_prop r ''errors''))) (add_onDone (get_prop r ''accounts'')))))"

definition imported_msg :: "ui \<Rightarrow> string \<Rightarrow> jsv \<Rightarrow> string" where
  "imported_msg E key n = tx E key @ '' ('' @ js_string n @ '')''"

definition token_form :: "ui \<Rightarrow> string \<Rightarrow> string \<Rightarrow> string \<Rightarrow> token_st \<Rightarrow> token_st act \<Rightarrow> bool \<Rightarrow> token_st act view" where
  "token_form E label hintKey hint c go disabled = frag [
     Field (tx E label) (tx E hintKey) [text_box ''Textarea'' (\<lambda>v x. x\<lparr>tk_text := v\<rparr>) (tk_text c) hint],
     FileInput (\<lambda>v. Upd (\<lambda>x. x\<lparr>tk_text := v\<rparr>) Done),
     SubmitRow (tk_busy c) (tx E ''accounts.import'') go disabled]"

definition grok_go :: "ui \<Rightarrow> token_st \<Rightarrow> token_st act" where
  "grok_go E c = token_import ''/auth/grok/import'' (js_trim (tk_text c)) (imported_msg E ''grok.importSuccess'') (partial_note E)"

definition GrokImportForm :: "ui \<Rightarrow> token_st \<Rightarrow> token_st act view" where
  "GrokImportForm E c = token_form E ''grok.tokensLabel'' ''grok.importHint''
     (CHR ''{'' # quote ''email'' @ '':'' @ quote ellipsis @ '','' @ quote ''tokens'' @ '':{'' @ quote ''access_token'' @ '':'' @ quote ellipsis
      @ '','' @ quote ''refresh_token'' @ '':'' @ quote ellipsis @ ''}}'') c (grok_go E c) (js_trim (tk_text c) = [])"

definition codex_go :: "ui \<Rightarrow> token_st \<Rightarrow> token_st act" where
  "codex_go E c = token_import ''/auth/codex/import'' (js_trim (tk_text c)) (imported_msg E ''codex.importSuccess'') (partial_note E)"

definition CodexImportForm :: "ui \<Rightarrow> token_st \<Rightarrow> token_st act view" where
  "CodexImportForm E c = token_form E ''codex.tokensLabel'' ''codex.importHint''
     (CHR ''{'' # quote ''access_token'' @ '':'' @ quote ellipsis @ '','' @ quote ''refresh_token'' @ '':'' @ quote ellipsis
      @ '','' @ quote ''email'' @ '':'' @ quote ellipsis @ ''}'') c (codex_go E c) (js_trim (tk_text c) = [])"

definition cline_go :: "ui \<Rightarrow> token_st \<Rightarrow> token_st act" where
  "cline_go E c = token_import ''/auth/clinepass/import'' (js_trim (tk_text c)) (imported_msg E ''clinepass.importSuccess'') (partial_note E)"

definition ClinepassImportForm :: "ui \<Rightarrow> token_st \<Rightarrow> token_st act view" where
  "ClinepassImportForm E c = token_form E ''clinepass.tokensLabel'' ''clinepass.importHint''
     (CHR ''{'' # quote ''access_token'' @ '':'' @ quote (''workos:'' @ ellipsis) @ '','' @ quote ''refresh_token'' @ '':'' @ quote ellipsis
      @ '','' @ quote ''email'' @ '':'' @ quote ellipsis @ ''}'' @ LF @ ''# or one token per line: sk_'' @ ellipsis @ '' / clp_'' @ ellipsis)
     c (cline_go E c) (js_trim (tk_text c) = [])"

record opencode_props =
  oc_route :: string
  oc_successKey :: string
  oc_tokenLabel :: string
  oc_hintKey :: string
  oc_optional :: bool

definition error_suffix :: "jsv \<Rightarrow> string" where
  "error_suffix errors = (if truthy (opt_length errors) then '' '' @ em_dash @ '' '' @ js_string (opt_length errors) @ '' error(s)'' else [])"

definition opencode_go :: "ui \<Rightarrow> opencode_props \<Rightarrow> token_st \<Rightarrow> token_st act" where
  "opencode_go E P c = token_import (oc_route P) (or_str (js_trim (tk_text c)) ''public'') (imported_msg E (oc_successKey P)) error_suffix"

definition OpenCodeTokenImportForm :: "ui \<Rightarrow> opencode_props \<Rightarrow> token_st \<Rightarrow> token_st act view" where
  "OpenCodeTokenImportForm E P c = token_form E (oc_tokenLabel P) (oc_hintKey P)
     (if oc_optional P then ''Leave blank for free public tier, or paste API key(s) '' @ em_dash @ '' one per line''
      else ''Paste API key(s) '' @ em_dash @ '' one per line'') c (opencode_go E P c)
     (\<not> oc_optional P \<and> js_trim (tk_text c) = [])"

section \<open>Compatible vendors\<close>

text \<open>The parser of web addresses is the platform's: \<open>host_of\<close> yields the host of an address, or what
  \<open>new URL\<close> throws.\<close>

record compat_st =
  cp_busy :: bool
  cp_name :: string
  cp_baseUrl :: string
  cp_keys :: string
  cp_models :: string

definition compat_mount :: "string \<Rightarrow> compat_st" where
  "compat_mount protocol = \<lparr>cp_busy = False, cp_name = [], cp_baseUrl = snd (COMPAT_PRESETS protocol ! 0), cp_keys = [], cp_models = []\<rparr>"

definition keyList :: "compat_st \<Rightarrow> string list" where
  "keyList c = filter (\<lambda>k. k \<noteq> []) (map js_trim (js_split LF (cp_keys c)))"

definition compat_models :: "compat_st \<Rightarrow> string list" where
  "compat_models c = filter (\<lambda>m. m \<noteq> []) (map js_trim (comma_lines (cp_models c)))"

definition compat_preset :: "string \<Rightarrow> compat_st \<Rightarrow> (string \<times> string) option" where
  "compat_preset protocol c = find (\<lambda>p. snd p = cp_baseUrl c) (COMPAT_PRESETS protocol)"

definition preset_name :: "string \<Rightarrow> compat_st \<Rightarrow> string" where
  "preset_name protocol c = (case compat_preset protocol c of None \<Rightarrow> [] | Some p \<Rightarrow> fst p)"

definition compat_label :: "(string \<Rightarrow> jerr + string) \<Rightarrow> string \<Rightarrow> compat_st \<Rightarrow> nat \<Rightarrow> jerr + string" where
  "compat_label host_of protocol c i =
    (let mark = (if length (keyList c) > 1 then '' #'' @ show_nat (i + 1) else []) in
     if js_trim (cp_name c) \<noteq> [] then Inr (js_trim (cp_name c) @ mark)
     else if preset_name protocol c \<noteq> [] then Inr (preset_name protocol c @ mark)
     else case host_of (cp_baseUrl c) of Inl e \<Rightarrow> Inl e | Inr h \<Rightarrow> Inr (h @ mark))"

definition compat_body :: "string \<Rightarrow> compat_st \<Rightarrow> string \<Rightarrow> string \<Rightarrow> jsv" where
  "compat_body protocol c label key = obj [(''providerKind'', JStr protocol), (''compatProtocol'', JStr protocol),
     (''authMethod'', JStr protocol), (''provider'', JStr (or_str (preset_name protocol c) protocol)),
     (''email'', JStr label), (''nickname'', JStr label), (''baseUrl'', JStr (js_trim (cp_baseUrl c))),
     (''compatApiKey'', JStr key), (''extraModels'', jstrs (compat_models c)), (''enabled'', JBool True)]"

fun compat_loop :: "(nat \<Rightarrow> jerr + string) \<Rightarrow> (string \<Rightarrow> string \<Rightarrow> jsv) \<Rightarrow> nat \<Rightarrow> string list \<Rightarrow> jsv list \<Rightarrow> string list \<Rightarrow>
    (jsv list \<Rightarrow> string list \<Rightarrow> 's act) \<Rightarrow> 's act" where
  "compat_loop label bdy i [] added errors k = k added errors"
| "compat_loop label bdy i (key # keys) added errors k = (case label i of Inl e \<Rightarrow> Throw e
   | Inr l \<Rightarrow> Await (Http ''POST'' ''/accounts'' (JsonBody (bdy l key))) (\<lambda>p.
       case reply_field p ''id'' of
         Inr v \<Rightarrow> compat_loop label bdy (Suc i) keys (added @ [obj [(''id'', v), (''email'', JStr l)]]) errors k
       | Inl e \<Rightarrow> compat_loop label bdy (Suc i) keys added (errors @ [l @ '': '' @ errorMessage e]) k))"

fun emit_errors :: "string list \<Rightarrow> 's act \<Rightarrow> 's act" where
  "emit_errors [] k = k"
| "emit_errors (e # es) k = Emit (ToastErr e) (emit_errors es k)"

definition compat_finish :: "ui \<Rightarrow> jsv list \<Rightarrow> string list \<Rightarrow> 's act" where
  "compat_finish E added errors =
     (if added \<noteq> [] then Emit (ToastOk (tr E ''compat.added'' [show_nat (length added)])) else (\<lambda>k. k))
       (emit_errors errors (if added \<noteq> [] then add_onDone (JArr added) else Done))"

definition compat_go :: "ui \<Rightarrow> (string \<Rightarrow> jerr + string) \<Rightarrow> string \<Rightarrow> compat_st \<Rightarrow> compat_st act" where
  "compat_go E host_of protocol c = submit (\<lambda>b x. x\<lparr>cp_busy := b\<rparr>)
     (compat_loop (compat_label host_of protocol c) (compat_body protocol c) 0 (keyList c) [] [] (compat_finish E))"

definition CompatForm :: "ui \<Rightarrow> (string \<Rightarrow> jerr + string) \<Rightarrow> string \<Rightarrow> compat_st \<Rightarrow> compat_st act view" where
  "CompatForm E host_of protocol c = frag [
     Field (tx E ''compat.preset'') [] [SimpleSelect (case compat_preset protocol c of None \<Rightarrow> ''__custom__'' | Some p \<Rightarrow> snd p)
       (\<lambda>v. if v \<noteq> ''__custom__'' then Upd (\<lambda>x. x\<lparr>cp_baseUrl := v\<rparr>) Done else Done)
       (map (\<lambda>p. (snd p, fst p)) (COMPAT_PRESETS protocol) @ [(''__custom__'', tx E ''compat.custom'')]) False],
     Field (tx E ''compat.baseUrl'') (tx E (if protocol = ''openai_compat'' then ''compat.baseUrlHintOpenai'' else ''compat.baseUrlHintAnthropic''))
       [text_box ''Input'' (\<lambda>v x. x\<lparr>cp_baseUrl := v\<rparr>) (cp_baseUrl c) ''https://''],
     Field (tx E ''compat.name'') (tx E ''compat.nameHint'')
       [text_box ''Input'' (\<lambda>v x. x\<lparr>cp_name := v\<rparr>) (cp_name c) (preset_name protocol c)],
     Field (tx E ''compat.keys'') (tx E ''compat.keysHint'')
       [text_box ''Textarea'' (\<lambda>v x. x\<lparr>cp_keys := v\<rparr>) (cp_keys c) (''sk-'' @ ellipsis @ LF @ ''sk-'' @ ellipsis)],
     Field (tx E ''compat.models'') (tx E ''compat.modelsHint'')
       [text_box ''Input'' (\<lambda>v x. x\<lparr>cp_models := v\<rparr>) (cp_models c) ''anthropic/claude-sonnet-4.5, openai/gpt-5''],
     SubmitRow (cp_busy c) (if length (keyList c) > 1 then tr E ''compat.addMany'' [show_nat (length (keyList c))] else tx E ''modal.addAccount'')
       (compat_go E host_of protocol c) (js_trim (cp_baseUrl c) = [] \<or> keyList c = [])]"

section \<open>Lemmas\<close>

text \<open>What the single answers of an import amount to.\<close>

fun oks :: "('e + 'a) list \<Rightarrow> 'a list" where
  "oks [] = []"
| "oks (Inr a # rs) = a # oks rs"
| "oks (Inl e # rs) = oks rs"

fun failures :: "(jerr + 'a) list \<Rightarrow> string list" where
  "failures [] = []"
| "failures (Inr a # rs) = failures rs"
| "failures (Inl e # rs) = errorMessage e # failures rs"

lemma oks_failures: "length (oks rs) + length (failures rs) = length rs"
proof (induction rs)
  case (Cons r rs)
  then show ?case by (cases r) auto
qed simp

lemma replies_length: "answer_all srv w rqs = (ps, w') \<Longrightarrow> length ps = length rqs"
proof (induction rqs arbitrary: w ps)
  case (Cons rq rqs)
  then show ?case by (auto split: prod.splits)
qed simp

definition cred_request :: "cred \<Rightarrow> request" where
  "cred_request item = Http ''POST'' ''/auth/credentials'' (JsonBody (obj item))"

lemma exec_importCredentials:
  "answer_all srv w (map cred_request items) = (ps, w') \<Longrightarrow>
   exec (importCredentials items added errors k) srv s w =
     exec (k (added @ oks (map (\<lambda>p. reply_field p ''account'') ps))
             (errors @ failures (map (\<lambda>p. reply_field p ''account'') ps))) srv s w'"
proof (induction items arbitrary: w ps w' added errors)
  case (Cons item items)
  obtain p w1 where p: "srv w (cred_request item) = (p, w1)" by fastforce
  obtain qs w2 where q: "answer_all srv w1 (map cred_request items) = (qs, w2)" by fastforce
  from Cons.prems p q have "ps = p # qs" "w' = w2" by auto
  with p q Cons.IH [OF q] show ?case
    by (cases "reply_field p ''account''") (auto simp: cred_request_def)
qed simp

section \<open>Properties\<close>

text \<open>C30: an import answers for every item: each credential is posted once, in order, whatever happens to
  the others; the added and the failed ones together are all of them; when none was added the errors
  are shown and the dialog stays, otherwise both numbers are reported and exactly the added accounts
  are handed on; the form is enabled again in every case.\<close>

theorem import_accounts_for_all:
  assumes "items \<noteq> []" "answer_all srv w (map cred_request items) = (ps, w')"
    and "added = oks (map (\<lambda>p. reply_field p ''account'') ps)"
    and "errors = failures (map (\<lambda>p. reply_field p ''account'') ps)"
    and "exec (add_onDone (JArr added)) srv (sb True s) w' = (e, s1, l1, w1)"
  shows "length added + length errors = length items \<and>
    exec (credential_import E sb items skipped) srv s w =
      (if added = [] then (None, sb False (sb True s), [ToastErr (js_join ''; '' errors)], w')
       else (None, sb False s1, ToastOk (import_note E (length added) (length errors) skipped) #
         (if errors = [] then [] else [ToastWarn (js_join LF errors)]) @ l1 @
         (case e of None \<Rightarrow> [] | Some x \<Rightarrow> [ToastErr (errorMessage x)]), w1))"
proof -
  have "length added + length errors = length items"
    using oks_failures [of "map (\<lambda>p. reply_field p ''account'') ps"] replies_length [OF assms(2)] assms(3,4) by simp
  moreover have "exec (credential_import E sb items skipped) srv s w =
      (if added = [] then (None, sb False (sb True s), [ToastErr (js_join ''; '' errors)], w')
       else (None, sb False s1, ToastOk (import_note E (length added) (length errors) skipped) #
         (if errors = [] then [] else [ToastWarn (js_join LF errors)]) @ l1 @
         (case e of None \<Rightarrow> [] | Some x \<Rightarrow> [ToastErr (errorMessage x)]), w1))"
    using assms(1,5) unfolding credential_import_def exec_submit
    by (simp add: exec_importCredentials [OF assms(2)] assms(3) [symmetric] assms(4) [symmetric])
  ultimately show ?thesis ..
qed

theorem import_accounts_for_all_witness:
  "exec (credential_import sample_ui (\<lambda>b x. x\<lparr>cr_busy := b\<rparr>) [[(''refreshToken'', JStr ''r1'')], [(''refreshToken'', JStr ''r2'')]] 0)
      (\<lambda>n rq. (if n = 0 then Rejected (JsErr ''bad token'') else Resolved (JObj [(''account'', JObj [(''id'', JStr ''a1'')])]), n + 1 :: nat))
      cred_mount 0 =
    (None, cred_mount, [ToastOk ''sso.importSuccess 1sso.importPartial 1'', ToastWarn ''bad token'', Invalidate [''accounts''],
       Invalidate [''accounts''], Parent ''onClose'' JUndef], 3)"
proof -
  let ?srv = "\<lambda>n rq. (if n = 0 then Rejected (JsErr ''bad token'') else Resolved (JObj [(''account'', JObj [(''id'', JStr ''a1'')])]), n + 1 :: nat)"
  have "show_nat 1 = ''1''" by code_simp
  then show ?thesis
    using import_accounts_for_all [of "[[(''refreshToken'', JStr ''r1'')], [(''refreshToken'', JStr ''r2'')]]" ?srv 0
        "[Rejected (JsErr ''bad token''), Resolved (JObj [(''account'', JObj [(''id'', JStr ''a1'')])])]" 2
        "[JObj [(''id'', JStr ''a1'')]]" "[''bad token'']" "\<lambda>b x. x\<lparr>cr_busy := b\<rparr>" cred_mount None
        "cred_mount\<lparr>cr_busy := True\<rparr>" "[Invalidate [''accounts''], Invalidate [''accounts''], Parent ''onClose'' JUndef]" 3 sample_ui 0]
    by (simp add: reply_field_def field_or_err_def add_onDone_def js_iter_def get_field_def import_note_def sample_ui_def cred_mount_def)
qed

end
