(* ===== verification/Json_Roundtrip.thy ===== *)
theory Json_Roundtrip
  imports Import_Formats Common
begin

text \<open>
  What is written by the models of \<open>JSON.stringify\<close> and \<open>String\<close> of a number is read back by those of
  \<open>JSON.parse\<close> and \<open>Number\<close>: numbers with a finite decimal expansion, strings of any bytes, and values
  nested to any depth. The text may be followed by anything a number cannot go on with.
\<close>

section \<open>Numbers\<close>

definition has_decimals :: "rat \<Rightarrow> bool" where
  "has_decimals n \<longleftrightarrow> places 20 (snd (quotient_of n)) 0 \<noteq> None"

definition stops :: "string \<Rightarrow> bool" where
  "stops r \<longleftrightarrow> (case r of [] \<Rightarrow> True | c # _ \<Rightarrow> \<not> is_digit c \<and> c \<noteq> CHR ''.'' \<and> c \<noteq> CHR ''e'' \<and> c \<noteq> CHR ''E'')"

lemma stops_Nil [simp]: "stops []"
  by (simp add: stops_def)

lemma digits_val_read: "digits_val n s = read_digits n s"
  by (induction s arbitrary: n) (auto simp: code_def)

lemma digits_val_show [simp]: "digits_val 0 (show_nat n) = n"
  by (simp add: digits_val_read read_show)

lemma digits_val_zeros [simp]: "digits_val 0 (replicate k CHR ''0'' @ s) = digits_val 0 s"
  by (induction k) (auto simp: code_def)

lemma show_nat_is_digit: "c \<in> set (show_nat n) \<Longrightarrow> is_digit c"
  using show_nat_digits [of n] by (auto simp: is_digit_def code_def)

lemma show_nat_head: "0 < n \<Longrightarrow> hd (show_nat n) \<noteq> CHR ''0''"
proof (induction n rule: show_nat.induct)
  case (1 n)
  show ?case
  proof (cases "n < 10")
    case True
    then have "show_nat n = [digit_char n]" by (subst show_nat.simps) simp
    moreover have "digit_char n \<noteq> CHR ''0''"
    proof
      assume "digit_char n = CHR ''0''"
      then have "(of_char (digit_char n) :: nat) = of_char (CHR ''0'')" by simp
      with True 1(2) show False by (simp add: digit_code del: digit_char.simps)
    qed
    ultimately show ?thesis by simp
  next
    case False
    then have "show_nat n = show_nat (n div 10) @ [digit_char (n mod 10)]" by (subst show_nat.simps) simp
    with False 1(1) show ?thesis by simp
  qed
qed

lemma show_nat_zero [simp]: "show_nat 0 = ''0''"
  by code_simp

lemma takeWhile_digits: "list_all is_digit s \<Longrightarrow> stops r \<or> starts_with ''.'' r \<Longrightarrow>
    takeWhile is_digit (s @ r) = s \<and> dropWhile is_digit (s @ r) = r"
  by (cases r) (auto simp: list_all_iff stops_def starts_with_def is_digit_def code_def)

lemma not_digit [simp]: "\<not> is_digit CHR ''-''" "\<not> is_digit CHR ''.''"
  by (simp_all add: is_digit_def code_def)

lemma zero_digit: "is_digit CHR ''0''"
  by (simp add: is_digit_def code_def)

lemma stops_marks: "stops r \<Longrightarrow> \<not> starts_with ''.'' r \<and> \<not> starts_with ''e'' r \<and> \<not> starts_with ''E'' r"
  by (cases r) (auto simp: stops_def starts_with_def)

lemma digits_no_sign: "list_all is_digit s \<Longrightarrow> s \<noteq> [] \<Longrightarrow> \<not> starts_with ''-'' (s @ r)"
  by (cases s) (auto simp: starts_with_def)

text \<open>The shape of a printed number: an optional sign, digits without a leading zero, an optional fraction.\<close>

lemma scan_plain:
  assumes "list_all is_digit ip" "list_all is_digit fr" "stops r"
  shows "scan_number (ip @ (if fr = [] then [] else CHR ''.'' # fr) @ r) = (ip, fr \<noteq> [], fr, False, False, [], r)"
proof -
  let ?t = "(if fr = [] then [] else CHR ''.'' # fr) @ r"
  have "stops ?t \<or> starts_with ''.'' ?t" using assms(3) by (simp add: starts_with_def)
  then have ip: "takeWhile is_digit (ip @ ?t) = ip" "dropWhile is_digit (ip @ ?t) = ?t"
    using takeWhile_digits [OF assms(1)] by blast+
  have point: "starts_with ''.'' ?t = (fr \<noteq> [])" using stops_marks [OF assms(3)] by (simp add: starts_with_def)
  have fr: "(if fr \<noteq> [] then takeWhile is_digit (drop 1 ?t) else []) = fr"
    "(if fr \<noteq> [] then dropWhile is_digit (drop 1 ?t) else ?t) = r"
    using takeWhile_digits [OF assms(2), of r] assms(3) by auto
  have "starts_with ''-'' [] = False" "starts_with ''+'' [] = False" by (simp_all add: starts_with_def)
  then show ?thesis
    unfolding scan_number_def Let_def ip point fr using stops_marks [OF assms(3)] by simp
qed

lemma scan_digits: "fst (scan_number s) = takeWhile is_digit s"
  by (simp add: scan_number_def Let_def)

lemma parse_plain:
  assumes "list_all is_digit ip" "ip \<noteq> []" "length ip = 1 \<or> hd ip \<noteq> CHR ''0''"
    and "list_all is_digit fr" "stops r"
  shows "parse_number ((if neg then ''-'' else []) @ ip @ (if fr = [] then [] else CHR ''.'' # fr) @ r) =
    Some (of_nat (digits_val 0 (ip @ fr)) / 10 ^ length fr * (if neg then - 1 else 1), r)"
proof -
  let ?t = "(if fr = [] then [] else CHR ''.'' # fr) @ r"
  have sign: "starts_with ''-'' ((if neg then ''-'' else []) @ ip @ ?t) = neg"
    using digits_no_sign [OF assms(1,2)] by (simp add: starts_with_def)
  have body: "(if neg then drop 1 ((if neg then ''-'' else []) @ ip @ ?t) else (if neg then ''-'' else []) @ ip @ ?t) = ip @ ?t"
    by simp
  have lead: "\<not> (1 < length ip \<and> hd ip = CHR ''0'')" using assms(3) by auto
  show ?thesis
    unfolding parse_number_def Let_def sign body scan_plain [OF assms(1,4,5)]
    using assms(2) lead by (simp add: number_value_def)
qed

lemma parse_show_int:
  "stops r \<Longrightarrow> parse_number (show_int p @ r) = Some (of_int p, r)"
proof -
  assume r: "stops r"
  let ?n = "nat \<bar>p\<bar>"
  have d: "list_all is_digit (show_nat ?n)" by (auto simp: list_all_iff show_nat_is_digit)
  have lead: "length (show_nat ?n) = 1 \<or> hd (show_nat ?n) \<noteq> CHR ''0''"
    using show_nat_head [of ?n] by (cases "?n = 0") auto
  have "show_int p @ r = (if p < 0 then ''-'' else []) @ show_nat ?n @ (if [] = ([] :: string) then [] else CHR ''.'' # []) @ r"
    by (simp add: show_int_def)
  then have "parse_number (show_int p @ r) = Some (of_nat ?n * (if p < 0 then - 1 else 1), r)"
    using parse_plain [OF d _ lead, of "[]" r "p < 0"] r by simp
  then show ?thesis by (simp add: of_nat_nat)
qed

lemma places_dvd: "places n q d = Some e \<Longrightarrow> 10 ^ e mod q = 0 \<and> d \<le> e"
  by (induction n q d rule: places.induct) (auto split: if_splits)

lemma parse_show_decimal:
  assumes "0 < q" "10 ^ d mod q = 0" "0 < d" "stops r"
  shows "parse_number (show_decimal p q d @ r) = Some (of_int p / of_int q, r)"
proof -
  define N where "N = nat (\<bar>p\<bar> * 10 ^ d div q)"
  define m where "m = replicate (Suc d - length (show_nat N)) CHR ''0'' @ show_nat N"
  define k where "k = length m - d"
  have len: "d < length m" by (simp add: m_def)
  have split: "take k m @ drop k m = m" "length (drop k m) = d" "drop k m \<noteq> []" "take k m \<noteq> []"
    using len assms(3) by (auto simp: k_def)
  have dig: "list_all is_digit m"
    by (auto simp: m_def list_all_iff show_nat_is_digit zero_digit)
  then have dig': "list_all is_digit (take k m)" "list_all is_digit (drop k m)"
    by (auto simp: list_all_iff dest: in_set_takeD in_set_dropD)
  have lead: "length (take k m) = 1 \<or> hd (take k m) \<noteq> CHR ''0''"
  proof (cases "length (show_nat N) \<le> d")
    case True
    then have "length m = Suc d" by (simp add: m_def)
    then show ?thesis by (simp add: k_def)
  next
    case False
    then have "m = show_nat N" by (simp add: m_def)
    moreover have "N \<noteq> 0" using False assms(3) by (intro notI) simp
    ultimately show ?thesis using show_nat_head [of N] split(4) by (cases m) (auto simp: k_def take_Cons')
  qed
  have printed: "show_decimal p q d = (if p < 0 then ''-'' else []) @ take k m @ CHR ''.'' # drop k m"
    by (simp add: show_decimal_def Let_def k_def m_def N_def)
  have "parse_number (show_decimal p q d @ r) =
      Some (of_nat (digits_val 0 (take k m @ drop k m)) / 10 ^ length (drop k m) * (if p < 0 then - 1 else 1), r)"
    using parse_plain [OF dig'(1) split(4) lead dig'(2) assms(4), of "p < 0"] split(3) by (simp add: printed)
  moreover have "digits_val 0 m = N" by (simp add: m_def)
  moreover have "of_nat N * of_int q = (of_int \<bar>p\<bar> * 10 ^ d :: rat)"
  proof -
    have "q dvd \<bar>p\<bar> * 10 ^ d" using assms(2) by (simp add: dvd_eq_mod_eq_0 [symmetric])
    then have "int N * q = \<bar>p\<bar> * 10 ^ d"
      using assms(1) by (simp add: N_def nat_0_iff pos_imp_zdiv_nonneg_iff)
    then show ?thesis by (metis of_int_mult of_int_of_nat_eq of_int_power of_int_numeral)
  qed
  ultimately show ?thesis
    using assms(1) split(1,2) by (simp add: field_simps)
qed

lemma parse_show_rat:
  assumes "has_decimals n" "stops r"
  shows "parse_number (show_rat n @ r) = Some (n, r)"
proof -
  obtain p q where pq: "quotient_of n = (p, q)" by fastforce
  have q: "0 < q" "n = of_int p / of_int q"
    using quotient_of_denom_pos [OF pq] quotient_of_div [OF pq] by auto
  show ?thesis
  proof (cases "q = 1")
    case True
    with assms(2) pq q(2) show ?thesis by (simp add: show_rat_def parse_show_int)
  next
    case False
    from assms(1) pq obtain d where d: "places 20 q 0 = Some d" by (auto simp: has_decimals_def)
    from places_dvd [OF d] have "10 ^ d mod q = 0" ..
    moreover have "d \<noteq> 0" using calculation q(1) False by (cases d) (auto simp: zmod_eq_0_iff zmult_eq_1_iff)
    ultimately show ?thesis
      using parse_show_decimal [of q d r p] q False d pq assms(2) by (simp add: show_rat_def)
  qed
qed

lemma has_decimals_int [simp]: "has_decimals (of_int p)"
  by (simp add: has_decimals_def eval_nat_numeral)

text \<open>\<open>Number\<close> reads what \<open>JSON.parse\<close> reads as a number.\<close>

lemma js_Number_parsed:
  assumes "parse_number s = Some (n, [])" "\<forall>c\<in>set s. \<not> is_ws c"
  shows "js_Number s = Some n"
proof -
  have trim: "js_trim s = s" using assms(2) by (rule trim_no_ws)
  obtain ip point fr ex eneg ed rest where
    scan: "scan_number (if starts_with ''-'' s then drop 1 s else s) = (ip, point, fr, ex, eneg, ed, rest)"
    by (metis prod_cases7)
  with assms(1) have ok: "ip \<noteq> []" "\<not> (ex \<and> ed = [])" "rest = []" "n = number_value (starts_with ''-'' s) ip fr eneg ed"
    by (auto simp: parse_number_def split: if_splits)
  have "\<not> starts_with ''+'' s"
  proof
    assume plus: "starts_with ''+'' s"
    then have "\<not> starts_with ''-'' s" by (auto simp: starts_with_iff)
    with plus scan scan_digits [of s] have "ip = []" by (auto simp: starts_with_iff is_digit_def code_def)
    with ok show False by simp
  qed
  moreover have "s \<noteq> []" using scan scan_digits [of s] ok(1) by (auto simp: starts_with_def)
  ultimately show ?thesis using trim scan ok by (simp add: js_Number_def)
qed

lemma show_rat_chars: "c \<in> set (show_rat n) \<Longrightarrow> is_digit c \<or> c \<in> set ''-./''"
proof -
  have nat: "c \<in> set (show_nat k) \<Longrightarrow> is_digit c" for k by (rule show_nat_is_digit)
  then have int: "c \<in> set (show_int p) \<Longrightarrow> is_digit c \<or> c = CHR ''-''" for p
    by (auto simp: show_int_def split: if_splits)
  have "c \<in> set (show_decimal p q d) \<Longrightarrow> is_digit c \<or> c = CHR ''-'' \<or> c = CHR ''.''" for p q d
    using nat zero_digit
    by (auto simp: show_decimal_def Let_def split: if_splits dest!: in_set_takeD in_set_dropD)
  with int show "c \<in> set (show_rat n) \<Longrightarrow> is_digit c \<or> c \<in> set ''-./''"
    by (fastforce simp: show_rat_def split: prod.splits if_splits option.splits)
qed

lemma show_rat_no_ws: "\<forall>c\<in>set (show_rat n). \<not> is_ws c"
  using show_rat_chars by (fastforce simp: is_digit_def code_def is_ws_def)

lemma js_Number_show: "has_decimals n \<Longrightarrow> js_Number (show_rat n) = Some n"
  using js_Number_parsed [OF _ show_rat_no_ws] parse_show_rat [of n "[]"] by simp

lemma trim_show_rat: "has_decimals n \<Longrightarrow> js_trim (show_rat n) = show_rat n \<and> show_rat n \<noteq> []"
proof
  assume n: "has_decimals n"
  then show "show_rat n \<noteq> []"
    using parse_show_rat [OF n, of "[]"] by (auto simp: parse_number_def scan_number_def)
qed (rule trim_no_ws [OF show_rat_no_ws])

section \<open>Strings\<close>

lemma hex4_escape: "n < 32 \<Longrightarrow> hex4 (CHR ''0'' # CHR ''0'' # hex_digit (n div 16) # hex_digit (n mod 16) # r) = Some (n, r)"
proof -
  assume n: "n < 32"
  have "hex_val (hex_digit m) = Some m" if "m < 16" for m
    using that by (simp add: hex_val_def hex_digit_def code_def Let_def)
  then have "hex_val (hex_digit (n div 16)) = Some (n div 16)" "hex_val (hex_digit (n mod 16)) = Some (n mod 16)"
    using n by auto
  moreover have "hex_val CHR ''0'' = Some 0" by code_simp
  ultimately show ?thesis by (simp add: hex4_def)
qed

text \<open>The characters with an escape of their own.\<close>

definition short_escapes :: "(char \<times> char) list" where
  "short_escapes = [(CHR 0x22, CHR 0x22), (CHR 0x5C, CHR 0x5C), (CHR 0x08, CHR ''b''), (CHR 0x0C, CHR ''f''),
     (CHR 0x0A, CHR ''n''), (CHR 0x0D, CHR ''r''), (CHR 0x09, CHR ''t'')]"

lemma escape_cases:
  obtains (short) d where "escape_char c = [CHR 0x5C, d]" "unescape d = Some c" "d \<noteq> CHR ''u''"
  | (control) "escape_char c = [CHR 0x5C, CHR ''u'', CHR ''0'', CHR ''0'', hex_digit (code c div 16), hex_digit (code c mod 16)]"
      "code c < 32"
  | (plain) "escape_char c = [c]" "\<not> code c < 32" "c \<noteq> CHR 0x22" "c \<noteq> CHR 0x5C"
proof (cases "map_of short_escapes c")
  case (Some d)
  then have "escape_char c = [CHR 0x5C, d] \<and> unescape d = Some c \<and> d \<noteq> CHR ''u''"
    by (auto simp: short_escapes_def escape_char_def unescape_def split: if_splits)
  then show ?thesis using short by blast
next
  case None
  then show ?thesis
    using control plain by (auto simp: short_escapes_def escape_char_def split: if_splits)
qed

lemma parse_escaped:
  "parse_chars (Suc n) (escape_char c @ t) = map_option (\<lambda>(x, r). (c # x, r)) (parse_chars n t)"
proof (cases c rule: escape_cases)
  case (short d)
  then show ?thesis by (simp add: code_def)
next
  case control
  have code_bs: "code CHR 0x5C = 92" by (simp add: code_def)
  have "utf8 (code c) = [c]" "\<not> is_high (code c)"
    using control(2) by (auto simp: utf8_def is_high_def code_def)
  with control show ?thesis by (simp add: hex4_escape code_bs)
next
  case plain
  then show ?thesis by simp
qed

lemma parse_quoted:
  "length s < n \<Longrightarrow> parse_chars n (concat (map escape_char s) @ CHR 0x22 # r) = Some (s, r)"
proof (induction s arbitrary: n)
  case Nil
  then show ?case by (cases n) auto
next
  case (Cons c s)
  then obtain m where "n = Suc m" "length s < m" by (cases n) auto
  with Cons.IH [of m] show ?case by (simp add: parse_escaped)
qed

lemma escape_length: "length s \<le> length (concat (map escape_char s))"
proof (induction s)
  case (Cons c s)
  have "1 \<le> length (escape_char c)" by (cases c rule: escape_cases) auto
  with Cons show ?case by (simp del: length_greater_0_conv One_nat_def)
qed simp

lemma quote_length: "length s < length (quote s)"
  using escape_length [of s] by (simp add: quote_def)

section \<open>Values\<close>

text \<open>Values \<open>JSON.parse\<close> can return: no \<open>undefined\<close>, distinct property names.\<close>

fun plain_json :: "jsv \<Rightarrow> bool" where
  "plain_json JUndef = False"
| "plain_json (JNum n) = has_decimals n"
| "plain_json (JArr vs) = list_all plain_json vs"
| "plain_json (JObj ps) = (distinct (map fst ps) \<and> list_all (\<lambda>kv. plain_json (snd kv)) ps)"
| "plain_json _ = True"

text \<open>What a value parser has to read: the text of a value, with enough fuel.\<close>

definition reads :: "nat \<Rightarrow> jsv \<Rightarrow> bool" where
  "reads i v \<longleftrightarrow> (\<forall>n r. 2 * length (json_pretty i v) \<le> n \<longrightarrow> stops r \<longrightarrow>
     parse_val n (json_pretty i v @ r) = Some (v, r))"

lemma skip_ws_indent [simp]: "skip_ws (newline_indent k @ s) = skip_ws s"
  by (induction k) (auto simp: skip_ws_def newline_indent_def json_ws_def)

lemma skip_ws_simps [simp]: "skip_ws [] = []" "skip_ws (c # s) = (if json_ws c then skip_ws s else c # s)"
  by (simp_all add: skip_ws_def)

lemma json_ws_chars [simp]: "json_ws CHR 0x20" "\<not> json_ws CHR '':''" "\<not> json_ws CHR '',''" "\<not> json_ws CHR '']''"
  "\<not> json_ws CHR ''}''" "\<not> json_ws CHR ''{''" "\<not> json_ws CHR ''[''" "\<not> json_ws CHR 0x22"
  "\<not> json_ws CHR ''t''" "\<not> json_ws CHR ''f''" "\<not> json_ws CHR ''n''"
  by (simp_all add: json_ws_def)

lemma parse_val_skip: "skip_ws s = skip_ws t \<Longrightarrow> parse_val n s = parse_val n t"
  by (cases n) simp_all

lemma parse_val_indent [simp]: "parse_val n (newline_indent k @ s) = parse_val n s"
  by (rule parse_val_skip) simp

lemma parse_val_space [simp]: "parse_val n (CHR 0x20 # s) = parse_val n s"
  by (rule parse_val_skip) simp

lemma stops_marks_json [simp]: "stops (newline_indent k @ s)" "stops (CHR '','' # s)" "stops (CHR '']'' # s)" "stops (CHR ''}'' # s)"
  by (simp_all add: stops_def newline_indent_def is_digit_def code_def)

lemma starts_with_Nil [simp]: "starts_with [] s"
  by (simp add: starts_with_def)

lemma parse_number_none: "starts_with ''-'' s = False \<Longrightarrow> takeWhile is_digit s = [] \<Longrightarrow> parse_number s = None"
  using scan_digits [of s] by (cases "scan_number s") (simp add: parse_number_def)

lemma parse_number_head:
  assumes "parse_number s = Some y"
  shows "\<exists>c t. s = c # t \<and> (c = CHR ''-'' \<or> is_digit c)"
proof (rule ccontr)
  assume no: "\<nexists>c t. s = c # t \<and> (c = CHR ''-'' \<or> is_digit c)"
  have "starts_with ''-'' s = False" using no by (cases s) auto
  moreover have "takeWhile is_digit s = []" using no by (cases s) auto
  ultimately show False using parse_number_none assms by auto
qed

lemma digit_chars: "is_digit c \<Longrightarrow> \<not> json_ws c \<and> c \<noteq> CHR '']'' \<and> c \<noteq> CHR ''}'' \<and> c \<noteq> CHR ''{'' \<and> c \<noteq> CHR ''['' \<and>
    c \<noteq> CHR 0x22 \<and> c \<noteq> CHR ''t'' \<and> c \<noteq> CHR ''f'' \<and> c \<noteq> CHR ''n''"
  by (auto simp: is_digit_def code_def json_ws_def)

lemma show_rat_head: "has_decimals n \<Longrightarrow> \<exists>c t. show_rat n = c # t \<and> (c = CHR ''-'' \<or> is_digit c)"
  using parse_number_head [OF parse_show_rat [of n "[]"]] by simp

lemma pretty_head:
  "plain_json v \<Longrightarrow> \<exists>c t. json_pretty i v = c # t \<and> \<not> json_ws c \<and> c \<noteq> CHR '']'' \<and> c \<noteq> CHR ''}''"
proof (cases v)
  case (JNum n)
  assume "plain_json v"
  with JNum obtain c t where c: "show_rat n = c # t" "c = CHR ''-'' \<or> is_digit c" using show_rat_head [of n] by auto
  then have "\<not> json_ws c \<and> c \<noteq> CHR '']'' \<and> c \<noteq> CHR ''}''"
    using digit_chars [of c] by (elim disjE) (simp_all add: json_ws_def)
  with JNum c(1) show ?thesis by simp
qed (simp_all add: quote_def Let_def)

lemma skip_ws_pretty: "plain_json v \<Longrightarrow> skip_ws (json_pretty i v @ r) = json_pretty i v @ r"
  using pretty_head [of v i] by auto

lemma reads_number: "has_decimals n \<Longrightarrow> reads i (JNum n)"
proof -
  assume n: "has_decimals n"
  obtain c t where c: "show_rat n = c # t" "c = CHR ''-'' \<or> is_digit c" using show_rat_head [OF n] by blast
  then have marks: "\<not> json_ws c \<and> c \<noteq> CHR ''{'' \<and> c \<noteq> CHR ''['' \<and> c \<noteq> CHR 0x22 \<and> c \<noteq> CHR ''t'' \<and> c \<noteq> CHR ''f'' \<and> c \<noteq> CHR ''n''"
    using digit_chars [of c] by (elim disjE) (simp_all add: json_ws_def)
  have "parse_val k (c # t @ r) = Some (JNum n, r)" if "2 * length (show_rat n) \<le> k" "stops r" for k r
  proof -
    have "k \<noteq> 0" using that(1) c(1) by (intro notI) simp
    then obtain m where "k = Suc m" by (cases k) auto
    moreover have "parse_number (c # t @ r) = Some (n, r)" using parse_show_rat [OF n that(2)] c(1) by simp
    moreover have "skip_ws (c # t @ r) = c # t @ r" using marks by simp
    ultimately show ?thesis using marks by (auto simp del: skip_ws_simps)
  qed
  with c(1) show ?thesis by (simp add: reads_def)
qed

lemma reads_simple: "reads i JNull" "reads i (JBool b)" "reads i (JStr s)"
proof -
  have more: "\<exists>m. n = Suc m" if "8 \<le> n" for n :: nat using that by (cases n) auto
  then have more': "\<exists>m. n = Suc m" if "10 \<le> n" for n :: nat using that by simp
  show "reads i JNull" by (auto simp: reads_def dest!: more)
  show "reads i (JBool b)"
    by (cases b) (auto simp: reads_def dest!: more more')
  show "reads i (JStr s)"
    unfolding reads_def
  proof (intro allI impI)
    fix n r
    assume "2 * length (json_pretty i (JStr s)) \<le> n"
    then obtain m where "n = Suc m" "length s < m" using quote_length [of s] by (cases n) auto
    then show "parse_val n (json_pretty i (JStr s) @ r) = Some (JStr s, r)"
      by (simp add: quote_def parse_quoted)
  qed
qed

definition item_text :: "nat \<Rightarrow> jsv \<Rightarrow> string" where
  "item_text j v = newline_indent j @ json_pretty j v"

definition member_text :: "nat \<Rightarrow> string \<times> jsv \<Rightarrow> string" where
  "member_text j kv = newline_indent j @ quote (fst kv) @ '': '' @ json_pretty j (snd kv)"

lemma text_lengths: "length (item_text j v) = Suc j + length (json_pretty j v)"
  "length (member_text j (k, v)) = Suc j + length (quote k) + 2 + length (json_pretty j v)"
  by (simp_all add: item_text_def member_text_def newline_indent_def)

lemma parse_val_item [simp]: "parse_val n (item_text j v @ s) = parse_val n (json_pretty j v @ s)"
  by (simp add: item_text_def)

lemma parse_items_text:
  "vs \<noteq> [] \<Longrightarrow> \<forall>v\<in>set vs. reads j v \<Longrightarrow>
   2 * length (js_join '','' (map (item_text j) vs)) < n \<Longrightarrow>
   parse_items n (js_join '','' (map (item_text j) vs) @ newline_indent i @ '']'' @ r) = Some (vs, r)"
proof (induction vs arbitrary: n rule: induct_list012)
  case (2 v)
  then obtain m where m: "n = Suc m" by (cases n) auto
  with 2 have "parse_val m (json_pretty j v @ newline_indent i @ '']'' @ r) = Some (v, newline_indent i @ '']'' @ r)"
    by (auto simp: reads_def text_lengths)
  with m show ?case by simp
next
  case (3 v w vs)
  let ?r = "js_join '','' (map (item_text j) (w # vs)) @ newline_indent i @ '']'' @ r"
  obtain m where m: "n = Suc m" using 3 by (cases n) auto
  with 3(4,5) have "parse_val m (json_pretty j v @ CHR '','' # ?r) = Some (v, CHR '','' # ?r)"
    by (auto simp: reads_def text_lengths)
  moreover have "parse_items m ?r = Some (w # vs, r)"
    using 3(4,5) m by (intro 3(2)) (auto simp: text_lengths)
  ultimately show ?case using m by (simp del: js_join.simps add: js_join.simps(3) [of _ "item_text j v"])
qed simp

lemma set_prop_new: "k \<notin> fst ` set ps \<Longrightarrow> set_prop k v ps = ps @ [(k, v)]"
  by (induction ps) auto

lemma parse_member:
  assumes "reads j v" "k \<notin> fst ` set acc" "2 * length (member_text j (k, v)) < Suc m" "stops s"
  shows "parse_members (Suc m) acc (member_text j (k, v) @ s) = (case skip_ws s of [] \<Rightarrow> None
     | c # r \<Rightarrow> if c = CHR ''}'' then Some (acc @ [(k, v)], r)
         else if c = CHR '','' then parse_members m (acc @ [(k, v)]) r else None)"
proof -
  have "length k < m" using assms(3) quote_length [of k] by (simp add: text_lengths)
  then have "parse_chars m (concat (map escape_char k) @ CHR 0x22 # z) = Some (k, z)" for z
    by (rule parse_quoted)
  moreover have "parse_val m (json_pretty j v @ s) = Some (v, s)"
    using assms(1,3,4) by (auto simp: reads_def text_lengths)
  ultimately show ?thesis
    using set_prop_new [OF assms(2)] by (simp add: member_text_def quote_def split: list.split)
qed

lemma parse_members_text:
  "ps \<noteq> [] \<Longrightarrow> \<forall>kv\<in>set ps. reads j (snd kv) \<Longrightarrow> distinct (map fst (acc @ ps)) \<Longrightarrow>
   2 * length (js_join '','' (map (member_text j) ps)) < n \<Longrightarrow>
   parse_members n acc (js_join '','' (map (member_text j) ps) @ newline_indent i @ ''}'' @ r) = Some (acc @ ps, r)"
proof (induction ps arbitrary: n acc rule: induct_list012)
  case (2 kv)
  obtain k v where kv: "kv = (k, v)" by (cases kv)
  obtain m where m: "n = Suc m" using 2 by (cases n) auto
  have "k \<notin> fst ` set acc" "reads j v" using 2 kv by auto
  with parse_member [of j v k acc m "newline_indent i @ ''}'' @ r"] 2(4) m kv show ?case by simp
next
  case (3 kv w ps)
  let ?r = "js_join '','' (map (member_text j) (w # ps)) @ newline_indent i @ ''}'' @ r"
  obtain k v where kv: "kv = (k, v)" by (cases kv)
  obtain m where m: "n = Suc m" using 3 by (cases n) auto
  have "k \<notin> fst ` set acc" "reads j v" using 3 kv by auto
  moreover have "2 * length (member_text j (k, v)) < Suc m" using 3(6) m kv by simp
  ultimately have "parse_members n acc (member_text j (k, v) @ CHR '','' # ?r) = parse_members m (acc @ [(k, v)]) ?r"
    using m parse_member [of j v k acc m "CHR '','' # ?r"] by (simp del: js_join.simps parse_members.simps)
  also have "\<dots> = Some ((acc @ [(k, v)]) @ w # ps, r)"
    using 3(4,5,6) kv m by (intro 3(2)) (auto simp: text_lengths)
  finally show ?case using kv by (simp del: js_join.simps parse_members.simps add: js_join.simps(3) [of _ "member_text j (k, v)"])
qed simp

lemma reads_array:
  assumes "\<And>v. v \<in> set vs \<Longrightarrow> reads (i + 2) v" "list_all plain_json vs"
  shows "reads i (JArr vs)"
proof (cases vs)
  case Nil
  have more: "\<exists>m. n = Suc m" if "4 \<le> n" for n :: nat using that by (cases n) auto
  from Nil show ?thesis by (auto simp: reads_def dest!: more)
next
  case (Cons v ws)
  let ?t = "js_join '','' (map (item_text (i + 2)) vs)"
  have printed: "json_pretty i (JArr vs) = CHR ''['' # ?t @ newline_indent i @ '']''"
    using Cons by (simp add: item_text_def [abs_def])
  have "parse_val n (json_pretty i (JArr vs) @ r) = Some (JArr vs, r)"
    if "2 * length (json_pretty i (JArr vs)) \<le> n" for n r
  proof -
    note len = that [unfolded printed]
    then have "n \<noteq> 0" by (intro notI) simp
    then obtain m where m: "n = Suc m" by (cases n) auto
    have "plain_json v" using assms(2) Cons by simp
    then obtain c t where c: "json_pretty (i + 2) v = c # t" "\<not> json_ws c" "c \<noteq> CHR '']''" using pretty_head by blast
    have "\<exists>z. skip_ws (?t @ newline_indent i @ '']'' @ r) = c # z"
      using Cons c by (cases ws) (auto simp: item_text_def)
    then have "\<not> starts_with '']'' (skip_ws (?t @ newline_indent i @ '']'' @ r))" using c(3) by auto
    moreover have "parse_items m (?t @ newline_indent i @ '']'' @ r) = Some (vs, r)"
      using assms(1) Cons len m by (intro parse_items_text) auto
    ultimately show ?thesis unfolding printed using m by simp
  qed
  then show ?thesis by (simp add: reads_def)
qed

lemma reads_object:
  assumes "\<And>kv. kv \<in> set ps \<Longrightarrow> reads (i + 2) (snd kv)" "plain_json (JObj ps)"
  shows "reads i (JObj ps)"
proof (cases ps)
  case Nil
  have more: "\<exists>m. n = Suc m" if "4 \<le> n" for n :: nat using that by (cases n) auto
  from Nil show ?thesis by (auto simp: reads_def dest!: more)
next
  case (Cons kv qs)
  let ?t = "js_join '','' (map (member_text (i + 2)) ps)"
  have defined: "\<forall>kv\<in>set ps. snd kv \<noteq> JUndef" using assms(2) by (auto simp: list_all_iff)
  have "concat (map (\<lambda>(k, v). if v = JUndef then [] else
      [newline_indent (i + 2) @ quote k @ '': '' @ json_pretty (i + 2) v]) ps) = map (member_text (i + 2)) ps"
    using defined by (induction ps) (auto simp: member_text_def)
  moreover have "filter (\<lambda>(_, v). v \<noteq> JUndef) ps = ps" using defined by (auto simp: filter_id_conv)
  ultimately have printed: "json_pretty i (JObj ps) = CHR ''{'' # ?t @ newline_indent i @ ''}''"
    using Cons by (simp add: Let_def)
  have "parse_val n (json_pretty i (JObj ps) @ r) = Some (JObj ps, r)"
    if "2 * length (json_pretty i (JObj ps)) \<le> n" for n r
  proof -
    note len = that [unfolded printed]
    then have "n \<noteq> 0" by (intro notI) simp
    then obtain m where m: "n = Suc m" by (cases n) auto
    have "\<exists>z. skip_ws (?t @ newline_indent i @ ''}'' @ r) = CHR 0x22 # z"
      using Cons by (cases qs; cases kv) (auto simp: member_text_def quote_def)
    then have "\<not> starts_with ''}'' (skip_ws (?t @ newline_indent i @ ''}'' @ r))" by auto
    moreover have "parse_members m [] (?t @ newline_indent i @ ''}'' @ r) = Some ([] @ ps, r)"
      using assms Cons len m by (intro parse_members_text) auto
    ultimately show ?thesis unfolding printed using m by simp
  qed
  then show ?thesis by (simp add: reads_def)
qed

lemma reads_plain: "plain_json v \<Longrightarrow> reads i v"
proof (induction v arbitrary: i)
  case (JArr vs)
  then show ?case by (intro reads_array) (auto simp: list_all_iff)
next
  case (JObj ps)
  then show ?case by (intro reads_object) (auto simp: list_all_iff snds.intros)
qed (auto simp: reads_number reads_simple)

lemma JSON_roundtrip: "plain_json v \<Longrightarrow> JSON_parse (JSON_stringify v) = Some v"
proof -
  assume v: "plain_json v"
  then have "parse_val (2 * length (json_pretty 0 v) + 2) (json_pretty 0 v @ []) = Some (v, [])"
    using reads_plain [OF v, of 0, unfolded reads_def, rule_format, of "2 * length (json_pretty 0 v) + 2" "[]"] by simp
  moreover have "v \<noteq> JUndef" using v by auto
  ultimately show ?thesis by (simp add: JSON_parse_def JSON_stringify_def)
qed

section \<open>Reading an exported document as credentials\<close>

lemma trim_id: "s = c # m @ [d] \<Longrightarrow> \<not> is_ws c \<Longrightarrow> \<not> is_ws d \<Longrightarrow> js_trim s = s"
  by (simp add: js_trim_def trim_start_def trim_end_def)

lemma trim_object: "js_trim (JSON_stringify (JObj ps)) = JSON_stringify (JObj ps)"
proof -
  have "\<exists>m. json_pretty 0 (JObj ps) = CHR ''{'' # m @ [CHR ''}'']" by (auto simp: Let_def)
  then show ?thesis by (auto simp: JSON_stringify_def is_ws_def simp del: json_pretty.simps intro: trim_id)
qed

lemma parseCredentials_document:
  "plain_json (JObj ps) \<Longrightarrow> map_of ps ''accounts'' = Some (JArr accs) \<Longrightarrow>
     parseCredentials (JSON_stringify (JObj ps)) = (map cred_item (filter is_object accs), 0)"
  by (simp add: parseCredentials_def trim_object JSON_roundtrip raw_items_def)

lemma prop_of_changes:
  "prop_of (del_prop k' ps) k = (if k = k' then JUndef else prop_of ps k)"
  "prop_of (set_prop k' v ps) k = (if k = k' then v else prop_of ps k)"
  by (simp_all add: prop_of_def)

text \<open>A property of the nested credentials overrides the one of the account; the two that have a
  fallback keep their value unless it is empty.\<close>

lemma cred_item_nested:
  assumes "map_of ps ''credentials'' = Some (JObj cs)" "distinct (map fst cs)" "map_of cs k = Some v"
    and "k \<noteq> ''credentials''" "k \<in> {''authMethod'', ''provider''} \<Longrightarrow> truthy v"
  shows "prop_of (cred_item (JObj ps)) k = v"
proof -
  have "map_of (rev cs) k = map_of cs k"
    using assms(2,3) by (simp add: map_of_eq_Some_iff rev_map [symmetric])
  then have merged: "prop_of (spread ps cs) k = v" using assms(3) by (simp add: prop_of_def map_of_spread)
  define i1 where "i1 = del_prop ''credentials'' (spread ps cs)"
  define i2 where "i2 = (if \<not> truthy (prop_of i1 ''authMethod'') \<and> truthy (prop_of i1 ''tokenEndpoint'')
    then set_prop ''authMethod'' (JStr ''external_idp'') i1 else i1)"
  have 1: "prop_of i1 k = v" using merged assms(4) by (simp add: i1_def prop_of_changes)
  have 2: "prop_of i2 k = v"
    using 1 assms(5) by (cases "k = ''authMethod''") (auto simp: i2_def prop_of_changes)
  have "cred_item (JObj ps) = (if \<not> truthy (prop_of i2 ''provider'') \<and> truthy (get_prop (JObj ps) ''idp'')
    then set_prop ''provider'' (get_prop (JObj ps) ''idp'') i2 else i2)"
    using assms(1) by (simp add: cred_item_def own_props_def i2_def i1_def Let_def)
  with 2 assms(5) show ?thesis by (cases "k = ''provider''") (auto simp: prop_of_changes)
qed

end
