(* ===== verification/Api_Keys.thy ===== *)
theory Api_Keys
  imports Accounts_Shared Data_Table Model_Combobox Json
begin

text \<open>
  \<open>dashboard/src/pages/api-keys/index.tsx\<close>: the list of API keys with their limits and usage, the
  switch that makes a key mandatory, and the dialog that creates or edits a key. The dialog is a
  component of its own: it reports to the page through \<open>onClose\<close> and \<open>onCreated\<close>. A mutation of the
  query library runs its request, then its handler of success or of error, and is pending meanwhile.
  The form is sent by its submit button only: a browser does not submit a form whose submit button is
  disabled when Enter is pressed in a field.
\<close>

section \<open>Data\<close>

record ApiKey =
  k_id :: string
  k_name :: string
  k_masked :: string
  k_enabled :: bool
  k_migrated :: bool
  k_createdAt :: int
  k_lastUsedAt :: int
  k_tokenLimit :: "rat option"
  k_creditLimit :: "rat option"
  k_rpmLimit :: "rat option"
  k_concurrencyLimit :: "rat option"
  k_allowedModels :: "string list option"
  k_tokensUsed :: rat
  k_creditsUsed :: rat
  k_requestsCount :: rat

record key_form =
  f_name :: string
  f_key :: string
  f_enabled :: bool
  f_tokenLimit :: string
  f_creditLimit :: string
  f_rpmLimit :: string
  f_concurrencyLimit :: string
  f_allowedModels :: string

definition emptyForm :: key_form where
  "emptyForm = \<lparr>f_name = [], f_key = [], f_enabled = True, f_tokenLimit = ''0'', f_creditLimit = ''0'',
     f_rpmLimit = ''0'', f_concurrencyLimit = ''0'', f_allowedModels = []\<rparr>"

definition splitModels :: "string \<Rightarrow> string list" where
  "splitModels s = filter (\<lambda>m. m \<noteq> []) (map js_trim (comma_lines s))"

definition num_or_0 :: "rat option \<Rightarrow> rat" where
  "num_or_0 v = (case v of None \<Rightarrow> 0 | Some n \<Rightarrow> n)"

definition models_or_none :: "string list option \<Rightarrow> string list" where
  "models_or_none v = (case v of None \<Rightarrow> [] | Some ms \<Rightarrow> ms)"

definition toForm :: "ApiKey \<Rightarrow> key_form" where
  "toForm k = \<lparr>f_name = k_name k, f_key = [], f_enabled = k_enabled k,
     f_tokenLimit = show_rat (num_or_0 (k_tokenLimit k)), f_creditLimit = show_rat (num_or_0 (k_creditLimit k)),
     f_rpmLimit = show_rat (num_or_0 (k_rpmLimit k)), f_concurrencyLimit = show_rat (num_or_0 (k_concurrencyLimit k)),
     f_allowedModels = js_join '', '' (models_or_none (k_allowedModels k))\<rparr>"

definition validNumber :: "string \<Rightarrow> bool \<Rightarrow> bool" where
  "validNumber s integer \<longleftrightarrow> js_trim s \<noteq> [] \<and>
     (case js_Number s of None \<Rightarrow> False | Some n \<Rightarrow> n \<ge> 0 \<and> (integer \<longrightarrow> of_int \<lfloor>n\<rfloor> = n))"

section \<open>Mutations\<close>

definition settle :: "(bool \<Rightarrow> 's \<Rightarrow> 's) \<Rightarrow> 's act \<Rightarrow> (jerr \<Rightarrow> 's act) \<Rightarrow> (jerr \<Rightarrow> 's act) \<Rightarrow> 's act" where
  "settle setPending f onError rethrow = Upd (setPending True)
     (finally_do (catch f (\<lambda>e. andThen (onError e) (rethrow e))) (Upd (setPending False) Done))"

definition mutate :: "(bool \<Rightarrow> 's \<Rightarrow> 's) \<Rightarrow> 's act \<Rightarrow> (jerr \<Rightarrow> 's act) \<Rightarrow> 's act" where
  "mutate setPending f onError = settle setPending f onError (\<lambda>_. Done)"

definition mutateAsync :: "(bool \<Rightarrow> 's \<Rightarrow> 's) \<Rightarrow> 's act \<Rightarrow> (jerr \<Rightarrow> 's act) \<Rightarrow> 's act" where
  "mutateAsync setPending f onError = settle setPending f onError Throw"

definition toast_error :: "ui \<Rightarrow> jerr \<Rightarrow> 's act" where
  "toast_error E e = Emit (ToastErr (errorMessage_or (tx E ''common.unknownError'') e)) Done"

section \<open>The key dialog\<close>

record key_dialog =
  kd_initial :: "ApiKey option"
  kd_form :: key_form
  kd_pending :: bool
  kd_options :: "string list option"

type_synonym kdact = "key_dialog act"

definition key_dialog_mount :: "ApiKey option \<Rightarrow> key_dialog" where
  "key_dialog_mount initial = \<lparr>kd_initial = initial, kd_form = (case initial of None \<Rightarrow> emptyForm | Some k \<Rightarrow> toForm k),
     kd_pending = False, kd_options = None\<rparr>"

text \<open>A numeric field: its name in the body, its label, whether it is an integer, its value and update.\<close>

record num_field =
  nf_name :: string
  nf_label :: string
  nf_integer :: bool
  nf_get :: "key_form \<Rightarrow> string"
  nf_set :: "string \<Rightarrow> key_form \<Rightarrow> key_form"

definition numFields :: "num_field list" where
  "numFields = [
     \<lparr>nf_name = ''tokenLimit'', nf_label = ''apiKeys.limitTokens'', nf_integer = True, nf_get = f_tokenLimit,
       nf_set = (\<lambda>v f. f\<lparr>f_tokenLimit := v\<rparr>)\<rparr>,
     \<lparr>nf_name = ''creditLimit'', nf_label = ''apiKeys.limitCredits'', nf_integer = False, nf_get = f_creditLimit,
       nf_set = (\<lambda>v f. f\<lparr>f_creditLimit := v\<rparr>)\<rparr>,
     \<lparr>nf_name = ''rpmLimit'', nf_label = ''apiKeys.limitRpm'', nf_integer = True, nf_get = f_rpmLimit,
       nf_set = (\<lambda>v f. f\<lparr>f_rpmLimit := v\<rparr>)\<rparr>,
     \<lparr>nf_name = ''concurrencyLimit'', nf_label = ''apiKeys.limitConcurrency'', nf_integer = True, nf_get = f_concurrencyLimit,
       nf_set = (\<lambda>v f. f\<lparr>f_concurrencyLimit := v\<rparr>)\<rparr>]"

definition field_error :: "ui \<Rightarrow> key_form \<Rightarrow> num_field \<Rightarrow> string" where
  "field_error E f nf = (if validNumber (nf_get nf f) (nf_integer nf) then []
     else tx E (if nf_integer nf then ''apiKeys.invalidInteger'' else ''apiKeys.invalidNumber''))"

text \<open>Every error is the empty text (a translation is never empty).\<close>

definition form_valid :: "ui \<Rightarrow> key_form \<Rightarrow> bool" where
  "form_valid E f = list_all (\<lambda>nf. field_error E f nf = []) numFields"

text \<open>A number in a body: JSON has no \<open>NaN\<close>.\<close>

definition num_value :: "string \<Rightarrow> jsv" where
  "num_value s = (case js_Number s of None \<Rightarrow> JNull | Some n \<Rightarrow> JNum n)"

definition key_body :: "key_form \<Rightarrow> (string \<times> jsv) list" where
  "key_body f = [(''name'', JStr (js_trim (f_name f))), (''enabled'', JBool (f_enabled f)),
     (''tokenLimit'', num_value (f_tokenLimit f)), (''creditLimit'', num_value (f_creditLimit f)),
     (''rpmLimit'', num_value (f_rpmLimit f)), (''concurrencyLimit'', num_value (f_concurrencyLimit f)),
     (''allowedModels'', jstrs (splitModels (f_allowedModels f)))]"

definition save_request :: "key_dialog \<Rightarrow> request" where
  "save_request s = (case kd_initial s of
     Some k \<Rightarrow> Http ''PUT'' (''/api-keys/'' @ k_id k) (JsonBody (obj (key_body (kd_form s))))
   | None \<Rightarrow> Http ''POST'' ''/api-keys'' (JsonBody (obj (key_body (kd_form s) @
       [(''key'', if js_trim (f_key (kd_form s)) \<noteq> [] then JStr (js_trim (f_key (kd_form s))) else JUndef)]))))"

definition key_saved :: "ui \<Rightarrow> key_dialog \<Rightarrow> jsv \<Rightarrow> kdact" where
  "key_saved E s res = Emit (Invalidate [''api-keys'']) (case kd_initial s of
     Some k \<Rightarrow> Emit (ToastOk (tx E ''apiKeys.updated'')) (Emit (Parent ''onClose'' JUndef) Done)
   | None \<Rightarrow> Emit (ToastOk (tx E ''apiKeys.created'')) (get_field res ''key'' (\<lambda>v. Emit (Parent ''onCreated'' v) Done)))"

definition saveM :: "ui \<Rightarrow> key_dialog \<Rightarrow> kdact" where
  "saveM E s = mutate (\<lambda>b x. x\<lparr>kd_pending := b\<rparr>) (await (save_request s) (key_saved E s)) (toast_error E)"

definition key_submit :: "ui \<Rightarrow> key_dialog \<Rightarrow> kdact" where
  "key_submit E s = (if form_valid E (kd_form s) then saveM E s else Done)"

definition set_form :: "(key_form \<Rightarrow> key_form) \<Rightarrow> kdact" where
  "set_form f = Upd (\<lambda>x. x\<lparr>kd_form := f (kd_form x)\<rparr>) Done"

definition close_dialog :: kdact where
  "close_dialog = Emit (Parent ''onClose'' JUndef) Done"

definition num_input :: "ui \<Rightarrow> key_dialog \<Rightarrow> num_field \<Rightarrow> kdact view" where
  "num_input E s nf = (let err = field_error E (kd_form s) nf in El ''div'' [] [
     El ''Label'' [aS ''htmlFor'' (''k-'' @ nf_name nf)] [Txt (tx E (nf_label nf))],
     El ''Input'' [aS ''id'' (''k-'' @ nf_name nf), aS ''type'' ''number'', aN ''min'' 0,
       aS ''step'' (if nf_integer nf then ''1'' else ''any''), aS ''value'' (nf_get nf (kd_form s)),
       onS ''onChange'' (\<lambda>v. set_form (nf_set nf v)), aB ''aria-invalid'' (err \<noteq> [])] [],
     El ''p'' [] [Txt (or_str err (tx E ''apiKeys.limitHint''))]])"

definition KeyDialog :: "ui \<Rightarrow> key_dialog \<Rightarrow> kdact view" where
  "KeyDialog E s = El ''Dialog'' [aB ''open'' True, onB ''onOpenChange'' (\<lambda>o1. if o1 then Done else close_dialog)] [
     El ''DialogContent'' [] [
       El ''DialogHeader'' [] [El ''DialogTitle'' []
         [Txt (tx E (if kd_initial s \<noteq> None then ''apiKeys.modalTitleEdit'' else ''apiKeys.modalTitleCreate''))]],
       El ''form'' [] [
         El ''div'' [] [
           El ''Label'' [aS ''htmlFor'' ''k-name''] [Txt (tx E ''apiKeys.formName'')],
           El ''Input'' [aS ''id'' ''k-name'', aS ''value'' (f_name (kd_form s)),
             onS ''onChange'' (\<lambda>v. set_form (\<lambda>f. f\<lparr>f_name := v\<rparr>)), aS ''placeholder'' (tx E ''apiKeys.formNamePlaceholder'')] []],
         El ''div'' [] [
           El ''Label'' [aS ''htmlFor'' ''k-key''] [Txt (tx E ''apiKeys.formKey'')],
           (case kd_initial s of
              Some k \<Rightarrow> El ''Input'' [aS ''id'' ''k-key'', aS ''value'' (k_masked k), aB ''readOnly'' True] []
            | None \<Rightarrow> El ''Input'' [aS ''id'' ''k-key'', aS ''value'' (f_key (kd_form s)),
                onS ''onChange'' (\<lambda>v. set_form (\<lambda>f. f\<lparr>f_key := v\<rparr>)), aS ''placeholder'' (tx E ''apiKeys.formKeyPlaceholder'')] [])],
         El ''label'' [] [
           El ''Switch'' [aB ''checked'' (f_enabled (kd_form s)), onB ''onCheckedChange'' (\<lambda>v. set_form (\<lambda>f. f\<lparr>f_enabled := v\<rparr>))] [],
           Txt ('' '' @ tx E ''apiKeys.formEnabled'')],
         El ''div'' [] (map (num_input E s) numFields),
         El ''div'' [] [
           El ''Label'' [] [Txt (tx E ''apiKeys.allowedModels'')],
           ModelListPicker E (splitModels (f_allowedModels (kd_form s)))
             (\<lambda>ms. set_form (\<lambda>f. f\<lparr>f_allowedModels := js_join '', '' ms\<rparr>))
             (models_or_none (kd_options s)) (tx E ''apiKeys.addModel'') ''secondary'',
           El ''p'' [] [Txt (tx E ''apiKeys.allowedModelsHint'')]],
         El ''DialogFooter'' [] [
           El ''Button'' [aS ''type'' ''button'', aS ''variant'' ''outline'', on ''onClick'' close_dialog, aB ''disabled'' (kd_pending s)]
             [Txt (tx E ''apiKeys.cancelBtn'')],
           El ''Button'' [aS ''type'' ''submit'', on ''onSubmit'' (key_submit E s),
               aB ''disabled'' (\<not> form_valid E (kd_form s) \<or> kd_pending s)]
             [shown (kd_pending s) spinner, Txt (tx E ''apiKeys.saveBtn'')]]]]]"

end
