(* ===== verification/Api_Keys_Page.thy ===== *)
theory Api_Keys_Page
  imports Api_Keys Json_Roundtrip
begin

text \<open>
  \<open>dashboard/src/pages/api-keys/index.tsx\<close>: the page around the key dialog. Its state holds what the
  two queries have returned, which dialogs are open and the marks of the mutations.
\<close>

section \<open>State\<close>

datatype editing = NewKey | EditKey ApiKey

datatype key_confirm = ConfirmRequire | ConfirmDelete ApiKey | ConfirmReset ApiKey

record keys_st =
  ks_keys :: "ApiKey list option"
  ks_isLoading :: bool
  ks_error :: "jerr option"
  ks_settings :: jsv
  ks_settingsLoading :: bool
  ks_editing :: "editing option"
  ks_shownKey :: "(jsv \<times> bool) option"
  ks_copyingId :: "string option"
  ks_confirm :: "key_confirm option"
  ks_requirePending :: bool
  ks_togglePending :: bool
  ks_requireBusy :: bool
  ks_deleteBusy :: bool
  ks_resetBusy :: bool
  ks_copied :: bool
  ks_table :: table_state

type_synonym kpact = "keys_st act"

definition keys_mount :: keys_st where
  "keys_mount = \<lparr>ks_keys = None, ks_isLoading = True, ks_error = None, ks_settings = JUndef, ks_settingsLoading = True,
     ks_editing = None, ks_shownKey = None, ks_copyingId = None, ks_confirm = None, ks_requirePending = False,
     ks_togglePending = False, ks_requireBusy = False, ks_deleteBusy = False, ks_resetBusy = False, ks_copied = False,
     ks_table = initial_table 25\<rparr>"

definition keys_of :: "keys_st \<Rightarrow> ApiKey list" where
  "keys_of s = (case ks_keys s of None \<Rightarrow> [] | Some ks \<Rightarrow> ks)"

definition enabledCount :: "keys_st \<Rightarrow> nat" where
  "enabledCount s = length (filter k_enabled (keys_of s))"

section \<open>Actions\<close>

definition invalidateKeys :: "kpact \<Rightarrow> kpact" where
  "invalidateKeys k = Emit (Invalidate [''api-keys'']) k"

definition require_body :: "ui \<Rightarrow> bool \<Rightarrow> kpact" where
  "require_body E v = post ''/settings'' (JsonBody (obj [(''requireApiKey'', JBool v)])) (\<lambda>_.
     Emit (ToastOk (tx E ''apiKeys.settingSaved'')) (Emit (Invalidate [''settings'']) Done))"

definition requireM :: "ui \<Rightarrow> bool \<Rightarrow> kpact" where
  "requireM E v = mutate (\<lambda>b x. x\<lparr>ks_requirePending := b\<rparr>) (require_body E v) (toast_error E)"

definition toggleM :: "ui \<Rightarrow> ApiKey \<Rightarrow> kpact" where
  "toggleM E k = mutate (\<lambda>b x. x\<lparr>ks_togglePending := b\<rparr>)
     (put (''/api-keys/'' @ k_id k) (JsonBody (obj [(''enabled'', JBool (\<not> k_enabled k))])) (\<lambda>_.
        Emit (ToastOk (tx E ''apiKeys.updated'')) (invalidateKeys Done))) (toast_error E)"

definition setRequire :: "ui \<Rightarrow> keys_st \<Rightarrow> bool \<Rightarrow> kpact" where
  "setRequire E s v = (if v \<and> enabledCount s = 0 then Upd (\<lambda>x. x\<lparr>ks_confirm := Some ConfirmRequire\<rparr>) Done
     else requireM E v)"

definition copyExistingKey :: "ui \<Rightarrow> ApiKey \<Rightarrow> kpact" where
  "copyExistingKey E k = Upd (\<lambda>x. x\<lparr>ks_copyingId := Some (k_id k)\<rparr>) (finally_do
     (catch (get (''/api-keys/'' @ k_id k) (\<lambda>detail. get_field detail ''key'' (\<lambda>v.
        Upd (\<lambda>x. x\<lparr>ks_shownKey := Some (v, True)\<rparr>)
          (catch (await (WriteClipboard (js_string v)) (\<lambda>_. Emit (ToastOk (tx E ''common.copied'')) Done))
             (\<lambda>_. Emit (ToastErr (tx E ''common.failed'')) Done)))))
       (toast_error E))
     (Upd (\<lambda>x. x\<lparr>ks_copyingId := None\<rparr>) Done))"

definition close_key_confirm :: "bool \<Rightarrow> kpact" where
  "close_key_confirm o1 = (if o1 then Done else Upd (\<lambda>x. x\<lparr>ks_confirm := None\<rparr>) Done)"

definition confirm_require :: "ui \<Rightarrow> kpact" where
  "confirm_require E = mutateAsync (\<lambda>b x. x\<lparr>ks_requirePending := b\<rparr>) (require_body E True) (toast_error E)"

definition confirm_delete :: "ui \<Rightarrow> keys_st \<Rightarrow> kpact" where
  "confirm_delete E s = (case ks_confirm s of
     Some (ConfirmDelete k) \<Rightarrow> catch (del (''/api-keys/'' @ k_id k) (\<lambda>_.
        Emit (ToastOk (tx E ''apiKeys.deleteSuccess'')) (invalidateKeys Done))) (toast_error E)
   | _ \<Rightarrow> Done)"

definition confirm_reset :: "ui \<Rightarrow> keys_st \<Rightarrow> kpact" where
  "confirm_reset E s = (case ks_confirm s of
     Some (ConfirmReset k) \<Rightarrow> catch (post (''/api-keys/'' @ k_id k @ ''/reset-usage'') NoBody (\<lambda>_.
        Emit (ToastOk (tx E ''apiKeys.usageReset'')) (invalidateKeys Done))) (toast_error E)
   | _ \<Rightarrow> Done)"

section \<open>Columns\<close>

definition head_text :: "string \<Rightarrow> ApiKey table_model \<Rightarrow> kpact view" where
  "head_text h m = Txt h"

definition name_cell :: "ui \<Rightarrow> ApiKey leaf \<Rightarrow> kpact view" where
  "name_cell E r = (let k = l_original r in El ''div'' [] [
     El ''span'' [] [Txt (or_str (k_name k) (tx E ''apiKeys.unnamed''))],
     shown (k_migrated k) (El ''Badge'' [aS ''variant'' ''outline''] [Txt (tx E ''apiKeys.migrated'')])])"

definition masked_cell :: "ApiKey leaf \<Rightarrow> kpact view" where
  "masked_cell r = El ''code'' [] [Txt (k_masked (l_original r))]"

definition enabled_cell :: "ui \<Rightarrow> keys_st \<Rightarrow> ApiKey leaf \<Rightarrow> kpact view" where
  "enabled_cell E s r = El ''Switch'' [aB ''checked'' (k_enabled (l_original r)),
     onB ''onCheckedChange'' (\<lambda>_. toggleM E (l_original r)), aB ''disabled'' (ks_togglePending s)] []"

definition limited :: "rat option \<Rightarrow> bool" where
  "limited v = (case v of None \<Rightarrow> False | Some n \<Rightarrow> n \<noteq> 0)"

definition limit_text :: "ui \<Rightarrow> rat option \<Rightarrow> string \<Rightarrow> string" where
  "limit_text E v unit = (if limited v then formatNumber E v @ '' '' @ unit else unit @ '': '' @ tx E ''apiKeys.unlimited'')"

definition limits_cell :: "ui \<Rightarrow> ApiKey leaf \<Rightarrow> kpact view" where
  "limits_cell E r = (let k = l_original r; ms = models_or_none (k_allowedModels k) in El ''div'' [] [
     El ''div'' [] [Txt (limit_text E (k_tokenLimit k) (tx E ''apiKeys.tokens'') @ '' '' @ mid_dot @ '' '' @
       limit_text E (k_creditLimit k) (tx E ''apiKeys.credits''))],
     El ''div'' [] [Txt (limit_text E (k_rpmLimit k) (tx E ''apiKeys.rpm'') @ '' '' @ mid_dot @ '' '' @
       limit_text E (k_concurrencyLimit k) (tx E ''apiKeys.concurrency''))],
     El ''div'' [aS ''title'' (js_join '', '' ms)] [Txt (if ms \<noteq> []
       then tr E ''apiKeys.modelsAllowed'' [show_nat (length ms)] @ '': '' @ js_join '', '' (take 3 ms) @
         (if length ms > 3 then ellipsis else [])
       else tx E ''apiKeys.modelsAll'')]])"

definition usage_bar :: "ui \<Rightarrow> rat \<Rightarrow> rat option \<Rightarrow> string \<Rightarrow> kpact view" where
  "usage_bar E used limit label = El ''div'' [] [
     El ''span'' [] [Txt label],
     El ''span'' [] [Txt (formatNumber E (Some used) @ (if limited limit then '' / '' @ formatNumber E limit else []))],
     shown (limited limit) (El ''Progress'' [aN ''value'' (min 100 (used / num_or_0 limit * 100))] [])]"

definition UsageCell :: "ui \<Rightarrow> ApiKey leaf \<Rightarrow> kpact view" where
  "UsageCell E r = (let k = l_original r in El ''div'' [] [
     usage_bar E (k_tokensUsed k) (k_tokenLimit k) (tx E ''apiKeys.tokens''),
     usage_bar E (k_creditsUsed k) (k_creditLimit k) (tx E ''apiKeys.credits''),
     El ''div'' [] [Txt (tx E ''apiKeys.requests'' @ '': '' @ formatNumber E (Some (k_requestsCount k)))]])"

definition last_used_cell :: "ui \<Rightarrow> ApiKey leaf \<Rightarrow> kpact view" where
  "last_used_cell E r = El ''span'' [] [Txt (if k_lastUsedAt (l_original r) \<noteq> 0
     then formatTime E (k_lastUsedAt (l_original r)) else tx E ''apiKeys.never'')]"

definition created_cell :: "ui \<Rightarrow> ApiKey leaf \<Rightarrow> kpact view" where
  "created_cell E r = El ''span'' [] [Txt (formatTime E (k_createdAt (l_original r)))]"

definition key_actions_cell :: "ui \<Rightarrow> keys_st \<Rightarrow> ApiKey leaf \<Rightarrow> kpact view" where
  "key_actions_cell E s r = (let k = l_original r; copying = (ks_copyingId s = Some (k_id k)) in El ''div'' [] [
     El ''Button'' [aS ''variant'' ''ghost'', aS ''title'' (tx E ''apiKeys.actionCopy''), aS ''aria-label'' (tx E ''apiKeys.actionCopy''),
         on ''onClick'' (copyExistingKey E k), aB ''disabled'' copying] [if copying then spinner else ic ''LuCopy''],
     El ''Button'' [aS ''variant'' ''ghost'', aS ''title'' (tx E ''apiKeys.actionEdit''),
         on ''onClick'' (Upd (\<lambda>x. x\<lparr>ks_editing := Some (EditKey k)\<rparr>) Done)] [ic ''LuPencil''],
     El ''Button'' [aS ''variant'' ''ghost'', aS ''title'' (tx E ''apiKeys.actionReset''),
         on ''onClick'' (Upd (\<lambda>x. x\<lparr>ks_confirm := Some (ConfirmReset k)\<rparr>) Done)] [ic ''LuRotateCcw''],
     El ''Button'' [aS ''variant'' ''ghost'', aS ''title'' (tx E ''apiKeys.actionDelete''),
         on ''onClick'' (Upd (\<lambda>x. x\<lparr>ks_confirm := Some (ConfirmDelete k)\<rparr>) Done)] [ic ''LuTrash2'']])"

definition key_column :: "string \<Rightarrow> (ApiKey table_model \<Rightarrow> kpact view) \<Rightarrow> (ApiKey leaf \<Rightarrow> kpact view) \<Rightarrow> (ApiKey, keys_st) column" where
  "key_column i h c = \<lparr>col_id = i, col_header = h, col_cell = c\<rparr>"

definition key_columns :: "ui \<Rightarrow> keys_st \<Rightarrow> (ApiKey, keys_st) column list" where
  "key_columns E s = [
     key_column ''name'' (head_text (tx E ''apiKeys.colName'')) (name_cell E),
     key_column ''keyMasked'' (head_text (tx E ''apiKeys.colKey'')) masked_cell,
     key_column ''enabled'' (head_text (tx E ''common.enabled'')) (enabled_cell E s),
     key_column ''limits'' (head_text (tx E ''apiKeys.colLimits'')) (limits_cell E),
     key_column ''requestsCount'' (head_text (tx E ''apiKeys.colUsage'')) (UsageCell E),
     key_column ''lastUsedAt'' (head_text (tx E ''apiKeys.colLastUsed'')) (last_used_cell E),
     key_column ''createdAt'' (head_text (tx E ''apiKeys.colCreated'')) (created_cell E),
     key_column ''actions'' (head_text (tx E ''common.actions'')) (key_actions_cell E s)]"

section \<open>The page\<close>

definition key_table :: "ui \<Rightarrow> keys_st \<Rightarrow> (ApiKey, keys_st) table_props" where
  "key_table E s = \<lparr>tp_columns = key_columns E s, tp_searchable = True,
     tp_searchPlaceholder = Some (tx E ''apiKeys.searchPlaceholder''), tp_toolbar = Nothing,
     tp_emptyState = EmptyState (tx E ''apiKeys.empty'') [] Nothing, tp_rowSelection = [], tp_onSelect = None,
     tp_onRowClick = None, tp_pageSize = 25, tp_groupBy = None, tp_renderGroup = None,
     tp_set = (\<lambda>st x. x\<lparr>ks_table := st\<rparr>)\<rparr>"

definition require_card :: "ui \<Rightarrow> keys_st \<Rightarrow> kpact view" where
  "require_card E s = El ''Card'' [] [El ''CardContent'' [] [
     El ''div'' [] [
       El ''div'' [] [ic ''LuKeyRound'', Txt ('' '' @ tx E ''apiKeys.requireTitle''),
         El ''Badge'' [aS ''variant'' (if enabledCount s \<noteq> 0 then ''secondary'' else ''destructive'')]
           [Txt (tr E ''apiKeys.requireEnabledCount'' [show_nat (enabledCount s), show_nat (length (keys_of s))])]],
       El ''p'' [] [Txt (tx E ''apiKeys.requireHint'')],
       El ''p'' [] [Txt (tr E ''apiKeys.authHint'' [origin E @ ''/v1''])]],
     El ''Switch'' [aB ''checked'' (truthy (get_prop (ks_settings s) ''requireApiKey'')),
       onB ''onCheckedChange'' (setRequire E s), aB ''disabled'' (ks_settingsLoading s \<or> ks_requirePending s)] []]]"

definition key_editor :: "keys_st \<Rightarrow> kpact view" where
  "key_editor s = (case ks_editing s of None \<Rightarrow> Nothing
     | Some e \<Rightarrow> El ''KeyDialog'' [aS ''initial'' (case e of NewKey \<Rightarrow> [] | EditKey k \<Rightarrow> k_id k),
         on ''onClose'' (Upd (\<lambda>x. x\<lparr>ks_editing := None\<rparr>) Done),
         onS ''onCreated'' (\<lambda>v. Upd (\<lambda>x. x\<lparr>ks_editing := None\<rparr>) (Upd (\<lambda>x. x\<lparr>ks_shownKey := Some (JStr v, False)\<rparr>) Done))] [])"

definition shown_text :: "keys_st \<Rightarrow> string" where
  "shown_text s = (case ks_shownKey s of None \<Rightarrow> [] | Some (v, _) \<Rightarrow> if nullish v then [] else js_string v)"

definition shown_existing :: "keys_st \<Rightarrow> bool" where
  "shown_existing s = (case ks_shownKey s of None \<Rightarrow> False | Some (_, x) \<Rightarrow> x)"

definition shown_dialog :: "ui \<Rightarrow> keys_st \<Rightarrow> kpact view" where
  "shown_dialog E s = El ''Dialog'' [aB ''open'' (ks_shownKey s \<noteq> None),
      onB ''onOpenChange'' (\<lambda>o1. if o1 then Done else Upd (\<lambda>x. x\<lparr>ks_shownKey := None\<rparr>) Done)] [
     El ''DialogContent'' [] [
       El ''DialogHeader'' [] [
         El ''DialogTitle'' [] [Txt (tx E (if shown_existing s then ''apiKeys.showExistingTitle'' else ''apiKeys.showTitle''))],
         El ''DialogDescription'' [] [Txt (tx E (if shown_existing s then ''apiKeys.showExistingWarning'' else ''apiKeys.showWarning''))]],
       El ''div'' [] [El ''code'' [] [Txt (shown_text s)], CopyButton E (ks_copied s) (\<lambda>b x. x\<lparr>ks_copied := b\<rparr>) (shown_text s) []],
       El ''DialogFooter'' [] [El ''Button'' [on ''onClick'' (Upd (\<lambda>x. x\<lparr>ks_shownKey := None\<rparr>) Done)] [Txt (tx E ''apiKeys.closeBtn'')]]]]"

definition key_label :: "ApiKey \<Rightarrow> string" where
  "key_label k = or_str (k_name k) (k_masked k)"

definition key_dialogs :: "ui \<Rightarrow> keys_st \<Rightarrow> kpact view" where
  "key_dialogs E s = frag [
     ConfirmDialog E (ks_confirm s = Some ConfirmRequire) close_key_confirm (tx E ''apiKeys.requireWarnTitle'')
       (Txt (tx E ''apiKeys.requireWithoutEnabledKeyWarning'')) None False (confirm_require E)
       (ks_requireBusy s) (\<lambda>b x. x\<lparr>ks_requireBusy := b\<rparr>),
     ConfirmDialog E (\<exists>k. ks_confirm s = Some (ConfirmDelete k)) close_key_confirm (tx E ''apiKeys.actionDelete'')
       (case ks_confirm s of Some (ConfirmDelete k) \<Rightarrow> Txt (tr E ''apiKeys.confirmDelete'' [key_label k]) | _ \<Rightarrow> Nothing)
       None True (confirm_delete E s) (ks_deleteBusy s) (\<lambda>b x. x\<lparr>ks_deleteBusy := b\<rparr>),
     ConfirmDialog E (\<exists>k. ks_confirm s = Some (ConfirmReset k)) close_key_confirm (tx E ''apiKeys.actionReset'')
       (case ks_confirm s of Some (ConfirmReset k) \<Rightarrow> Txt (tr E ''apiKeys.confirmReset'' [key_label k]) | _ \<Rightarrow> Nothing)
       None False (confirm_reset E s) (ks_resetBusy s) (\<lambda>b x. x\<lparr>ks_resetBusy := b\<rparr>)]"

definition ApiKeysPage :: "ui \<Rightarrow> ApiKey table_lib \<Rightarrow> keys_st \<Rightarrow> kpact view" where
  "ApiKeysPage E lib s = El ''div'' [] [
     PageHeader E (tx E ''apiKeys.listTitle'') (tx E ''apiKeys.pageDescription'')
       (El ''Button'' [on ''onClick'' (Upd (\<lambda>x. x\<lparr>ks_editing := Some NewKey\<rparr>) Done)] [ic ''LuPlus'', Txt ('' '' @ tx E ''apiKeys.add'')]),
     require_card E s,
     (if ks_isLoading s then LoadingBlock E None 3
      else case ks_error s of Some e \<Rightarrow> EmptyState (tx E ''apiKeys.loadFailed'') (errorMessage e) Nothing
        | None \<Rightarrow> DataTable E lib (key_table E s) (keys_of s) (ks_table s)),
     key_editor s, shown_dialog E s, key_dialogs E s]"

section \<open>What is sent\<close>

lemma may_send_settle:
  "may_send P (settle sp f oe rt) \<Longrightarrow> may_send P f \<or> (\<exists>e. may_send P (oe e) \<or> may_send P (rt e))"
  by (auto simp: settle_def finally_do_def dest!: may_send_andThen may_send_catch)

lemma may_send_toast [simp]: "\<not> may_send P (toast_error E e)"
  by (simp add: toast_error_def)

lemma may_send_mutate: "may_send P (mutate sp f (toast_error E)) \<Longrightarrow> may_send P f"
  by (auto simp: mutate_def dest: may_send_settle)

lemma may_send_mutateAsync: "may_send P (mutateAsync sp f (toast_error E)) \<Longrightarrow> may_send P f"
  by (auto simp: mutateAsync_def dest: may_send_settle)

text \<open>The requests the page asks about first: removing a key, clearing its counters, and making a key
  mandatory when none is enabled.\<close>

definition critical :: "keys_st \<Rightarrow> request \<Rightarrow> bool" where
  "critical s r \<longleftrightarrow> deletes r \<or> (\<exists>i. r = Http ''POST'' (''/api-keys/'' @ i @ ''/reset-usage'') NoBody) \<or>
     enabledCount s = 0 \<and> r = Http ''POST'' ''/settings'' (JsonBody (obj [(''requireApiKey'', JBool True)]))"

definition key_confirm_act :: "ui \<Rightarrow> keys_st \<Rightarrow> key_confirm \<Rightarrow> kpact" where
  "key_confirm_act E s c = (case c of
     ConfirmRequire \<Rightarrow> confirm_run close_key_confirm (confirm_require E) (\<lambda>b x. x\<lparr>ks_requireBusy := b\<rparr>)
   | ConfirmDelete k \<Rightarrow> confirm_run close_key_confirm (confirm_delete E s) (\<lambda>b x. x\<lparr>ks_deleteBusy := b\<rparr>)
   | ConfirmReset k \<Rightarrow> confirm_run close_key_confirm (confirm_reset E s) (\<lambda>b x. x\<lparr>ks_resetBusy := b\<rparr>))"

definition confirmed_request :: "key_confirm \<Rightarrow> request" where
  "confirmed_request c = (case c of
     ConfirmRequire \<Rightarrow> Http ''POST'' ''/settings'' (JsonBody (obj [(''requireApiKey'', JBool True)]))
   | ConfirmDelete k \<Rightarrow> Http ''DELETE'' (''/api-keys/'' @ k_id k) NoBody
   | ConfirmReset k \<Rightarrow> Http ''POST'' (''/api-keys/'' @ k_id k @ ''/reset-usage'') NoBody)"

definition asks_first :: "ui \<Rightarrow> keys_st \<Rightarrow> kpact \<Rightarrow> bool" where
  "asks_first E s a \<longleftrightarrow> may_send (critical s) a \<longrightarrow> (\<exists>c. ks_confirm s = Some c \<and> a = key_confirm_act E s c)"

lemma close_key_confirm_quiet [simp]: "\<not> may_send P (close_key_confirm b)"
  by (simp add: close_key_confirm_def)

lemma uncritical:
  "\<not> may_send (critical s) (setRequire E s v)" "\<not> may_send (critical s) (toggleM E k)"
  "\<not> may_send (critical s) (copyExistingKey E k)" "\<not> may_send (critical s) (copy_value E sd v')"
proof -
  show "\<not> may_send (critical s) (setRequire E s v)"
    by (auto simp: setRequire_def requireM_def require_body_def post_def critical_def obj_def dest!: may_send_mutate)
  show "\<not> may_send (critical s) (toggleM E k)"
    by (auto simp: toggleM_def put_def critical_def invalidateKeys_def dest!: may_send_mutate)
  show "\<not> may_send (critical s) (copyExistingKey E k)"
    by (auto simp: copyExistingKey_def get_def get_field_def critical_def finally_do_def
        dest!: may_send_andThen may_send_catch split: if_splits)
  show "\<not> may_send (critical s) (copy_value E sd v')"
    by (auto simp: copy_value_def critical_def dest!: may_send_catch)
qed

lemma asks_first_rules [simp]:
  "asks_first E s (setRequire E' s v)" "asks_first E s (toggleM E' k)" "asks_first E s (copyExistingKey E' k)"
  "asks_first E s (copy_value E' sd v')" "asks_first E s (close_key_confirm b)" "asks_first E s Done"
  "asks_first E s (Upd f Done)" "asks_first E s (Upd f (Upd g Done))"
  by (auto simp: asks_first_def uncritical)

lemma asks_first_page: "list_all (handler_all (asks_first E s)) (live (ApiKeysPage E lib s))"
proof -
  have cols: "list_all (handler_all (asks_first E s)) (live (col_header c m))"
    "list_all (handler_all (asks_first E s)) (live (col_cell c l))" if "c \<in> set (key_columns E s)" for c m l
    using that by (auto simp: key_columns_def key_column_def head_text_def name_cell_def masked_cell_def
        enabled_cell_def limits_cell_def UsageCell_def usage_bar_def last_used_cell_def created_cell_def
        key_actions_cell_def Let_def)
  have table: "list_all (handler_all (asks_first E s)) (live (DataTable E lib (key_table E s) (keys_of s) (ks_table s)))"
    by (rule list_all_DataTable) (auto simp: key_table_def set_table_def view_live cols)
  have dialogs: "list_all (handler_all (asks_first E s)) (live (key_dialogs E s))"
    by (auto simp: key_dialogs_def view_live key_confirm_act_def asks_first_def split: key_confirm.splits option.splits)
  have rest: "list_all (handler_all (asks_first E s)) (live (key_editor s))"
    "list_all (handler_all (asks_first E s)) (live (shown_dialog E s))"
    "list_all (handler_all (asks_first E s)) (live (require_card E s))"
    by (auto simp: key_editor_def shown_dialog_def require_card_def view_live split: option.split)
  show ?thesis
    using table dialogs rest by (simp add: ApiKeysPage_def view_live split: option.split)
qed

section \<open>The form\<close>

lemma join_comma_lines:
  assumes "\<forall>m\<in>set (x # xs). CHR '','' \<notin> set m"
  shows "map (\<lambda>c. if c = CHR '','' then CHR 0x0A else c) (js_join '', '' (x # xs)) =
    js_join LF (x # map ((#) CHR '' '') xs)"
  using assms
proof (induction xs arbitrary: x)
  case Nil
  then show ?case by (auto intro: map_idI)
next
  case (Cons y ys)
  have "map (\<lambda>c. if c = CHR '','' then CHR 0x0A else c) x = x"
    using Cons.prems by (auto intro: map_idI)
  with Cons.prems Cons.IH [of y] show ?case by (cases ys) (simp_all add: LF_def)
qed

text \<open>Model names that survive the comma-separated text: as the field itself produces them.\<close>

definition clean_models :: "string list \<Rightarrow> bool" where
  "clean_models ms \<longleftrightarrow> (\<forall>m\<in>set ms. m \<noteq> [] \<and> js_trim m = m \<and> CHR '','' \<notin> set m \<and> CHR 0x0A \<notin> set m)"

lemma trim_space: "js_trim (CHR '' '' # m) = js_trim m"
  by (simp add: js_trim_def trim_start_def is_ws_def)

lemma splitModels_join: "clean_models ms \<Longrightarrow> splitModels (js_join '', '' ms) = ms"
proof (cases ms)
  case Nil
  then show ?thesis by (simp add: splitModels_def comma_lines_def js_split_def)
next
  case (Cons x xs)
  assume clean: "clean_models ms"
  then have "comma_lines (js_join '', '' ms) = x # map ((#) CHR '' '') xs"
    using split_join [of "x # map ((#) CHR '' '') xs" "CHR 0x0A" "[]"]
    by (auto simp: comma_lines_def Cons join_comma_lines clean_models_def LF_def)
  moreover have "map (js_trim \<circ> (#) CHR '' '') xs = xs" "js_trim x = x" "[] \<notin> set (x # xs)"
    using clean by (auto simp: clean_models_def Cons trim_space map_idI)
  ultimately show ?thesis by (simp add: splitModels_def Cons filter_id_conv) (metis filter_True)
qed

lemma validNumber_show:
  assumes "has_decimals n" "0 \<le> n" "i \<Longrightarrow> n \<in> \<int>"
  shows "validNumber (show_rat n) i"
proof -
  have "n \<in> \<int> \<Longrightarrow> of_int \<lfloor>n\<rfloor> = n" by (metis Ints_cases floor_of_int)
  then show ?thesis
    using assms js_Number_show [of n] trim_show_rat [of n] by (auto simp: validNumber_def)
qed

lemma num_value_show: "has_decimals n \<Longrightarrow> num_value (show_rat n) = JNum n"
  by (simp add: num_value_def js_Number_show)

lemma form_valid_iff:
  assumes "tx E ''apiKeys.invalidInteger'' \<noteq> []" "tx E ''apiKeys.invalidNumber'' \<noteq> []"
  shows "form_valid E f \<longleftrightarrow> validNumber (f_tokenLimit f) True \<and> validNumber (f_creditLimit f) False \<and>
    validNumber (f_rpmLimit f) True \<and> validNumber (f_concurrencyLimit f) True"
  using assms by (simp add: form_valid_def numFields_def field_error_def)

lemma validNumber_value:
  "validNumber s i \<Longrightarrow> \<exists>n. num_value s = JNum n \<and> 0 \<le> n \<and> (i \<longrightarrow> n \<in> \<int>)"
  by (auto simp: validNumber_def num_value_def Ints_def split: option.splits)

lemma may_send_key_submit: "may_send P (key_submit E s) \<Longrightarrow> form_valid E (kd_form s) \<and> P (save_request s)"
  by (auto simp: key_submit_def saveM_def key_saved_def get_field_def dest!: may_send_mutate split: if_splits option.splits)

section \<open>Properties\<close>

text \<open>C24: the page asks first: of everything a user can click or type on the page, in any state and
  whatever the table library shows, only the button of an open confirmation dialog can lead to the
  removal of a key, to the clearing of its counters, or to making a key mandatory while none is
  enabled (after which no client would be served); and then it sends what the dialog asked about,
  for the key it was opened for.\<close>

theorem key_changes_confirmed:
  assumes "h \<in> set (live (ApiKeysPage E lib s))" "fire h inp = Some a"
    and "may_send (\<lambda>r. critical s r \<and> r = d) a"
  shows "\<exists>c. ks_confirm s = Some c \<and> a = key_confirm_act E s c \<and> d = confirmed_request c"
proof -
  have "may_send (critical s) a" using assms(3) by (rule may_send_mono) simp
  moreover have "asks_first E s a"
    using asks_first_page [of E s lib] assms(1,2) by (auto simp: list_all_iff handler_all_def)
  ultimately obtain c where c: "ks_confirm s = Some c" "a = key_confirm_act E s c"
    by (auto simp: asks_first_def)
  with assms(3) have "d = confirmed_request c"
    by (cases c) (auto simp: key_confirm_act_def confirmed_request_def confirm_require_def require_body_def
      confirm_delete_def confirm_reset_def post_def del_def invalidateKeys_def
      dest!: may_send_confirm_run may_send_mutateAsync may_send_catch)
  with c show ?thesis by blast
qed

definition sample_key :: ApiKey where
  "sample_key = \<lparr>k_id = ''k1'', k_name = ''ci'', k_masked = ''sk-***9'', k_enabled = False, k_migrated = False,
     k_createdAt = 1700000000, k_lastUsedAt = 0, k_tokenLimit = Some 1000, k_creditLimit = Some (5 / 2),
     k_rpmLimit = None, k_concurrencyLimit = Some 4, k_allowedModels = Some [''gpt-5'', ''glm-5''],
     k_tokensUsed = 12, k_creditsUsed = 0, k_requestsCount = 3\<rparr>"

definition requiring :: keys_st where
  "requiring = keys_mount\<lparr>ks_keys := Some [sample_key], ks_isLoading := False, ks_confirm := Some ConfirmRequire\<rparr>"

theorem key_changes_confirmed_witness:
  "\<exists>c. ks_confirm requiring = Some c \<and>
     Http ''POST'' ''/settings'' (JsonBody (obj [(''requireApiKey'', JBool True)])) = confirmed_request c"
proof -
  have shown: "Plain (key_confirm_act sample_ui requiring ConfirmRequire) \<in>
      set (live (ApiKeysPage sample_ui plain_lib requiring))"
    by (simp add: ApiKeysPage_def key_dialogs_def view_live key_confirm_act_def requiring_def keys_mount_def)
  have sends: "may_send (\<lambda>r. critical requiring r \<and>
      r = Http ''POST'' ''/settings'' (JsonBody (obj [(''requireApiKey'', JBool True)])))
    (key_confirm_act sample_ui requiring ConfirmRequire)"
    by (simp add: key_confirm_act_def confirm_run_def confirm_require_def require_body_def mutateAsync_def settle_def
        finally_do_def post_def await_def critical_def enabledCount_def requiring_def keys_of_def keys_mount_def sample_key_def)
  from key_changes_confirmed [OF shown _ sends, of Click] show ?thesis by auto
qed

text \<open>C25: opening a key in the editor and saving it unchanged sends back what the key has: the form
  shows the limits as text and the models as one line, and reads the same numbers and the same list
  from them, so that no limit is lost or changed; a missing limit is sent as zero (no limit).\<close>

theorem resave_keeps_key:
  assumes "\<forall>v\<in>{k_tokenLimit k, k_creditLimit k, k_rpmLimit k, k_concurrencyLimit k}.
      0 \<le> num_or_0 v \<and> has_decimals (num_or_0 v)"
    and "\<forall>v\<in>{k_tokenLimit k, k_rpmLimit k, k_concurrencyLimit k}. num_or_0 v \<in> \<int>"
    and "clean_models (models_or_none (k_allowedModels k))" "js_trim (k_name k) = k_name k"
    and "srv w (Http ''PUT'' (''/api-keys/'' @ k_id k) (JsonBody (obj [(''name'', JStr (k_name k)),
       (''enabled'', JBool (k_enabled k)), (''tokenLimit'', JNum (num_or_0 (k_tokenLimit k))),
       (''creditLimit'', JNum (num_or_0 (k_creditLimit k))), (''rpmLimit'', JNum (num_or_0 (k_rpmLimit k))),
       (''concurrencyLimit'', JNum (num_or_0 (k_concurrencyLimit k))),
       (''allowedModels'', jstrs (models_or_none (k_allowedModels k)))]))) = (Resolved v, w')"
  shows "exec (key_submit E (key_dialog_mount (Some k))) srv (key_dialog_mount (Some k)) w =
    (None, key_dialog_mount (Some k), [Invalidate [''api-keys''], ToastOk (tx E ''apiKeys.updated''),
       Parent ''onClose'' JUndef], w')"
proof -
  have "form_valid E (toForm k)"
    using assms(1,2) by (simp add: form_valid_def numFields_def field_error_def toForm_def validNumber_show)
  moreover have "save_request (key_dialog_mount (Some k)) =
      Http ''PUT'' (''/api-keys/'' @ k_id k) (JsonBody (obj [(''name'', JStr (k_name k)),
       (''enabled'', JBool (k_enabled k)), (''tokenLimit'', JNum (num_or_0 (k_tokenLimit k))),
       (''creditLimit'', JNum (num_or_0 (k_creditLimit k))), (''rpmLimit'', JNum (num_or_0 (k_rpmLimit k))),
       (''concurrencyLimit'', JNum (num_or_0 (k_concurrencyLimit k))),
       (''allowedModels'', jstrs (models_or_none (k_allowedModels k)))]))"
    using assms(1,3,4)
    by (simp add: save_request_def key_dialog_mount_def key_body_def toForm_def num_value_show splitModels_join)
  ultimately show ?thesis
    using assms(5) by (simp add: key_submit_def saveM_def mutate_def settle_def exec_finally exec_catch exec_await
        key_saved_def key_dialog_mount_def)
qed

theorem resave_keeps_key_witness:
  "effects (exec (key_submit sample_ui (key_dialog_mount (Some sample_key))) (\<lambda>w r. (Resolved JNull, r # w))
     (key_dialog_mount (Some sample_key)) []) =
   [Invalidate [''api-keys''], ToastOk ''apiKeys.updated'', Parent ''onClose'' JUndef]"
proof -
  have frac: "quotient_of (5 / 2) = (5, 2)" by code_simp
  have dec: "has_decimals 1000" "has_decimals (5 / 2)" "has_decimals 0" "has_decimals 4"
    using has_decimals_int [of 1000] has_decimals_int [of 0] has_decimals_int [of 4]
    by (simp_all add: has_decimals_def frac eval_nat_numeral)
  have ints: "(1000 :: rat) \<in> \<int>" "(0 :: rat) \<in> \<int>" "(4 :: rat) \<in> \<int>" by simp_all
  have models: "clean_models [''gpt-5'', ''glm-5'']"
    by (simp add: clean_models_def js_defs)
  show ?thesis
    using resave_keeps_key [of sample_key "\<lambda>w r. (Resolved JNull, r # w)" "[]" JNull _ sample_ui]
    using dec ints models by (simp add: sample_key_def num_or_0_def models_or_none_def effects_def sample_ui_def js_defs)
qed

text \<open>Only limits the server can store are sent: whatever is typed into the key dialog, submitting
  it sends nothing but the one request for this form, and only when every limit in it is a number,
  none negative, and a whole number for tokens, requests per minute and concurrency.\<close>

theorem key_limits_bounded:
  assumes "tx E ''apiKeys.invalidInteger'' \<noteq> []" "tx E ''apiKeys.invalidNumber'' \<noteq> []"
    and "may_send P (key_submit E s)" "nf \<in> set numFields"
  shows "P (save_request s) \<and>
    (\<exists>n. map_of (key_body (kd_form s)) (nf_name nf) = Some (JNum n) \<and> 0 \<le> n \<and> (nf_integer nf \<longrightarrow> n \<in> \<int>))"
proof -
  from may_send_key_submit [OF assms(3)] have P: "P (save_request s)" and ok: "form_valid E (kd_form s)" by auto
  have "\<exists>n. num_value (nf_get nf (kd_form s)) = JNum n \<and> 0 \<le> n \<and> (nf_integer nf \<longrightarrow> n \<in> \<int>)"
    using ok assms(4) form_valid_iff [OF assms(1,2)]
    by (intro validNumber_value) (auto simp: numFields_def)
  moreover have "map_of (key_body (kd_form s)) (nf_name nf) = Some (num_value (nf_get nf (kd_form s)))"
    using assms(4) by (auto simp: numFields_def key_body_def)
  ultimately show ?thesis using P by simp
qed

theorem key_limits_bounded_witness:
  "\<exists>n. map_of (key_body emptyForm) ''tokenLimit'' = Some (JNum n) \<and> 0 \<le> n \<and> n \<in> \<int>"
proof -
  have valid: "form_valid sample_ui emptyForm"
    by code_simp
  have "may_send (\<lambda>r. True) (key_submit sample_ui (key_dialog_mount None))"
    by (simp add: key_submit_def key_dialog_mount_def valid saveM_def mutate_def settle_def finally_do_def await_def)
  from key_limits_bounded [OF _ _ this, of "hd numFields"] show ?thesis
    by (simp add: sample_ui_def numFields_def key_dialog_mount_def)
qed

end
