(* ===== verification/Settings_Shared.thy ===== *)
theory Settings_Shared
  imports Api_Keys
begin

text \<open>
  What the sections of the settings page share, \<open>dashboard/src/pages/settings/shared.tsx\<close>: the editable
  copy of the server's data (\<open>useDraft\<close>), the frame of a section with its save button, fields and
  switches; and the locale \<open>draft_section\<close>, the contract the sections with such a copy keep.

  The state of a section is what its query has returned, the copy that is edited, and whether the save
  is under way. Both values are JSON objects, so that fields the section does not show are kept. The
  query library hands out new data only when it differs from the old; the copy then starts anew.
\<close>

section \<open>The editable copy\<close>

record section_st =
  sn_data :: jsv
  sn_draft :: jsv
  sn_pending :: bool

definition section_mount :: section_st where
  "section_mount = \<lparr>sn_data = JUndef, sn_draft = JUndef, sn_pending = False\<rparr>"

text \<open>New data from the query, with the effect that copies it.\<close>

definition query_data :: "jsv \<Rightarrow> 'a section_st_scheme \<Rightarrow> 'a section_st_scheme" where
  "query_data v s = (if v = sn_data s then s else s\<lparr>sn_data := v, sn_draft := v\<rparr>)"

definition dirty :: "'a section_st_scheme \<Rightarrow> bool" where
  "dirty s \<longleftrightarrow> sn_draft s \<noteq> JUndef \<and> json_line (sn_draft s) \<noteq> json_line (sn_data s)"

definition patched :: "(string \<times> jsv) list \<Rightarrow> jsv \<Rightarrow> jsv" where
  "patched ps d = (case d of JObj qs \<Rightarrow> JObj (spread qs ps) | v \<Rightarrow> v)"

definition patch :: "(string \<times> jsv) list \<Rightarrow> 'a section_st_scheme act" where
  "patch ps = Upd (\<lambda>s. s\<lparr>sn_draft := patched ps (sn_draft s)\<rparr>) Done"

definition draft_field :: "'a section_st_scheme \<Rightarrow> string \<Rightarrow> jsv" where
  "draft_field s k = get_prop (sn_draft s) k"

definition draft_text :: "'a section_st_scheme \<Rightarrow> string \<Rightarrow> string" where
  "draft_text s k = js_string (draft_field s k)"

text \<open>What the sections do to save: the request, the note, the queries to read again.\<close>

definition save_section :: "ui \<Rightarrow> request \<Rightarrow> string \<Rightarrow> string list list \<Rightarrow> 'a section_st_scheme act" where
  "save_section E req ok keys = mutate (\<lambda>b x. x\<lparr>sn_pending := b\<rparr>)
     (await req (\<lambda>_. Emit (ToastOk (tx E ok)) (foldr (\<lambda>k a. Emit (Invalidate k) a) keys Done)))
     (\<lambda>e. Emit (ToastErr (errorMessage_or (tx E ''common.saveFailed'') e)) Done)"

section \<open>Frame and fields\<close>

definition SettingsSection :: "string \<Rightarrow> string \<Rightarrow> string \<Rightarrow> 'e view list \<Rightarrow> 'e view \<Rightarrow> 'e view" where
  "SettingsSection i title description children footer = El ''Card'' [aS ''id'' i] [
     El ''CardHeader'' [] [El ''CardTitle'' [] [Txt title],
       shown (description \<noteq> []) (El ''CardDescription'' [] [Txt description])],
     El ''CardContent'' [] children,
     shown (footer \<noteq> Nothing) (El ''CardFooter'' [] [footer])]"

definition SaveButton :: "ui \<Rightarrow> bool \<Rightarrow> bool \<Rightarrow> string option \<Rightarrow> 'e \<Rightarrow> 'e view" where
  "SaveButton E disabled busy label onClick = El ''Button'' [on ''onClick'' onClick, aB ''disabled'' (disabled \<or> busy)]
     [shown busy spinner, Txt (case label of None \<Rightarrow> tx E ''common.save'' | Some l \<Rightarrow> l)]"

definition SettingsField :: "string \<Rightarrow> string \<Rightarrow> string \<Rightarrow> 'e view list \<Rightarrow> 'e view" where
  "SettingsField label hint htmlFor children = El ''div'' []
     (El ''Label'' [aS ''htmlFor'' htmlFor] [Txt label] # children @
      [shown (hint \<noteq> []) (El ''p'' [] [Txt hint])])"

definition SwitchRow :: "string \<Rightarrow> string \<Rightarrow> bool \<Rightarrow> (bool \<Rightarrow> 'e) \<Rightarrow> 'e view" where
  "SwitchRow label hint checked onChange = El ''div'' [] [
     El ''div'' [] [El ''div'' [] [Txt label], shown (hint \<noteq> []) (El ''div'' [] [Txt hint])],
     El ''Switch'' [aB ''checked'' checked, onB ''onCheckedChange'' onChange] []]"

text \<open>A select over named values, and a text field.\<close>

definition Choice :: "(string \<times> string) list \<Rightarrow> string \<Rightarrow> (string \<Rightarrow> 'e) \<Rightarrow> 'e view" where
  "Choice items val onChange = El ''Select'' [aS ''value'' val, onS ''onValueChange'' onChange] [
     El ''SelectTrigger'' [] [El ''SelectValue'' [] []],
     El ''SelectContent'' [] (map (\<lambda>(v, l). El ''SelectItem'' [aS ''value'' v] [Txt l]) items)]"

definition Entry :: "string \<Rightarrow> string \<Rightarrow> string \<Rightarrow> (string \<Rightarrow> 'e) \<Rightarrow> string \<Rightarrow> 'e view" where
  "Entry i type val onChange hint = El ''Input'' [aS ''id'' i, aS ''type'' type, aS ''value'' val,
     onS ''onChange'' onChange, aS ''placeholder'' hint] []"

lemma live_SettingsField [view_live]: "live (SettingsField l h f vs) = concat (map live vs)"
  by (simp add: SettingsField_def)

lemma live_SwitchRow [view_live]: "live (SwitchRow l h c f) = [WithFlag f]"
  by (simp add: SwitchRow_def)

lemma live_SaveButton [view_live]: "live (SaveButton E d b l a) = (if d \<or> b then [] else [Plain a])"
  by (simp add: SaveButton_def)

lemma live_SettingsSection [view_live]:
  "live (SettingsSection i t d vs f) = concat (map live vs) @ live f"
  by (simp add: SettingsSection_def)

lemma live_Choice [view_live]: "live (Choice items v f) = [WithText f]"
proof -
  have "concat (map (live \<circ> (\<lambda>(v, l). El ''SelectItem'' [aS ''value'' v] [Txt l])) items) = []"
    by (rule no_handlers_concat) auto
  then show ?thesis by (simp add: Choice_def)
qed

lemma live_Entry [view_live]: "live (Entry i ty v f h) = [WithText f]"
  by (simp add: Entry_def)

section \<open>The contract of a section\<close>

text \<open>A handler of such a section edits the copy, or is the save, which is offered only when the copy
  differs from the data, the section's own check lets it pass, and no save is under way.\<close>

primrec edits :: "'a section_st_scheme act \<Rightarrow> bool" where
  "edits Done = True"
| "edits (Throw e) = False"
| "edits (Upd f k) = ((\<forall>x. sn_pending (f x) = sn_pending x \<and> sn_data (f x) = sn_data x) \<and> edits k)"
| "edits (Look f) = False"
| "edits (Emit x k) = False"
| "edits (Await r k) = False"
| "edits (AwaitAll rs k) = False"
| "edits (Sleep n k) = False"
| "edits (Fork c k) = False"

lemma edits_patch [simp]: "edits (patch ps)"
  by (simp add: patch_def)

lemma edits_silent: "edits a \<Longrightarrow> \<not> may_send P a"
  by (induction a) auto

lemma edits_detached: "edits a \<Longrightarrow> detached sn_pending a"
  by (induction a) auto

definition section_env :: "'a section_st_scheme \<Rightarrow> 'a section_st_scheme \<Rightarrow> bool" where
  "section_env s s' \<longleftrightarrow> (\<exists>v. s' = query_data v s)"

lemma query_data_simps [simp]: "sn_pending (query_data v s) = sn_pending s" "sn_data (query_data v s) = v"
  by (simp_all add: query_data_def)

lemma not_dirty_loaded: "\<not> dirty (s\<lparr>sn_data := v, sn_draft := v\<rparr>)"
  by (simp add: dirty_def)

lemma sends_notes [simp]: "\<not> may_send P (foldr (\<lambda>k a. Emit (Invalidate k) a) keys Done)"
  by (induction keys) auto

lemma may_send_save: "may_send P (save_section E req ok keys) \<Longrightarrow> P req"
  by (auto simp: save_section_def mutate_def settle_def finally_do_def dest!: may_send_andThen may_send_catch)

lemma pending_mark [simp]: "(\<forall>s :: 'a section_st_scheme. sn_pending s) = False"
  "(\<forall>s :: 'a section_st_scheme. \<not> sn_pending s) = False"
  by (auto intro: exI [of _ "undefined\<lparr>sn_pending := False\<rparr>"] exI [of _ "undefined\<lparr>sn_pending := True\<rparr>"])

lemma guarded_notes [simp]: "guarded held b (foldr (\<lambda>k a. Emit (Invalidate k) a) keys c) = guarded held b c"
  by (induction keys) auto

lemma nf_notes [simp]:
  "catch (foldr (\<lambda>k a. Emit (Invalidate k) a) keys c) h = foldr (\<lambda>k a. Emit (Invalidate k) a) keys (catch c h)"
  "andThen (foldr (\<lambda>k a. Emit (Invalidate k) a) keys c) d = foldr (\<lambda>k a. Emit (Invalidate k) a) keys (andThen c d)"
  by (induction keys) auto

lemma guarded_section_save: "guarded sn_pending False (save_section E r ok keys)"
  by (simp add: save_section_def mutate_def settle_def act_nf)

lemma exec_notes: "exec (foldr (\<lambda>k a. Emit (Invalidate k) a) keys Done) srv s w = (None, s, map Invalidate keys, w)"
  by (induction keys) auto

text \<open>A save runs to its end: accepted, it notes so and reads the data again; refused, it shows the
  error and keeps the copy.\<close>

lemma exec_save:
  "exec (save_section E r ok keys) srv s w = (case srv w r of
     (Resolved v, w') \<Rightarrow> (None, s\<lparr>sn_pending := False\<rparr>, ToastOk (tx E ok) # map Invalidate keys, w')
   | (Rejected e, w') \<Rightarrow> (None, s\<lparr>sn_pending := False\<rparr>, [ToastErr (errorMessage_or (tx E ''common.saveFailed'') e)], w'))"
  by (auto simp: save_section_def mutate_def settle_def exec_finally exec_catch exec_await exec_andThen exec_notes
      split: prod.split reply.split)

text \<open>A save in progress: one request, and what its success leads to.\<close>

lemma sync_notes: "sync (foldr (\<lambda>k a. Emit (Invalidate k) a) keys c) s =
    (case sync c s of (s', l, ps) \<Rightarrow> (s', map Invalidate keys @ l, ps))"
  by (induction keys) (auto split: prod.split)

lemma sync_save:
  "\<exists>k. sync (save_section E r ok keys) s = (s\<lparr>sn_pending := True\<rparr>, [], [Req r k]) \<and>
    (\<forall>v z. sync (k (Resolved v)) z = (z\<lparr>sn_pending := False\<rparr>, ToastOk (tx E ok) # map Invalidate keys, []))"
  by (auto simp: save_section_def mutate_def settle_def act_nf sync_notes)

locale draft_section =
  fixes V :: "'a section_st_scheme \<Rightarrow> 'a section_st_scheme act view"
    and s0 :: "'a section_st_scheme"
    and E :: ui
    and req :: "'a section_st_scheme \<Rightarrow> request"
    and blocked :: "'a section_st_scheme \<Rightarrow> bool"
    and ok :: string
    and keys :: "string list list"
  assumes idle: "\<not> sn_pending s0"
    and offers: "list_all (handler_all (\<lambda>a. edits a \<or>
        a = save_section E (req s) ok keys \<and> dirty s \<and> \<not> blocked s \<and> \<not> sn_pending s)) (live (V s))"
begin

lemma saves_only_changes:
  assumes "h \<in> set (live (V s))" "fire h inp = Some a" "may_send P a"
  shows "P (req s) \<and> dirty s \<and> \<not> blocked s \<and> \<not> sn_pending s \<and> a = save_section E (req s) ok keys"
proof -
  from offers [of s] assms(1,2) have "edits a \<or>
      a = save_section E (req s) ok keys \<and> dirty s \<and> \<not> blocked s \<and> \<not> sn_pending s"
    by (auto simp: list_all_iff handler_all_def)
  with assms(3) show ?thesis by (auto dest: may_send_save edits_silent)
qed

end

sublocale draft_section \<subseteq> exclusive_page V section_env s0 sn_pending "\<lambda>_. True"
proof
  fix s
  show "list_all (handler_ok sn_pending (\<lambda>_. True) (sn_pending s)) (live (V s))"
  proof (rule list.pred_mono_strong [OF offers])
    fix h
    assume h: "handler_all (\<lambda>a. edits a \<or> a = save_section E (req s) ok keys \<and> dirty s \<and> \<not> blocked s \<and> \<not> sn_pending s) h"
    have "act_ok sn_pending (\<lambda>_. True) (sn_pending s) a"
      if "edits a \<or> a = save_section E (req s) ok keys \<and> dirty s \<and> \<not> blocked s \<and> \<not> sn_pending s" for a
      using that guarded_section_save by (auto simp: act_ok_def intro: edits_detached)
    with h show "handler_ok sn_pending (\<lambda>_. True) (sn_pending s) h"
      by (auto simp: handler_ok_def handler_all_def)
  qed
qed (auto simp: idle section_env_def)

section \<open>Conditions that no handler breaks\<close>

locale steady_page =
  fixes V :: "'s \<Rightarrow> 's act view"
    and env :: "'s \<Rightarrow> 's \<Rightarrow> bool"
    and s0 :: 's
    and good :: "'s \<Rightarrow> bool"
  assumes good_first: "good s0"
    and good_handlers: "good s \<Longrightarrow> list_all (handler_all (steady good)) (live (V s))"
    and good_env: "env s s' \<Longrightarrow> good s \<Longrightarrow> good s'"

sublocale steady_page \<subseteq> page_invariant V env s0 "\<lambda>s ps. good s \<and> list_all (steady_pending good) ps"
proof
  show "good s0 \<and> list_all (steady_pending good) []" by (simp add: good_first)
next
  fix s ps h inp a s' l qs
  assume inv: "good s \<and> list_all (steady_pending good) ps" and h: "h \<in> set (live (V s))" "fire h inp = Some a"
    and run: "sync a s = (s', l, qs)"
  from good_handlers [of s] inv h have "steady good a" by (auto simp: list_all_iff handler_all_def)
  from sync_steady [OF this _ run] inv show "good s' \<and> list_all (steady_pending good) (ps @ qs)" by simp
next
  fix s ps i rs a s' l qs
  assume inv: "good s \<and> list_all (steady_pending good) ps" and i: "i < length ps" "woken (ps ! i) rs = Some a"
    and run: "sync a s = (s', l, qs)"
  have "steady good a" using inv i by (auto simp: list_all_length intro: woken_steady)
  moreover have "list_all (steady_pending good) (drop_nth i ps)"
    using inv set_drop_nth [of i ps] by (auto simp: list_all_iff)
  ultimately show "good s' \<and> list_all (steady_pending good) (drop_nth i ps @ qs)"
    using sync_steady [OF _ _ run, of good] inv by simp
next
  fix s ps s'
  assume "good s \<and> list_all (steady_pending good) ps" "env s s'"
  then show "good s' \<and> list_all (steady_pending good) ps" by (simp add: good_env)
qed

lemma get_prop_patched:
  "get_prop (patched [(k, v)] d) k' = (case d of JObj ps \<Rightarrow> if k' = k then v else get_prop d k' | _ \<Rightarrow> get_prop d k')"
  by (cases d) (simp_all add: patched_def spread_def)

text \<open>The save and an edit keep a condition that only speaks of the copy, if the edit does.\<close>

lemma steady_save: "(\<And>s b. good s \<Longrightarrow> good (s\<lparr>sn_pending := b\<rparr>)) \<Longrightarrow> steady good (save_section E r ok keys)"
proof -
  have reread: "steady good (foldr (\<lambda>k a. Emit (Invalidate k) a) ks c) = steady good c" for ks c
    by (induction ks) auto
  show "(\<And>s b. good s \<Longrightarrow> good (s\<lparr>sn_pending := b\<rparr>)) \<Longrightarrow> steady good (save_section E r ok keys)"
    by (simp add: save_section_def mutate_def settle_def act_nf reread)
qed

end
