(* ===== verification/Settings_Sections.thy ===== *)
theory Settings_Sections
  imports Settings_Shared
begin

text \<open>
  The settings page and its plain sections: \<open>settings/index.tsx\<close> (the page and the rail that follows
  the scrolling), \<open>thinking.tsx\<close>, \<open>endpoint.tsx\<close>, \<open>prompt-filter.tsx\<close> and \<open>danger.tsx\<close> below
  \<open>dashboard/src/pages/\<close>. Every section with an editable copy is an instance of \<open>draft_section\<close>.
\<close>

section \<open>thinking.tsx\<close>

definition NONE :: string where
  "NONE = ''none''"

definition thinking_request :: "'a section_st_scheme \<Rightarrow> request" where
  "thinking_request s = Http ''POST'' ''/thinking'' (JsonBody (sn_draft s))"

definition thinking_save :: "ui \<Rightarrow> section_st \<Rightarrow> section_st act" where
  "thinking_save E s = save_section E (thinking_request s) ''settings.thinkingSaved'' [[''thinking'']]"

definition formats :: "ui \<Rightarrow> (string \<times> string) list" where
  "formats E = [(NONE, tx E ''settings.noTag''), (''reasoning_content'', tx E ''settings.formatReasoningContent''),
     (''thinking'', tx E ''settings.formatThinkingClaude''), (''think'', tx E ''settings.formatThinkOpenAI'')]"

definition formatSelect :: "ui \<Rightarrow> jsv \<Rightarrow> (string \<Rightarrow> 'e) \<Rightarrow> 'e view" where
  "formatSelect E val onChange = Choice (formats E) (js_string (js_or val (JStr NONE)))
     (\<lambda>v. onChange (if v = NONE then [] else v))"

definition ThinkingSection :: "ui \<Rightarrow> section_st \<Rightarrow> section_st act view" where
  "ThinkingSection E s = SettingsSection ''thinking'' (tx E ''settings.thinkingSettings'') (tx E ''settings.thinkingHint'')
     (if \<not> truthy (sn_draft s) then [LoadingBlock E None 3] else [
        SettingsField (tx E ''settings.thinkingSuffix'') (tx E ''settings.thinkingSuffixHint'') ''th-suffix''
          [Entry ''th-suffix'' [] (draft_text s ''suffix'') (\<lambda>v. patch [(''suffix'', JStr v)]) ''-thinking''],
        SettingsField (tx E ''settings.openaiFormat'') (tx E ''settings.openaiFormatHint'') []
          [formatSelect E (draft_field s ''openaiFormat'') (\<lambda>v. patch [(''openaiFormat'', JStr v)])],
        SettingsField (tx E ''settings.claudeFormat'') (tx E ''settings.claudeFormatHint'') []
          [formatSelect E (draft_field s ''claudeFormat'') (\<lambda>v. patch [(''claudeFormat'', JStr v)])]])
     (SaveButton E (\<not> dirty s) (sn_pending s) (Some (tx E ''settings.saveThinking'')) (thinking_save E s))"

section \<open>endpoint.tsx\<close>

definition endpoint_request :: "'a section_st_scheme \<Rightarrow> request" where
  "endpoint_request s = Http ''POST'' ''/endpoint'' (JsonBody (sn_draft s))"

definition endpoint_save :: "ui \<Rightarrow> section_st \<Rightarrow> section_st act" where
  "endpoint_save E s = save_section E (endpoint_request s) ''settings.endpointSaved'' [[''endpoint'']]"

definition endpoints :: "ui \<Rightarrow> (string \<times> string) list" where
  "endpoints E = [(''auto'', tx E ''settings.endpointAuto''), (''kiro'', tx E ''settings.endpointKiro''),
     (''codewhisperer'', tx E ''settings.endpointCodeWhisperer''), (''amazonq'', tx E ''settings.endpointAmazonQ'')]"

definition EndpointSection :: "ui \<Rightarrow> section_st \<Rightarrow> section_st act view" where
  "EndpointSection E s = SettingsSection ''endpoint'' (tx E ''settings.endpointSettings'') []
     (if \<not> truthy (sn_draft s) then [LoadingBlock E None 3] else [
        SettingsField (tx E ''settings.preferredEndpoint'') (tx E ''settings.endpointHint'') []
          [Choice (endpoints E) (draft_text s ''preferredEndpoint'') (\<lambda>v. patch [(''preferredEndpoint'', JStr v)])],
        SwitchRow (tx E ''settings.endpointFallback'') (tx E ''settings.endpointFallbackHint'')
          (truthy (draft_field s ''endpointFallback'')) (\<lambda>v. patch [(''endpointFallback'', JBool v)])])
     (SaveButton E (\<not> dirty s) (sn_pending s) (Some (tx E ''settings.saveEndpoint'')) (endpoint_save E s))"

section \<open>prompt-filter.tsx\<close>

definition filter_rules :: "'a section_st_scheme \<Rightarrow> jsv list" where
  "filter_rules s = (case draft_field s ''rules'' of JArr vs \<Rightarrow> vs | _ \<Rightarrow> [])"

definition filter_request :: "'a section_st_scheme \<Rightarrow> request" where
  "filter_request s = Http ''POST'' ''/prompt-filter'' (JsonBody (sn_draft s))"

definition filter_save :: "ui \<Rightarrow> section_st \<Rightarrow> section_st act" where
  "filter_save E s = save_section E (filter_request s) ''settings.promptFilterSaved'' [[''prompt-filter'']]"

definition set_rules :: "jsv list \<Rightarrow> 'a section_st_scheme act" where
  "set_rules rs = patch [(''rules'', JArr rs)]"

definition setRule :: "section_st \<Rightarrow> nat \<Rightarrow> (string \<times> jsv) list \<Rightarrow> section_st act" where
  "setRule s i p = set_rules (map (\<lambda>(j, r). if j = i then patched p r else r) (enumerate 0 (filter_rules s)))"

text \<open>\<open>crypto.randomUUID()\<close> is a parameter: the id drawn when a rule is added to these rules.\<close>

definition addRule :: "(jsv list \<Rightarrow> string) \<Rightarrow> section_st \<Rightarrow> string \<Rightarrow> section_st act" where
  "addRule uuid s type = set_rules (filter_rules s @ [JObj [(''id'', JStr (uuid (filter_rules s))), (''name'', JStr []),
     (''type'', JStr type), (''match'', JStr []), (''replace'', JStr []), (''enabled'', JBool True)]])"

definition removeRule :: "section_st \<Rightarrow> nat \<Rightarrow> section_st act" where
  "removeRule s i = set_rules (map snd (filter (\<lambda>(j, _). j \<noteq> i) (enumerate 0 (filter_rules s))))"

definition rule_text :: "jsv \<Rightarrow> string \<Rightarrow> string" where
  "rule_text r k = js_string (get_prop r k)"

definition blank_match :: "jsv \<Rightarrow> bool" where
  "blank_match r \<longleftrightarrow> js_trim (rule_text r ''match'') = []"

definition filter_invalid :: "'a section_st_scheme \<Rightarrow> bool" where
  "filter_invalid s \<longleftrightarrow> list_ex blank_match (filter_rules s)"

definition rule_row :: "ui \<Rightarrow> section_st \<Rightarrow> nat \<times> jsv \<Rightarrow> section_st act view" where
  "rule_row E s ir = (let (i, r) = ir; regex = (rule_text r ''type'' = ''regex'') in El ''div'' [] [
     El ''div'' [] [
       El ''Switch'' [aB ''checked'' (truthy (get_prop r ''enabled'')),
         onB ''onCheckedChange'' (\<lambda>v. setRule s i [(''enabled'', JBool v)])] [],
       Entry [] [] (rule_text r ''name'') (\<lambda>v. setRule s i [(''name'', JStr v)]) (tx E ''promptFilter.unnamed''),
       El ''span'' [] [Txt (if regex then tx E ''promptFilter.typeRegex'' else tx E ''promptFilter.typeContains'')],
       El ''Button'' [aS ''variant'' ''ghost'', aS ''aria-label'' (tx E ''common.remove''), on ''onClick'' (removeRule s i)]
         [ic ''LuTrash2'']],
     El ''div'' [] [
       El ''Input'' [aS ''value'' (rule_text r ''match''), aB ''aria-invalid'' (blank_match r),
         onS ''onChange'' (\<lambda>v. setRule s i [(''match'', JStr v)]),
         aS ''placeholder'' (tx E ''promptFilter.match'' @ '': '' @
           (if regex then tx E ''promptFilter.matchPlaceholderRegex'' else tx E ''promptFilter.matchPlaceholderContains''))] [],
       shown regex (Entry [] [] (rule_text r ''replace'') (\<lambda>v. setRule s i [(''replace'', JStr v)])
         (tx E ''promptFilter.replace'' @ '': '' @ tx E ''promptFilter.emptyRemove''))]])"

definition PromptFilterSection :: "ui \<Rightarrow> (jsv list \<Rightarrow> string) \<Rightarrow> section_st \<Rightarrow> section_st act view" where
  "PromptFilterSection E uuid s = SettingsSection ''prompt-filter'' (tx E ''settings.promptFilter'') []
     (if \<not> truthy (sn_draft s) then [LoadingBlock E None 3] else [
        El ''div'' [] [Txt (tx E ''settings.builtinFilters'')],
        SwitchRow (tx E ''settings.filterClaudeCode'') (tx E ''settings.filterClaudeCodeHint'')
          (truthy (draft_field s ''filterClaudeCode'')) (\<lambda>v. patch [(''filterClaudeCode'', JBool v)]),
        SwitchRow (tx E ''settings.filterEnvNoise'') (tx E ''settings.filterEnvNoiseHint'')
          (truthy (draft_field s ''filterEnvNoise'')) (\<lambda>v. patch [(''filterEnvNoise'', JBool v)]),
        SwitchRow (tx E ''settings.filterStripBoundaries'') (tx E ''settings.filterStripBoundariesHint'')
          (truthy (draft_field s ''filterStripBoundaries'')) (\<lambda>v. patch [(''filterStripBoundaries'', JBool v)]),
        El ''div'' [] [
          El ''div'' [] [Txt (tx E ''settings.customRules'')],
          El ''div'' [] [
            El ''Button'' [aS ''variant'' ''outline'', on ''onClick'' (addRule uuid s ''regex'')] [Txt (tx E ''promptFilter.addRegex'')],
            El ''Button'' [aS ''variant'' ''outline'', on ''onClick'' (addRule uuid s ''lines-containing'')]
              [Txt (tx E ''promptFilter.addContains'')]]],
        shown (filter_rules s = []) (El ''p'' [] [Txt (tx E ''promptFilter.noRules'')]),
        frag (map (rule_row E s) (enumerate 0 (filter_rules s)))])
     (SaveButton E (\<not> dirty s \<or> filter_invalid s) (sn_pending s) (Some (tx E ''settings.savePromptFilter'')) (filter_save E s))"

section \<open>danger.tsx\<close>

datatype danger = ResetStats | ClearLogs

record danger_st =
  dg_open :: "danger option"
  dg_busy :: bool

definition danger_mount :: danger_st where
  "danger_mount = \<lparr>dg_open = None, dg_busy = False\<rparr>"

definition danger_run :: "ui \<Rightarrow> danger_st \<Rightarrow> danger_st act" where
  "danger_run E s = catch
     (if dg_open s = Some ResetStats then post ''/stats/reset'' NoBody (\<lambda>_.
        Emit (ToastOk (tx E ''settings.statsReset'')) (Emit (Invalidate [''status'']) (Emit (Invalidate [''stats'']) Done)))
      else del ''/logs'' (\<lambda>_. Emit (ToastOk (tx E ''logs.cleared'')) (Emit (Invalidate [''logs'']) Done)))
     (\<lambda>e. Emit (ToastErr (errorMessage_or (tx E ''common.failed'') e)) Done)"

definition close_danger :: "bool \<Rightarrow> danger_st act" where
  "close_danger o1 = (if o1 then Done else Upd (\<lambda>x. x\<lparr>dg_open := None\<rparr>) Done)"

definition danger_row :: "string \<Rightarrow> string \<Rightarrow> danger \<Rightarrow> danger_st act view" where
  "danger_row label hint kind = El ''div'' [] [
     El ''div'' [] [El ''div'' [] [Txt label], El ''div'' [] [Txt hint]],
     El ''Button'' [aS ''variant'' ''destructive'', on ''onClick'' (Upd (\<lambda>x. x\<lparr>dg_open := Some kind\<rparr>) Done)] [Txt label]]"

definition DangerSection :: "ui \<Rightarrow> danger_st \<Rightarrow> danger_st act view" where
  "DangerSection E s = SettingsSection ''danger'' (tx E ''settings.dangerZone'') (tx E ''settings.dangerZoneHint'') [
     danger_row (tx E ''settings.resetStats'') (tx E ''settings.resetStatsHint'') ResetStats,
     danger_row (tx E ''settings.clearLogs'') (tx E ''settings.clearLogsHint'') ClearLogs,
     ConfirmDialog E (dg_open s \<noteq> None) close_danger
       (if dg_open s = Some ResetStats then tx E ''settings.confirmReset'' else tx E ''logs.clearConfirm'') Nothing None True
       (danger_run E s) (dg_busy s) (\<lambda>b x. x\<lparr>dg_busy := b\<rparr>)] Nothing"

section \<open>index.tsx\<close>

text \<open>The entries of the rail: id, label, whether it is the dangerous one.\<close>

definition settings_NAV :: "(string \<times> string \<times> bool) list" where
  "settings_NAV = [(''general'', ''settings.general'', False), (''password'', ''settings.adminPassword'', False),
     (''thinking'', ''settings.thinkingSettings'', False), (''endpoint'', ''settings.endpointSettings'', False),
     (''auto-route'', ''settings.autoRoute.title'', False), (''egress'', ''settings.proxySettings'', False),
     (''relay'', ''relay.settings'', False), (''prompt-filter'', ''settings.promptFilter'', False),
     (''danger'', ''settings.dangerZone'', True)]"

record rail_st =
  rl_active :: string
  rl_visible :: "string set"

definition rail_mount :: rail_st where
  "rail_mount = \<lparr>rl_active = ''general'', rl_visible = {}\<rparr>"

text \<open>The observer's callback: which sections came into view or left it.\<close>

definition observe :: "(string \<times> bool) list \<Rightarrow> rail_st \<Rightarrow> rail_st" where
  "observe entries s =
    (let vis = fold (\<lambda>(i, inside) v. if inside then insert i v else v - {i}) entries (rl_visible s) in
     case find (\<lambda>n. fst n \<in> vis) settings_NAV of
       None \<Rightarrow> s\<lparr>rl_visible := vis\<rparr>
     | Some n \<Rightarrow> s\<lparr>rl_visible := vis, rl_active := fst n\<rparr>)"

definition rail_index :: "rail_st \<Rightarrow> nat" where
  "rail_index s = (let k = length (takeWhile (\<lambda>n. fst n \<noteq> rl_active s) settings_NAV) in
     if k < length settings_NAV then k else 0)"

definition rail_item :: "ui \<Rightarrow> rail_st \<Rightarrow> string \<times> string \<times> bool \<Rightarrow> rail_st act view" where
  "rail_item E s n = El ''li'' [] [El ''button'' [
     on ''onClick'' (Upd (\<lambda>x. x\<lparr>rl_active := fst n\<rparr>) (Emit (Parent ''scrollIntoView'' (JStr (fst n))) Done)),
     aB ''aria-current'' (fst n = rl_active s)] [Txt (tx E (fst (snd n)))]]"

definition SettingsPage :: "ui \<Rightarrow> rail_st \<Rightarrow> rail_st act view" where
  "SettingsPage E s = El ''div'' [] [
     PageHeader E (tx E ''settings.title'') (tx E ''settings.description'') Nothing,
     El ''div'' [] [
       El ''nav'' [] [
         El ''span'' [aB ''danger'' (snd (snd (settings_NAV ! rail_index s))),
           aS ''transform'' (''translateY('' @ show_nat (rail_index s * 2) @ ''rem)'')] [],
         El ''ul'' [] (map (rail_item E s) settings_NAV)],
       El ''div'' [] [ic ''GeneralSection'', ic ''ThinkingSection'', ic ''EndpointSection'', ic ''AutoRouteSection'',
         ic ''ProxySection'', ic ''RelaySection'', ic ''PromptFilterSection'', ic ''DangerSection'']]]"

section \<open>The sections as instances\<close>

lemma list_all_rule_rows:
  "list_all (handler_all Q) (live (frag (map (rule_row E s) irs)))
   \<longleftrightarrow> (\<forall>(i, r)\<in>set irs. list_all (handler_all Q) (live (rule_row E s (i, r))))"
  by (auto simp: list_all_concat_map o_def)

lemma edits_rules [simp]: "edits (set_rules rs)" "edits (setRule s i p)" "edits (addRule uuid s t)" "edits (removeRule s i)"
  by (simp_all add: set_rules_def setRule_def addRule_def removeRule_def)

interpretation thinking: draft_section "ThinkingSection E" section_mount E thinking_request "\<lambda>_. False"
  "''settings.thinkingSaved''" "[[''thinking'']]"
  by unfold_locales (auto simp: section_mount_def ThinkingSection_def formatSelect_def thinking_save_def view_live)

interpretation endpoint: draft_section "EndpointSection E" section_mount E endpoint_request "\<lambda>_. False"
  "''settings.endpointSaved''" "[[''endpoint'']]"
  by unfold_locales (auto simp: section_mount_def EndpointSection_def endpoint_save_def view_live)

interpretation prompt_filter: draft_section "PromptFilterSection E uuid" section_mount E filter_request filter_invalid
  "''settings.promptFilterSaved''" "[[''prompt-filter'']]"
proof unfold_locales
  fix s :: section_st
  let ?Q = "\<lambda>a. edits a \<or> a = save_section E (filter_request s) ''settings.promptFilterSaved'' [[''prompt-filter'']] \<and>
    dirty s \<and> \<not> filter_invalid s \<and> \<not> sn_pending s"
  have "list_all (handler_all ?Q) (live (rule_row E s ir))" for ir
    by (cases ir) (simp add: rule_row_def view_live Let_def)
  then show "list_all (handler_all ?Q) (live (PromptFilterSection E uuid s))"
    by (auto simp: PromptFilterSection_def filter_save_def view_live list_all_concat_map)
qed (simp add: section_mount_def)

section \<open>Properties\<close>

text \<open>C16: a settings section sends its copy as it stands, only when it was changed, and only what it
  can check: of everything a user can do in the sections for thinking, endpoints and prompt filters,
  in any state, only the save button sends anything, namely the edited copy to the section's own
  path; it does so only while the copy differs from the data and no save is under way, and for the
  prompt filters only when every rule has a pattern.\<close>

theorem sections_send_changed_copy:
  assumes "(V, path, blocked) \<in> {(ThinkingSection E, ''/thinking'', \<lambda>_. False),
      (EndpointSection E, ''/endpoint'', \<lambda>_. False), (PromptFilterSection E uuid, ''/prompt-filter'', filter_invalid)}"
    and "h \<in> set (live (V s))" "fire h inp = Some a" "may_send P a"
  shows "P (Http ''POST'' path (JsonBody (sn_draft s))) \<and> dirty s \<and> \<not> sn_pending s \<and> \<not> blocked s"
  using assms thinking.saves_only_changes [where h = h and s = s and E = E and inp = inp and a = a and P = P]
    endpoint.saves_only_changes [where h = h and s = s and E = E and inp = inp and a = a and P = P]
    prompt_filter.saves_only_changes [where h = h and s = s and E = E and uuid = uuid and inp = inp and a = a and P = P]
  by (auto simp: thinking_request_def endpoint_request_def filter_request_def)

definition thinking_edited :: section_st where
  "thinking_edited = \<lparr>sn_data = JObj [(''suffix'', JStr ''-t'')], sn_draft = JObj [(''suffix'', JStr ''-think'')], sn_pending = False\<rparr>"

lemma thinking_edited_dirty: "dirty thinking_edited"
  by code_simp

theorem sections_send_changed_copy_witness:
  "dirty thinking_edited \<and> \<not> sn_pending thinking_edited"
proof -
  have "Plain (thinking_save sample_ui thinking_edited) \<in> set (live (ThinkingSection sample_ui thinking_edited))"
    using thinking_edited_dirty by (simp add: ThinkingSection_def view_live thinking_edited_def)
  moreover have "may_send (\<lambda>r. True) (thinking_save sample_ui thinking_edited)"
    by (simp add: thinking_save_def save_section_def mutate_def settle_def finally_do_def await_def)
  ultimately show ?thesis
    using sections_send_changed_copy [of "ThinkingSection sample_ui" "''/thinking''" "\<lambda>_. False" sample_ui _ _ thinking_edited Click]
    by simp
qed

text \<open>An edit made while a save is under way is lost: the fields stay enabled during the save, and
  when the saved settings are read back they replace the copy; whatever was typed meanwhile is gone,
  was never sent, and the section looks saved.\<close>

theorem edit_during_save_lost:
  assumes "cst m = s" "inflight m = []" "dirty s" "\<not> sn_pending s" "sn_draft s = JObj d" "sn_data s \<noteq> JObj d"
  shows "\<exists>k m2 m3. mstep (ThinkingSection E) section_env m
       (m\<lparr>cst := s\<lparr>sn_pending := True\<rparr>, inflight := [Req (Http ''POST'' ''/thinking'' (JsonBody (sn_draft s))) k]\<rparr>) \<and>
     mstep (ThinkingSection E) section_env
       (m\<lparr>cst := s\<lparr>sn_pending := True\<rparr>, inflight := [Req (Http ''POST'' ''/thinking'' (JsonBody (sn_draft s))) k]\<rparr>) m2 \<and>
     sn_draft (cst m2) = patched [(''suffix'', JStr x)] (sn_draft s) \<and>
     (mstep (ThinkingSection E) section_env)\<^sup>*\<^sup>* m2 m3 \<and> inflight m3 = [] \<and> last (trace m3) = Invalidate [''thinking''] \<and>
     sn_draft (cst m3) = sn_draft s \<and> \<not> dirty (cst m3)"
proof -
  let ?V = "ThinkingSection E"
  let ?r = "Http ''POST'' ''/thinking'' (JsonBody (sn_draft s))"
  obtain k where k: "sync (thinking_save E s) s = (s\<lparr>sn_pending := True\<rparr>, [], [Req ?r k])"
    "\<And>v z. sync (k (Resolved v)) z = (z\<lparr>sn_pending := False\<rparr>,
       ToastOk (tx E ''settings.thinkingSaved'') # [Invalidate [''thinking'']], [])"
    using sync_save [of E ?r "''settings.thinkingSaved''" "[[''thinking'']]" s]
    by (auto simp: thinking_save_def thinking_request_def)
  let ?m1 = "m\<lparr>cst := s\<lparr>sn_pending := True\<rparr>, inflight := [Req ?r k]\<rparr>"
  let ?d = "patched [(''suffix'', JStr x)] (sn_draft s)"
  let ?m2 = "m\<lparr>cst := s\<lparr>sn_pending := True, sn_draft := ?d\<rparr>, inflight := [Req ?r k]\<rparr>"
  let ?n = "m\<lparr>cst := s\<lparr>sn_draft := ?d\<rparr>, inflight := [],
     trace := trace m @ [ToastOk (tx E ''settings.thinkingSaved''), Invalidate [''thinking'']]\<rparr>"
  let ?m3 = "?n\<lparr>cst := query_data (sn_draft s) (cst ?n)\<rparr>"
  have "Plain (thinking_save E s) \<in> set (live (?V s))"
    using assms(3-5) by (simp add: ThinkingSection_def view_live)
  then have 1: "mstep ?V section_env m ?m1"
    using mstep.event [where h = "Plain (thinking_save E s)" and a = "thinking_save E s" and inp = Click and m = m and V = ?V]
      k(1) assms(1,2) by (cases m) (simp add: resume_def)
  have "WithText (\<lambda>v. patch [(''suffix'', JStr v)]) \<in> set (live (?V (cst ?m1)))"
    using assms(5) by (simp add: ThinkingSection_def view_live)
  then have 2: "mstep ?V section_env ?m1 ?m2"
    using mstep.event [where h = "WithText (\<lambda>v. patch [(''suffix'', JStr v)])" and a = "patch [(''suffix'', JStr x)]"
      and inp = "Type x" and m = ?m1 and V = ?V] by (simp add: resume_def) (simp add: patch_def)
  have 3: "mstep ?V section_env ?m2 ?n"
    using mstep.wake [of 0 ?m2 "[Resolved JNull]" _ ?V section_env] k(2) assms(4) by (cases s) (simp add: resume_def drop_nth_def)
  have 4: "mstep ?V section_env ?n ?m3"
    by (rule mstep.world) (auto simp: section_env_def)
  have "(mstep ?V section_env)\<^sup>*\<^sup>* ?m2 ?m3"
    by (rule converse_rtranclp_into_rtranclp [where b = ?n]) (use 3 4 in \<open>blast intro: r_into_rtranclp\<close>)+
  moreover have "sn_draft (cst ?m3) = sn_draft s" "\<not> dirty (cst ?m3)"
    using assms(5,6) by (simp_all add: query_data_def dirty_def)
  moreover have "sn_draft (cst ?m2) = ?d" "inflight ?m3 = []" "last (trace ?m3) = Invalidate [''thinking'']" by simp_all
  ultimately show ?thesis using 1 2 by blast
qed

theorem edit_during_save_lost_witness:
  "\<exists>m3 :: section_st mach. sn_draft (cst m3) = JObj [(''suffix'', JStr ''-think'')] \<and> \<not> dirty (cst m3)"
proof -
  have "sn_draft thinking_edited = JObj [(''suffix'', JStr ''-think'')]" "sn_data thinking_edited \<noteq> JObj [(''suffix'', JStr ''-think'')]"
    "\<not> sn_pending thinking_edited"
    by (simp_all add: thinking_edited_def)
  from edit_during_save_lost [where m = "\<lparr>cst = thinking_edited, inflight = [], trace = []\<rparr>" and E = sample_ui
      and x = "''-th''", OF _ _ thinking_edited_dirty this(3,1,2)]
    this(1) show ?thesis by auto
qed

text \<open>The danger zone asks first: of everything a user can do there only the button of the open
  dialog sends anything, and then exactly what the dialog asked about.\<close>

theorem danger_asks_first:
  assumes "h \<in> set (live (DangerSection E s))" "fire h inp = Some a" "may_send P a"
  shows "dg_open s = Some ResetStats \<and> P (Http ''POST'' ''/stats/reset'' NoBody) \<or>
    dg_open s = Some ClearLogs \<and> P (Http ''DELETE'' ''/logs'' NoBody)"
proof -
  have quiet: "\<not> may_send P (close_danger b)" "\<not> may_send P (Upd f Done)" for b and f :: "danger_st \<Rightarrow> danger_st"
    by (simp_all add: close_danger_def)
  have "list_all (handler_all (\<lambda>a. may_send P a \<longrightarrow> dg_open s \<noteq> None \<and> may_send P (danger_run E s))) (live (DangerSection E s))"
    using quiet by (auto simp: DangerSection_def danger_row_def view_live dest!: may_send_confirm_run)
  with assms have sent: "dg_open s \<noteq> None" "may_send P (danger_run E s)"
    by (auto simp: list_all_iff handler_all_def)
  then obtain d where "dg_open s = Some d" by blast
  with sent(2) show ?thesis
    by (cases d) (auto simp: danger_run_def post_def del_def dest!: may_send_catch)
qed

theorem danger_asks_first_witness:
  "dg_open \<lparr>dg_open = Some ClearLogs, dg_busy = False\<rparr> = Some ClearLogs"
proof -
  let ?s = "\<lparr>dg_open = Some ClearLogs, dg_busy = False\<rparr>"
  let ?a = "confirm_run close_danger (danger_run sample_ui ?s) (\<lambda>b x. x\<lparr>dg_busy := b\<rparr>)"
  have "Plain ?a \<in> set (live (DangerSection sample_ui ?s))" by (simp add: DangerSection_def view_live)
  moreover have "may_send (\<lambda>r. r = Http ''DELETE'' ''/logs'' NoBody) ?a"
    by (simp add: confirm_run_def danger_run_def act_nf)
  ultimately show ?thesis
    using danger_asks_first [of "Plain ?a" sample_ui ?s Click ?a "\<lambda>r. r = Http ''DELETE'' ''/logs'' NoBody"] by simp
qed

end
