(* ===== verification/Settings_General.thy ===== *)
theory Settings_General
  imports Settings_Shared Admin_Client
begin

text \<open>
  \<open>dashboard/src/pages/settings/general.tsx\<close>: the general settings with their editable copy, and the
  change of the admin password. The call of the API client's \<open>setToken\<close> is the effect
  \<open>Parent ''setToken''\<close>; \<open>console_server\<close> runs the console's requests against the gateway of
  \<open>Admin_Session\<close>, so that a password change can be followed to the server and back.
\<close>

section \<open>\<open>parseInt(s, 10)\<close>\<close>

definition js_parseInt :: "string \<Rightarrow> int option" where
  "js_parseInt s = (let s = trim_start s; neg = starts_with ''-'' s;
       ds = takeWhile is_digit (if neg \<or> starts_with ''+'' s then drop 1 s else s) in
     if ds = [] then None else Some (if neg then - int (digits_val 0 ds) else int (digits_val 0 ds)))"

text \<open>\<open>Math.max(lo, Math.min(hi, parseInt(s, 10) || 0))\<close>\<close>

definition clamped :: "int \<Rightarrow> int \<Rightarrow> string \<Rightarrow> int" where
  "clamped lo hi s = max lo (min hi (case js_parseInt s of None \<Rightarrow> 0 | Some n \<Rightarrow> n))"

section \<open>State\<close>

record general_st = section_st +
  gs_pw :: string
  gs_confirm :: string
  gs_pwPending :: bool

definition general_mount :: general_st where
  "general_mount = \<lparr>sn_data = JUndef, sn_draft = JUndef, sn_pending = False, gs_pw = [], gs_confirm = [], gs_pwPending = False\<rparr>"

definition LOG_LEVELS :: "string list" where
  "LOG_LEVELS = [''debug'', ''info'', ''warn'', ''error'']"

section \<open>General settings\<close>

definition general_body :: "'a section_st_scheme \<Rightarrow> (string \<times> jsv) list" where
  "general_body s = [
     (''allowOverUsage'', draft_field s ''allowOverUsage''),
     (''logLevel'', coalesce (draft_field s ''logLevel'') (JStr ''info'')),
     (''accountRefreshMinutes'', coalesce (draft_field s ''accountRefreshMinutes'') (JNum 0)),
     (''modelsDevSyncHours'', coalesce (draft_field s ''modelsDevSyncHours'') (JNum 0)),
     (''warmupProbe'', JBool (truthy (draft_field s ''warmupProbe''))),
     (''warmupRecover'', JBool (truthy (draft_field s ''warmupRecover''))),
     (''testModel'', coalesce (draft_field s ''testModel'') (JStr []))]"

definition general_request :: "'a section_st_scheme \<Rightarrow> request" where
  "general_request s = Http ''POST'' ''/settings'' (JsonBody (obj (general_body s)))"

definition general_save :: "ui \<Rightarrow> general_st \<Rightarrow> general_st act" where
  "general_save E s = save_section E (general_request s) ''settings.generalSaved'' [[''settings'']]"

definition number_entry :: "string \<Rightarrow> int \<Rightarrow> int \<Rightarrow> jsv \<Rightarrow> (int \<Rightarrow> 'e) \<Rightarrow> 'e view" where
  "number_entry i lo hi val onChange = El ''Input'' [aS ''id'' i, aS ''type'' ''number'', aN ''min'' (of_int lo), aN ''max'' (of_int hi),
     aN ''step'' 1, aS ''value'' (js_string (coalesce val (JNum 0))), onS ''onChange'' (\<lambda>v. onChange (clamped lo hi v))] []"

definition general_card :: "ui \<Rightarrow> general_st \<Rightarrow> general_st act view" where
  "general_card E s = SettingsSection ''general'' (tx E ''settings.general'') (tx E ''settings.generalHint'')
     (if \<not> truthy (sn_draft s) then [LoadingBlock E None 3] else [
        SettingsField (tx E ''settings.logLevel'') (tx E ''settings.logLevelHint'') []
          [Choice (map (\<lambda>l. (l, l)) LOG_LEVELS) (js_string (coalesce (draft_field s ''logLevel'') (JStr ''info'')))
             (\<lambda>v. patch [(''logLevel'', JStr v)])],
        SettingsField (tx E ''settings.accountRefresh'') (tx E ''settings.accountRefreshHint'') ''refresh-min''
          [number_entry ''refresh-min'' 0 1440 (draft_field s ''accountRefreshMinutes'')
             (\<lambda>n. patch [(''accountRefreshMinutes'', JNum (of_int n))])],
        SettingsField (tx E ''settings.modelsDevSync'') (tx E ''settings.modelsDevSyncHint'') ''modelsdev-hours''
          [number_entry ''modelsdev-hours'' (- 1) 168 (draft_field s ''modelsDevSyncHours'')
             (\<lambda>n. patch [(''modelsDevSyncHours'', JNum (of_int n))])],
        SettingsField (tx E ''settings.testModel'') (tx E ''settings.testModelHint'') ''test-model''
          [Entry ''test-model'' [] (js_string (coalesce (draft_field s ''testModel'') (JStr [])))
             (\<lambda>v. patch [(''testModel'', JStr v)]) (tx E ''settings.testModelPlaceholder'')],
        El ''div'' [] [
          El ''div'' [] [Txt (tx E ''settings.warmup.title'')],
          El ''p'' [] [Txt (tx E ''settings.warmup.hint'')],
          SwitchRow (tx E ''settings.warmup.probe'') (tx E ''settings.warmup.probeHint'')
            (truthy (draft_field s ''warmupProbe'')) (\<lambda>v. patch [(''warmupProbe'', JBool v)]),
          SwitchRow (tx E ''settings.warmup.recover'') (tx E ''settings.warmup.recoverHint'')
            (truthy (draft_field s ''warmupRecover'')) (\<lambda>v. patch [(''warmupRecover'', JBool v)])],
        SwitchRow (tx E ''settings.allowOverUsage'') (tx E ''settings.allowOverUsageHint'')
          (truthy (draft_field s ''allowOverUsage'')) (\<lambda>v. patch [(''allowOverUsage'', JBool v)]),
        El ''div'' [] [
          El ''span'' [] [Txt (tx E ''settings.enableApiKey'' @ '': '' @
            (if truthy (draft_field s ''requireApiKey'') then tx E ''common.enabled'' else tx E ''common.disabled'') @
            '' '' @ em_dash @ '' '' @ tx E ''settings.requireApiKeyHint'')],
          El ''Link'' [aS ''to'' ''/api-keys''] [Txt (tx E ''nav.apiKeys'')]]])
     (SaveButton E (\<not> dirty s) (sn_pending s) (Some (tx E ''settings.saveGeneral'')) (general_save E s))"

section \<open>The admin password\<close>

definition pwError :: "ui \<Rightarrow> general_st \<Rightarrow> string" where
  "pwError E s = (if gs_pw s \<noteq> [] \<and> length (gs_pw s) < 8 then tx E ''settings.passwordTooShort''
     else if gs_confirm s \<noteq> [] \<and> gs_pw s \<noteq> gs_confirm s then tx E ''settings.passwordMismatch'' else [])"

definition pw_changed :: "ui \<Rightarrow> jsv \<Rightarrow> general_st act" where
  "pw_changed E res = (let done = Upd (\<lambda>x. x\<lparr>gs_pw := []\<rparr>) (Upd (\<lambda>x. x\<lparr>gs_confirm := []\<rparr>)
       (Emit (ToastOk (tx E ''settings.passwordChanged'')) Done)) in
     if truthy (get_prop res ''token'') then Emit (Parent ''setToken'' (get_prop res ''token'')) done else done)"

definition changePw :: "ui \<Rightarrow> general_st \<Rightarrow> general_st act" where
  "changePw E s = mutate (\<lambda>b x. x\<lparr>gs_pwPending := b\<rparr>)
     (post ''/settings'' (JsonBody (obj [(''password'', JStr (gs_pw s))])) (pw_changed E))
     (\<lambda>e. Emit (ToastErr (errorMessage_or (tx E ''common.saveFailed'') e)) Done)"

definition password_card :: "ui \<Rightarrow> general_st \<Rightarrow> general_st act view" where
  "password_card E s = SettingsSection ''password'' (tx E ''settings.adminPassword'') [] [
     El ''div'' [] [
       SettingsField (tx E ''settings.newPassword'') [] ''new-pw''
         [Entry ''new-pw'' ''password'' (gs_pw s) (\<lambda>v. Upd (\<lambda>x. x\<lparr>gs_pw := v\<rparr>) Done) (tx E ''settings.newPasswordPlaceholder'')],
       SettingsField (tx E ''settings.confirmPassword'') [] ''confirm-pw''
         [Entry ''confirm-pw'' ''password'' (gs_confirm s) (\<lambda>v. Upd (\<lambda>x. x\<lparr>gs_confirm := v\<rparr>) Done) []]],
     shown (pwError E s \<noteq> []) (El ''p'' [] [Txt (pwError E s)])]
     (El ''Button'' [on ''onClick'' (changePw E s),
        aB ''disabled'' (gs_pw s = [] \<or> gs_confirm s = [] \<or> pwError E s \<noteq> [] \<or> gs_pwPending s)]
        [Txt (tx E ''settings.changePassword'')])"

definition GeneralSection :: "ui \<Rightarrow> general_st \<Rightarrow> general_st act view" where
  "GeneralSection E s = frag [general_card E s, password_card E s]"

section \<open>Against the gateway\<close>

definition http_init :: "string \<Rightarrow> body \<Rightarrow> request_init" where
  "http_init v b = \<lparr>i_method = v, i_headers = [], i_body = b\<rparr>"

text \<open>A request of a page, made by the API client of a console; the clipboard always works here.\<close>

definition console_server :: "(console \<times> deployment) server" where
  "console_server cw r = (case r of
     Http v p b \<Rightarrow> (case api serve p (http_init v b) (fst cw) (snd cw) of
        (Inl e, c, w) \<Rightarrow> (Rejected e, c, w) | (Inr x, c, w) \<Rightarrow> (Resolved x, c, w))
   | WriteClipboard t \<Rightarrow> (Resolved JUndef, cw)
   | Fetch p t \<Rightarrow> (Rejected (JsErr ''Failed to fetch''), cw))"

text \<open>What the effects of a page do to the console: \<open>setToken(token, isRemembered())\<close>.\<close>

fun console_effect :: "eff \<Rightarrow> console \<Rightarrow> console" where
  "console_effect (Parent k v) c = (if k = ''setToken''
     then c\<lparr>browser := setToken (js_string v) (isRemembered (browser c)) (browser c)\<rparr> else c)"
| "console_effect _ c = c"

text \<open>\<open>apiUpdateSettings\<close> for a body that holds only a password.\<close>

definition update_password ::
  "(string \<Rightarrow> string) \<Rightarrow> (nat \<Rightarrow> string) \<Rightarrow> gateway \<Rightarrow> fetch_request \<Rightarrow> fetch_reply \<times> gateway" where
  "update_password sha mint g r = (case decode_password None (f_body r) of
     None \<Rightarrow> (respond 400 [(''error'', JStr ''Invalid JSON'')], g)
   | Some pw \<Rightarrow> changePassword sha mint g r pw)"

definition with_settings ::
  "(string \<Rightarrow> string) \<Rightarrow> (nat \<Rightarrow> string) \<Rightarrow> (gateway \<Rightarrow> fetch_request \<Rightarrow> fetch_reply \<times> gateway) \<Rightarrow>
   gateway \<Rightarrow> fetch_request \<Rightarrow> fetch_reply \<times> gateway" where
  "with_settings sha mint rest g r =
    (if url_path r = ''/admin/api/settings'' \<and> f_method r = ''POST'' then update_password sha mint g r else rest g r)"

section \<open>Numbers the server accepts\<close>

text \<open>\<open>apiUpdateSettings\<close>, the two ranges: decoding into an integer fails for any other value.\<close>

definition int_field :: "jsv \<Rightarrow> string \<Rightarrow> int option option" where
  "int_field b k = (case get_prop b k of
     JNum n \<Rightarrow> if of_int \<lfloor>n\<rfloor> = n then Some (Some \<lfloor>n\<rfloor>) else None
   | JUndef \<Rightarrow> Some None | JNull \<Rightarrow> Some None | _ \<Rightarrow> None)"

definition settings_error :: "jsv \<Rightarrow> string option" where
  "settings_error b = (case (int_field b ''accountRefreshMinutes'', int_field b ''modelsDevSyncHours'') of
     (Some m, Some h) \<Rightarrow>
       if (case m of None \<Rightarrow> False | Some n \<Rightarrow> n < 0 \<or> n > 1440)
       then Some ''accountRefreshMinutes must be between 0 (default) and 1440''
       else if (case h of None \<Rightarrow> False | Some n \<Rightarrow> n < - 1 \<or> n > 168)
       then Some ''modelsDevSyncHours must be between -1 (disabled) and 168''
       else None
   | _ \<Rightarrow> Some ''Invalid JSON'')"

definition in_range :: "int \<Rightarrow> int \<Rightarrow> jsv \<Rightarrow> bool" where
  "in_range lo hi v \<longleftrightarrow> nullish v \<or> (\<exists>n. v = JNum (of_int n) \<and> lo \<le> n \<and> n \<le> hi)"

definition settings_ok :: "jsv \<Rightarrow> bool" where
  "settings_ok d \<longleftrightarrow> in_range 0 1440 (get_prop d ''accountRefreshMinutes'') \<and>
     in_range (- 1) 168 (get_prop d ''modelsDevSyncHours'')"

definition general_good :: "general_st \<Rightarrow> bool" where
  "general_good s \<longleftrightarrow> settings_ok (sn_draft s)"

text \<open>The query returns settings whose numbers are in range.\<close>

definition general_env :: "general_st \<Rightarrow> general_st \<Rightarrow> bool" where
  "general_env s s' \<longleftrightarrow> (\<exists>v. settings_ok v \<and> s' = query_data v s)"

lemma clamped_bounds: "lo \<le> hi \<Longrightarrow> lo \<le> clamped lo hi s \<and> clamped lo hi s \<le> hi"
  by (simp add: clamped_def)

lemma in_range_clamped: "lo \<le> hi \<Longrightarrow> in_range lo hi (JNum (of_int (clamped lo hi s)))"
  unfolding in_range_def using clamped_bounds [of lo hi s] by blast

lemma steady_patch:
  "k \<notin> {''accountRefreshMinutes'', ''modelsDevSyncHours''} \<Longrightarrow> steady general_good (patch [(k, v)])"
  "steady general_good (patch [(''accountRefreshMinutes'', JNum (of_int (clamped 0 1440 x)))])"
  "steady general_good (patch [(''modelsDevSyncHours'', JNum (of_int (clamped (- 1) 168 x)))])"
  using in_range_clamped [of 0 1440 x] in_range_clamped [of "- 1" 168 x]
  by (auto simp: patch_def general_good_def settings_ok_def get_prop_patched split: jsv.split)

lemma steady_password: "steady general_good (changePw E s)"
  by (simp add: changePw_def mutate_def settle_def act_nf pw_changed_def general_good_def Let_def)

lemma live_number_entry [view_live]: "live (number_entry i lo hi v f) = [WithText (\<lambda>x. f (clamped lo hi x))]"
  by (simp add: number_entry_def)

interpretation general: steady_page "GeneralSection E" general_env general_mount general_good
proof
  show "general_good general_mount" by (simp add: general_good_def general_mount_def settings_ok_def in_range_def)
next
  fix s assume "general_good s"
  have save: "steady general_good (general_save E s)"
    unfolding general_save_def by (rule steady_save) (simp add: general_good_def)
  show "list_all (handler_all (steady general_good)) (live (GeneralSection E s))"
    by (simp add: GeneralSection_def general_card_def password_card_def view_live save steady_patch steady_password)
      (simp add: general_good_def)
next
  fix s s' assume "general_env s s'" "general_good s"
  then show "general_good s'" by (auto simp: general_env_def general_good_def query_data_def)
qed

interpretation general_save: draft_section "general_card E" general_mount E general_request "\<lambda>_. False"
  "''settings.generalSaved''" "[[''settings'']]"
proof unfold_locales
  show "\<not> sn_pending general_mount" by (simp add: general_mount_def)
next
  fix s
  show "list_all (handler_all (\<lambda>a. edits a \<or> a = save_section E (general_request s) ''settings.generalSaved'' [[''settings'']] \<and>
      dirty s \<and> \<not> False \<and> \<not> sn_pending s)) (live (general_card E s))"
    by (simp add: general_card_def general_save_def view_live)
qed

lemma in_range_number:
  assumes "in_range lo hi v" "lo \<le> 0" "0 \<le> hi"
  shows "\<exists>n. coalesce v (JNum 0) = JNum (of_int n) \<and> lo \<le> n \<and> n \<le> hi"
proof (cases "nullish v")
  case True
  with assms show ?thesis by (intro exI [of _ 0]) (simp add: coalesce_def)
next
  case False
  with assms show ?thesis by (auto simp: in_range_def coalesce_def)
qed

lemma get_general_body:
  "get_prop (obj (general_body s)) ''accountRefreshMinutes'' = coalesce (draft_field s ''accountRefreshMinutes'') (JNum 0)"
  "get_prop (obj (general_body s)) ''modelsDevSyncHours'' = coalesce (draft_field s ''modelsDevSyncHours'') (JNum 0)"
proof -
  have "coalesce v (JNum 0) \<noteq> JUndef" "coalesce v (JStr t) \<noteq> JUndef" for v t
    by (auto simp: coalesce_def)
  then show "get_prop (obj (general_body s)) ''accountRefreshMinutes'' = coalesce (draft_field s ''accountRefreshMinutes'') (JNum 0)"
    "get_prop (obj (general_body s)) ''modelsDevSyncHours'' = coalesce (draft_field s ''modelsDevSyncHours'') (JNum 0)"
    by (simp_all add: obj_def general_body_def)
qed

section \<open>Properties\<close>

text \<open>C17: the numbers of the general settings are always ones the server takes: as long as the settings
  it hands out are in range (or not set), then after any series of entries, saves, replies and
  refetches, whatever was typed, the body a save would send passes the server's range checks.\<close>

theorem general_numbers_accepted:
  assumes "mreach (GeneralSection E) general_env general_mount m"
  shows "settings_error (obj (general_body (cst m))) = None"
proof -
  have "settings_ok (sn_draft (cst m))"
    using general.reach_inv [OF assms] by (simp add: general_good_def)
  then obtain n k where n: "get_prop (obj (general_body (cst m))) ''accountRefreshMinutes'' = JNum (of_int n)" "0 \<le> n" "n \<le> 1440"
    and k: "get_prop (obj (general_body (cst m))) ''modelsDevSyncHours'' = JNum (of_int k)" "- 1 \<le> k" "k \<le> 168"
    using in_range_number [of 0 1440] in_range_number [of "- 1" 168]
    by (fastforce simp: settings_ok_def get_general_body draft_field_def)
  then show ?thesis by (simp add: settings_error_def int_field_def)
qed

definition loaded_settings :: jsv where
  "loaded_settings = JObj [(''requireApiKey'', JBool True), (''allowOverUsage'', JBool False), (''accountRefreshMinutes'', JNum 30)]"

theorem general_numbers_accepted_witness:
  "settings_error (obj (general_body (query_data loaded_settings general_mount))) = None"
proof -
  have "in_range 0 1440 (JNum 30)"
    using in_range_clamped [of 0 1440 "''30''"] by (auto simp: in_range_def intro!: exI [of _ "30::int"])
  then have "settings_ok loaded_settings" by (simp add: settings_ok_def loaded_settings_def in_range_def)
  then have "general_env general_mount (query_data loaded_settings general_mount)" by (auto simp: general_env_def)
  then have "mreach (GeneralSection sample_ui) general_env general_mount
      (\<lparr>cst = general_mount, inflight = [], trace = []\<rparr>\<lparr>cst := query_data loaded_settings general_mount\<rparr>)"
    by (intro mreach.step [OF mreach.start] mstep.world) simp
  from general_numbers_accepted [OF this] show ?thesis by simp
qed

text \<open>C9: changing the password does not lock the console out: the session it has is revoked with all
  others, but the answer brings a new one, which the console stores the way it stored the old; from
  then on the server accepts exactly this token, the new password is the one to log in with, and a
  reload of the tab, or a new tab if the console was remembered, finds the console signed in.\<close>

theorem password_change_keeps_session:
  fixes w :: deployment
  assumes "deployed_ok w" "w = (sha, mint, with_settings sha mint rest, g)" "accepted w (getToken (browser c))"
    and "admin_password w \<noteq> []" "gs_pw s \<noteq> []" "\<not> gs_pwPending s"
  shows "\<exists>t c1 c2 w'. exec (changePw E s) console_server s (c, w) =
      (None, s\<lparr>gs_pw := [], gs_confirm := []\<rparr>, [Parent ''setToken'' (JStr t), ToastOk (tx E ''settings.passwordChanged'')], (c1, w')) \<and>
    c2 = console_effect (Parent ''setToken'' (JStr t)) c1 \<and>
    admin_password w' = gs_pw s \<and> (\<forall>u. accepted w' u \<longleftrightarrow> u = getToken (browser c2)) \<and>
    isRemembered (browser c2) = isRemembered (browser c) \<and>
    status (fst (boot serve (reload c2) w')) = Authed \<and>
    status (fst (boot serve (new_tab c2) w')) = (if isRemembered (browser c) then Authed else Anonymous)"
proof -
  let ?r = "api_request (browser c) ''/settings'' (http_init ''POST'' (JsonBody (obj [(''password'', JStr (gs_pw s))])))"
  let ?rest = "with_settings sha mint rest"
  let ?t = "mint (drawn g)"
  have init: "i_headers (http_init v b) = []" "i_method (http_init v b) = v" "i_body (http_init v b) = b" for v b
    by (simp_all add: http_init_def)
  have token: "session_token ?r = getToken (browser c)"
    using gateway_server.request_token [of "http_init ''POST'' (JsonBody (obj [(''password'', JStr (gs_pw s))]))" "browser c"]
    by (simp add: init session_header_token)
  from assms(1,2) have w: "inj sha" "?t \<noteq> []" by simp_all
  define g1 where "g1 = g\<lparr>store := snd (validate sha (clock g) (getToken (browser c)) (password g) (store g))\<rparr>"
  obtain g' where g': "changePassword sha mint g1 ?r (gs_pw s) =
      (respond 200 [(''success'', JBool True), (''token'', JStr ?t)], g')"
    "password g' = gs_pw s" "\<forall>u. live_token sha g' u \<longleftrightarrow> u = ?t"
    using password_change_revokes [of sha mint g1 "gs_pw s" ?r] w assms(5) by (auto simp: g1_def)
  have "decode_password None (f_body ?r) = Some (gs_pw s)"
    by (simp add: api_request_def init decode_password_def read_json_def struct_like_def str_field_def obj_def Let_def)
  with g'(1) have rest: "?rest g1 ?r = (respond 200 [(''success'', JBool True), (''token'', JStr ?t)], g')"
    by (simp add: with_settings_def update_password_def url_path_def init)
  obtain st where "validate sha (clock g) (getToken (browser c)) (password g) (store g) = (True, st)"
    using assms(2,3) validate_live [of sha g "getToken (browser c)"]
    by (cases "validate sha (clock g) (getToken (browser c)) (password g) (store g)") simp
  then have served: "serve w ?r = (respond 200 [(''success'', JBool True), (''token'', JStr ?t)], (sha, mint, ?rest, g'))"
    using assms(2,4) rest by (simp add: handleAdminAPI_def admin_path_of init isConfigured_def token Let_def g1_def)
  then have "console_server (c, w) (Http ''POST'' ''/settings'' (JsonBody (obj [(''password'', JStr (gs_pw s))]))) =
      (Resolved (JObj [(''success'', JBool True), (''token'', JStr ?t)]), (c, (sha, mint, ?rest, g')))"
    by (simp add: console_server_def api_def api_result_def respond_def resp_ok_def on_unauthorized_def)
  then have run: "exec (changePw E s) console_server s (c, w) = (None, s\<lparr>gs_pw := [], gs_confirm := []\<rparr>,
      [Parent ''setToken'' (JStr ?t), ToastOk (tx E ''settings.passwordChanged'')], (c, (sha, mint, ?rest, g')))"
    using w(2) assms(6)
    by (simp add: changePw_def mutate_def settle_def exec_finally exec_catch post_def exec_await pw_changed_def)
  let ?c = "console_effect (Parent ''setToken'' (JStr ?t)) c"
  have c: "?c = c\<lparr>browser := setToken ?t (isRemembered (browser c)) (browser c)\<rparr>" by simp
  have tabs: "getToken (browser (reload ?c)) = ?t"
    "getToken (browser (new_tab ?c)) = (if isRemembered (browser c) then ?t else [])"
    "status (reload ?c) = Loading" "status (new_tab ?c) = Loading"
    using w(2) by (simp_all only: c getToken_new_tab) (simp_all add: reload_def new_tab_def)
  have "deployed_ok (sha, mint, ?rest, g')" "admin_password (sha, mint, ?rest, g') \<noteq> []"
    using assms(1,2,5) g'(2) by simp_all
  then have "status (fst (boot serve (reload ?c) (sha, mint, ?rest, g'))) = Authed"
    "status (fst (boot serve (new_tab ?c) (sha, mint, ?rest, g'))) = (if isRemembered (browser c) then Authed else Anonymous)"
    using g'(3) w(2) w(2) [symmetric] tabs by (simp_all only: gateway_server.boot_status) auto
  moreover have "getToken (browser ?c) = ?t" "isRemembered (browser ?c) = isRemembered (browser c)"
    using w(2) by (simp_all add: c) (simp add: token_defs)
  ultimately show ?thesis using run g' by (intro exI conjI) simp_all
qed

definition settled_gateway :: "string \<Rightarrow> gateway" where
  "settled_gateway pw = (sample_gateway pw)\<lparr>store := issue (\<lambda>s. s) 1000 ''tok-1'' pw True newSessionStore\<rparr>"

definition signed_in :: console where
  "signed_in = sample_console\<lparr>status := Authed, browser := setToken ''tok-1'' True (browser sample_console)\<rparr>"

theorem password_change_keeps_session_witness:
  "\<exists>t c1 w'. exec (changePw sample_ui (general_mount\<lparr>gs_pw := ''correct horse''\<rparr>)) console_server
      (general_mount\<lparr>gs_pw := ''correct horse''\<rparr>)
      (signed_in, (\<lambda>s. s), (\<lambda>n. show_nat (n + 7)), with_settings (\<lambda>s. s) (\<lambda>n. show_nat (n + 7)) (\<lambda>g r. (respond 200 [], g)),
        settled_gateway ''hunter22'') =
    (None, general_mount, [Parent ''setToken'' (JStr t), ToastOk ''settings.passwordChanged''], (c1, w')) \<and>
    admin_password w' = ''correct horse'' \<and> accepted w' t"
proof -
  let ?rest = "with_settings (\<lambda>s. s) (\<lambda>n. show_nat (n + 7)) (\<lambda>g r. (respond 200 [], g))"
  let ?w = "((\<lambda>s. s), (\<lambda>n. show_nat (n + 7)), ?rest, settled_gateway ''hunter22'') :: deployment"
  have "deployed_ok ?w" by (auto simp: with_settings_def url_path_def inj_on_def)
  moreover have "accepted ?w (getToken (browser signed_in))"
    by (simp add: signed_in_def live_token_def settled_gateway_def sample_gateway_def newSessionStore_def session_defs
        rememberTTL_def)
  ultimately show ?thesis
    using password_change_keeps_session [of ?w "\<lambda>s. s" "\<lambda>n. show_nat (n + 7)" "\<lambda>g r. (respond 200 [], g)"
        "settled_gateway ''hunter22''" signed_in "general_mount\<lparr>gs_pw := ''correct horse''\<rparr>" sample_ui]
    by (auto simp: general_mount_def settled_gateway_def sample_gateway_def sample_ui_def token_defs str_or_def)
qed

end
