(* ===== verification/Settings_Relay.thy ===== *)
theory Settings_Relay
  imports Settings_Proxy
begin

text \<open>
  \<open>dashboard/src/pages/settings/relay.tsx\<close>: the address and secret of the egress relay, its test, and
  the worker source to deploy; with \<open>apiUpdateRelay\<close> of \<open>proxy/handler.go\<close>, which stores them. The
  test button stays enabled while a test runs, so several tests can be under way at once.
\<close>

section \<open>State\<close>

record source_query =
  sq_pending :: bool
  sq_error :: "jerr option"
  sq_data :: "jsv option"

record relay_st =
  rs_data :: jsv
  rs_url :: string
  rs_secret :: string
  rs_pending :: bool
  rs_result :: jsv
  rs_testPending :: bool
  rs_tests :: nat
  rs_platform :: "string option"
  rs_src :: source_query
  rs_copied :: bool

definition relay_mount :: relay_st where
  "relay_mount = \<lparr>rs_data = JUndef, rs_url = [], rs_secret = [], rs_pending = False, rs_result = JUndef, rs_testPending = False,
     rs_tests = 0, rs_platform = None, rs_src = \<lparr>sq_pending = True, sq_error = None, sq_data = None\<rparr>, rs_copied = False\<rparr>"

definition relay_loaded :: "jsv \<Rightarrow> relay_st \<Rightarrow> relay_st" where
  "relay_loaded v s = (if v = rs_data s then s else if \<not> truthy v then s\<lparr>rs_data := v\<rparr>
     else s\<lparr>rs_data := v, rs_url := js_string (get_prop v ''relayUrl'')\<rparr>)"

definition relay_dirty :: "relay_st \<Rightarrow> bool" where
  "relay_dirty s \<longleftrightarrow> truthy (rs_data s) \<and> (JStr (rs_url s) \<noteq> get_prop (rs_data s) ''relayUrl'' \<or> rs_secret s \<noteq> [])"

definition badUrl :: "string \<Rightarrow> bool" where
  "badUrl u \<longleftrightarrow> u \<noteq> [] \<and> \<not> (starts_with ''http://'' u \<or> starts_with ''https://'' u)"

section \<open>Actions\<close>

definition relay_body :: "relay_st \<Rightarrow> body" where
  "relay_body s = JsonBody (obj [(''relayUrl'', JStr (js_trim (rs_url s))), (''relaySecret'', JStr (rs_secret s))])"

definition relay_save :: "ui \<Rightarrow> relay_st \<Rightarrow> relay_st act" where
  "relay_save E s = mutate (\<lambda>b x. x\<lparr>rs_pending := b\<rparr>) (post ''/relay'' (relay_body s) (\<lambda>_.
       Emit (ToastOk (tx E ''relay.saved'')) (Upd (\<lambda>x. x\<lparr>rs_secret := []\<rparr>) (Emit (Invalidate [''relay'']) Done))))
     (\<lambda>e. Emit (ToastErr (errorMessage_or (tx E ''common.saveFailed'') e)) Done)"

definition test_failed :: "ui \<Rightarrow> jerr \<Rightarrow> relay_st act" where
  "test_failed E e = Upd (\<lambda>x. x\<lparr>rs_result := JObj [(''ok'', JBool False), (''error'', JStr (errorMessage e))]\<rparr>)
     (Emit (ToastErr (tx E ''relay.testFail'')) Done)"

definition test_replied :: "ui \<Rightarrow> jsv \<Rightarrow> relay_st act" where
  "test_replied E r = Upd (\<lambda>x. x\<lparr>rs_result := r\<rparr>) (get_field r ''ok'' (\<lambda>ok.
     if truthy ok then Emit (ToastOk (tx E ''relay.testOk'')) Done else Emit (ToastErr (tx E ''relay.testFail'')) Done))"

text \<open>The mutation's state follows the test started last; an earlier one that ends leaves the mark.\<close>

definition test_mark :: "nat \<Rightarrow> bool \<Rightarrow> relay_st \<Rightarrow> relay_st" where
  "test_mark n b x = (if b then x\<lparr>rs_testPending := True, rs_tests := n\<rparr>
     else if rs_tests x = n then x\<lparr>rs_testPending := False\<rparr> else x)"

definition relay_test :: "ui \<Rightarrow> relay_st \<Rightarrow> relay_st act" where
  "relay_test E s = mutate (test_mark (Suc (rs_tests s))) (post ''/relay/test'' (relay_body s) (test_replied E)) (test_failed E)"

definition choose_platform :: "string \<Rightarrow> relay_st act" where
  "choose_platform p = Upd (\<lambda>x. x\<lparr>rs_platform := Some p\<rparr>) Done"

definition source_request :: "string \<Rightarrow> request" where
  "source_request p = Http ''GET'' (''/relay/source?platform='' @ p) NoBody"

section \<open>The section\<close>

definition PLATFORMS :: "string list" where
  "PLATFORMS = [''cloudflare'', ''vercel'', ''deno'']"

definition result_text :: "ui \<Rightarrow> jsv \<Rightarrow> string" where
  "result_text E r = (if truthy (get_prop r ''ok'') then tx E ''relay.testOk'' else tx E ''relay.testFail'') @
     (if truthy (get_prop r ''status'') then '' (HTTP '' @ js_string (get_prop r ''status'') @ '')'' else []) @
     (if truthy (js_or (get_prop r ''detail'') (get_prop r ''error''))
      then '' '' @ em_dash @ '' '' @ js_string (js_or (get_prop r ''detail'') (get_prop r ''error'')) else [])"

definition source_view :: "ui \<Rightarrow> relay_st \<Rightarrow> relay_st act view" where
  "source_view E s = (case rs_platform s of None \<Rightarrow> Nothing | Some p \<Rightarrow> frag [
     shown (sq_pending (rs_src s)) (LoadingBlock E None 3),
     (case sq_error (rs_src s) of None \<Rightarrow> Nothing | Some e \<Rightarrow> El ''p'' [] [Txt (errorMessage e)]),
     (case sq_data (rs_src s) of None \<Rightarrow> Nothing | Some d \<Rightarrow> El ''div'' [] [
        El ''p'' [] [Txt (tx E (''relay.steps.'' @ p))],
        El ''p'' [] [Txt (tx E ''relay.secretBaked'')],
        El ''div'' [] [El ''code'' [] [Txt (js_string (get_prop d ''filename''))],
          CopyButton E (rs_copied s) (\<lambda>b x. x\<lparr>rs_copied := b\<rparr>) (js_string (get_prop d ''code'')) (tx E ''common.copy'')],
        El ''pre'' [] [El ''code'' [] [Txt (js_string (get_prop d ''code''))]]])])"

definition relay_content :: "ui \<Rightarrow> relay_st \<Rightarrow> relay_st act view list" where
  "relay_content E s = [
     El ''div'' [] [
       SettingsField (tx E ''relay.url'') (if badUrl (rs_url s) then tx E ''settings.relayUrlInvalid'' else []) ''relay-url''
         [El ''Input'' [aS ''id'' ''relay-url'', aS ''value'' (rs_url s), onS ''onChange'' (\<lambda>v. Upd (\<lambda>x. x\<lparr>rs_url := v\<rparr>) Done),
            aS ''placeholder'' ''https://relay.example.workers.dev'', aB ''aria-invalid'' (badUrl (rs_url s))] []],
       SettingsField (tx E ''relay.secret'') (if truthy (get_prop (rs_data s) ''hasSecret'') then tx E ''relay.secretStored'' else [])
         ''relay-secret'' [Entry ''relay-secret'' ''password'' (rs_secret s) (\<lambda>v. Upd (\<lambda>x. x\<lparr>rs_secret := v\<rparr>) Done)
            (tx E ''relay.secretPlaceholder'')]],
     shown (truthy (rs_result s)) (El ''div'' [] [
       ic (if truthy (get_prop (rs_result s) ''ok'') then ''LuCheck'' else ''LuX''),
       El ''span'' [] [Txt (result_text E (rs_result s))]]),
     El ''div'' [] [
       El ''div'' [] [El ''div'' [] [Txt (tx E ''relay.deploy'')], El ''div'' [] [Txt (tx E ''settings.relayDeployHint'')]],
       El ''div'' [] (map (\<lambda>p. El ''Button'' [aS ''variant'' (if rs_platform s = Some p then ''default'' else ''outline''),
          on ''onClick'' (choose_platform p)] [Txt (tx E (''relay.'' @ p))]) PLATFORMS),
       source_view E s]]"

definition RelaySection :: "ui \<Rightarrow> relay_st \<Rightarrow> relay_st act view" where
  "RelaySection E s = SettingsSection ''relay'' (tx E ''relay.settings'') (tx E ''relay.desc'')
     (if \<not> truthy (rs_data s) then [LoadingBlock E None 3] else relay_content E s)
     (frag [
        El ''Button'' [aS ''variant'' ''outline'', on ''onClick'' (relay_test E s),
            aB ''disabled'' (rs_url s = [] \<and> \<not> truthy (get_prop (rs_data s) ''relayUrl''))]
          [shown (rs_testPending s) spinner, Txt (tx E ''relay.test'')],
        SaveButton E (\<not> relay_dirty s \<or> badUrl (rs_url s)) (rs_pending s) (Some (tx E ''relay.save'')) (relay_save E s)])"

definition relay_env :: "relay_st \<Rightarrow> relay_st \<Rightarrow> bool" where
  "relay_env s s' \<longleftrightarrow> (\<exists>v. s' = relay_loaded v s) \<or> (\<exists>q. s' = s\<lparr>rs_src := q\<rparr>)"

section \<open>The endpoint\<close>

definition apiUpdateRelay :: "jsv \<Rightarrow> egress_config \<Rightarrow> string option \<times> egress_config" where
  "apiUpdateRelay b c = (case (str_field b ''relayUrl'', str_field b ''relaySecret'') of
     (Some u, Some k) \<Rightarrow>
       (let u = js_trim u in
        if u \<noteq> [] \<and> \<not> starts_with ''http://'' u \<and> \<not> starts_with ''https://'' u
        then (Some ''relayUrl must start with http:// or https://'', c)
        else (let secret = (if k = [] then cfg_RelaySecret c else k);
                  secret = (if u = [] then [] else secret) in
              (None, c\<lparr>cfg_RelayURL := u, cfg_RelaySecret := secret\<rparr>)))
   | _ \<Rightarrow> (Some ''Invalid JSON'', c))"

definition apiGetRelay :: "egress_config \<Rightarrow> jsv" where
  "apiGetRelay c = JObj [(''hasSecret'', JBool (cfg_RelaySecret c \<noteq> [])), (''relayUrl'', JStr (cfg_RelayURL c))]"

definition relay_part :: "egress_config \<Rightarrow> relay_settings" where
  "relay_part c = \<lparr>relay_enabled = cfg_RelayEnabled c, relay_url = cfg_RelayURL c, relay_secret = cfg_RelaySecret c\<rparr>"

section \<open>Lemmas\<close>

lemma trim_prefix: "\<lbrakk>starts_with p u; \<not> is_ws (hd p); \<not> is_ws (last p); p \<noteq> []\<rbrakk> \<Longrightarrow> starts_with p (js_trim u)"
proof -
  assume p: "starts_with p u" "\<not> is_ws (hd p)" "\<not> is_ws (last p)" "p \<noteq> []"
  then obtain r where u: "u = p @ r" by (auto simp: starts_with_iff)
  have "trim_start u = u" using p u by (cases p) (simp_all add: trim_start_def)
  moreover have "dropWhile is_ws (rev r @ rev p) = dropWhile is_ws (rev r) @ rev p \<or> dropWhile is_ws (rev r @ rev p) = rev p"
  proof (cases "\<forall>c\<in>set (rev r). is_ws c")
    case True
    then have "dropWhile is_ws (rev r @ rev p) = dropWhile is_ws (rev p)" by (simp add: dropWhile_append)
    moreover have "dropWhile is_ws (rev p) = rev p" using p(3,4) by (cases "rev p") (simp_all add: rev_swap)
    ultimately show ?thesis by simp
  next
    case False
    then obtain c where "c \<in> set (rev r)" "\<not> is_ws c" by blast
    then show ?thesis using dropWhile_append1 [where P = is_ws and xs = "rev r" and x = c] by simp
  qed
  ultimately show ?thesis using u by (auto simp: js_trim_def trim_end_def starts_with_iff)
qed

text \<open>The endpoint as the server of the section's requests.\<close>

definition relay_server :: "egress_config server" where
  "relay_server c r = (case r of
     Http v p (JsonBody b) \<Rightarrow>
       (if v = ''POST'' \<and> p = ''/relay'' then
          (case apiUpdateRelay b c of (Some m, c') \<Rightarrow> (Rejected (ApiErr 400 m False), c')
           | (None, c') \<Rightarrow> (Resolved (JObj [(''success'', JBool True)]), c'))
        else (Rejected (ApiErr 404 ''Not Found'' False), c))
   | _ \<Rightarrow> (Rejected (ApiErr 404 ''Not Found'' False), c))"

lemma relay_body_fields:
  "relay_body s = JsonBody (JObj [(''relayUrl'', JStr (js_trim (rs_url s))), (''relaySecret'', JStr (rs_secret s))])"
  by (simp add: relay_body_def obj_def)

lemma good_url_trimmed: "\<not> badUrl u \<Longrightarrow> js_trim u = [] \<or> starts_with ''http://'' (js_trim u) \<or> starts_with ''https://'' (js_trim u)"
  using trim_prefix [of "''http://''" u] trim_prefix [of "''https://''" u]
  by (auto simp: badUrl_def is_ws_def)

lemma test_mark_simps [simp]:
  "rs_url (test_mark n b x) = rs_url x" "rs_secret (test_mark n b x) = rs_secret x" "rs_data (test_mark n b x) = rs_data x"
  "rs_result (test_mark n b x) = rs_result x"
  by (simp_all add: test_mark_def)

lemma sync_test:
  "\<exists>k. (\<forall>z. sync (relay_test E s) z = (test_mark (Suc (rs_tests s)) True z, [], [Req (Http ''POST'' ''/relay/test'' (relay_body s)) k])) \<and>
    (\<forall>r z. \<not> nullish r \<longrightarrow> (\<exists>l. sync (k (Resolved r)) z = (test_mark (Suc (rs_tests s)) False (z\<lparr>rs_result := r\<rparr>), l, [])))"
  by (auto simp: relay_test_def mutate_def settle_def act_nf test_replied_def)

lemma relay_typed:
  assumes "mreach (RelaySection E) relay_env s m" "truthy (rs_data (cst m))"
  shows "mreach (RelaySection E) relay_env s (m\<lparr>cst := (cst m)\<lparr>rs_url := u\<rparr>\<rparr>)"
proof -
  have "WithText (\<lambda>v. Upd (\<lambda>x. x\<lparr>rs_url := v\<rparr>) Done) \<in> set (live (RelaySection E (cst m)))"
    using assms(2) by (simp add: RelaySection_def relay_content_def view_live)
  then have "mstep (RelaySection E) relay_env m (resume m (Upd (\<lambda>x. x\<lparr>rs_url := u\<rparr>) Done))"
    by (rule mstep.event [where inp = "Type u"]) simp
  from mreach.step [OF assms(1) this] show ?thesis by (simp add: resume_def)
qed

lemma relay_tested:
  assumes "mreach (RelaySection E) relay_env s m" "rs_url (cst m) \<noteq> []"
  shows "mreach (RelaySection E) relay_env s (resume m (relay_test E (cst m)))"
proof -
  have "Plain (relay_test E (cst m)) \<in> set (live (RelaySection E (cst m)))"
    using assms(2) by (simp add: RelaySection_def view_live)
  then have "mstep (RelaySection E) relay_env m (resume m (relay_test E (cst m)))"
    by (rule mstep.event [where inp = Click]) simp
  from mreach.step [OF assms(1) this] show ?thesis .
qed

section \<open>Properties\<close>

text \<open>C19: saving the relay: an address the section lets pass is accepted by the server; it then holds the
  trimmed address with the secret typed, or the one it had if the field was left blank, or none if
  the address was removed; exactly this pair is what outgoing requests use once the relay is the
  selected mode. When the stored settings are read back the section shows the address, no secret, and
  nothing left to save, with one exception: if what is stored reads as before (another secret was
  typed, or spaces around the stored address), nothing is filled in anew, and an address with spaces
  around it stays in its field as something still to be saved, however often it is.\<close>

theorem relay_save_stored:
  assumes "\<not> badUrl (rs_url s)" "\<not> rs_pending s" "truthy (rs_data s)"
    and "k = (if js_trim (rs_url s) = [] then [] else if rs_secret s = [] then cfg_RelaySecret c else rs_secret s)"
    and "c' = c\<lparr>cfg_RelayURL := js_trim (rs_url s), cfg_RelaySecret := k\<rparr>"
  shows "exec (relay_save E s) relay_server s c =
      (None, s\<lparr>rs_secret := []\<rparr>, [ToastOk (tx E ''relay.saved''), Invalidate [''relay'']], c') \<and>
    active_relay (Some (relay_part c')) =
      (if cfg_RelayEnabled c \<and> js_trim (rs_url s) \<noteq> [] then (js_trim (rs_url s), k) else ([], [])) \<and>
    rs_url (relay_loaded (apiGetRelay c') (s\<lparr>rs_secret := []\<rparr>)) =
      (if rs_data s = apiGetRelay c' then rs_url s else js_trim (rs_url s)) \<and>
    (relay_dirty (relay_loaded (apiGetRelay c') (s\<lparr>rs_secret := []\<rparr>)) \<longleftrightarrow>
      rs_data s = apiGetRelay c' \<and> rs_url s \<noteq> js_trim (rs_url s))"
proof -
  have "relay_server c (Http ''POST'' ''/relay'' (relay_body s)) = (Resolved (JObj [(''success'', JBool True)]), c')"
    using good_url_trimmed [OF assms(1)] assms(4,5)
    by (auto simp: relay_server_def relay_body_fields apiUpdateRelay_def str_field_def Let_def)
  then have "exec (relay_save E s) relay_server s c =
      (None, s\<lparr>rs_secret := []\<rparr>, [ToastOk (tx E ''relay.saved''), Invalidate [''relay'']], c')"
    using assms(2) by (cases s) (simp add: relay_save_def mutate_def settle_def exec_finally exec_catch post_def exec_await)
  moreover have "truthy (apiGetRelay c')" by (simp add: apiGetRelay_def)
  ultimately show ?thesis using assms(3,5)
    by (auto simp: active_relay_def relay_part_def relay_loaded_def relay_dirty_def apiGetRelay_def)
qed

text \<open>A new secret, and a space typed after the stored address.\<close>

definition spaced_relay :: relay_st where
  "spaced_relay = relay_mount\<lparr>rs_data := JObj [(''hasSecret'', JBool True), (''relayUrl'', JStr ''https://old.example'')],
     rs_url := ''https://old.example '', rs_secret := ''n3w''\<rparr>"

definition edited_relay :: relay_st where
  "edited_relay = relay_mount\<lparr>rs_data := JObj [(''hasSecret'', JBool True), (''relayUrl'', JStr ''https://old.example'')],
     rs_url := ''https://new.example ''\<rparr>"

definition stored_relay :: egress_config where
  "stored_relay = plain_config\<lparr>cfg_RelayEnabled := True, cfg_RelayURL := ''https://old.example'', cfg_RelaySecret := ''s3cret''\<rparr>"

theorem relay_save_stored_witness:
  "active_relay (Some (relay_part (server_after (exec (relay_save sample_ui spaced_relay) relay_server spaced_relay stored_relay)))) =
     (''https://old.example'', ''n3w'') \<and>
   relay_dirty (relay_loaded (rs_data spaced_relay) (spaced_relay\<lparr>rs_secret := []\<rparr>))"
proof -
  have trim: "js_trim (rs_url spaced_relay) = ''https://old.example''" by code_simp
  have fields: "rs_secret spaced_relay = ''n3w''" "cfg_RelayEnabled stored_relay" "rs_url spaced_relay = ''https://old.example ''"
    "\<not> rs_pending spaced_relay" "truthy (rs_data spaced_relay)" "\<not> badUrl (rs_url spaced_relay)"
    by (simp_all add: spaced_relay_def relay_mount_def stored_relay_def badUrl_def starts_with_def)
  have "rs_data spaced_relay = apiGetRelay (stored_relay\<lparr>cfg_RelayURL := ''https://old.example'', cfg_RelaySecret := ''n3w''\<rparr>)"
    by (simp add: spaced_relay_def apiGetRelay_def)
  then show ?thesis
    using relay_save_stored [OF fields(6,4,5), of "''n3w''" stored_relay _ sample_ui] trim fields
    by (simp add: server_after_def)
qed

text \<open>Test results can be shown for the wrong address: two tests started one after the other, for two
  addresses, may be answered in the other order; the section then shows the result of the first
  address beside the second, with no test left to correct it.\<close>

theorem stale_test_result:
  assumes "truthy (rs_data s)" "u1 \<noteq> []" "u2 \<noteq> []" "\<not> nullish r1" "\<not> nullish r2"
  shows "\<exists>m k1 k2. mreach (RelaySection E) relay_env s m \<and> rs_url (cst m) = u2 \<and>
      inflight m = [Req (Http ''POST'' ''/relay/test'' (relay_body (s\<lparr>rs_url := u1\<rparr>))) k1,
                    Req (Http ''POST'' ''/relay/test'' (relay_body (s\<lparr>rs_url := u2\<rparr>))) k2] \<and>
      (\<exists>m'. mreach (RelaySection E) relay_env s m' \<and> inflight m' = [] \<and> \<not> rs_testPending (cst m') \<and> rs_url (cst m') = u2 \<and> rs_result (cst m') = r1)"
proof -
  let ?V = "RelaySection E"
  let ?r = "\<lambda>u. Http ''POST'' ''/relay/test'' (relay_body (s\<lparr>rs_url := u\<rparr>))"
  let ?n = "Suc (rs_tests s)"
  let ?z1 = "test_mark ?n True (s\<lparr>rs_url := u1\<rparr>)"
  let ?s2 = "?z1\<lparr>rs_url := u2\<rparr>"
  let ?z2 = "test_mark (Suc ?n) True ?s2"
  let ?z3 = "test_mark (Suc ?n) False (?z2\<lparr>rs_result := r2\<rparr>)"
  let ?z4 = "test_mark ?n False (?z3\<lparr>rs_result := r1\<rparr>)"
  obtain k1 where k1: "\<And>z. sync (relay_test E (s\<lparr>rs_url := u1\<rparr>)) z = (test_mark ?n True z, [], [Req (?r u1) k1])"
    "\<And>r z. \<not> nullish r \<Longrightarrow> \<exists>l. sync (k1 (Resolved r)) z = (test_mark ?n False (z\<lparr>rs_result := r\<rparr>), l, [])"
    using sync_test [of E "s\<lparr>rs_url := u1\<rparr>"] by auto
  have "relay_body ?s2 = relay_body (s\<lparr>rs_url := u2\<rparr>)" "rs_tests ?s2 = ?n" by (simp_all add: relay_body_def test_mark_def)
  then obtain k2 where k2: "\<And>z. sync (relay_test E ?s2) z = (test_mark (Suc ?n) True z, [], [Req (?r u2) k2])"
    "\<And>r z. \<not> nullish r \<Longrightarrow> \<exists>l. sync (k2 (Resolved r)) z = (test_mark (Suc ?n) False (z\<lparr>rs_result := r\<rparr>), l, [])"
    using sync_test [of E ?s2] by auto
  have "mreach ?V relay_env s \<lparr>cst = s\<lparr>rs_url := u1\<rparr>, inflight = [], trace = []\<rparr>"
    using relay_typed [OF mreach.start, where u = u1 and E = E] assms(1) by simp
  from relay_tested [OF this] assms(2) k1(1)
  have "mreach ?V relay_env s \<lparr>cst = ?z1, inflight = [Req (?r u1) k1], trace = []\<rparr>" by (simp add: resume_def)
  from relay_typed [OF this, where u = u2] assms(1)
  have "mreach ?V relay_env s \<lparr>cst = ?s2, inflight = [Req (?r u1) k1], trace = []\<rparr>" by simp
  from relay_tested [OF this] assms(3) k2(1)
  have m: "mreach ?V relay_env s \<lparr>cst = ?z2, inflight = [Req (?r u1) k1, Req (?r u2) k2], trace = []\<rparr>"
    by (simp add: resume_def)
  obtain l2 where "sync (k2 (Resolved r2)) ?z2 = (?z3, l2, [])"
    using k2(2) [OF assms(5)] by blast
  then have m2: "mreach ?V relay_env s \<lparr>cst = ?z3, inflight = [Req (?r u1) k1], trace = l2\<rparr>"
    using mreach.step [OF m mstep.wake [where i = 1 and ps = "[Resolved r2]"]] by (simp add: resume_def drop_nth_def)
  obtain l1 where "sync (k1 (Resolved r1)) ?z3 = (?z4, l1, [])"
    using k1(2) [OF assms(4)] by blast
  then have m3: "mreach ?V relay_env s \<lparr>cst = ?z4, inflight = [], trace = l2 @ l1\<rparr>"
    using mreach.step [OF m2 mstep.wake [where i = 0 and ps = "[Resolved r1]"]] by (simp add: resume_def drop_nth_def)
  have "rs_url ?z4 = u2" "rs_result ?z4 = r1" "\<not> rs_testPending ?z4" by (simp_all, simp add: test_mark_def)
  with m3 have "\<exists>m'. mreach ?V relay_env s m' \<and> inflight m' = [] \<and> \<not> rs_testPending (cst m') \<and>
      rs_url (cst m') = u2 \<and> rs_result (cst m') = r1"
    by (intro exI [of _ "\<lparr>cst = ?z4, inflight = [], trace = l2 @ l1\<rparr>"]) simp
  moreover have "rs_url ?z2 = u2" by simp
  ultimately show ?thesis using m
    by (intro exI [of _ "\<lparr>cst = ?z2, inflight = [Req (?r u1) k1, Req (?r u2) k2], trace = []\<rparr>"]) auto
qed

theorem stale_test_result_witness:
  "\<exists>m'. mreach (RelaySection sample_ui) relay_env edited_relay m' \<and> rs_url (cst m') = ''https://b.example'' \<and>
     rs_result (cst m') = JObj [(''ok'', JBool False)] \<and> inflight m' = []"
  using stale_test_result [of edited_relay "''https://a.example''" "''https://b.example''" "JObj [(''ok'', JBool False)]"
      "JObj [(''ok'', JBool True)]" sample_ui]
  by (fastforce simp: edited_relay_def)

end
