(* ===== verification/Settings_Auto_Route.thy ===== *)
theory Settings_Auto_Route
  imports Settings_Shared
begin

text \<open>
  \<open>dashboard/src/pages/settings/auto-route.tsx\<close>: the settings of the automatic choice of a model.

  The rows of the rules are what the source maps \<open>keywordRules\<close> to. Their fields for keywords, like
  the one for aliases, are uncontrolled (\<open>defaultValue\<close>): React gives such a field its text when it is
  mounted and leaves it alone afterwards, so that the text it shows is state of the document, not a
  function of the rules. \<open>ar_rows\<close> holds these texts. The source gives the rows their index as key,
  so a field lives as long as there is a rule with its index; \<open>ar_render\<close> is this part of rendering:
  fields without a rule are removed, new ones get the text of their rule.
\<close>

definition TIERS :: "string list" where
  "TIERS = [''fast'', ''balanced'', ''strong'']"

definition splitPatterns :: "string \<Rightarrow> string list" where
  "splitPatterns s = filter (\<lambda>p. p \<noteq> []) (map js_trim (js_split '','' s))"

definition str_items :: "jsv \<Rightarrow> string list" where
  "str_items v = (case v of JArr vs \<Rightarrow> map js_string vs | _ \<Rightarrow> [])"

record auto_route_st = section_st +
  ar_aliases :: "string option"
  ar_rows :: "string list"
  ar_options :: "string list option"

section \<open>Rules\<close>

definition rules_of :: "'a section_st_scheme \<Rightarrow> jsv list" where
  "rules_of s = (case draft_field s ''keywordRules'' of JArr vs \<Rightarrow> vs | _ \<Rightarrow> [])"

definition keywords_text :: "jsv \<Rightarrow> string" where
  "keywords_text rule = js_join '', '' (str_items (get_prop rule ''keywords''))"

definition ar_render :: "auto_route_st \<Rightarrow> auto_route_st" where
  "ar_render s = (if \<not> truthy (sn_draft s) then s\<lparr>ar_aliases := None, ar_rows := []\<rparr>
     else (let rules = rules_of s; k = length (ar_rows s) in
       s\<lparr>ar_aliases := (case ar_aliases s of None \<Rightarrow> Some (js_join '', '' (str_items (draft_field s ''aliases''))) | Some t \<Rightarrow> Some t),
         ar_rows := take (length rules) (ar_rows s) @ map keywords_text (drop k rules)\<rparr>))"

definition ar_mount :: auto_route_st where
  "ar_mount = \<lparr>sn_data = JUndef, sn_draft = JUndef, sn_pending = False, ar_aliases = None, ar_rows = [], ar_options = None\<rparr>"

text \<open>An edit, followed by the rendering it causes.\<close>

definition ar_patch :: "(string \<times> jsv) list \<Rightarrow> auto_route_st act" where
  "ar_patch ps = Upd (\<lambda>s. ar_render (s\<lparr>sn_draft := patched ps (sn_draft s)\<rparr>)) Done"

definition ar_loaded :: "jsv \<Rightarrow> auto_route_st \<Rightarrow> auto_route_st" where
  "ar_loaded v s = ar_render (query_data v s)"

definition set_rule :: "auto_route_st \<Rightarrow> nat \<Rightarrow> jsv \<Rightarrow> auto_route_st act" where
  "set_rule s i r = ar_patch [(''keywordRules'', JArr ((rules_of s)[i := r]))]"

text \<open>Typing into the field of a row; choosing the tier; removing and adding a rule.\<close>

definition type_keywords :: "auto_route_st \<Rightarrow> nat \<Rightarrow> string \<Rightarrow> auto_route_st act" where
  "type_keywords s i v = Upd (\<lambda>x. x\<lparr>ar_rows := (ar_rows x)[i := v]\<rparr>)
     (set_rule s i (patched [(''keywords'', jstrs (splitPatterns v))] (rules_of s ! i)))"

definition choose_tier :: "auto_route_st \<Rightarrow> nat \<Rightarrow> string \<Rightarrow> auto_route_st act" where
  "choose_tier s i tier = set_rule s i (patched [(''tier'', JStr tier)] (rules_of s ! i))"

definition remove_rule :: "auto_route_st \<Rightarrow> nat \<Rightarrow> auto_route_st act" where
  "remove_rule s i = ar_patch [(''keywordRules'', JArr (take i (rules_of s) @ drop (Suc i) (rules_of s)))]"

definition add_rule :: "auto_route_st \<Rightarrow> auto_route_st act" where
  "add_rule s = ar_patch [(''keywordRules'', JArr (rules_of s @ [JObj [(''keywords'', JArr []), (''tier'', JStr ''strong'')]]))]"

definition type_aliases :: "string \<Rightarrow> auto_route_st act" where
  "type_aliases v = Upd (\<lambda>x. x\<lparr>ar_aliases := Some v\<rparr>) (ar_patch [(''aliases'', jstrs (splitPatterns v))])"

section \<open>Models on offer\<close>

definition all_models :: "auto_route_st \<Rightarrow> string list" where
  "all_models s = (case ar_options s of None \<Rightarrow> [] | Some ms \<Rightarrow> ms)"

definition virtual :: "auto_route_st \<Rightarrow> string list" where
  "virtual s = ''auto'' # map (\<lambda>a. js_lower (js_trim a)) (str_items (get_prop (sn_data s) ''aliases''))"

definition wildcard_pools :: "auto_route_st \<Rightarrow> string list" where
  "wildcard_pools s = map butlast (filter (ends_with ''/*'') (all_models s))"

definition concrete_models :: "auto_route_st \<Rightarrow> string list" where
  "concrete_models s = filter (\<lambda>m. js_lower m \<notin> set (virtual s) \<and> \<not> ends_with ''/*'' m) (all_models s)"

definition pool_spelling :: "string list \<Rightarrow> string \<Rightarrow> string" where
  "pool_spelling ps m = (case find (\<lambda>p. starts_with p m) ps of
     None \<Rightarrow> m | Some p \<Rightarrow> butlast p @ '':'' @ drop (length p) m)"

definition blacklistOptions :: "auto_route_st \<Rightarrow> string list" where
  "blacklistOptions s = map (pool_spelling (wildcard_pools s)) (concrete_models s)"

section \<open>The section\<close>

definition ar_request :: "'a section_st_scheme \<Rightarrow> request" where
  "ar_request s = Http ''POST'' ''/auto-route'' (JsonBody (sn_draft s))"

definition ar_save :: "ui \<Rightarrow> auto_route_st \<Rightarrow> auto_route_st act" where
  "ar_save E s = save_section E (ar_request s) ''settings.autoRoute.saved'' [[''auto-route''], [''model-options'']]"

text \<open>\<open>Number(v)\<close> of a slider, which always holds a number; \<open>Math.max(0, Number(v) || 0)\<close>.\<close>

definition slider_value :: "string \<Rightarrow> jsv" where
  "slider_value v = (case js_Number v of None \<Rightarrow> JNull | Some n \<Rightarrow> JNum n)"

definition nonnegative :: "string \<Rightarrow> rat" where
  "nonnegative v = max 0 (case js_Number v of None \<Rightarrow> 0 | Some n \<Rightarrow> n)"

definition num_of :: "jsv \<Rightarrow> rat" where
  "num_of v = (case v of JNum n \<Rightarrow> n | _ \<Rightarrow> 0)"

definition Slider :: "string \<Rightarrow> string \<Rightarrow> string \<Rightarrow> rat \<Rightarrow> rat \<Rightarrow> (string \<Rightarrow> 'e) \<Rightarrow> 'e view" where
  "Slider i label hint val hi onChange = SettingsField (label @ '' '' @ mid_dot @ '' '' @ to_fixed 2 val) hint i [
     El ''input'' [aS ''id'' i, aS ''type'' ''range'', aN ''min'' 0, aN ''max'' hi, aN ''step'' (1 / 20), aN ''value'' val,
       onS ''onChange'' onChange] []]"

definition weight_slider :: "ui \<Rightarrow> auto_route_st \<Rightarrow> string \<Rightarrow> string \<Rightarrow> string \<Rightarrow> string \<Rightarrow> rat \<Rightarrow> auto_route_st act view" where
  "weight_slider E s i key hint field hi = Slider i (tx E key) (tx E hint) (num_of (draft_field s field)) hi
     (\<lambda>v. ar_patch [(field, slider_value v)])"

definition limit_entry :: "ui \<Rightarrow> auto_route_st \<Rightarrow> string \<Rightarrow> string \<Rightarrow> string \<Rightarrow> rat \<Rightarrow> auto_route_st act view" where
  "limit_entry E s key hint field step = SettingsField (tx E key) (tx E hint) [] [
     El ''Input'' [aS ''type'' ''number'', aN ''min'' 0, aN ''step'' step, aS ''value'' (js_string (coalesce (draft_field s field) (JNum 0))),
       onS ''onChange'' (\<lambda>v. ar_patch [(field, JNum (nonnegative v))])] []]"

definition tier_picker :: "ui \<Rightarrow> auto_route_st \<Rightarrow> string \<Rightarrow> auto_route_st act view" where
  "tier_picker E s tier = SettingsField (tx E (''settings.autoRoute.tier.'' @ tier)) [] [] [
     ModelListPicker E (str_items (draft_field s tier)) (\<lambda>v. ar_patch [(tier, jstrs v)]) (concrete_models s)
       (tx E ''settings.autoRoute.addModel'') ''outline'']"

definition keyword_row :: "ui \<Rightarrow> auto_route_st \<Rightarrow> nat \<Rightarrow> auto_route_st act view" where
  "keyword_row E s i = El ''div'' [] ([
     El ''Input'' [aS ''value'' (ar_rows s ! i), aS ''placeholder'' (tx E ''settings.autoRoute.keywordsPlaceholder''),
       onS ''onChange'' (type_keywords s i)] []] @
     map (\<lambda>tier. El ''Button'' [aS ''type'' ''button'',
       aS ''variant'' (if get_prop (rules_of s ! i) ''tier'' = JStr tier then ''default'' else ''outline''),
       on ''onClick'' (choose_tier s i tier)] [Txt tier]) TIERS @
     [El ''Button'' [aS ''type'' ''button'', aS ''variant'' ''ghost'', on ''onClick'' (remove_rule s i)] [ic ''LuX'']])"

definition AutoRouteSection :: "ui \<Rightarrow> auto_route_st \<Rightarrow> auto_route_st act view" where
  "AutoRouteSection E s = SettingsSection ''auto-route'' (tx E ''settings.autoRoute.title'') (tx E ''settings.autoRoute.hint'')
     (if \<not> truthy (sn_draft s) then [LoadingBlock E None 3] else [
        SwitchRow (tx E ''settings.autoRoute.enabled'') (tx E ''settings.autoRoute.enabledHint'')
          (truthy (draft_field s ''enabled'')) (\<lambda>v. ar_patch [(''enabled'', JBool v)]),
        SwitchRow (tx E ''settings.autoRoute.autoThinking'') (tx E ''settings.autoRoute.autoThinkingHint'')
          (truthy (draft_field s ''autoThinking'')) (\<lambda>v. ar_patch [(''autoThinking'', JBool v)]),
        SettingsField (tx E ''settings.autoRoute.aliases'') (tx E ''settings.autoRoute.aliasesHint'') [] [
          El ''Input'' [aS ''value'' (case ar_aliases s of None \<Rightarrow> [] | Some t \<Rightarrow> t), aS ''placeholder'' ''hekato-auto'',
            onS ''onChange'' type_aliases] []],
        El ''div'' [] [
          limit_entry E s ''settings.autoRoute.slowTtft'' ''settings.autoRoute.slowTtftHint'' ''slowTtftMs'' 1000,
          limit_entry E s ''settings.autoRoute.slowTps'' ''settings.autoRoute.slowTpsHint'' ''slowMinTps'' (1 / 2)],
        El ''div'' [] [
          weight_slider E s ''ar-quality'' ''settings.autoRoute.quality'' ''settings.autoRoute.qualityHint'' ''qualityWeight'' 1,
          weight_slider E s ''ar-cost'' ''settings.autoRoute.cost'' ''settings.autoRoute.costHint'' ''costWeight'' 1,
          weight_slider E s ''ar-speed'' ''settings.autoRoute.speed'' ''settings.autoRoute.speedHint'' ''speedWeight'' 1,
          weight_slider E s ''ar-explore'' ''settings.autoRoute.explore'' ''settings.autoRoute.exploreHint'' ''explore'' (1 / 2)],
        El ''p'' [] [Txt (tx E ''settings.autoRoute.tiersHint'')],
        El ''div'' [] (map (tier_picker E s) TIERS),
        SettingsField (tx E ''settings.autoRoute.blacklist'') (tx E ''settings.autoRoute.blacklistHint'') [] [
          ModelListPicker E (str_items (draft_field s ''blacklist'')) (\<lambda>v. ar_patch [(''blacklist'', jstrs v)]) (blacklistOptions s)
            (tx E ''settings.autoRoute.addModel'') ''destructive''],
        SettingsField (tx E ''settings.autoRoute.keywordRules'') (tx E ''settings.autoRoute.keywordRulesHint'') [] [
          El ''div'' [] (map (keyword_row E s) [0..<length (rules_of s)] @
            [El ''Button'' [aS ''type'' ''button'', aS ''variant'' ''outline'', on ''onClick'' (add_rule s)]
               [Txt (tx E ''settings.autoRoute.addKeywordRule'')]])]])
     (SaveButton E (\<not> dirty s) (sn_pending s) (Some (tx E ''settings.autoRoute.save'')) (ar_save E s))"

section \<open>Lemmas\<close>

lemma ar_render_simps [simp]:
  "sn_draft (ar_render s) = sn_draft s" "sn_data (ar_render s) = sn_data s" "sn_pending (ar_render s) = sn_pending s"
  "draft_field (ar_render s) k = draft_field s k" "rules_of (ar_render s) = rules_of s"
  by (simp_all add: ar_render_def draft_field_def rules_of_def Let_def)

lemma edits_ar [simp]: "edits (ar_patch ps)" "edits (set_rule s i r)" "edits (choose_tier s i t)" "edits (remove_rule s i)"
  "edits (add_rule s)" "edits (type_keywords s i v)" "edits (type_aliases v)"
  by (simp_all add: ar_patch_def set_rule_def choose_tier_def remove_rule_def add_rule_def type_keywords_def type_aliases_def)

lemma live_Slider [view_live]: "live (Slider i l h v hi f) = [WithText f]"
  by (simp add: Slider_def view_live)

lemma live_limit_entry [view_live]:
  "live (limit_entry E s k h field step) = [WithText (\<lambda>v. ar_patch [(field, JNum (nonnegative v))])]"
  by (simp add: limit_entry_def view_live)

lemma list_all_picker:
  "(\<And>v. Q (onChange v)) \<Longrightarrow> Q Done \<Longrightarrow> list_all (handler_all Q) (live (ModelListPicker E val onChange os h vr))"
  by (auto simp: ModelListPicker_def add_chosen_def list_all_concat_map)

text \<open>The handlers of the section: edits of a field other than the rules, edits of the rules, and the
  save.\<close>

lemma list_all_AutoRoute_rules:
  assumes "\<And>k v. k \<noteq> ''keywordRules'' \<Longrightarrow> Q (ar_patch [(k, v)])" "Q Done" "\<And>v. Q (type_aliases v)"
    and "\<And>i v. i < length (rules_of s) \<Longrightarrow> Q (type_keywords s i v)"
    and "\<And>i t. i < length (rules_of s) \<Longrightarrow> Q (choose_tier s i t)"
    and "\<And>i. i < length (rules_of s) \<Longrightarrow> Q (remove_rule s i)" "truthy (sn_draft s) \<Longrightarrow> Q (add_rule s)"
    and "dirty s \<Longrightarrow> \<not> sn_pending s \<Longrightarrow> Q (ar_save E s)"
  shows "list_all (handler_all Q) (live (AutoRouteSection E s))"
proof -
  have row: "list_all (handler_all Q) (live (keyword_row E s i))" if "i < length (rules_of s)" for i
    using assms(4-6) [OF that] by (auto simp: keyword_row_def list_all_concat_map)
  have tiers: "list_all (handler_all Q) (live (tier_picker E s t))" if "t \<in> set TIERS" for t
    using that by (auto simp: tier_picker_def view_live TIERS_def intro!: list_all_picker assms(1,2))
  have blacklist: "list_all (handler_all Q) (live (ModelListPicker E vs (\<lambda>v. ar_patch [(''blacklist'', jstrs v)]) os h vr))" for vs os h vr
    by (rule list_all_picker) (simp_all add: assms)
  show ?thesis
    using assms row tiers blacklist
    by (auto simp: AutoRouteSection_def weight_slider_def view_live list_all_concat_map)
qed

lemma list_all_AutoRoute:
  assumes "\<And>ps. Q (ar_patch ps)" "Q Done" "\<And>v. Q (type_aliases v)" "\<And>i v. i < length (rules_of s) \<Longrightarrow> Q (type_keywords s i v)"
    and "dirty s \<Longrightarrow> \<not> sn_pending s \<Longrightarrow> Q (ar_save E s)"
  shows "list_all (handler_all Q) (live (AutoRouteSection E s))"
  using assms by (intro list_all_AutoRoute_rules) (simp_all add: choose_tier_def set_rule_def remove_rule_def add_rule_def)

interpretation auto_route: draft_section "AutoRouteSection E" ar_mount E ar_request "\<lambda>_. False"
  "''settings.autoRoute.saved''" "[[''auto-route''], [''model-options'']]"
proof unfold_locales
  fix s
  show "list_all (handler_all (\<lambda>a. edits a \<or> a = save_section E (ar_request s) ''settings.autoRoute.saved''
      [[''auto-route''], [''model-options'']] \<and> dirty s \<and> \<not> False \<and> \<not> sn_pending s)) (live (AutoRouteSection E s))"
    by (rule list_all_AutoRoute) (auto simp: ar_save_def)
qed (simp add: ar_mount_def)

lemma patched_truthy: "truthy (patched ps (JObj d))"
  by (simp add: patched_def)

section \<open>Fields that show what is saved\<close>

definition rule_keywords :: "jsv \<Rightarrow> string list" where
  "rule_keywords r = str_items (get_prop r ''keywords'')"

definition rule_object :: "jsv \<Rightarrow> bool" where
  "rule_object r = (case r of JObj ps \<Rightarrow> True | _ \<Rightarrow> False)"

text \<open>A rule whose keywords the field can hold: as the field itself produces them.\<close>

definition clean_rule :: "jsv \<Rightarrow> bool" where
  "clean_rule r \<longleftrightarrow> rule_object r \<and> (\<forall>k\<in>set (rule_keywords r). k \<noteq> [] \<and> js_trim k = k \<and> CHR '','' \<notin> set k)"

text \<open>Every field shows the keywords of its rule: typing its text again would change nothing.\<close>

definition shows_rules :: "auto_route_st \<Rightarrow> bool" where
  "shows_rules s \<longleftrightarrow> (\<exists>d. sn_draft s = JObj d) \<and> list_all rule_object (rules_of s) \<and>
     map splitPatterns (ar_rows s) = map rule_keywords (rules_of s)"

definition config_rules :: "jsv \<Rightarrow> jsv list" where
  "config_rules v = (case get_prop v ''keywordRules'' of JArr vs \<Rightarrow> vs | _ \<Rightarrow> [])"

text \<open>The world around the section: the models on offer change, and the configuration is read again,
  which brings what it brought before, or, after a save, rules with the keywords of the copy.\<close>

definition ar_calm :: "auto_route_st \<Rightarrow> auto_route_st \<Rightarrow> bool" where
  "ar_calm s s' \<longleftrightarrow> (\<exists>ms. s' = s\<lparr>ar_options := ms\<rparr>) \<or> s' = ar_loaded (sn_data s) s \<or>
     (\<exists>d. s' = ar_loaded (JObj d) s \<and> list_all rule_object (config_rules (JObj d)) \<and>
        map rule_keywords (config_rules (JObj d)) = map rule_keywords (rules_of s))"

text \<open>A step after which a rule is gone that was not the last one.\<close>

definition loses_inner :: "auto_route_st \<Rightarrow> auto_route_st \<Rightarrow> bool" where
  "loses_inner s s' \<longleftrightarrow> length (rules_of s') < length (rules_of s) \<and> rules_of s' \<noteq> butlast (rules_of s)"

text \<open>The machines reached from a loaded configuration without such a step.\<close>

inductive ar_kept :: "ui \<Rightarrow> (string \<times> jsv) list \<Rightarrow> auto_route_st mach \<Rightarrow> bool" for E d where
  loaded: "ar_kept E d \<lparr>cst = ar_loaded (JObj d) ar_mount, inflight = [], trace = []\<rparr>"
| kept: "ar_kept E d m \<Longrightarrow> mstep (AutoRouteSection E) ar_calm m m' \<Longrightarrow> \<not> loses_inner (cst m) (cst m') \<Longrightarrow> ar_kept E d m'"

lemma join_comma_space: "js_join '', '' (x # xs) = js_join '','' (x # map ((#) CHR '' '') xs)"
proof (induction xs arbitrary: x)
  case (Cons y ys)
  from Cons [of y] show ?case by (cases ys) simp_all
qed simp

lemma ws_space: "js_trim (CHR '' '' # k) = js_trim k"
  by (simp add: js_trim_def trim_start_def is_ws_def)

lemma splitPatterns_join:
  assumes "\<forall>k\<in>set ks. k \<noteq> [] \<and> js_trim k = k \<and> CHR '','' \<notin> set k"
  shows "splitPatterns (js_join '', '' ks) = ks"
proof (cases ks)
  case Nil
  have "js_trim [] = []" by (simp add: js_trim_def trim_start_def trim_end_def)
  then show ?thesis by (simp add: Nil splitPatterns_def js_split_def)
next
  case (Cons x xs)
  then have "js_split '','' (js_join '', '' ks) = x # map ((#) CHR '' '') xs"
    unfolding Cons join_comma_space using assms [unfolded Cons] by (intro split_join) auto
  moreover have "map (js_trim \<circ> (#) CHR '' '') xs = xs" "js_trim x = x" "[] \<notin> set (x # xs)"
    using assms by (auto simp: Cons ws_space map_idI)
  ultimately show ?thesis by (simp add: splitPatterns_def Cons filter_id_conv) (metis filter_True)
qed

lemma clean_rule_text: "clean_rule r \<Longrightarrow> splitPatterns (keywords_text r) = rule_keywords r"
  by (simp add: clean_rule_def keywords_text_def rule_keywords_def splitPatterns_join)

lemma rules_of_render_rows:
  "truthy (sn_draft s) \<Longrightarrow> ar_rows (ar_render s) =
     take (length (rules_of s)) (ar_rows s) @ map keywords_text (drop (length (ar_rows s)) (rules_of s))"
  by (simp add: ar_render_def Let_def)

lemma shows_rules_render:
  assumes "sn_draft s = JObj d" "list_all rule_object (rules_of s)" "list_all clean_rule (drop (length (ar_rows s)) (rules_of s))"
    and "map splitPatterns (take (length (rules_of s)) (ar_rows s)) = map rule_keywords (take (length (ar_rows s)) (rules_of s))"
  shows "shows_rules (ar_render s)"
proof -
  have "map splitPatterns (map keywords_text (drop (length (ar_rows s)) (rules_of s))) =
      map rule_keywords (drop (length (ar_rows s)) (rules_of s))"
    using assms(3) by (auto simp: list_all_iff clean_rule_text)
  then have "map splitPatterns (ar_rows (ar_render s)) = map rule_keywords (rules_of s)"
    using assms(1,4) by (simp add: rules_of_render_rows del: map_map) (metis append_take_drop_id map_append)
  with assms(1,2) show ?thesis by (simp add: shows_rules_def)
qed

lemma shows_rules_rows: "shows_rules s \<Longrightarrow> length (ar_rows s) = length (rules_of s)"
  unfolding shows_rules_def by (metis length_map)

lemma rules_of_patched: "rules_of (z\<lparr>sn_draft := patched [(''keywordRules'', JArr vs)] (JObj e)\<rparr>) = vs"
  by (simp add: rules_of_def draft_field_def get_prop_patched)

lemma draft_rules: "rules_of s = config_rules (sn_draft s)"
  by (simp add: rules_of_def config_rules_def draft_field_def)

lemma shows_rules_simps [simp]:
  "shows_rules (s\<lparr>ar_options := ms\<rparr>) = shows_rules s" "shows_rules (s\<lparr>sn_pending := b\<rparr>) = shows_rules s"
  by (simp_all add: shows_rules_def draft_rules)

text \<open>What an edit of the rules has to promise: the fields that stay fit the new rules, and rules
  that get a new field are clean.\<close>

lemma shows_rules_edit:
  assumes "shows_rules s" "list_all rule_object rs" "list_all clean_rule (drop (length (rules_of s)) rs)"
    and "map splitPatterns (take (length rs) rows) = map rule_keywords (take (length (rules_of s)) rs)"
    and "length rows = length (rules_of s)"
  shows "shows_rules (ar_render (s\<lparr>ar_rows := rows, sn_draft := patched [(''keywordRules'', JArr rs)] (sn_draft s)\<rparr>))"
proof -
  obtain d where d: "sn_draft s = JObj d" using assms(1) by (auto simp: shows_rules_def)
  then obtain e where e: "patched [(''keywordRules'', JArr rs)] (sn_draft s) = JObj e" by (simp add: patched_def)
  then have "config_rules (JObj e) = rs" by (simp add: e [symmetric] config_rules_def get_prop_patched d)
  with e assms show ?thesis
    by (intro shows_rules_render [of _ e]) (simp_all add: draft_rules)
qed

lemma shows_rules_other:
  assumes "shows_rules s" "k \<noteq> ''keywordRules''"
  shows "shows_rules (ar_render (s\<lparr>ar_aliases := al, sn_draft := patched [(k, v)] (sn_draft s)\<rparr>))"
proof -
  obtain d where d: "sn_draft s = JObj d" using assms(1) by (auto simp: shows_rules_def)
  then obtain e where e: "patched [(k, v)] (sn_draft s) = JObj e" by (simp add: patched_def)
  have "rules_of (s\<lparr>ar_aliases := al, sn_draft := patched [(k, v)] (sn_draft s)\<rparr>) = rules_of s"
    using assms(2) by (simp add: draft_rules config_rules_def get_prop_patched d)
  with assms(1) e shows_rules_rows [OF assms(1)] show ?thesis
    by (intro shows_rules_render [of _ e]) (auto simp: shows_rules_def)
qed

lemma patched_rule: "rule_object r \<Longrightarrow> rule_object (patched ps r)"
  "rule_object r \<Longrightarrow> rule_keywords (patched [(''keywords'', jstrs ks)] r) = ks"
  "k \<noteq> ''keywords'' \<Longrightarrow> rule_keywords (patched [(k, v)] r) = rule_keywords r"
  by (auto simp: rule_object_def patched_def rule_keywords_def str_items_def jstrs_def spread_def o_def split: jsv.splits)

lemma typed_shows:
  assumes "shows_rules s" "i < length (rules_of s)" "sync (type_keywords s i v) s = (s', l, qs)"
  shows "shows_rules s' \<and> qs = []"
proof -
  let ?r = "patched [(''keywords'', jstrs (splitPatterns v))] (rules_of s ! i)"
  have obj: "list_all rule_object (rules_of s)" "rule_object (rules_of s ! i)"
    using assms(1,2) by (auto simp: shows_rules_def list_all_length)
  then have "list_all rule_object ((rules_of s)[i := ?r])"
    by (auto simp: list_all_iff patched_rule dest!: set_update_subset_insert [THEN subsetD])
  moreover have "map rule_keywords ((rules_of s)[i := ?r]) = map splitPatterns ((ar_rows s)[i := v])"
    using assms(1) obj(2) by (simp add: map_update patched_rule shows_rules_def)
  ultimately have "shows_rules (ar_render (s\<lparr>ar_rows := (ar_rows s)[i := v], sn_draft := patched [(''keywordRules'', JArr ((rules_of s)[i := ?r]))] (sn_draft s)\<rparr>))"
    using assms(1) shows_rules_rows [OF assms(1)] by (intro shows_rules_edit) simp_all
  then show ?thesis using assms(3) by (auto simp: type_keywords_def set_rule_def ar_patch_def)
qed

lemma tier_shows:
  assumes "shows_rules s" "i < length (rules_of s)" "sync (choose_tier s i t) s = (s', l, qs)"
  shows "shows_rules s' \<and> qs = []"
proof -
  let ?r = "patched [(''tier'', JStr t)] (rules_of s ! i)"
  have obj: "list_all rule_object (rules_of s)" "rule_object (rules_of s ! i)"
    using assms(1,2) by (auto simp: shows_rules_def list_all_length)
  then have "list_all rule_object ((rules_of s)[i := ?r])"
    by (auto simp: list_all_iff patched_rule dest!: set_update_subset_insert [THEN subsetD])
  moreover have "map rule_keywords ((rules_of s)[i := ?r]) = map splitPatterns (ar_rows s)"
    using assms(1,2) by (simp add: map_update patched_rule shows_rules_def) (metis length_map list_update_id nth_map)
  ultimately have "shows_rules (ar_render (s\<lparr>ar_rows := ar_rows s, sn_draft := patched [(''keywordRules'', JArr ((rules_of s)[i := ?r]))] (sn_draft s)\<rparr>))"
    using assms(1) shows_rules_rows [OF assms(1)] by (intro shows_rules_edit) simp_all
  then show ?thesis using assms(3) by (auto simp: choose_tier_def set_rule_def ar_patch_def)
qed

lemma removed_shows:
  assumes "shows_rules s" "i < length (rules_of s)" "sync (remove_rule s i) s = (s', l, qs)" "\<not> loses_inner s s'"
  shows "shows_rules s' \<and> qs = []"
proof -
  let ?rs = "take i (rules_of s) @ drop (Suc i) (rules_of s)"
  obtain d where d: "sn_draft s = JObj d" using assms(1) by (auto simp: shows_rules_def)
  have s': "s' = ar_render (s\<lparr>sn_draft := patched [(''keywordRules'', JArr ?rs)] (sn_draft s)\<rparr>)" "qs = []"
    using assms(3) by (simp_all add: remove_rule_def ar_patch_def)
  then have "rules_of s' = ?rs" by (simp add: d rules_of_patched)
  with assms(2,4) have last: "?rs = butlast (rules_of s)" by (auto simp: loses_inner_def)
  have "list_all rule_object (butlast (rules_of s))"
    using assms(1) by (auto simp: shows_rules_def list_all_iff dest: in_set_butlastD)
  moreover have "map splitPatterns (take (length (butlast (rules_of s))) (ar_rows s)) = map rule_keywords (butlast (rules_of s))"
    using assms(1) by (simp add: butlast_conv_take shows_rules_def flip: take_map)
  ultimately have "shows_rules (ar_render (s\<lparr>ar_rows := ar_rows s,
      sn_draft := patched [(''keywordRules'', JArr (butlast (rules_of s)))] (sn_draft s)\<rparr>))"
    using assms(1) shows_rules_rows [OF assms(1)] by (intro shows_rules_edit) simp_all
  with s' show ?thesis unfolding last by simp
qed

lemma added_shows:
  assumes "shows_rules s" "sync (add_rule s) s = (s', l, qs)"
  shows "shows_rules s' \<and> qs = []"
proof -
  let ?r = "JObj [(''keywords'', JArr []), (''tier'', JStr ''strong'')]"
  have "clean_rule ?r" "rule_object ?r" by (simp_all add: clean_rule_def rule_object_def rule_keywords_def str_items_def)
  then have "shows_rules (ar_render (s\<lparr>ar_rows := ar_rows s, sn_draft := patched [(''keywordRules'', JArr (rules_of s @ [?r]))] (sn_draft s)\<rparr>))"
    using assms(1) shows_rules_rows [OF assms(1)] by (intro shows_rules_edit) (simp_all add: shows_rules_def)
  then show ?thesis using assms(2) by (auto simp: add_rule_def ar_patch_def)
qed

lemma handlers_show:
  assumes "shows_rules s"
  shows "list_all (handler_all (\<lambda>a. \<forall>s' l qs. sync a s = (s', l, qs) \<longrightarrow> \<not> loses_inner s s' \<longrightarrow>
    shows_rules s' \<and> list_all (steady_pending shows_rules) qs)) (live (AutoRouteSection E s))"
proof (rule list_all_AutoRoute_rules)
  fix k :: string and v :: jsv assume "k \<noteq> ''keywordRules''"
  from shows_rules_other [OF assms this, where v = v and al = "ar_aliases s"]
  show "\<forall>s' l qs. sync (ar_patch [(k, v)]) s = (s', l, qs) \<longrightarrow> \<not> loses_inner s s' \<longrightarrow>
      shows_rules s' \<and> list_all (steady_pending shows_rules) qs"
    by (auto simp: ar_patch_def)
next
  fix v
  from shows_rules_other [OF assms, where k = "''aliases''" and v = "jstrs (splitPatterns v)" and al = "Some v"]
  show "\<forall>s' l qs. sync (type_aliases v) s = (s', l, qs) \<longrightarrow> \<not> loses_inner s s' \<longrightarrow>
      shows_rules s' \<and> list_all (steady_pending shows_rules) qs"
    by (auto simp: type_aliases_def ar_patch_def)
next
  have save: "steady shows_rules (ar_save E s)" unfolding ar_save_def by (rule steady_save) simp
  show "\<forall>s' l qs. sync (ar_save E s) s = (s', l, qs) \<longrightarrow> \<not> loses_inner s s' \<longrightarrow>
      shows_rules s' \<and> list_all (steady_pending shows_rules) qs"
    by (intro allI impI) (rule sync_steady [OF save assms])
next
  fix i v assume "i < length (rules_of s)"
  from typed_shows [OF assms this, of v]
  show "\<forall>s' l qs. sync (type_keywords s i v) s = (s', l, qs) \<longrightarrow> \<not> loses_inner s s' \<longrightarrow>
      shows_rules s' \<and> list_all (steady_pending shows_rules) qs" by fastforce
next
  fix i t assume "i < length (rules_of s)"
  from tier_shows [OF assms this, of t]
  show "\<forall>s' l qs. sync (choose_tier s i t) s = (s', l, qs) \<longrightarrow> \<not> loses_inner s s' \<longrightarrow>
      shows_rules s' \<and> list_all (steady_pending shows_rules) qs" by fastforce
next
  fix i assume "i < length (rules_of s)"
  from removed_shows [OF assms this]
  show "\<forall>s' l qs. sync (remove_rule s i) s = (s', l, qs) \<longrightarrow> \<not> loses_inner s s' \<longrightarrow>
      shows_rules s' \<and> list_all (steady_pending shows_rules) qs" by fastforce
next
  from added_shows [OF assms]
  show "\<forall>s' l qs. sync (add_rule s) s = (s', l, qs) \<longrightarrow> \<not> loses_inner s s' \<longrightarrow>
      shows_rules s' \<and> list_all (steady_pending shows_rules) qs" by fastforce
qed (use assms in simp)

lemma calm_shows:
  assumes "shows_rules s" "ar_calm s s'"
  shows "shows_rules s'"
proof -
  have same: "shows_rules (ar_render s)"
  proof -
    obtain d where "sn_draft s = JObj d" using assms(1) by (auto simp: shows_rules_def)
    then show ?thesis
      using assms(1) shows_rules_rows [OF assms(1)] by (intro shows_rules_render [of _ d]) (simp_all add: shows_rules_def)
  qed
  from assms(2) consider "\<exists>ms. s' = s\<lparr>ar_options := ms\<rparr>" | "s' = ar_render s"
    | d where "s' = ar_render (s\<lparr>sn_data := JObj d, sn_draft := JObj d\<rparr>)" "list_all rule_object (config_rules (JObj d))"
        "map rule_keywords (config_rules (JObj d)) = map rule_keywords (rules_of s)"
    by (auto simp: ar_calm_def ar_loaded_def query_data_def split: if_splits)
  then show ?thesis
  proof cases
    case 3
    have "length (config_rules (JObj d)) = length (ar_rows s)"
      using 3(3) shows_rules_rows [OF assms(1)] by (metis length_map)
    with 3(2,3) assms(1) show ?thesis
      unfolding 3(1) by (intro shows_rules_render [of _ d]) (simp_all add: shows_rules_def draft_rules)
  qed (use assms(1) same in auto)
qed

lemma kept_shows:
  assumes "ar_kept E d m" "list_all clean_rule (config_rules (JObj d))"
  shows "shows_rules (cst m) \<and> list_all (steady_pending shows_rules) (inflight m)"
  using assms
proof (induction rule: ar_kept.induct)
  case loaded
  have "ar_loaded (JObj d) ar_mount = ar_render (ar_mount\<lparr>sn_data := JObj d, sn_draft := JObj d\<rparr>)"
    by (simp add: ar_loaded_def query_data_def ar_mount_def)
  moreover have "list_all rule_object (config_rules (JObj d))"
    using loaded by (auto simp: list_all_iff clean_rule_def)
  ultimately show ?case
    using loaded by (auto simp: draft_rules ar_mount_def intro!: shows_rules_render)
next
  case (kept m m')
  then have inv: "shows_rules (cst m)" "list_all (steady_pending shows_rules) (inflight m)" by auto
  from kept(2) show ?case
  proof cases
    case (event h inp a)
    obtain s l qs where run: "sync a (cst m) = (s, l, qs)" by (cases "sync a (cst m)")
    from handlers_show [OF inv(1), of E] event(2,3) run kept(3) event(1)
    show ?thesis using inv by (auto simp: list_all_iff handler_all_def resume_def)
  next
    case (wake i ps a)
    obtain s l qs where run: "sync a (cst m) = (s, l, qs)" by (cases "sync a (cst m)")
    have "steady shows_rules a" using inv(2) wake(2,3) by (auto simp: list_all_length intro: woken_steady)
    from sync_steady [OF this inv(1) run] inv(2) set_drop_nth [of i "inflight m"] show ?thesis
      by (auto simp: wake(1) resume_def run list_all_iff)
  next
    case (world s')
    with inv calm_shows show ?thesis by auto
  qed
qed

section \<open>Properties\<close>


definition two_rules :: auto_route_st where
  "two_rules = (ar_loaded (JObj [(''enabled'', JBool True), (''keywordRules'', JArr [
     JObj [(''keywords'', JArr [JStr ''sql'']), (''tier'', JStr ''fast'')],
     JObj [(''keywords'', JArr [JStr ''proof'']), (''tier'', JStr ''strong'')]])]) ar_mount)"


text \<open>C21: removing a keyword rule leaves the wrong text in the rows below: the fields keep their text by
  position, so after removing a rule the row in its place still shows the removed rule's keywords
  while it stands for the next rule; and a change typed there gives the next rule the removed rule's
  keywords.\<close>

theorem removed_rule_still_shown:
  assumes "sn_draft s = JObj d" "rules_of s = rs" "ar_rows s = map keywords_text rs" "Suc i < length rs"
    and "exec (remove_rule s i) srv s w = (None, s', [], w)"
  shows "rules_of s' ! i = rs ! Suc i \<and> ar_rows s' ! i = keywords_text (rs ! i) \<and>
    (\<exists>s''. exec (type_keywords s' i (keywords_text (rs ! i) @ x)) srv s' w = (None, s'', [], w) \<and>
       rules_of s'' ! i = patched [(''keywords'', jstrs (splitPatterns (keywords_text (rs ! i) @ x)))] (rs ! Suc i))"
proof -
  let ?new = "take i rs @ drop (Suc i) rs"
  from assms(5) have s': "s' = ar_render (s\<lparr>sn_draft := patched [(''keywordRules'', JArr ?new)] (JObj d)\<rparr>)"
    by (simp add: remove_rule_def ar_patch_def assms(1,2))
  have new: "rules_of s' = ?new" by (simp add: s' rules_of_patched)
  have "ar_rows s' = take (length ?new) (map keywords_text rs) @ map keywords_text (drop (length rs) ?new)"
    by (simp add: s' ar_render_def patched_truthy rules_of_patched assms(3) Let_def)
  then have row: "ar_rows s' ! i = keywords_text (rs ! i)"
    using assms(4) by (simp add: nth_append)
  obtain e where e: "sn_draft s' = JObj e" using s' by (simp add: patched_def)
  have "?new ! i = rs ! Suc i" using assms(4) by (simp add: nth_append)
  moreover have "rules_of (final_state (exec (type_keywords s' i v) srv s' w)) = ?new[i := patched [(''keywords'', jstrs (splitPatterns v))] (?new ! i)]"
    for v
    by (simp add: type_keywords_def set_rule_def ar_patch_def final_state_def new e rules_of_patched)
  moreover have "fst (exec (type_keywords s' i v) srv s' w) = None \<and> snd (snd (exec (type_keywords s' i v) srv s' w)) = ([], w)" for v
    by (simp add: type_keywords_def set_rule_def ar_patch_def)
  ultimately show ?thesis
    using new row assms(4) by (auto simp: final_state_def prod_eq_iff intro!: exI)
qed

theorem removed_rule_still_shown_witness:
  "\<exists>s' :: auto_route_st. rules_of s' = [JObj [(''keywords'', JArr [JStr ''proof'']), (''tier'', JStr ''strong'')]] \<and> ar_rows s' ! 0 = ''sql''"
proof -
  have d: "sn_draft two_rules = JObj [(''enabled'', JBool True), (''keywordRules'', JArr (rules_of two_rules))]"
    "ar_rows two_rules = map keywords_text (rules_of two_rules)"
    "rules_of two_rules = [JObj [(''keywords'', JArr [JStr ''sql'']), (''tier'', JStr ''fast'')],
       JObj [(''keywords'', JArr [JStr ''proof'']), (''tier'', JStr ''strong'')]]"
    by (simp_all add: two_rules_def ar_loaded_def ar_render_def query_data_def ar_mount_def rules_of_def draft_field_def Let_def)
  let ?s = "ar_render (two_rules\<lparr>sn_draft := patched [(''keywordRules'', JArr (tl (rules_of two_rules)))] (sn_draft two_rules)\<rparr>)"
  have "exec (remove_rule two_rules 0) (\<lambda>w r. (Resolved JNull, w)) two_rules () = (None, ?s, [], ())"
    by (simp add: remove_rule_def ar_patch_def drop_Suc)
  from removed_rule_still_shown [OF d(1) refl d(2) _ this] d(3) have "ar_rows ?s ! 0 = ''sql''"
    by (simp add: keywords_text_def str_items_def)
  moreover have "rules_of ?s = tl (rules_of two_rules)"
    by (subst d(1)) (simp add: rules_of_patched)
  ultimately show ?thesis using d(3) by (intro exI [of _ ?s]) simp
qed

end
