(* ===== verification/Login_Page.thy ===== *)
theory Login_Page
  imports Settings_General
begin

text \<open>
  \<open>dashboard/src/pages/login.tsx\<close>: the login page and the first-run page, on top of the auth provider.
  What a user does is an event; a step runs the page's handler with the console and the server,
  because the handler awaits the provider's \<open>login\<close> and \<open>completeSetup\<close>, which change the console.
  The animated drawing beside the form (\<open>CrossroadsField\<close>) is left out.
\<close>

section \<open>Shared parts\<close>

datatype frame_event = SwitchLang | SwitchTheme

definition lang_of :: "ui \<Rightarrow> string" where
  "lang_of E = (if lang E = ''en'' then ''zh'' else ''en'')"

definition AuthFrame :: "ui \<Rightarrow> (frame_event \<Rightarrow> 'e) \<Rightarrow> bool \<Rightarrow> string \<Rightarrow> string \<Rightarrow> string \<Rightarrow> 'e view \<Rightarrow> 'e view" where
  "AuthFrame E ev dark eyebrow title subtitle child = El ''div'' [] [
     El ''section'' [] [ic ''CrossroadsField'', ic ''Wordmark'',
       El ''h2'' [] [Txt (tx E ''login.tagline'')], El ''p'' [] [Txt (tx E ''login.taglineSub'')]],
     El ''section'' [] [
       El ''div'' [] [ic ''Mark'',
         El ''Button'' [aS ''variant'' ''ghost'', on ''onClick'' (ev SwitchLang), aS ''aria-label'' (tx E ''header.language'')] [ic ''LuLanguages''],
         El ''Button'' [aS ''variant'' ''ghost'', on ''onClick'' (ev SwitchTheme), aS ''aria-label'' (tx E ''header.theme'')]
           [ic (if dark then ''LuSun'' else ''LuMoon'')]],
       El ''div'' [] [El ''div'' [] [Txt eyebrow], El ''h1'' [] [Txt title], El ''p'' [] [Txt subtitle], child],
       El ''div'' [] [ic ''LuLock'', Txt ('' '' @ tx E ''login.secure'')]]]"

definition FormError :: "string \<Rightarrow> 'e view" where
  "FormError message = (if message = [] then Nothing else El ''p'' [aS ''role'' ''alert''] [Txt message])"

definition SubmitButton :: "bool \<Rightarrow> bool \<Rightarrow> string \<Rightarrow> 'e \<Rightarrow> 'e view" where
  "SubmitButton busy disabled label onSubmit = El ''Button'' [aS ''type'' ''submit'', on ''onSubmit'' onSubmit, aB ''disabled'' (busy \<or> disabled)]
     [shown busy spinner, Txt label, shown (\<not> busy) (ic ''LuArrowRight'')]"

section \<open>The login page\<close>

record login_st =
  lg_password :: string
  lg_remember :: bool
  lg_show :: bool
  lg_busy :: bool
  lg_error :: string
  lg_nonce :: nat

definition login_mount :: login_st where
  "login_mount = \<lparr>lg_password = [], lg_remember = True, lg_show = False, lg_busy = False, lg_error = [], lg_nonce = 0\<rparr>"

datatype login_event = TypePassword string | ToggleShow | SetRemember bool | SubmitLogin | LoginFrame frame_event

definition login_error :: "ui \<Rightarrow> jerr \<Rightarrow> string" where
  "login_error E e = (case e of ApiErr st m r \<Rightarrow> if st = 401 then tx E ''login.error'' else tx E ''login.connectError''
     | _ \<Rightarrow> tx E ''login.connectError'')"

definition login_submit :: "ui \<Rightarrow> 'w fserver \<Rightarrow> login_st \<Rightarrow> console \<Rightarrow> 'w \<Rightarrow> login_st \<times> console \<times> 'w" where
  "login_submit E srv s c w =
    (let s = s\<lparr>lg_busy := True, lg_error := []\<rparr> in
     case login srv (lg_password s) (lg_remember s) c w of
       (None, c, w) \<Rightarrow> (s\<lparr>lg_busy := False\<rparr>, c, w)
     | (Some e, c, w) \<Rightarrow> (s\<lparr>lg_error := login_error E e, lg_nonce := lg_nonce s + 1, lg_busy := False\<rparr>, c, w))"

fun login_step :: "ui \<Rightarrow> 'w fserver \<Rightarrow> login_event \<Rightarrow> login_st \<times> console \<times> 'w \<Rightarrow> login_st \<times> console \<times> 'w" where
  "login_step E srv (TypePassword v) (s, c, w) = (s\<lparr>lg_password := v\<rparr>, c, w)"
| "login_step E srv ToggleShow (s, c, w) = (s\<lparr>lg_show := \<not> lg_show s\<rparr>, c, w)"
| "login_step E srv (SetRemember b) (s, c, w) = (s\<lparr>lg_remember := b\<rparr>, c, w)"
| "login_step E srv SubmitLogin (s, c, w) = login_submit E srv s c w"
| "login_step E srv (LoginFrame e) (s, c, w) = (s, c, w)"

definition LoginPage :: "ui \<Rightarrow> bool \<Rightarrow> login_st \<Rightarrow> login_event view" where
  "LoginPage E dark s = AuthFrame E LoginFrame dark ''Admin console'' (tx E ''login.title'') (tx E ''login.subtitle'')
     (El ''form'' [] [
        El ''div'' [] [
          El ''Label'' [aS ''htmlFor'' ''pw''] [Txt (tx E ''login.password'')],
          El ''Input'' [aS ''id'' ''pw'', aS ''type'' (if lg_show s then ''text'' else ''password''), aS ''value'' (lg_password s),
            onS ''onChange'' TypePassword, aS ''placeholder'' (tx E ''login.passwordPlaceholder''), aB ''aria-invalid'' (lg_error s \<noteq> [])] [],
          El ''button'' [aS ''type'' ''button'', on ''onClick'' ToggleShow,
            aS ''aria-label'' (if lg_show s then tx E ''login.hidePassword'' else tx E ''login.showPassword'')]
            [ic (if lg_show s then ''LuEyeOff'' else ''LuEye'')]],
        El ''label'' [] [El ''Checkbox'' [aB ''checked'' (lg_remember s), onB ''onCheckedChange'' SetRemember] [], Txt (tx E ''login.remember'')],
        FormError (lg_error s),
        SubmitButton (lg_busy s) (lg_password s = []) (tx E ''login.submit'') SubmitLogin])"

section \<open>The first-run page\<close>

record setup_st =
  su_pw :: string
  su_confirm :: string
  su_busy :: bool
  su_error :: string
  su_nonce :: nat

definition setup_mount :: setup_st where
  "setup_mount = \<lparr>su_pw = [], su_confirm = [], su_busy = False, su_error = [], su_nonce = 0\<rparr>"

datatype setup_event = TypePw string | TypeConfirm string | SubmitSetup | SetupFrame frame_event

definition alnum :: "char \<Rightarrow> bool" where
  "alnum c \<longleftrightarrow> (let n = code c in 65 \<le> n \<and> n \<le> 90 \<or> 97 \<le> n \<and> n \<le> 122 \<or> 48 \<le> n \<and> n \<le> 57)"

text \<open>JavaScript counts UTF-16 units where Go counts bytes: a continuation byte is no unit, the first
  byte of a four-byte character stands for two. And its \<open>trim\<close> knows the byte order mark, but not
  the next-line character, as white space.\<close>

definition utf16_units :: "char \<Rightarrow> nat" where
  "utf16_units c = (if 128 \<le> code c \<and> code c < 192 then 0 else if 240 \<le> code c then 2 else 1)"

definition js_length :: "string \<Rightarrow> nat" where
  "js_length s = sum_list (map utf16_units s)"

definition trim_js :: "string \<Rightarrow> string" where
  "trim_js s = trim_utf8 (map utf8 (0xFEFF # unicode_spaces)) s"

definition strength :: "string \<Rightarrow> nat" where
  "strength pw = min 4 (js_length pw div 4 + (if list_ex (\<lambda>c. \<not> alnum c) pw then 1 else 0))"

definition setup_fail :: "string \<Rightarrow> setup_st \<Rightarrow> setup_st" where
  "setup_fail msg s = s\<lparr>su_error := msg, su_nonce := su_nonce s + 1\<rparr>"

definition setup_submit :: "ui \<Rightarrow> 'w fserver \<Rightarrow> setup_st \<Rightarrow> console \<Rightarrow> 'w \<Rightarrow> setup_st \<times> console \<times> 'w" where
  "setup_submit E srv s c w =
    (if js_length (trim_js (su_pw s)) < 8 then (setup_fail (tx E ''setup.tooShort'') s, c, w)
     else if su_pw s \<noteq> su_confirm s then (setup_fail (tx E ''setup.mismatch'') s, c, w)
     else (let s = s\<lparr>su_busy := True, su_error := []\<rparr> in
       case completeSetup_ui srv (su_pw s) c w of
         (None, c, w) \<Rightarrow> (s\<lparr>su_busy := False\<rparr>, c, w)
       | (Some e, c, w) \<Rightarrow> ((setup_fail (errorMessage_or (tx E ''common.unknownError'') e) s)\<lparr>su_busy := False\<rparr>, c, w)))"

fun setup_step :: "ui \<Rightarrow> 'w fserver \<Rightarrow> setup_event \<Rightarrow> setup_st \<times> console \<times> 'w \<Rightarrow> setup_st \<times> console \<times> 'w" where
  "setup_step E srv (TypePw v) (s, c, w) = (s\<lparr>su_pw := v\<rparr>, c, w)"
| "setup_step E srv (TypeConfirm v) (s, c, w) = (s\<lparr>su_confirm := v\<rparr>, c, w)"
| "setup_step E srv SubmitSetup (s, c, w) = setup_submit E srv s c w"
| "setup_step E srv (SetupFrame e) (s, c, w) = (s, c, w)"

definition segment :: "string \<Rightarrow> nat \<Rightarrow> 'e view" where
  "segment pw i = El ''div'' [aS ''tone'' (if i < strength pw then (if strength pw \<ge> 3 then ''success'' else ''signal'') else ''muted'')] []"

definition SetupPage :: "ui \<Rightarrow> bool \<Rightarrow> setup_st \<Rightarrow> setup_event view" where
  "SetupPage E dark s = AuthFrame E SetupFrame dark ''First run'' (tx E ''setup.title'') (tx E ''setup.subtitle'')
     (El ''form'' [] [
        El ''div'' [] [
          El ''Label'' [aS ''htmlFor'' ''npw''] [Txt (tx E ''setup.password'')],
          El ''Input'' [aS ''id'' ''npw'', aS ''type'' ''password'', aS ''value'' (su_pw s), onS ''onChange'' TypePw,
            aS ''placeholder'' (tx E ''setup.passwordPlaceholder'')] [],
          El ''div'' [] (map (segment (su_pw s)) [0, 1, 2, 3])],
        El ''div'' [] [
          El ''Label'' [aS ''htmlFor'' ''cpw''] [Txt (tx E ''setup.confirm'')],
          El ''Input'' [aS ''id'' ''cpw'', aS ''type'' ''password'', aS ''value'' (su_confirm s), onS ''onChange'' TypeConfirm,
            aS ''placeholder'' (tx E ''setup.confirmPlaceholder'')] []],
        FormError (su_error s),
        SubmitButton (su_busy s) False (tx E ''setup.submit'') SubmitSetup])"

section \<open>Properties\<close>

text \<open>C11: what the login page reports: with the right password and attempts left the console is signed in
  and the page shows no error; with a wrong password and attempts left it says so; once the attempts
  of the window are used up, even the right password is answered as a failed connection, although
  the server was reached and said to wait. A password too long for the server to read, right or wrong,
  is reported as a failed connection as well, and uses no attempt. In every case the form can be used
  again, and a failed attempt leaves the browser storage as it was.\<close>

theorem login_page_reports:
  assumes "deployed_ok w" "admin_password w \<noteq> []" "login_submit E serve s c w = (s', c', w')" "status c \<noteq> Authed"
  defines "fits \<equiv> login_fits (lg_password s) (lg_remember s)"
  shows "\<not> lg_busy s' \<and> lg_password s' = lg_password s \<and>
    (fits \<and> attempts_left w \<and> lg_password s = admin_password w \<longrightarrow> status c' = Authed \<and> lg_error s' = [] \<and>
       accepted w' (getToken (browser c'))) \<and>
    (fits \<and> attempts_left w \<and> lg_password s \<noteq> admin_password w \<longrightarrow>
       status c' \<noteq> Authed \<and> lg_error s' = tx E ''login.error'' \<and> browser c' = browser c) \<and>
    (fits \<and> \<not> attempts_left w \<longrightarrow> status c' \<noteq> Authed \<and> lg_error s' = tx E ''login.connectError'' \<and> browser c' = browser c) \<and>
    (\<not> fits \<longrightarrow> lg_error s' = tx E ''login.connectError'' \<and> c' = c \<and> w' = w)"
proof -
  obtain sha mint rest g where w: "w = (sha, mint, rest, g)" by (cases w)
  obtain ok st where allow: "allowLoginAttempt (clock g) (store g) = (ok, st)" by fastforce
  consider (cut_off) "\<not> fits" | (right) "fits" "attempts_left w" "lg_password s = admin_password w"
    | (refused) "fits" "\<not> (attempts_left w \<and> lg_password s = admin_password w)" by blast
  then show ?thesis
  proof cases
    case cut_off
    then show ?thesis
      using gateway_server.login_cut_off [OF assms(2), of "lg_password s" "lg_remember s" c] assms(3)
      by (auto simp: fits_def login_submit_def login_error_def Let_def)
  next
    case right
    then show ?thesis
      using gateway_server.login_succeeds [OF assms(1) _ assms(2), of "lg_remember s" c] assms(3)
      by (auto simp: fits_def login_submit_def Let_def)
  next
    case refused
    then have "login serve (lg_password s) (lg_remember s) c w =
        (Some (if ok then ApiErr 401 ''Unauthorized'' False else ApiErr 429 ''Too many login attempts, try again in a minute'' False),
         if ok then c\<lparr>status := Anonymous\<rparr> else c, sha, mint, rest, g\<lparr>store := st\<rparr>)"
      using assms(2) allow
      by (auto simp: fits_def w login_def apiLogin_def serve_login login_gate isConfigured_def Let_def respond_def login_result_def
          resp_ok_def error_of_def on_unauthorized_def js_or_def simp del: serve.simps)
    then show ?thesis using refused assms(3,4) allow by (auto simp: w login_submit_def login_error_def Let_def)
  qed
qed

theorem login_page_reports_witness:
  "\<exists>s' c' w'. login_submit sample_ui serve (login_mount\<lparr>lg_password := ''hunter22''\<rparr>) sample_console
      (sample_deployment ''hunter22'') = (s', c', w') \<and> status c' = Authed \<and> lg_error s' = [] \<and> \<not> lg_busy s'"
proof -
  obtain s' c' w' where r: "login_submit sample_ui serve (login_mount\<lparr>lg_password := ''hunter22''\<rparr>) sample_console
      (sample_deployment ''hunter22'') = (s', c', w')" by (metis prod_cases3)
  have "admin_password (sample_deployment ''hunter22'') \<noteq> []" "status sample_console \<noteq> Authed"
    by (simp_all add: sample_deployment_ok sample_console_def)
  from login_page_reports [OF sample_deployment_ok(1) this(1) r this(2)] short_login_fits [of "''hunter22''" True] r
  show ?thesis by (cases w') (simp add: sample_deployment_ok login_mount_def)
qed

text \<open>Whether the server reads the request of the first-run page to its end.\<close>

definition setup_fits :: "string \<Rightarrow> bool" where
  "setup_fits pw \<longleftrightarrow> length (json_line (JObj [(''password'', JStr pw)])) \<le> maxLoginBody"

lemma serve_setup:
  "serve (sha, mint, rest, g) (api_request b ''/setup'' (post_init (JsonBody (JObj [(''password'', JStr pw)])))) =
     (let (p, g') = (if isConfigured g then (respond 409 [(''error'', JStr ''Already configured'')], g)
        else if \<not> setup_fits pw then (respond 400 [(''error'', JStr ''Invalid JSON'')], g)
        else if length (TrimSpace pw) < 8 then (respond 400 [(''error'', JStr ''Password must be at least 8 characters'')], g)
        else let g' = g\<lparr>password := pw, store := issue sha (clock g) (mint (drawn g)) pw True (store g), drawn := drawn g + 1\<rparr> in
          if mint (drawn g) = [] then (respond 500 [(''error'', JStr ''Failed to create session'')], g')
          else (respond 200 [(''success'', JBool True), (''token'', JStr (mint (drawn g)))], g'))
      in (p, sha, mint, rest, g'))"
proof -
  let ?r = "api_request b ''/setup'' (post_init (JsonBody (JObj [(''password'', JStr pw)])))"
  have "admin_path ?r = ''/setup''" "f_method ?r = ''POST''"
    by (simp_all add: admin_path_of api_request_def post_init_def Let_def)
  moreover have "decode_password (Some maxLoginBody) (f_body ?r) = (if setup_fits pw then Some pw else None)"
    by (simp add: api_request_def post_init_def Let_def decode_password_def read_json_def setup_fits_def struct_like_def
        str_field_def del: json_line.simps)
  ultimately show ?thesis
    by (auto simp: handleAdminAPI_def apiCompleteSetup_def completeSetup_def isConfigured_def Let_def)
qed

lemma trim_front_ascii:
  "list_all (\<lambda>c. code c < 128) s \<Longrightarrow> \<forall>u\<in>set us. u \<noteq> [] \<and> 128 \<le> code (hd u) \<Longrightarrow> length s \<le> n \<Longrightarrow>
   trim_front us n s = dropWhile is_ws s"
proof (induction us n s rule: trim_front.induct)
  case (1 us n c s)
  have "\<not> starts_with u (c # s)" if "u \<in> set us" for u
    using 1(3,4) that by (cases u) (auto simp: starts_with_def)
  then have "find (\<lambda>u. starts_with u (c # s)) us = None" by (simp add: find_None_iff)
  then show ?case using 1 by simp
qed auto

lemma utf8_nonempty [simp]: "utf8 n \<noteq> []"
  by (simp add: utf8_def)

lemma utf8_outside_ascii:
  assumes "128 \<le> n" "n < 65536"
  shows "128 \<le> code (hd (utf8 n))" "128 \<le> code (last (utf8 n))"
proof -
  have "n div 4096 < 16" using assms(2) by simp
  moreover have "n div 64 < 32" if "n < 2048" using that by simp
  ultimately show "128 \<le> code (hd (utf8 n))" "128 \<le> code (last (utf8 n))"
    using assms by (auto simp: utf8_def code_def)
qed

text \<open>For a password in ASCII the two sides trim and count the same.\<close>

lemma trims_agree_ascii:
  assumes "list_all (\<lambda>c. code c < 128) s"
  shows "TrimSpace s = js_trim s" "trim_js s = js_trim s" "js_length (js_trim s) = length (js_trim s)"
proof -
  have front: "trim_utf8 us s = js_trim s" if "list_all (\<lambda>u. u \<noteq> [] \<and> 128 \<le> code (hd u) \<and> 128 \<le> code (last u)) us" for us
  proof -
    have drop: "list_all (\<lambda>c. code c < 128) (dropWhile is_ws s)"
      using assms by (auto simp: list_all_iff dest: set_dropWhileD)
    have "trim_front us (length s) s = dropWhile is_ws s"
      using that assms by (intro trim_front_ascii) (auto simp: list_all_iff)
    moreover have "trim_front (map rev us) (length (dropWhile is_ws s)) (rev (dropWhile is_ws s)) =
        dropWhile is_ws (rev (dropWhile is_ws s))"
      using that drop by (intro trim_front_ascii) (auto simp: list_all_iff hd_rev)
    ultimately show ?thesis by (simp add: trim_utf8_def Let_def js_trim_def trim_end_def trim_start_def)
  qed
  show "TrimSpace s = js_trim s" unfolding TrimSpace_def
    by (rule front) (auto simp: list_all_iff unicode_spaces_def intro!: utf8_outside_ascii)
  show "trim_js s = js_trim s" unfolding trim_js_def
    by (rule front) (auto simp: list_all_iff unicode_spaces_def intro!: utf8_outside_ascii)
  have "list_all (\<lambda>c. code c < 128) (js_trim s)"
    using assms by (auto simp: js_trim_def trim_end_def trim_start_def list_all_iff dest!: set_dropWhileD)
  moreover have "list_all (\<lambda>c. code c < 128) x \<Longrightarrow> js_length x = length x" for x
    by (induction x) (auto simp: js_length_def utf16_units_def)
  ultimately show "js_length (js_trim s) = length (js_trim s)" by blast
qed

text \<open>C12: the first-run page configures a gateway that has no password: a password that is long enough
  without its outer spaces and typed twice becomes the admin password, and the browser is signed in,
  also after a reload and in a new tab. A password that is too short or not confirmed sends no request;
  on a gateway that was configured meanwhile nothing changes and the page says so. What the page lets
  through and the server still refuses is a request above the 64 KB it reads, and a password that is too short by
  Go's count of bytes and idea of white space: the page shows the refusal and nothing changes. For a
  password in ASCII the two counts agree.\<close>

theorem setup_page_configures:
  assumes "deployed_ok w" "setup_submit E serve s c w = (s', c', w')"
  defines "sent \<equiv> 8 \<le> js_length (trim_js (su_pw s)) \<and> su_pw s = su_confirm s"
    and "refused \<equiv> \<lambda>msg. \<not> su_busy s' \<and> su_error s' = msg \<and> c' = c \<and> w' = w"
  shows "(js_length (trim_js (su_pw s)) < 8 \<longrightarrow> (s', c', w') = (setup_fail (tx E ''setup.tooShort'') s, c, w)) \<and>
    (8 \<le> js_length (trim_js (su_pw s)) \<and> su_pw s \<noteq> su_confirm s \<longrightarrow>
       (s', c', w') = (setup_fail (tx E ''setup.mismatch'') s, c, w)) \<and>
    (sent \<and> admin_password w \<noteq> [] \<longrightarrow> refused ''Already configured'') \<and>
    (sent \<and> admin_password w = [] \<and> \<not> setup_fits (su_pw s) \<longrightarrow> refused ''Invalid JSON'') \<and>
    (sent \<and> admin_password w = [] \<and> setup_fits (su_pw s) \<and> length (TrimSpace (su_pw s)) < 8 \<longrightarrow>
       refused ''Password must be at least 8 characters'') \<and>
    (sent \<and> admin_password w = [] \<and> setup_fits (su_pw s) \<and> 8 \<le> length (TrimSpace (su_pw s)) \<longrightarrow>
       \<not> su_busy s' \<and> su_error s' = [] \<and> status c' = Authed \<and> admin_password w' = su_pw s \<and>
       status (fst (boot serve (reload c') w')) = Authed \<and> status (fst (boot serve (new_tab c') w')) = Authed) \<and>
    (list_all (\<lambda>x. code x < 128) (su_pw s) \<longrightarrow> length (TrimSpace (su_pw s)) = js_length (trim_js (su_pw s)))"
proof -
  obtain sha mint rest g where w: "w = (sha, mint, rest, g)" by (cases w)
  have ascii: "list_all (\<lambda>x. code x < 128) (su_pw s) \<longrightarrow> length (TrimSpace (su_pw s)) = js_length (trim_js (su_pw s))"
    using trims_agree_ascii by simp
  let ?t = "mint (drawn g)"
  let ?g = "g\<lparr>password := su_pw s, store := issue sha (clock g) ?t (su_pw s) True (store g), drawn := drawn g + 1\<rparr>"
  let ?c = "c\<lparr>browser := setToken ?t True (browser c), status := Authed\<rparr>"
  have ok: "inj sha" "?t \<noteq> []" "deployed_ok (sha, mint, rest, ?g)" using assms(1) by (simp_all add: w)
  have answer: "completeSetup_ui serve (su_pw s) c w =
      (if password g \<noteq> [] then (Some (ApiErr 409 ''Already configured'' False), c, w)
       else if \<not> setup_fits (su_pw s) then (Some (ApiErr 400 ''Invalid JSON'' False), c, w)
       else if length (TrimSpace (su_pw s)) < 8 then (Some (ApiErr 400 ''Password must be at least 8 characters'' False), c, w)
       else (None, ?c, sha, mint, rest, ?g))"
    using ok(2) by (simp add: w completeSetup_ui_def api_def serve_setup isConfigured_def respond_def api_result_def
        resp_ok_def error_of_def on_unauthorized_def Let_def js_or_def del: serve.simps)
  consider "\<not> sent" | "sent" "password g \<noteq> [] \<or> \<not> setup_fits (su_pw s) \<or> length (TrimSpace (su_pw s)) < 8"
    | (set) "sent" "password g = []" "setup_fits (su_pw s)" "\<not> length (TrimSpace (su_pw s)) < 8" by blast
  then show ?thesis
  proof cases
    case 1
    then show ?thesis using assms(2) ascii by (auto simp: setup_submit_def sent_def)
  next
    case 2
    then show ?thesis using assms(2) answer ascii
      by (auto simp: w setup_submit_def setup_fail_def sent_def refused_def Let_def split: if_splits)
  next
    case set
    have live: "accepted (sha, mint, rest, ?g) ?t"
      using issue_live [OF ok(1,2), where g = "g\<lparr>password := su_pw s\<rparr>" and rem = True and st = "store g"
        and u = ?t] by (simp add: live_token_def)
    have "su_pw s \<noteq> []" using set(4) by (auto simp: TrimSpace_def trim_utf8_def)
    moreover have "getToken (browser (reload ?c)) = ?t" "getToken (browser (new_tab ?c)) = ?t"
      using ok(2) by (simp_all add: reload_def new_tab_def token_defs str_or_def)
    moreover have "\<not> js_length (trim_js (su_pw s)) < 8" "su_confirm s = su_pw s" using set(1) by (auto simp: sent_def)
    then have "(s', c', w') = (s\<lparr>su_error := [], su_busy := False\<rparr>, ?c, sha, mint, rest, ?g)"
      using set(2-4) answer assms(2) by (simp add: setup_submit_def Let_def)
    ultimately show ?thesis
      using gateway_server.boot_status(1) [OF ok(3), of "reload ?c"] gateway_server.boot_status(1) [OF ok(3), of "new_tab ?c"]
        live set ascii by (auto simp: w sent_def reload_def new_tab_def)
  qed
qed

theorem setup_page_configures_witness:
  "\<exists>s' c' w'. setup_submit sample_ui serve (setup_mount\<lparr>su_pw := ''correct horse'', su_confirm := ''correct horse''\<rparr>)
      sample_console (sample_deployment []) = (s', c', w') \<and> status c' = Authed \<and> admin_password w' = ''correct horse''"
proof -
  let ?s = "setup_mount\<lparr>su_pw := ''correct horse'', su_confirm := ''correct horse''\<rparr>"
  obtain s' c' w' where r: "setup_submit sample_ui serve ?s sample_console (sample_deployment []) = (s', c', w')"
    by (metis prod_cases3)
  have "list_all (\<lambda>x. code x < 128) (su_pw ?s)" "8 \<le> length (js_trim (su_pw ?s))" by code_simp+
  then have "8 \<le> js_length (trim_js (su_pw ?s))" "8 \<le> length (TrimSpace (su_pw ?s))"
    using trims_agree_ascii [of "su_pw ?s"] by simp_all
  moreover have "setup_fits (su_pw ?s)"
    by (simp add: setup_fits_def maxLoginBody_def quote_def escape_char_def code_def)
  ultimately show ?thesis
    using setup_page_configures [OF sample_deployment_ok(1) r] r
    by (cases w') (simp add: sample_deployment_ok)
qed

end
