(* ===== verification/App_Shell.thy ===== *)
theory App_Shell
  imports Login_Page
begin

text \<open>
  What surrounds the pages: the theme (\<open>lib/theme.tsx\<close>), the gate that decides what is shown at all
  (\<open>main.tsx\<close>), the routes (\<open>router.tsx\<close>), the shell with sidebar, header and keyboard shortcuts
  (\<open>components/layout/app-shell.tsx\<close>) and the command palette (\<open>command-palette.tsx\<close>).

  Waiting for an animation or for the next frame is a \<open>Sleep\<close>; animations are not cancelled. Setting
  the language, navigating and signing out are calls of what the providers pass down (\<open>Parent\<close>).
  The position of the lamp beside the active entry is measured by the browser: a parameter.
\<close>

section \<open>lib/theme.tsx\<close>

record theme_st =
  th_theme :: string
  th_dark :: bool
  th_saved :: string
  th_busy :: bool
  th_switching :: bool
  th_curtain :: bool

definition initial :: "string option \<Rightarrow> bool \<Rightarrow> string" where
  "initial saved prefersDark = (case saved of Some v \<Rightarrow> if v = ''light'' \<or> v = ''dark'' then v else if prefersDark then ''dark'' else ''light''
     | None \<Rightarrow> if prefersDark then ''dark'' else ''light'')"

text \<open>The effect of a new theme: the class of the document and the stored choice follow it.\<close>

definition theme_effect :: "'a theme_st_scheme \<Rightarrow> 'a theme_st_scheme" where
  "theme_effect s = s\<lparr>th_dark := (th_theme s = ''dark''), th_saved := th_theme s\<rparr>"

definition theme_swap :: "string \<Rightarrow> 'a theme_st_scheme act" where
  "theme_swap nxt = Upd (\<lambda>s. theme_effect (s\<lparr>th_switching := True, th_dark := (nxt = ''dark''), th_theme := nxt\<rparr>))
     (Sleep 0 (Upd (\<lambda>s. s\<lparr>th_switching := False\<rparr>) (Sleep 0 Done)))"

text \<open>\<open>animated\<close>: the click has a position and the user does not ask for reduced motion.\<close>

definition theme_toggle :: "bool \<Rightarrow> 'a theme_st_scheme act" where
  "theme_toggle animated = Look (\<lambda>s. if th_busy s then Done
     else (let nxt = (if th_dark s then ''light'' else ''dark'') in
       if \<not> animated then theme_swap nxt
       else Upd (\<lambda>s. s\<lparr>th_busy := True, th_curtain := True\<rparr>)
         (finally_do (Sleep 460 (andThen (theme_swap nxt) (Sleep 300 Done)))
           (Upd (\<lambda>s. s\<lparr>th_curtain := False, th_busy := False\<rparr>) Done))))"

section \<open>main.tsx\<close>

datatype screen = UsageScreen | DocsScreen | SplashScreen | SetupScreen | LoginScreen | ConsoleScreen

definition strip_slashes :: "string \<Rightarrow> string" where
  "strip_slashes p = rev (dropWhile (\<lambda>c. c = CHR ''/'') (rev p))"

definition Gate :: "string \<Rightarrow> status \<Rightarrow> screen" where
  "Gate path st = (let publicPath = strip_slashes path in
     if publicPath = ''/usage'' then UsageScreen
     else if publicPath = ''/docs'' \<or> starts_with ''/docs/'' publicPath then DocsScreen
     else case st of Loading \<Rightarrow> SplashScreen | Setup \<Rightarrow> SetupScreen | Anonymous \<Rightarrow> LoginScreen | Authed \<Rightarrow> ConsoleScreen)"

text \<open>The effect that fetches the console while the password is typed.\<close>

definition loads_app :: "status \<Rightarrow> bool" where
  "loads_app st \<longleftrightarrow> st = Anonymous \<or> st = Setup"

section \<open>router.tsx\<close>

definition pages :: "(string \<times> string) list" where
  "pages = [(''/'', ''OverviewPage''), (''/accounts'', ''AccountsPage''), (''/api-keys'', ''ApiKeysPage''),
     (''/settings'', ''SettingsPage''), (''/logs'', ''LogsPage''), (''/model-status'', ''ModelStatusPage''),
     (''/model-prices'', ''ModelPricesPage'')]"

definition PagePending :: "'e view" where
  "PagePending = El ''div'' [aS ''role'' ''status'', aS ''aria-label'' ''Loading''] [
     El ''div'' [] [El ''div'' [] [], El ''div'' [] [], El ''div'' [] []],
     El ''div'' [] (map (\<lambda>i. El ''div'' [] []) [0, 1, 2, 3 :: nat]),
     El ''div'' [] []]"

text \<open>The pages whose chunks are fetched in the background, given what the browser tells of the connection.\<close>

definition prefetchPages :: "bool \<Rightarrow> string option \<Rightarrow> string list" where
  "prefetchPages saveData effectiveType = (if saveData \<or> js_includes ''2g'' (case effectiveType of None \<Rightarrow> [] | Some t \<Rightarrow> t) then []
     else map snd pages)"

section \<open>The sidebar\<close>

text \<open>The lamp: top, height, and whether it glides there.\<close>

type_synonym lamp = "(rat \<times> rat \<times> bool) option"

definition lamp_effect :: "(nat \<Rightarrow> rat \<times> rat) \<Rightarrow> nat option \<Rightarrow> lamp \<Rightarrow> lamp" where
  "lamp_effect geometry active prev = (case active of None \<Rightarrow> None
     | Some i \<Rightarrow> Some (fst (geometry i), snd (geometry i), prev \<noteq> None))"

definition nav_link :: "ui \<Rightarrow> 's act \<Rightarrow> nav_item \<Rightarrow> 's act view" where
  "nav_link E onNavigate item = El ''Link'' [aS ''to'' (nav_to item),
       on ''onClick'' (andThen onNavigate (Emit (Parent ''navigate'' (JStr (nav_to item))) Done)),
       aB ''data-active'' (case navIndex (pathname E) of None \<Rightarrow> False | Some i \<Rightarrow> NAV ! i = item)] [
     ic (nav_icon item), El ''span'' [] [Txt (tx E (labelKey item))],
     El ''span'' [] [El ''kbd'' [] [Txt ''g''], El ''kbd'' [] [Txt (nav_key item)]]]"

definition nav_part :: "ui \<Rightarrow> 's act \<Rightarrow> string \<Rightarrow> 's act view" where
  "nav_part E onNavigate sect = El ''div'' [] (
     El ''div'' [] [Txt (tx E (''nav.section.'' @ sect))] #
     map (nav_link E onNavigate) (filter (\<lambda>n. nav_section n = sect) NAV))"

definition NavLinks :: "ui \<Rightarrow> 's act \<Rightarrow> lamp \<Rightarrow> 's act view" where
  "NavLinks E onNavigate lamp = El ''nav'' [] [
     (case lamp of None \<Rightarrow> Nothing | Some (y, h, ready) \<Rightarrow>
       El ''div'' [aS ''transform'' (''translateY('' @ show_rat y @ ''px)''), aN ''height'' h, aB ''gliding'' ready] [El ''span'' [] []]),
     nav_part E onNavigate ''manage'', nav_part E onNavigate ''system'']"

definition formatUptime :: "int \<Rightarrow> string" where
  "formatUptime s = (let d = s div 86400; h = s mod 86400 div 3600; m = s mod 3600 div 60 in
     if d \<noteq> 0 then show_int d @ ''d '' @ show_int h @ ''h''
     else if h \<noteq> 0 then show_int h @ ''h '' @ show_int m @ ''m'' else show_int m @ ''m'')"

datatype traffic = Connecting | Down | Up

definition traffic_state :: "jsv \<Rightarrow> traffic" where
  "traffic_state s = (if \<not> truthy s then Connecting
     else if num_prop s ''accounts'' > 0 \<and> num_prop s ''available'' = 0 then Down else Up)"

text \<open>\<open>version?.replace(/^v?(?=\d)/, 'v') || '-'\<close>.\<close>

definition version_text :: "jsv \<Rightarrow> string" where
  "version_text v = (case get_prop v ''version'' of
     JStr s \<Rightarrow> or_str (case s of [] \<Rightarrow> [] | c # r \<Rightarrow> if is_digit c then CHR ''v'' # s else s) em_dash
   | _ \<Rightarrow> em_dash)"

definition SystemPanel :: "ui \<Rightarrow> jsv \<Rightarrow> jsv \<Rightarrow> 'e view" where
  "SystemPanel E s version =
    (let total = num_prop s ''accounts''; alive = num_prop s ''available'';
         st = traffic_state s; update = get_prop version ''update'' in
     El ''div'' [] [
       El ''div'' [] [El ''span'' [] [Txt (tx E ''shell.system'')],
         El ''span'' [aS ''tone'' (case st of Connecting \<Rightarrow> ''muted'' | Down \<Rightarrow> ''destructive'' | Up \<Rightarrow> ''success'')] [
           El ''span'' [aB ''data-live'' (st \<noteq> Connecting)] [],
           Txt (tx E (case st of Up \<Rightarrow> ''shell.operational'' | Down \<Rightarrow> ''shell.noRoute'' | Connecting \<Rightarrow> ''shell.connecting''))]],
       El ''div'' [] [
         El ''div'' [] [
           El ''div'' [] [El ''span'' [] [Txt (tx E ''shell.accounts'')],
             El ''span'' [] [Txt (fmt_num E alive), El ''span'' [] [Txt (''/'' @ show_rat total)]]],
           El ''div'' [] [El ''div'' [aS ''width'' (if total \<noteq> 0 then show_rat (alive / total * 100) @ ''%'' else ''0%'')] []]],
         El ''div'' [] [El ''span'' [] [Txt (tx E ''shell.requests'')],
           El ''span'' [] [Txt (formatNumber E (Some (num_prop s ''totalRequests'')))]]],
       El ''div'' [] [El ''span'' [] [Txt (version_text version)],
         El ''span'' [] [Txt (tx E ''shell.uptime'' @ '' '' @ formatUptime \<lfloor>num_prop s ''uptime''\<rfloor>)]],
       shown (truthy (get_prop update ''available''))
         (El ''a'' [aS ''href'' (js_string (get_prop update ''url'')), aS ''target'' ''_blank''] [
           El ''span'' [] [Txt (tx E ''shell.updateAvailable'')],
           El ''span'' [] [Txt (CHR ''v'' # js_string (get_prop update ''latest'') @ [CHR '' '', CHR 0xE2, CHR 0x86, CHR 0x97])]])])"

definition Sidebar :: "ui \<Rightarrow> 's act \<Rightarrow> lamp \<Rightarrow> jsv \<Rightarrow> jsv \<Rightarrow> 's act view" where
  "Sidebar E onNavigate lamp s version = El ''div'' [] [
     El ''Link'' [aS ''to'' ''/'', on ''onClick'' (andThen onNavigate (Emit (Parent ''navigate'' (JStr ''/'')) Done))] [ic ''Wordmark''],
     El ''div'' [] [NavLinks E onNavigate lamp],
     SystemPanel E s version]"

section \<open>The shell\<close>

record shell_st = theme_st +
  sh_mobileOpen :: bool
  sh_paletteOpen :: bool
  sh_paletteLoaded :: bool
  sh_pendingG :: int
  sh_lamps :: "lamp \<times> lamp"
  sh_status :: jsv
  sh_version :: jsv

definition shell_mount :: "string option \<Rightarrow> bool \<Rightarrow> shell_st" where
  "shell_mount saved prefersDark = theme_effect \<lparr>th_theme = initial saved prefersDark, th_dark = False, th_saved = [],
     th_busy = False, th_switching = False, th_curtain = False, sh_mobileOpen = False, sh_paletteOpen = False,
     sh_paletteLoaded = False, sh_pendingG = 0, sh_lamps = (None, None), sh_status = JUndef, sh_version = JUndef\<rparr>"

definition openPalette :: "shell_st act" where
  "openPalette = Upd (\<lambda>s. s\<lparr>sh_paletteLoaded := True\<rparr>) (Upd (\<lambda>s. s\<lparr>sh_paletteOpen := True\<rparr>) Done)"

text \<open>A key as the listener of the window gets it, with the tag of its target (empty if that is no
  element) and the time at which it is handled.\<close>

record key_event =
  k_key :: string
  k_meta :: bool
  k_ctrl :: bool
  k_alt :: bool
  k_editable :: bool
  k_tag :: string
  k_time :: int

definition typing :: "key_event \<Rightarrow> bool" where
  "typing e \<longleftrightarrow> k_tag e \<noteq> [] \<and> (k_editable e \<or> k_tag e \<in> {''INPUT'', ''TEXTAREA'', ''SELECT''})"

definition palette_key :: "key_event \<Rightarrow> bool" where
  "palette_key e \<longleftrightarrow> (k_meta e \<or> k_ctrl e) \<and> js_lower (k_key e) = ''k''"

definition onKey :: "key_event \<Rightarrow> shell_st act" where
  "onKey e =
    (if palette_key e then Upd (\<lambda>s. s\<lparr>sh_paletteLoaded := True\<rparr>) (Upd (\<lambda>s. s\<lparr>sh_paletteOpen := \<not> sh_paletteOpen s\<rparr>) Done)
     else if k_meta e \<or> k_ctrl e \<or> k_alt e \<or> typing e then Done
     else if k_key e = ''g'' then Upd (\<lambda>s. s\<lparr>sh_pendingG := k_time e\<rparr>) Done
     else Look (\<lambda>s. if k_time e - sh_pendingG s < 1000
       then andThen (case find (\<lambda>n. nav_key n = k_key e) NAV of None \<Rightarrow> Done
                     | Some n \<Rightarrow> Emit (Parent ''navigate'' (JStr (nav_to n))) Done)
              (Upd (\<lambda>s. s\<lparr>sh_pendingG := 0\<rparr>) Done)
       else Done))"

definition document_title :: "ui \<Rightarrow> string" where
  "document_title E = (case navIndex (pathname E) of None \<Rightarrow> ''Hekato''
     | Some i \<Rightarrow> tx E (labelKey (NAV ! i)) @ '' '' @ mid_dot @ '' Hekato'')"

definition HeaderIcon :: "string \<Rightarrow> 'e \<Rightarrow> 'e view \<Rightarrow> 'e view" where
  "HeaderIcon label onClick child = El ''Tooltip'' [] [
     El ''TooltipTrigger'' [] [El ''Button'' [on ''onClick'' onClick, aS ''aria-label'' label] [child]],
     El ''TooltipContent'' [] [Txt label]]"

section \<open>The command palette\<close>

definition palette_run :: "'s act \<Rightarrow> (bool \<Rightarrow> 's act) \<Rightarrow> 's act" where
  "palette_run fn onOpenChange = andThen (onOpenChange False) fn"

definition palette_item :: "'e view \<Rightarrow> string \<Rightarrow> 'e view list \<Rightarrow> 'e \<Rightarrow> 'e view" where
  "palette_item icon label hint onSelect = El ''Command.Item'' [aS ''value'' label, on ''onSelect'' onSelect] [
     El ''span'' [] [icon], El ''span'' [] [Txt label], shown (hint \<noteq> []) (El ''span'' [] hint)]"

definition chinese :: string where
  "chinese = [CHR 0xE4, CHR 0xB8, CHR 0xAD, CHR 0xE6, CHR 0x96, CHR 0x87]"

definition command_key :: string where
  "command_key = [CHR 0xE2, CHR 0x8C, CHR 0x98]"

definition other_language :: "ui \<Rightarrow> string" where
  "other_language E = (if lang E = ''en'' then [CHR 0xE5, CHR 0x88, CHR 0x87, CHR 0xE6, CHR 0x8D, CHR 0xA2, CHR 0xE5, CHR 0x88, CHR 0xB0] @ chinese
     else ''Switch to English'')"

definition set_language :: "ui \<Rightarrow> 's act" where
  "set_language E = Emit (Parent ''setLang'' (JStr (lang_of E))) Done"

definition CommandPalette :: "ui \<Rightarrow> bool \<Rightarrow> (bool \<Rightarrow> 'a theme_st_scheme act) \<Rightarrow> 'a theme_st_scheme act view" where
  "CommandPalette E opn onOpenChange = El ''Dialog'' [aB ''open'' opn, onB ''onOpenChange'' onOpenChange] [
     El ''DialogContent'' [] [
       El ''DialogTitle'' [] [Txt (tx E ''palette.title'')],
       El ''Command'' [] [
         El ''div'' [] [ic ''LuSearch'', El ''Command.Input'' [aS ''placeholder'' (tx E ''palette.placeholder'')] [], El ''kbd'' [] [Txt ''esc'']],
         El ''Command.List'' [] [
           El ''Command.Empty'' [] [Txt (tx E ''palette.empty'')],
           El ''Command.Group'' [aS ''heading'' (tx E ''palette.navigate'')]
             (map (\<lambda>n. palette_item (ic (nav_icon n)) (tx E (labelKey n)) [El ''kbd'' [] [Txt ''g''], El ''kbd'' [] [Txt (nav_key n)]]
                (palette_run (Emit (Parent ''navigate'' (JStr (nav_to n))) Done) onOpenChange)) NAV),
           El ''Command.Group'' [aS ''heading'' (tx E ''palette.actions'')] [
             palette_item (ic ''LuSunMoon'') (tx E ''header.theme'') [] (palette_run (theme_toggle False) onOpenChange),
             palette_item (ic ''LuLanguages'') (other_language E) [] (palette_run (set_language E) onOpenChange),
             palette_item (ic ''LuBookOpen'') (tx E ''header.docs'') [] (palette_run (Emit (OpenTab ''/docs'') Done) onOpenChange),
             palette_item (ic ''LuLogOut'') (tx E ''common.logout'') []
               (palette_run (Emit (Parent ''logout'' JUndef) Done) onOpenChange)]],
         El ''div'' [] [
           El ''span'' [] [El ''kbd'' [] [Txt [CHR 0xE2, CHR 0x86, CHR 0x91]], El ''kbd'' [] [Txt [CHR 0xE2, CHR 0x86, CHR 0x93]], Txt (tx E ''palette.move'')],
           El ''span'' [] [El ''kbd'' [] [ic ''LuCornerDownLeft''], Txt (tx E ''palette.open'')],
           El ''span'' [] [El ''kbd'' [] [Txt command_key], El ''kbd'' [] [Txt ''K'']]]]]]"

section \<open>The page frame\<close>

definition close_drawer :: "shell_st act" where
  "close_drawer = Upd (\<lambda>s. s\<lparr>sh_mobileOpen := False\<rparr>) Done"

definition set_palette :: "bool \<Rightarrow> shell_st act" where
  "set_palette b = Upd (\<lambda>s. s\<lparr>sh_paletteOpen := b\<rparr>) Done"

text \<open>\<open>motion\<close>: whether clicks on the theme button animate. \<open>outlet\<close> is the page of the route.\<close>

definition AppShell :: "ui \<Rightarrow> bool \<Rightarrow> shell_st act view \<Rightarrow> shell_st \<Rightarrow> shell_st act view" where
  "AppShell E motion outlet s = El ''div'' [] [
     El ''aside'' [] [Sidebar E Done (fst (sh_lamps s)) (sh_status s) (sh_version s)],
     El ''div'' [aB ''aria-hidden'' (\<not> sh_mobileOpen s)] [
       El ''div'' [on ''onClick'' close_drawer] [],
       El ''aside'' [] [
         El ''Button'' [on ''onClick'' close_drawer, aS ''aria-label'' ''Close''] [ic ''LuX''],
         Sidebar E close_drawer (snd (sh_lamps s)) (sh_status s) (sh_version s)]],
     El ''div'' [] [
       El ''header'' [] [
         El ''Button'' [on ''onClick'' (Upd (\<lambda>x. x\<lparr>sh_mobileOpen := True\<rparr>) Done), aS ''aria-label'' (tx E ''shell.menu'')] [ic ''LuMenu''],
         ic ''Mark'',
         El ''div'' [] [El ''span'' [] [Txt ''hekato''], El ''span'' [] [Txt ''/''],
           El ''span'' [] [Txt (case navIndex (pathname E) of None \<Rightarrow> [] | Some i \<Rightarrow> js_lower (tx E (labelKey (NAV ! i))))]],
         El ''button'' [aS ''type'' ''button'', on ''onClick'' openPalette]
           [ic ''LuSearch'', El ''span'' [] [Txt (tx E ''palette.trigger'')], El ''kbd'' [] [Txt (command_key @ ''K'')]],
         El ''Button'' [on ''onClick'' openPalette, aS ''aria-label'' (tx E ''palette.title'')] [ic ''LuSearch''],
         HeaderIcon (tx E ''header.docs'') (Emit (OpenTab ''/docs'') Done) (ic ''LuBookOpen''),
         HeaderIcon (tx E ''header.language'' @ '': '' @ (if lang E = ''en'' then ''English'' else chinese)) (set_language E) (ic ''LuLanguages''),
         HeaderIcon (tx E ''header.theme'') (theme_toggle motion)
           (El ''span'' [] [El ''LuSun'' [aB ''faded'' (th_theme s \<noteq> ''dark'')] [], El ''LuMoon'' [aB ''faded'' (th_theme s = ''dark'')] []]),
         HeaderIcon (tx E ''common.logout'') (Emit (Parent ''logout'' JUndef) Done) (ic ''LuLogOut'')],
       El ''main'' [] [El ''div'' [] [outlet]]],
     shown (sh_paletteLoaded s) (CommandPalette E (sh_paletteOpen s) set_palette)]"

section \<open>Shortcuts\<close>

text \<open>What the shortcuts promise, without the variable the listener keeps: a key jumps if it is pressed
  alone, outside a text field, within a second after a \<open>g\<close> pressed so, with no other such key between.\<close>

definition plain_key :: "key_event \<Rightarrow> bool" where
  "plain_key e \<longleftrightarrow> \<not> k_meta e \<and> \<not> k_ctrl e \<and> \<not> k_alt e \<and> \<not> typing e"

definition armed :: "key_event list \<Rightarrow> int \<Rightarrow> bool" where
  "armed es now \<longleftrightarrow> (case rev (filter plain_key es) of [] \<Rightarrow> False | p # ps \<Rightarrow> k_key p = ''g'' \<and> now - k_time p < 1000)"

definition jump :: "key_event list \<Rightarrow> key_event \<Rightarrow> string list" where
  "jump es e = (if plain_key e \<and> k_key e \<noteq> ''g'' \<and> armed es (k_time e)
     then map nav_to (filter (\<lambda>n. nav_key n = k_key e) NAV) else [])"

definition jumps :: "key_event list \<Rightarrow> string list" where
  "jumps es = concat (map (\<lambda>i. jump (take i es) (es ! i)) [0..<length es])"

definition press :: "key_event list \<Rightarrow> shell_st act" where
  "press es = foldr (\<lambda>e a. andThen (onKey e) a) es Done"

lemma press_snoc: "press (es @ [e]) = andThen (press es) (onKey e)"
  by (induction es) (simp_all add: press_def andThen_assoc)

lemma jumps_snoc: "jumps (es @ [e]) = jumps es @ jump es e"
proof -
  let ?f = "\<lambda>i. jump (take i (es @ [e])) ((es @ [e]) ! i)"
  have "jumps (es @ [e]) = concat (map ?f [0..<length es]) @ ?f (length es)" by (simp add: jumps_def)
  also have "map ?f [0..<length es] = map (\<lambda>i. jump (take i es) (es ! i)) [0..<length es]"
    by (rule map_cong) (auto simp: nth_append)
  finally show ?thesis by (simp add: jumps_def)
qed

lemma find_filter: "(case find (\<lambda>n. nav_key n = k) NAV of None \<Rightarrow> [] | Some n \<Rightarrow> [nav_to n]) = map nav_to (filter (\<lambda>n. nav_key n = k) NAV)"
  by (auto simp: NAV_def nav_entry_def)

text \<open>What the variable of the listener stands for.\<close>

definition pending_ok :: "key_event list \<Rightarrow> int \<Rightarrow> bool" where
  "pending_ok es g \<longleftrightarrow> (case rev (filter plain_key es) of [] \<Rightarrow> g = 0
     | p # ps \<Rightarrow> if k_key p = ''g'' then g = k_time p else g = 0 \<or> g + 1000 \<le> k_time p)"

lemma pending_ok_snoc:
  "\<not> plain_key e \<Longrightarrow> pending_ok (es @ [e]) g = pending_ok es g"
  "plain_key e \<Longrightarrow> pending_ok (es @ [e]) g = (if k_key e = ''g'' then g = k_time e else g = 0 \<or> g + 1000 \<le> k_time e)"
  by (simp_all add: pending_ok_def)

lemma exec_onKey:
  "exec (onKey e) srv s w = (if palette_key e then (None, s\<lparr>sh_paletteLoaded := True, sh_paletteOpen := \<not> sh_paletteOpen s\<rparr>, [], w)
     else if \<not> plain_key e then (None, s, [], w)
     else if k_key e = ''g'' then (None, s\<lparr>sh_pendingG := k_time e\<rparr>, [], w)
     else if k_time e - sh_pendingG s < 1000
     then (None, s\<lparr>sh_pendingG := 0\<rparr>, map (\<lambda>to. Parent ''navigate'' (JStr to)) (map nav_to (filter (\<lambda>n. nav_key n = k_key e) NAV)), w)
     else (None, s, [], w))"
  unfolding find_filter [symmetric]
  by (auto simp: onKey_def plain_key_def exec_andThen split: option.splits)

lemma armed_pending:
  assumes "pending_ok es g" "1000 \<le> now" "\<forall>p\<in>set es. k_time p \<le> now"
  shows "armed es now \<longleftrightarrow> now - g < 1000"
proof (cases "rev (filter plain_key es)")
  case Nil
  then show ?thesis using assms(1,2) by (simp add: armed_def pending_ok_def)
next
  case (Cons p ps)
  then have "p \<in> set es" by (metis filter_is_subset in_mono list.set_intros(1) set_rev)
  with assms(3) have "k_time p \<le> now" by blast
  with Cons assms(1,2) show ?thesis by (auto simp: armed_def pending_ok_def split: if_splits)
qed

lemma onKey_step:
  assumes "pending_ok es (sh_pendingG s)" "1000 \<le> k_time e" "\<forall>p\<in>set es. k_time p \<le> k_time e"
  shows "\<exists>s'. exec (onKey e) srv s w = (None, s', map (\<lambda>to. Parent ''navigate'' (JStr to)) (jump es e), w) \<and>
    pending_ok (es @ [e]) (sh_pendingG s') \<and> (sh_paletteOpen s' \<longleftrightarrow> sh_paletteOpen s \<noteq> palette_key e)"
proof (cases "plain_key e")
  case False
  then show ?thesis using assms(1) by (simp add: exec_onKey jump_def pending_ok_snoc)
next
  case True
  then have "\<not> palette_key e" by (simp add: plain_key_def palette_key_def)
  with True armed_pending [OF assms] show ?thesis
    by (simp add: exec_onKey jump_def pending_ok_snoc)
qed

text \<open>C32: the shortcuts do what they promise: for any series of keys, the console moves exactly to the pages
  of the keys pressed alone and outside text fields within a second after such a \<open>g\<close>, with no other
  such key between; and the palette is open after it exactly if its key was pressed an odd number of
  times.\<close>

theorem shortcuts_exact:
  assumes "sorted (map k_time es)" "\<forall>e\<in>set es. 1000 \<le> k_time e"
  shows "\<exists>s'. exec (press es) srv (shell_mount saved prefersDark) w =
      (None, s', map (\<lambda>to. Parent ''navigate'' (JStr to)) (jumps es), w) \<and>
    (sh_paletteOpen s' \<longleftrightarrow> odd (length (filter palette_key es)))"
proof -
  have "\<exists>s'. exec (press es) srv (shell_mount saved prefersDark) w =
      (None, s', map (\<lambda>to. Parent ''navigate'' (JStr to)) (jumps es), w) \<and> pending_ok es (sh_pendingG s') \<and>
      (sh_paletteOpen s' \<longleftrightarrow> odd (length (filter palette_key es)))"
    using assms
  proof (induction es rule: rev_induct)
    case Nil
    then show ?case by (simp add: press_def jumps_def pending_ok_def shell_mount_def theme_effect_def)
  next
    case (snoc e es)
    then obtain s where s: "exec (press es) srv (shell_mount saved prefersDark) w =
        (None, s, map (\<lambda>to. Parent ''navigate'' (JStr to)) (jumps es), w)" "pending_ok es (sh_pendingG s)"
      "sh_paletteOpen s \<longleftrightarrow> odd (length (filter palette_key es))"
      by (auto simp: sorted_append)
    have "\<forall>p\<in>set es. k_time p \<le> k_time e" "1000 \<le> k_time e" using snoc.prems by (auto simp: sorted_append)
    from onKey_step [OF s(2) this(2,1), of srv w] s show ?case
      by (auto simp: press_snoc exec_andThen jumps_snoc)
  qed
  then show ?thesis by blast
qed

definition pressed :: "string \<Rightarrow> int \<Rightarrow> key_event" where
  "pressed k t = \<lparr>k_key = k, k_meta = False, k_ctrl = False, k_alt = False, k_editable = False, k_tag = ''BODY'', k_time = t\<rparr>"

theorem shortcuts_exact_witness:
  "\<exists>s'. exec (press [pressed ''g'' 5000, pressed ''a'' 5400, pressed ''s'' 5500, pressed ''g'' 6000, pressed ''s'' 7500])
      (\<lambda>w r. (Resolved JNull, w)) (shell_mount None False) () = (None, s', [Parent ''navigate'' (JStr ''/accounts'')], ())"
proof -
  let ?es = "[pressed ''g'' 5000, pressed ''a'' 5400, pressed ''s'' 5500, pressed ''g'' 6000, pressed ''s'' 7500]"
  have "jumps ?es = [''/accounts'']" by code_simp
  moreover have "sorted (map k_time ?es)" "\<forall>e\<in>set ?es. 1000 \<le> k_time e" by (simp_all add: pressed_def)
  ultimately show ?thesis
    using shortcuts_exact [of ?es "\<lambda>w r. (Resolved JNull, w)" None False "()"] by auto
qed

section \<open>What is shown\<close>

text \<open>Every entry of the navigation is a route, and its page is the one marked as active there.\<close>

lemma nav_entries_are_pages:
  "\<forall>i<length NAV. nav_to (NAV ! i) \<in> fst ` set pages \<and> navIndex (''/admin'' @ nav_to (NAV ! i)) = Some i"
proof -
  have "list_all (\<lambda>i. nav_to (NAV ! i) \<in> fst ` set pages \<and> navIndex (''/admin'' @ nav_to (NAV ! i)) = Some i) [0..<length NAV]"
    by code_simp
  then show ?thesis by (simp add: list_all_iff)
qed

text \<open>C10: the gate: after the console has asked the server for its state, it is shown exactly if the
  address is no public page, the gateway is configured, and the browser holds a token the server
  accepts; the first-run page exactly while there is no password, the login page otherwise. Before
  the answer nothing of the console is shown, and the public pages never depend on it.\<close>

theorem gate_shows_console:
  assumes "deployed_ok w" "status c = Loading"
  shows "Gate path (status c) \<in> {UsageScreen, DocsScreen, SplashScreen} \<and>
    Gate path (status (fst (boot serve c w))) =
      (if Gate path Loading \<noteq> SplashScreen then Gate path Loading
       else if admin_password w = [] then SetupScreen
       else if accepted w (getToken (browser c)) then ConsoleScreen else LoginScreen)"
  using assms(2) gateway_server.boot_status(1) [OF assms] by (auto simp: Gate_def Let_def)

theorem gate_shows_console_witness:
  "Gate ''/admin/accounts'' (status (fst (boot serve (reload sample_console) (sample_deployment ''hunter22'')))) = LoginScreen"
proof -
  have "Gate ''/admin/accounts'' Loading = SplashScreen" by code_simp
  moreover have "getToken (browser (reload sample_console)) = []"
    by (simp add: reload_def sample_console_def token_defs str_or_def)
  moreover have "\<not> accepted (sample_deployment ''hunter22'') []" by (rule gateway_server.empty_token)
  moreover have "status (reload sample_console) = Loading" by (simp add: reload_def)
  ultimately show ?thesis
    using gate_shows_console [of "sample_deployment ''hunter22''" "reload sample_console" "''/admin/accounts''"]
    by (simp only: sample_deployment_ok) simp
qed

section \<open>The theme\<close>

definition theme_good :: "'a theme_st_scheme \<Rightarrow> bool" where
  "theme_good s \<longleftrightarrow> th_theme s \<in> {''light'', ''dark''} \<and> th_dark s = (th_theme s = ''dark'') \<and> th_saved s = th_theme s \<and>
     th_curtain s = th_busy s"

definition shell_env :: "shell_st \<Rightarrow> shell_st \<Rightarrow> bool" where
  "shell_env s s' \<longleftrightarrow> (\<exists>v. s' = s\<lparr>sh_status := v\<rparr>) \<or> (\<exists>v. s' = s\<lparr>sh_version := v\<rparr>) \<or> (\<exists>l. s' = s\<lparr>sh_lamps := l\<rparr>)"

lemma theme_good_kept [simp]:
  "theme_good (s\<lparr>sh_status := v\<rparr>) = theme_good s" "theme_good (s\<lparr>sh_version := v\<rparr>) = theme_good s"
  "theme_good (s\<lparr>sh_lamps := l\<rparr>) = theme_good s" "theme_good (s\<lparr>sh_mobileOpen := b\<rparr>) = theme_good s"
  "theme_good (s\<lparr>sh_paletteOpen := b\<rparr>) = theme_good s" "theme_good (s\<lparr>sh_paletteLoaded := b\<rparr>) = theme_good s"
  "theme_good (s\<lparr>th_switching := b\<rparr>) = theme_good s"
  by (simp_all add: theme_good_def)

lemma steady_toggle: "steady theme_good (theme_toggle animated)"
  by (auto simp: theme_toggle_def theme_swap_def finally_do_def Let_def theme_good_def theme_effect_def)

lemma list_all_nav_links:
  "(\<And>n :: nav_item. Q (andThen oc (Emit (Parent ''navigate'' (JStr (nav_to n))) Done))) \<Longrightarrow> list_all (handler_all Q) (live (NavLinks E oc lamp))"
  by (auto simp: NavLinks_def nav_part_def nav_link_def list_all_concat_map split: option.splits)

lemma live_SystemPanel: "live (SystemPanel E s v) = []"
  by (simp add: SystemPanel_def Let_def)

lemma steady_go: "steady theme_good (andThen close_drawer (Emit x Done))" "steady theme_good (andThen Done (Emit x Done))"
  by (simp_all add: close_drawer_def)

interpretation shell: steady_page "AppShell E motion Nothing" shell_env "shell_mount saved prefersDark" theme_good
proof
  fix s
  have sidebar: "list_all (handler_all (steady theme_good)) (live (Sidebar E oc l a b))"
    if "oc = Done \<or> oc = close_drawer" for oc l a b
    using that list_all_nav_links [of "steady theme_good" oc E l] steady_go
    by (auto simp: Sidebar_def live_SystemPanel)
  have palette: "list_all (handler_all (steady theme_good)) (live (CommandPalette E b set_palette))" for b
    using steady_toggle
    by (auto simp: CommandPalette_def palette_item_def palette_run_def set_palette_def set_language_def list_all_concat_map)
  show "list_all (handler_all (steady theme_good)) (live (AppShell E motion Nothing s))"
    using sidebar palette steady_toggle
    by (auto simp: AppShell_def HeaderIcon_def close_drawer_def openPalette_def set_language_def)
next
  show "theme_good (shell_mount saved prefersDark)"
    by (auto simp: shell_mount_def theme_good_def theme_effect_def initial_def split: option.splits)
next
  fix s s' assume "shell_env s s'" "theme_good s"
  then show "theme_good s'" by (auto simp: shell_env_def)
qed

text \<open>C33: whatever is clicked in the shell and however the animations interleave, the chosen theme, the
  class of the document and the stored choice agree between any two steps, and the curtain is up exactly
  while switching is locked; a switch that is let in ends with the other theme and the lock released;
  one that comes while the curtain is up changes nothing.\<close>

theorem theme_consistent:
  assumes "mreach (AppShell E motion Nothing) shell_env (shell_mount saved prefersDark) m"
  shows "th_theme (cst m) \<in> {''light'', ''dark''} \<and> th_dark (cst m) = (th_theme (cst m) = ''dark'') \<and>
      th_saved (cst m) = th_theme (cst m) \<and> th_curtain (cst m) = th_busy (cst m) \<and>
    (th_busy (cst m) \<longrightarrow> sync (theme_toggle animated) (cst m) = (cst m, [], [])) \<and>
    (\<not> th_busy (cst m) \<longrightarrow> (\<exists>s'. exec (theme_toggle animated) srv (cst m) w = (None, s', [], w) \<and>
       th_theme s' \<noteq> th_theme (cst m) \<and> th_saved s' = th_theme s' \<and> \<not> th_busy s' \<and> \<not> th_curtain s'))"
proof -
  have "theme_good (cst m)" using shell.reach_inv [OF assms] by simp
  then show ?thesis
    by (auto simp: theme_good_def theme_toggle_def theme_swap_def theme_effect_def Let_def exec_finally exec_andThen)
qed

definition covered :: "shell_st mach" where
  "covered = resume \<lparr>cst = shell_mount (Some ''light'') True, inflight = [], trace = []\<rparr> (theme_toggle True)"

theorem theme_consistent_witness:
  "th_busy (cst covered) \<and> th_theme (cst covered) = ''light'' \<and> sync (theme_toggle False) (cst covered) = (cst covered, [], [])"
proof -
  have "Plain (theme_toggle True) \<in> set (live (AppShell sample_ui True Nothing (shell_mount (Some ''light'') True)))"
    by (simp add: AppShell_def HeaderIcon_def)
  then have "mstep (AppShell sample_ui True Nothing) shell_env \<lparr>cst = shell_mount (Some ''light'') True, inflight = [], trace = []\<rparr> covered"
    using mstep.event [where h = "Plain (theme_toggle True)" and inp = Click and a = "theme_toggle True"
        and m = "\<lparr>cst = shell_mount (Some ''light'') True, inflight = [], trace = []\<rparr>" and V = "AppShell sample_ui True Nothing"]
    by (simp add: covered_def)
  then have "mreach (AppShell sample_ui True Nothing) shell_env (shell_mount (Some ''light'') True) covered"
    by (rule mreach.step [OF mreach.start])
  from theme_consistent [OF this, of False "\<lambda>w r. (Resolved JNull, w)" "()"]
  have "th_busy (cst covered) \<longrightarrow> sync (theme_toggle False) (cst covered) = (cst covered, [], [])" by blast
  moreover have "th_busy (cst covered)" "th_theme (cst covered) = ''light''"
    by (simp_all add: covered_def resume_def theme_toggle_def shell_mount_def theme_effect_def initial_def finally_do_def
        theme_swap_def Let_def)
  ultimately show ?thesis by blast
qed

end
