(* ===== verification/Js_Sort.thy ===== *)
theory Js_Sort
  imports Common "HOL-Library.Multiset"
begin

text \<open>
  \<open>Array.prototype.sort\<close> with a comparison function: stable, so that an insertion sort that puts an
  element behind the equal ones gives the same result. The locale \<open>comparator\<close> is what such a function
  has to promise for the result to be ordered; the comparisons the pages use (by a number, largest
  first, and by one key after another) keep the promise.
\<close>

fun insert_by :: "('a \<Rightarrow> 'a \<Rightarrow> int) \<Rightarrow> 'a \<Rightarrow> 'a list \<Rightarrow> 'a list" where
  "insert_by cmp x [] = [x]"
| "insert_by cmp x (y # ys) = (if cmp x y < 0 then x # y # ys else y # insert_by cmp x ys)"

definition js_sort :: "('a \<Rightarrow> 'a \<Rightarrow> int) \<Rightarrow> 'a list \<Rightarrow> 'a list" where
  "js_sort cmp xs = fold (insert_by cmp) xs []"

lemma mset_insert_by [simp]: "mset (insert_by cmp x xs) = add_mset x (mset xs)"
  by (induction xs) auto

lemma set_insert_by [simp]: "set (insert_by cmp x xs) = insert x (set xs)"
  by (induction xs) auto

lemma mset_js_sort [simp]: "mset (js_sort cmp xs) = mset xs"
proof -
  have "mset (fold (insert_by cmp) xs ys) = mset xs + mset ys" for ys
    by (induction xs arbitrary: ys) auto
  then show ?thesis by (simp add: js_sort_def)
qed

lemma set_js_sort [simp]: "set (js_sort cmp xs) = set xs"
  by (metis mset_js_sort set_mset_mset)

lemma length_js_sort [simp]: "length (js_sort cmp xs) = length xs"
  by (metis mset_js_sort size_mset)

lemma sum_js_sort [simp]: "sum_list (map f (js_sort cmp xs)) = (sum_list (map f xs) :: nat)"
  by (metis mset_js_sort mset_map sum_mset_sum_list)

locale comparator =
  fixes cmp :: "'a \<Rightarrow> 'a \<Rightarrow> int"
  assumes opposite: "cmp x y < 0 \<longleftrightarrow> 0 < cmp y x"
    and chain: "cmp x y \<le> 0 \<Longrightarrow> cmp y z \<le> 0 \<Longrightarrow> cmp x z \<le> 0"
begin

lemma insert_ordered:
  "sorted_wrt (\<lambda>a b. cmp a b \<le> 0) xs \<Longrightarrow> sorted_wrt (\<lambda>a b. cmp a b \<le> 0) (insert_by cmp x xs)"
proof (induction xs)
  case (Cons y ys)
  show ?case
  proof (cases "cmp x y < 0")
    case True
    with Cons.prems show ?thesis by (auto intro: chain less_imp_le)
  next
    case False
    then have "cmp y x \<le> 0" using opposite [of y x] opposite [of x y] by linarith
    with False Cons show ?thesis by auto
  qed
qed simp

lemma js_sort_ordered: "sorted_wrt (\<lambda>a b. cmp a b \<le> 0) (js_sort cmp xs)"
proof -
  have "sorted_wrt (\<lambda>a b. cmp a b \<le> 0) ys \<Longrightarrow> sorted_wrt (\<lambda>a b. cmp a b \<le> 0) (fold (insert_by cmp) xs ys)" for ys
    by (induction xs arbitrary: ys) (auto intro: insert_ordered)
  then show ?thesis by (simp add: js_sort_def)
qed

text \<open>Of a prefix and the rest, nothing in the rest comes before anything in the prefix.\<close>

lemma js_sort_prefix: "x \<in> set (take n (js_sort cmp xs)) \<Longrightarrow> y \<in> set (drop n (js_sort cmp xs)) \<Longrightarrow> cmp x y \<le> 0"
  using js_sort_ordered [of xs] by (metis append_take_drop_id sorted_wrt_append)

end

text \<open>\<open>(a, b) => f(b) - f(a)\<close>, of which only the sign matters; \<open>c(a, b) || d(a, b)\<close>.\<close>

definition by_number :: "('a \<Rightarrow> rat) \<Rightarrow> 'a \<Rightarrow> 'a \<Rightarrow> int" where
  "by_number f a b = (if f b < f a then - 1 else if f a < f b then 1 else 0)"

definition then_by :: "('a \<Rightarrow> 'a \<Rightarrow> int) \<Rightarrow> ('a \<Rightarrow> 'a \<Rightarrow> int) \<Rightarrow> 'a \<Rightarrow> 'a \<Rightarrow> int" where
  "then_by c d a b = (if c a b \<noteq> 0 then c a b else d a b)"

definition on_key :: "('b \<Rightarrow> 'b \<Rightarrow> int) \<Rightarrow> ('a \<Rightarrow> 'b) \<Rightarrow> 'a \<Rightarrow> 'a \<Rightarrow> int" where
  "on_key c f a b = c (f a) (f b)"

interpretation largest_first: comparator "by_number f" for f
  by unfold_locales (auto simp: by_number_def split: if_splits)

lemma by_number_le: "by_number f a b \<le> 0 \<longleftrightarrow> f b \<le> f a"
  by (auto simp: by_number_def)

lemma comparator_on_key: "comparator c \<Longrightarrow> comparator (on_key c f)"
  unfolding comparator_def on_key_def by blast

lemma comparator_then_by:
  assumes c: "comparator c" and d: "comparator d"
  shows "comparator (then_by c d)"
proof
  fix x y
  show "then_by c d x y < 0 \<longleftrightarrow> 0 < then_by c d y x"
    using comparator.opposite [OF c, of x y] comparator.opposite [OF c, of y x] comparator.opposite [OF d, of x y]
    by (auto simp: then_by_def)
next
  fix x y z
  assume xy: "then_by c d x y \<le> 0" and yz: "then_by c d y z \<le> 0"
  have le: "c x y \<le> 0" "c y z \<le> 0" using xy yz by (auto simp: then_by_def split: if_splits)
  then have xz: "c x z \<le> 0" by (rule comparator.chain [OF c])
  show "then_by c d x z \<le> 0"
  proof (cases "c x z = 0")
    case True
    have "c z x \<le> 0" using True comparator.opposite [OF c, of x z] comparator.opposite [OF c, of z x] by auto
    then have "c y x \<le> 0" "c z y \<le> 0" using le by (blast intro: comparator.chain [OF c])+
    then have "c x y = 0" "c y z = 0"
      using le comparator.opposite [OF c, of x y] comparator.opposite [OF c, of y z]
        comparator.opposite [OF c, of y x] comparator.opposite [OF c, of z y] by linarith+
    with xy yz True show ?thesis by (auto simp: then_by_def intro: comparator.chain [OF d])
  qed (simp add: then_by_def xz)
qed

text \<open>An order on texts to evaluate examples with.\<close>

fun nat_order :: "nat list \<Rightarrow> nat list \<Rightarrow> int" where
  "nat_order [] [] = 0"
| "nat_order [] (b # bs) = - 1"
| "nat_order (a # as) [] = 1"
| "nat_order (a # as) (b # bs) = (if a < b then - 1 else if b < a then 1 else nat_order as bs)"

definition code_order :: "string \<Rightarrow> string \<Rightarrow> int" where
  "code_order = on_key nat_order (map of_char)"

lemma nat_order_opposite: "nat_order a b < 0 \<longleftrightarrow> 0 < nat_order b a"
  by (induction a b rule: nat_order.induct) auto

lemma nat_order_chain: "nat_order a b \<le> 0 \<Longrightarrow> nat_order b c \<le> 0 \<Longrightarrow> nat_order a c \<le> 0"
proof (induction a b arbitrary: c rule: nat_order.induct)
  case (2 b bs)
  then show ?case by (cases c) simp_all
next
  case (4 a as b bs)
  show ?case
  proof (cases c)
    case Nil
    with "4.prems"(2) show ?thesis by simp
  next
    case (Cons d ds)
    have step: "a = b \<Longrightarrow> nat_order as bs \<le> 0 \<Longrightarrow> nat_order bs ds \<le> 0 \<Longrightarrow> nat_order as ds \<le> 0"
      using "4.IH" [of ds] by blast
    consider "a < b" | "b < a" | "a = b" by linarith
    then show ?thesis
    proof cases
      case 1
      with "4.prems"(2) Cons show ?thesis by (cases "b < d"; cases "d < b") simp_all
    next
      case 2
      with "4.prems"(1) show ?thesis by simp
    next
      case 3
      with "4.prems" Cons step show ?thesis by (cases "b < d"; cases "d < b") simp_all
    qed
  qed
qed simp_all

interpretation codes: comparator code_order
proof -
  have "comparator nat_order"
    by unfold_locales (fact nat_order_opposite, rule nat_order_chain)
  then show "comparator code_order" unfolding code_order_def by (rule comparator_on_key)
qed

end
