(* ===== verification/Routing_Map.thy ===== *)
theory Routing_Map
  imports Js_Sort
begin

text \<open>
  \<open>dashboard/src/pages/overview/routing-map.tsx\<close>: the picture of where the router sent the requests of
  the last ten minutes. The requests are grouped by API key and by model; at most eight models are
  drawn, the rest as one node; a strand is drawn for every pair of key and model. Colours that say
  something (whose strand, how a model fares) are kept, other styling is left out.
\<close>

section \<open>Requests and nodes\<close>

record RequestLog =
  q_time :: rat
  q_endpoint :: string
  q_model :: string
  q_status :: string
  q_requestedModel :: string
  q_apiKeyId :: string
  q_pool :: string

record RouteNode =
  n_key :: string
  n_requests :: nat
  n_successes :: nat
  n_failures :: nat
  n_hidden :: nat
  n_endpoints :: "string list"

definition WINDOW_SECONDS :: rat where "WINDOW_SECONDS = 10 * 60"
definition MAX_MODEL_NODES :: nat where "MAX_MODEL_NODES = 8"
definition OTHER_MODELS :: string where "OTHER_MODELS = ''__other_models__''"

definition KEY_COLORS :: "string list" where
  "KEY_COLORS = [''var(--chart-1)'', ''var(--chart-2)'', ''var(--chart-3)'', ''var(--chart-4)'', ''var(--chart-5)'']"

definition sourceKey :: "RequestLog \<Rightarrow> string" where
  "sourceKey l = or_str (q_apiKeyId l) ''unknown''"

definition modelKey :: "RequestLog \<Rightarrow> string" where
  "modelKey l = or_str (if q_pool l \<noteq> [] then q_pool l @ ''/'' @ q_model l else q_model l) ''unknown''"

definition recent :: "ui \<Rightarrow> RequestLog list \<Rightarrow> RequestLog list" where
  "recent E logs = filter (\<lambda>l. of_int (now_ms E) / 1000 - WINDOW_SECONDS \<le> q_time l \<and> q_requestedModel l = ''auto'') logs"

text \<open>One more request in the row of its key; the rows are a map in insertion order.\<close>

definition counted :: "bool \<Rightarrow> RouteNode \<Rightarrow> RouteNode" where
  "counted ok n = (let n = n\<lparr>n_requests := n_requests n + 1\<rparr> in
     if ok then n\<lparr>n_successes := n_successes n + 1\<rparr> else n\<lparr>n_failures := n_failures n + 1\<rparr>)"

definition fresh_node :: "string \<Rightarrow> RouteNode" where
  "fresh_node k = \<lparr>n_key = k, n_requests = 0, n_successes = 0, n_failures = 0, n_hidden = 0, n_endpoints = []\<rparr>"

fun count_row :: "string \<Rightarrow> bool \<Rightarrow> RouteNode list \<Rightarrow> RouteNode list" where
  "count_row k ok [] = [counted ok (fresh_node k)]"
| "count_row k ok (n # ns) = (if n_key n = k then counted ok n # ns else n # count_row k ok ns)"

definition by_traffic :: "(string \<Rightarrow> string \<Rightarrow> int) \<Rightarrow> RouteNode \<Rightarrow> RouteNode \<Rightarrow> int" where
  "by_traffic collate a b = (if n_requests b \<noteq> n_requests a then int (n_requests b) - int (n_requests a) else collate (n_key a) (n_key b))"

definition group :: "(string \<Rightarrow> string \<Rightarrow> int) \<Rightarrow> (RequestLog \<Rightarrow> string) \<Rightarrow> RequestLog list \<Rightarrow> RouteNode list" where
  "group collate key ls = js_sort (by_traffic collate) (fold (\<lambda>l. count_row (key l) (q_status l = ''success'')) ls [])"

definition source_endpoints :: "RequestLog list \<Rightarrow> RouteNode \<Rightarrow> RouteNode" where
  "source_endpoints ls n = n\<lparr>n_endpoints := rev (remdups (rev (map q_endpoint (filter (\<lambda>l. sourceKey l = n_key n) ls))))\<rparr>"

definition sources :: "(string \<Rightarrow> string \<Rightarrow> int) \<Rightarrow> RequestLog list \<Rightarrow> RouteNode list" where
  "sources collate ls = map (source_endpoints ls) (group collate sourceKey ls)"

definition edge_id :: "RequestLog \<Rightarrow> string" where
  "edge_id l = sourceKey l @ [CHR 0x0A] @ modelKey l"

fun count_edge :: "string \<Rightarrow> (string \<times> nat) list \<Rightarrow> (string \<times> nat) list" where
  "count_edge i [] = [(i, 1)]"
| "count_edge i ((j, n) # es) = (if j = i then (j, n + 1) # es else (j, n) # count_edge i es)"

definition edges :: "RequestLog list \<Rightarrow> (string \<times> nat) list" where
  "edges ls = fold (\<lambda>l. count_edge (edge_id l)) ls []"

section \<open>What is drawn\<close>

definition compactModels :: "RouteNode list \<Rightarrow> RouteNode list" where
  "compactModels models = (if length models \<le> MAX_MODEL_NODES then models
     else (let visible = take (MAX_MODEL_NODES - 1) models; hidden = drop (MAX_MODEL_NODES - 1) models in
       visible @ [\<lparr>n_key = OTHER_MODELS, n_requests = sum_list (map n_requests hidden),
         n_successes = sum_list (map n_successes hidden), n_failures = sum_list (map n_failures hidden),
         n_hidden = length hidden, n_endpoints = []\<rparr>]))"

definition laneY :: "nat \<Rightarrow> nat \<Rightarrow> rat \<Rightarrow> rat" where
  "laneY i lanes height = (if lanes \<le> 1 then height / 2
     else 70 + of_nat i * (height - 140) / of_nat (lanes - 1))"

definition endpointLabel :: "string \<Rightarrow> string" where
  "endpointLabel e = (if e = ''claude'' then ''Claude API'' else if e = ''openai'' then ''OpenAI API''
     else if e = ''responses'' then ''Responses API'' else e)"

definition node_endpoints :: "RouteNode \<Rightarrow> string" where
  "node_endpoints n = js_join '' + '' (map endpointLabel (n_endpoints n))"

definition truncate_text :: "string \<Rightarrow> nat \<Rightarrow> string" where
  "truncate_text t m = (if length t > m then take (m - 1) t @ ellipsis else t)"

definition node_tone :: "RouteNode \<Rightarrow> string" where
  "node_tone n = (if n_failures n = 0 then ''var(--success)'' else if n_successes n = 0 then ''var(--destructive)'' else ''var(--warning)'')"

definition map_height :: "nat \<Rightarrow> nat \<Rightarrow> rat" where
  "map_height s m = max 360 (of_nat (max s m) * 78 + 90)"

definition sourceColor :: "nat \<Rightarrow> string" where
  "sourceColor i = KEY_COLORS ! (i mod length KEY_COLORS)"

text \<open>Where a strand ends: at the node of its model, or at the node for the rest, or at the router.\<close>

definition strand_end :: "RouteNode list \<Rightarrow> rat \<Rightarrow> string \<Rightarrow> rat" where
  "strand_end shownModels height m =
    (let ys = rev (map (\<lambda>(i, n). (n_key n, laneY i (length shownModels) height)) (enumerate 0 shownModels)) in
     case map_of ys m of Some y \<Rightarrow> y
     | None \<Rightarrow> (case map_of ys OTHER_MODELS of Some y \<Rightarrow> y | None \<Rightarrow> height / 2))"

section \<open>The card\<close>

record map_query =
  mq_pending :: bool
  mq_error :: "jerr option"
  mq_logs :: "RequestLog list option"
  mq_updated :: "string option"
  mq_keys :: "(string \<times> string) list"

definition key_name :: "map_query \<Rightarrow> string \<Rightarrow> string option" where
  "key_name q k = map_of (rev (map (\<lambda>(i, name). (i, or_str name (take 8 i))) (mq_keys q))) k"

definition sourceName :: "ui \<Rightarrow> RequestLog list option \<Rightarrow> map_query \<Rightarrow> RouteNode \<Rightarrow> string" where
  "sourceName E external q n = (if external \<noteq> None then node_endpoints n
     else case key_name q (n_key n) of Some name \<Rightarrow> name
     | None \<Rightarrow> if n_key n = ''unknown'' then tx E ''overview.routing.noKey'' else take 8 (n_key n))"

definition curve :: "rat \<Rightarrow> rat \<Rightarrow> rat \<Rightarrow> rat \<Rightarrow> rat \<Rightarrow> rat \<Rightarrow> string" where
  "curve x0 y0 x1 x2 x3 y3 = ''M '' @ show_rat x0 @ '' '' @ show_rat y0 @ '' C '' @ show_rat x1 @ '' '' @ show_rat y0 @ '', '' @
     show_rat x2 @ '' '' @ show_rat y3 @ '', '' @ show_rat x3 @ '' '' @ show_rat y3"

definition flow :: "string \<Rightarrow> string \<Rightarrow> 'e view list" where
  "flow d color = [El ''path'' [aS ''d'' d, aS ''stroke'' color] [],
     El ''path'' [aS ''className'' ''routing-flow'', aS ''d'' d, aS ''stroke'' color] []]"

definition svg_text :: "rat \<Rightarrow> rat \<Rightarrow> string \<Rightarrow> string \<Rightarrow> 'e view" where
  "svg_text x y ink t = El ''text'' [aN ''x'' x, aN ''y'' y, aS ''fill'' ink] [Txt t]"

definition source_node :: "ui \<Rightarrow> RequestLog list option \<Rightarrow> map_query \<Rightarrow> rat \<Rightarrow> nat \<Rightarrow> nat \<times> RouteNode \<Rightarrow> 'e view" where
  "source_node E external q height lanes = (\<lambda>(i, n). let y = laneY i lanes height; color = sourceColor i; name = sourceName E external q n;
       requests = tr E ''overview.routing.requestCount'' [formatNumber E (Some (of_nat (n_requests n)))] in
     El ''g'' [] (flow (curve 250 y 318 334 402 (height / 2)) color @ [
       El ''rect'' [aN ''x'' 42, aN ''y'' (y - 31), aN ''width'' 208, aN ''height'' 62, aS ''stroke'' color] [],
       El ''circle'' [aN ''cx'' 60, aN ''cy'' (y - 10), aN ''r'' 4, aS ''fill'' color] [],
       El ''title'' [] [Txt name],
       svg_text 72 (y - 6) ''currentColor'' (truncate_text name 20),
       svg_text 60 (y + 16) (if n_failures n \<noteq> 0 then ''var(--destructive)'' else ''var(--muted-foreground)'')
         (truncate_text (if external \<noteq> None then requests else requests @ '' '' @ mid_dot @ '' '' @ node_endpoints n) 32)]))"

text \<open>The strands of one source, in the order in which the pairs first occurred.\<close>

definition strands :: "RouteNode list \<Rightarrow> rat \<Rightarrow> nat \<Rightarrow> (string \<times> nat) list \<Rightarrow> nat \<times> RouteNode \<Rightarrow> 'e view list" where
  "strands shownModels height lanes es = (\<lambda>(si, n). let fan = (of_nat si - (of_nat lanes - 1) / 2) * 5 in
     concat (map (\<lambda>(i, k). let parts = js_split [CHR 0x0A] i in
       if parts ! 0 \<noteq> n_key n then []
       else [El ''g'' [] (flow (curve 598 (height / 2 + fan) 662 652 718 (strand_end shownModels height (parts ! 1) + fan)) (sourceColor si))]) es))"

definition model_node :: "ui \<Rightarrow> rat \<Rightarrow> nat \<Rightarrow> nat \<times> RouteNode \<Rightarrow> 'e view" where
  "model_node E height lanes = (\<lambda>(i, n). let y = laneY i lanes height; color = node_tone n; num = (\<lambda>k. formatNumber E (Some (of_nat k))) in
     El ''g'' [] [
       El ''title'' [] [Txt (n_key n)],
       El ''rect'' [aN ''x'' 718, aN ''y'' (y - 31), aN ''width'' 240, aN ''height'' 62, aS ''stroke'' color] [],
       El ''circle'' [aN ''cx'' 736, aN ''cy'' (y - 11), aN ''r'' 4, aS ''fill'' color] [],
       svg_text 748 (y - 7) ''currentColor'' (if n_hidden n \<noteq> 0 then tr E ''overview.routing.otherModels'' [show_nat (n_hidden n)]
         else truncate_text (n_key n) 30),
       svg_text 736 (y + 16) ''var(--muted-foreground)''
         (tr E ''overview.routing.modelStats'' [num (n_requests n), num (n_successes n), num (n_failures n)])])"

definition router_node :: "ui \<Rightarrow> rat \<Rightarrow> RequestLog list \<Rightarrow> 'e view" where
  "router_node E routerY rs = El ''g'' [] [
     El ''circle'' [aN ''cx'' 500, aN ''cy'' routerY, aN ''r'' 92] [],
     El ''rect'' [aN ''x'' 402, aN ''y'' (routerY - 62), aN ''width'' 196, aN ''height'' 124] [],
     El ''rect'' [aN ''x'' 410, aN ''y'' (routerY - 54), aN ''width'' 180, aN ''height'' 108] [],
     El ''image'' [aN ''x'' 476, aN ''y'' (routerY - 54)] [],
     svg_text 500 (routerY + 12) ''currentColor'' ''Hekato'', svg_text 500 (routerY + 24) ''var(--signal)'' ''ROUTER'',
     svg_text 500 (routerY + 44) ''var(--muted-foreground)'' (tr E ''overview.routing.routerStats''
       [formatNumber E (Some (of_nat (length rs))), formatNumber E (Some (of_nat (length (filter (\<lambda>l. q_status l = ''error'') rs))))])]"

definition LiveRoutingMap :: "ui \<Rightarrow> (string \<Rightarrow> string \<Rightarrow> int) \<Rightarrow> RequestLog list option \<Rightarrow> map_query \<Rightarrow> 'e view" where
  "LiveRoutingMap E collate external q =
    (let rawLogs = (case external of Some ls \<Rightarrow> ls | None \<Rightarrow> (case mq_logs q of Some ls \<Rightarrow> ls | None \<Rightarrow> []));
         rs = recent E rawLogs; srcs = sources collate rs; models = group collate modelKey rs;
         displayed = compactModels models; height = map_height (length srcs) (length displayed) in
     El ''Card'' [] [
       El ''CardHeader'' [] [
         El ''div'' [] [El ''span'' [] [Txt (tx E ''overview.routing.live'')],
           El ''CardTitle'' [] [Txt (tx E ''overview.routing.title'')], El ''CardDescription'' [] [Txt (tx E ''overview.routing.hint'')]],
         shown (external = None) (El ''div'' [] [El ''div'' [] [Txt (tx E ''overview.routing.refresh'')],
           (case mq_updated q of None \<Rightarrow> Nothing | Some t \<Rightarrow> El ''div'' [] [Txt t])])],
       El ''CardContent'' [] [
         if external = None \<and> mq_pending q then El ''div'' [] [LoadingBlock E None 3]
         else (case (if external = None then mq_error q else None) of
           Some e \<Rightarrow> El ''div'' [] [EmptyState (tr E ''overview.routing.loadFailed'' [errorMessage e]) [] Nothing]
         | None \<Rightarrow>
           if rs = [] then El ''div'' [] [EmptyState (tx E ''overview.routing.empty'') [] Nothing]
           else El ''div'' [] [El ''svg'' [aN ''height'' height, aS ''viewBox'' (''0 0 1000 '' @ show_rat height), aS ''role'' ''img'',
                aS ''aria-label'' (tr E ''overview.routing.aria'' [show_nat (length rs), show_nat (length models)])] (
             [svg_text 42 30 ''var(--muted-foreground)'' (js_upper (tx E ''overview.routing.sources'')),
              svg_text 405 30 ''var(--muted-foreground)'' (js_upper (tx E ''overview.routing.gateway'')),
              svg_text 718 30 ''var(--muted-foreground)'' (js_upper (tx E ''overview.routing.destinations''))] @
             map (source_node E external q height (length srcs)) (enumerate 0 srcs) @
             concat (map (strands displayed height (length srcs) (edges rs)) (enumerate 0 srcs)) @
             map (model_node E height (length displayed)) (enumerate 0 displayed) @
             [router_node E (height / 2) rs])])]])"

section \<open>Counting\<close>

lemma counted_simps [simp]: "n_key (counted ok n) = n_key n" "n_requests (counted ok n) = n_requests n + 1"
  "n_successes (counted ok n) + n_failures (counted ok n) = n_successes n + n_failures n + 1"
  by (simp_all add: counted_def Let_def)

definition balanced :: "RouteNode \<Rightarrow> bool" where
  "balanced n \<longleftrightarrow> n_requests n = n_successes n + n_failures n"

lemma balanced_counted [simp]: "balanced (counted ok n) = balanced n"
  by (simp add: balanced_def)

lemma balanced_fresh: "balanced (fresh_node k)"
  by (simp add: balanced_def fresh_node_def)

lemma count_row_keys: "map n_key (count_row k ok ns) = (if k \<in> set (map n_key ns) then map n_key ns else map n_key ns @ [k])"
  by (induction ns) (auto simp: fresh_node_def)

lemma count_row_balanced: "\<forall>n\<in>set ns. balanced n \<Longrightarrow> \<forall>n\<in>set (count_row k ok ns). balanced n"
  by (induction ns) (auto simp: balanced_fresh)

definition requests_of :: "RouteNode list \<Rightarrow> string \<Rightarrow> nat" where
  "requests_of ns k = sum_list (map n_requests (filter (\<lambda>n. n_key n = k) ns))"

lemma requests_count_row: "requests_of (count_row k ok ns) j = requests_of ns j + (if j = k then 1 else 0)"
  by (induction ns) (auto simp: requests_of_def fresh_node_def)

lemma sum_count_row: "sum_list (map n_requests (count_row k ok ns)) = sum_list (map n_requests ns) + 1"
  by (induction ns) (auto simp: fresh_node_def)

lemma requests_of_node: "distinct (map n_key ns) \<Longrightarrow> n \<in> set ns \<Longrightarrow> requests_of ns (n_key n) = n_requests n"
proof (induction ns)
  case (Cons m ns)
  have none: "requests_of ns k = 0" if "k \<notin> n_key ` set ns" for k
    using that by (auto simp: requests_of_def filter_empty_conv image_iff)
  from Cons none [of "n_key m"] show ?case by (cases "n = m") (auto simp: requests_of_def)
qed simp

lemma rows_ok:
  fixes ls :: "RequestLog list" and key :: "RequestLog \<Rightarrow> string" and ok :: "RequestLog \<Rightarrow> bool"
  defines "ns \<equiv> fold (\<lambda>l. count_row (key l) (ok l)) ls []"
  shows "distinct (map n_key ns)" "set (map n_key ns) = key ` set ls" "\<forall>n\<in>set ns. balanced n"
    "sum_list (map n_requests ns) = length ls" "requests_of ns k = length (filter (\<lambda>l. key l = k) ls)"
proof -
  have "distinct (map n_key ns) \<and> set (map n_key ns) = key ` set ls \<and> (\<forall>n\<in>set ns. balanced n) \<and>
    sum_list (map n_requests ns) = length ls \<and> requests_of ns k = length (filter (\<lambda>l. key l = k) ls)"
    unfolding ns_def
  proof (induction ls rule: rev_induct)
    case (snoc l ls)
    let ?ns = "fold (\<lambda>l. count_row (key l) (ok l)) ls []"
    have "set (map n_key (count_row (key l) (ok l) ?ns)) = insert (key l) (set (map n_key ?ns))"
      "distinct (map n_key (count_row (key l) (ok l) ?ns))"
      using snoc unfolding count_row_keys by auto
    then show ?case using snoc count_row_balanced [of ?ns "key l" "ok l"]
      by (simp add: sum_count_row requests_count_row)
  qed (simp add: requests_of_def)
  then show "distinct (map n_key ns)" "set (map n_key ns) = key ` set ls" "\<forall>n\<in>set ns. balanced n"
    "sum_list (map n_requests ns) = length ls" "requests_of ns k = length (filter (\<lambda>l. key l = k) ls)"
    by auto
qed

lemma group_ok:
  "distinct (map n_key (group collate key ls))" "n_key ` set (group collate key ls) = key ` set ls"
  "sum_list (map n_requests (group collate key ls)) = length ls"
  "n \<in> set (group collate key ls) \<Longrightarrow> balanced n \<and> n_requests n = length (filter (\<lambda>l. key l = n_key n) ls)"
proof -
  let ?ns = "fold (\<lambda>l. count_row (key l) (q_status l = ''success'')) ls []"
  note rows = rows_ok [where key = key and ok = "\<lambda>l. q_status l = ''success''" and ls = ls]
  have "mset (map n_key (group collate key ls)) = mset (map n_key ?ns)" by (simp add: group_def)
  from mset_eq_imp_distinct_iff [OF this] rows(1) show "distinct (map n_key (group collate key ls))" by blast
  show "n_key ` set (group collate key ls) = key ` set ls" using rows(2) by (simp add: group_def)
  show "sum_list (map n_requests (group collate key ls)) = length ls" using rows(4) by (simp add: group_def)
  show "n \<in> set (group collate key ls) \<Longrightarrow> balanced n \<and> n_requests n = length (filter (\<lambda>l. key l = n_key n) ls)"
  proof -
    assume "n \<in> set (group collate key ls)"
    then have n: "n \<in> set ?ns" by (simp add: group_def)
    from requests_of_node [OF rows(1) n] rows(5) [of "n_key n"] bspec [OF rows(3) n] show ?thesis by simp
  qed
qed

lemma compact_sums:
  "sum_list (map n_requests (compactModels ms)) = sum_list (map n_requests ms)"
  "sum_list (map n_failures (compactModels ms)) = sum_list (map n_failures ms)"
  "sum_list (map n_successes (compactModels ms)) = sum_list (map n_successes ms)"
proof -
  have split: "sum_list (map f (take k ms)) + sum_list (map f (drop k ms)) = sum_list (map f ms)" for f :: "RouteNode \<Rightarrow> nat" and k
    by (metis append_take_drop_id map_append sum_list_append)
  show "sum_list (map n_requests (compactModels ms)) = sum_list (map n_requests ms)"
    "sum_list (map n_failures (compactModels ms)) = sum_list (map n_failures ms)"
    "sum_list (map n_successes (compactModels ms)) = sum_list (map n_successes ms)"
    by (simp_all add: compactModels_def Let_def split)
qed

lemma compact_length: "length (compactModels ms) \<le> MAX_MODEL_NODES"
  by (simp add: compactModels_def Let_def MAX_MODEL_NODES_def)

lemma edges_ok: "sum_list (map snd (edges ls)) = length ls" "fst ` set (edges ls) = edge_id ` set ls"
proof -
  have "sum_list (map snd (count_edge i es)) = sum_list (map snd es) + 1" for i and es :: "(string \<times> nat) list"
    by (induction i es rule: count_edge.induct) auto
  moreover have "fst ` set (count_edge i es) = insert i (fst ` set es)" for i and es :: "(string \<times> nat) list"
    by (induction i es rule: count_edge.induct) auto
  ultimately have "sum_list (map snd (edges ls)) = length ls \<and> fst ` set (edges ls) = edge_id ` set ls"
    unfolding edges_def by (induction ls rule: rev_induct) auto
  then show "sum_list (map snd (edges ls)) = length ls" "fst ` set (edges ls) = edge_id ` set ls" by auto
qed

lemma compact_keys: "m \<in> n_key ` set ms \<Longrightarrow> m \<in> n_key ` set (compactModels ms) \<or> OTHER_MODELS \<in> n_key ` set (compactModels ms)"
  by (auto simp: compactModels_def Let_def)

lemma sources_simps:
  "map n_key (sources collate ls) = map n_key (group collate sourceKey ls)"
  "map n_requests (sources collate ls) = map n_requests (group collate sourceKey ls)"
  "n \<in> set (sources collate ls) \<Longrightarrow> \<exists>m\<in>set (group collate sourceKey ls). n_key n = n_key m \<and> n_requests n = n_requests m \<and> balanced n = balanced m"
  by (auto simp: sources_def source_endpoints_def balanced_def)

section \<open>Places\<close>

lemma lane_inside:
  assumes "360 \<le> height" "of_nat lanes * 78 + 90 \<le> height" "i < lanes"
  shows "70 \<le> laneY i lanes height" "laneY i lanes height \<le> height - 70"
proof -
  have "70 \<le> laneY i lanes height \<and> laneY i lanes height \<le> height - 70"
  proof (cases "lanes \<le> 1")
    case True
    then show ?thesis using assms(1) by (simp add: laneY_def)
  next
    case False
    let ?n = "of_nat (lanes - 1) :: rat"
    have n: "0 < ?n" "of_nat i \<le> ?n" using False assms(3) by (simp_all add: of_nat_le_iff)
    have "0 \<le> of_nat i * (height - 140) / ?n" using n(1) assms(1) by simp
    moreover have "of_nat i * (height - 140) \<le> ?n * (height - 140)" using n(2) assms(1) by (intro mult_right_mono) simp_all
    then have "of_nat i * (height - 140) / ?n \<le> height - 140" using n(1) by (simp add: field_simps)
    ultimately show ?thesis using False by (simp add: laneY_def)
  qed
  then show "70 \<le> laneY i lanes height" "laneY i lanes height \<le> height - 70" by auto
qed

lemma lane_apart:
  assumes "360 \<le> height" "of_nat lanes * 78 + 90 \<le> height" "i < lanes" "j < i"
  shows "laneY j lanes height + 62 < laneY i lanes height"
proof -
  let ?n = "of_nat (lanes - 1) :: rat"
  have many: "\<not> lanes \<le> 1" and n: "0 < ?n" "?n = of_nat lanes - 1" using assms(3,4) by (auto simp: of_nat_diff)
  have lane: "laneY k lanes height = 70 + of_nat k * ((height - 140) / ?n)" for k using many by (simp add: laneY_def)
  have step: "62 < (height - 140) / ?n" using n assms(2) by (simp add: field_simps)
  have "1 \<le> of_nat i - (of_nat j :: rat)"
    using assms(4) by (metis Suc_leI add.commute le_diff_eq of_nat_Suc of_nat_mono)
  then have "1 * ((height - 140) / ?n) \<le> (of_nat i - of_nat j) * ((height - 140) / ?n)"
    using step by (intro mult_right_mono) simp_all
  also have "\<dots> = laneY i lanes height - laneY j lanes height"
    by (simp add: lane left_diff_distrib diff_divide_distrib)
  finally show ?thesis using step by simp
qed

lemma strand_ends:
  assumes "m \<in> n_key ` set ns \<or> OTHER_MODELS \<in> n_key ` set ns"
  shows "\<exists>k<length ns. strand_end ns height m = laneY k (length ns) height"
proof -
  define ys where "ys = rev (map (\<lambda>(i, n). (n_key n, laneY i (length ns) height)) (enumerate 0 ns))"
  have found: "\<exists>k<length ns. y = laneY k (length ns) height" if "map_of ys x = Some y" for x y
    using map_of_SomeD [OF that] by (auto simp: ys_def in_set_enumerate_eq)
  have "fst ` set ys = n_key ` snd ` set (enumerate 0 ns)" by (force simp: ys_def)
  also have "snd ` set (enumerate 0 ns) = set ns" by (metis list.set_map map_snd_enumerate)
  finally have keys: "map_of ys x = None \<longleftrightarrow> x \<notin> n_key ` set ns" for x by (simp add: map_of_eq_None_iff)
  have s: "strand_end ns height m = (case map_of ys m of Some y \<Rightarrow> y
      | None \<Rightarrow> (case map_of ys OTHER_MODELS of Some y \<Rightarrow> y | None \<Rightarrow> height / 2))"
    by (simp only: strand_end_def ys_def Let_def)
  show ?thesis
  proof (cases "map_of ys m")
    case (Some y)
    then show ?thesis using s found by simp
  next
    case None
    with assms keys obtain y where "map_of ys OTHER_MODELS = Some y" by blast
    then show ?thesis using s found None by simp
  qed
qed

section \<open>Properties\<close>

text \<open>C34: the routing map neither loses nor invents a request: every request of the window that asked for
  the model "auto" is counted once in the node of its key, once in the node of its model and once in
  a strand; a node's successes and failures add up to its requests; drawing at most eight models
  keeps the totals; and a strand is drawn for every pair of key and model that occurred.\<close>

theorem routing_map_conserves:
  assumes "rs = recent E logs" "models = group collate modelKey rs"
  shows "(\<forall>l\<in>set rs. l \<in> set logs \<and> q_requestedModel l = ''auto'') \<and>
    sum_list (map n_requests (sources collate rs)) = length rs \<and>
    sum_list (map n_requests (compactModels models)) = length rs \<and> sum_list (map snd (edges rs)) = length rs \<and>
    (\<forall>n\<in>set (sources collate rs). n_requests n = n_successes n + n_failures n \<and>
       n_requests n = length (filter (\<lambda>l. sourceKey l = n_key n) rs)) \<and>
    (\<forall>n\<in>set models. n_requests n = n_successes n + n_failures n \<and>
       n_requests n = length (filter (\<lambda>l. modelKey l = n_key n) rs)) \<and>
    length (compactModels models) \<le> 8 \<and>
    sum_list (map n_failures (compactModels models)) = sum_list (map n_failures models) \<and>
    fst ` set (edges rs) = edge_id ` set rs"
proof -
  have "n_requests n = n_successes n + n_failures n \<and> n_requests n = length (filter (\<lambda>l. sourceKey l = n_key n) rs)"
    if "n \<in> set (sources collate rs)" for n
    using sources_simps(3) [OF that] group_ok(4) [of _ collate sourceKey rs] by (metis balanced_def)
  moreover have "n_requests n = n_successes n + n_failures n \<and> n_requests n = length (filter (\<lambda>l. modelKey l = n_key n) rs)"
    if "n \<in> set models" for n
    using group_ok(4) [of n collate modelKey rs] that assms(2) by (simp add: balanced_def)
  moreover have "sum_list (map n_requests (sources collate rs)) = length rs"
    unfolding sources_simps(2) by (rule group_ok(3))
  moreover have "sum_list (map n_requests (compactModels models)) = length rs"
    unfolding compact_sums(1) assms(2) by (rule group_ok(3))
  moreover have "\<forall>l\<in>set rs. l \<in> set logs \<and> q_requestedModel l = ''auto''" by (simp add: assms(1) recent_def)
  moreover have "length (compactModels models) \<le> 8" using compact_length [of models] by (simp add: MAX_MODEL_NODES_def)
  ultimately show ?thesis using edges_ok [of rs] compact_sums(2) [of models] by blast
qed

definition sample_log :: "string \<Rightarrow> string \<Rightarrow> string \<Rightarrow> RequestLog" where
  "sample_log k m st = \<lparr>q_time = 1699999990, q_endpoint = ''claude'', q_model = m, q_status = st, q_requestedModel = ''auto'',
     q_apiKeyId = k, q_pool = []\<rparr>"

definition sample_logs :: "RequestLog list" where
  "sample_logs = [sample_log ''k1'' ''opus'' ''success'', sample_log [] ''haiku'' ''error'', sample_log ''k1'' ''haiku'' ''success'',
     (sample_log ''k1'' ''opus'' ''success'')\<lparr>q_time := 1699990000\<rparr>]"

theorem routing_map_conserves_witness:
  "sum_list (map n_requests (sources (\<lambda>a b. 0) (recent sample_ui sample_logs))) = 3"
proof -
  have "length (recent sample_ui sample_logs) = 3"
    by (simp add: recent_def sample_logs_def sample_log_def sample_ui_def WINDOW_SECONDS_def)
  then show ?thesis using routing_map_conserves [OF refl refl, of sample_ui sample_logs "\<lambda>a b. 0"] by simp
qed

text \<open>The picture fits: whatever the number of API keys and models, every node lies inside the picture
  with the space for its title, no two nodes of a column overlap, and every strand ends at the middle
  of a node that is drawn.\<close>

theorem routing_map_fits:
  assumes "displayed = compactModels models" "height = map_height s (length displayed)"
  shows "(\<forall>lanes\<in>{s, length displayed}. \<forall>i<lanes. 39 \<le> laneY i lanes height - 31 \<and> laneY i lanes height + 31 \<le> height - 39 \<and>
      (\<forall>j<i. laneY j lanes height + 62 < laneY i lanes height)) \<and>
    (\<forall>m\<in>n_key ` set models. \<exists>k<length displayed. strand_end displayed height m = laneY k (length displayed) height)"
proof (intro conjI ballI allI impI)
  fix lanes i assume l: "lanes \<in> {s, length displayed}" "i < lanes"
  then have h: "360 \<le> height" "of_nat lanes * 78 + 90 \<le> height" using assms(2) by (auto simp: map_height_def)
  show "39 \<le> laneY i lanes height - 31" "laneY i lanes height + 31 \<le> height - 39"
    using lane_inside [OF h l(2)] by simp_all
  show "laneY j lanes height + 62 < laneY i lanes height" if "j < i" for j
    using lane_apart [OF h l(2) that] by simp
next
  fix m assume "m \<in> n_key ` set models"
  then have "m \<in> n_key ` set displayed \<or> OTHER_MODELS \<in> n_key ` set displayed" unfolding assms(1) by (rule compact_keys)
  then show "\<exists>k<length displayed. strand_end displayed height m = laneY k (length displayed) height"
    by (rule strand_ends)
qed

theorem routing_map_fits_witness:
  "laneY 0 3 360 + 62 < laneY 1 3 360"
proof -
  have "map_height 3 (length (compactModels [])) = 360" by (simp add: map_height_def compactModels_def)
  with routing_map_fits [OF refl refl, where models = "[]" and s = 3] show ?thesis by auto
qed

end
