(* ===== verification/Usage_Page.thy ===== *)
theory Usage_Page
  imports Routing_Map Settings_Shared
begin

text \<open>
  \<open>dashboard/src/pages/usage.tsx\<close>: the public page on which the holder of an API key looks up its usage
  and follows its own requests. It calls the gateway directly, with the key as bearer token: the
  request is \<open>Fetch path key\<close>, answered by the response with \<open>ok\<close>, \<open>statusText\<close> and \<open>body\<close> (undefined
  when it is no JSON). The interval that reads the requests again is an event of the page, there while
  the effect has it set.
\<close>

section \<open>Bars\<close>

definition bar_percent :: "rat \<Rightarrow> int" where
  "bar_percent share = min 100 (js_round (share * 100))"

definition bar_tone :: "int \<Rightarrow> string" where
  "bar_tone p = (if p \<ge> 90 then ''red'' else if p \<ge> 70 then ''amber'' else ''emerald'')"

definition Bar :: "ui \<Rightarrow> string \<Rightarrow> rat \<Rightarrow> rat \<Rightarrow> rat \<Rightarrow> (rat \<Rightarrow> string) \<Rightarrow> 'e view" where
  "Bar E label used limit share format = (let p = bar_percent share in El ''div'' [] [
     El ''div'' [] [El ''span'' [] [Txt label],
       El ''span'' [] [Txt (format used @ '' / '' @ (if limit > 0 then format limit else tx E ''apiKeys.unlimited''))]],
     El ''div'' [] [El ''div'' [aS ''tone'' (if limit > 0 then bar_tone p else ''primary''),
       aS ''width'' (if limit > 0 then show_int p @ ''%'' else ''100%'')] []],
     shown (limit > 0) (El ''div'' [] [Txt (show_int p @ ''%'')])])"

section \<open>State and handlers\<close>

record usage_st =
  us_key :: string
  us_busy :: bool
  us_error :: string
  us_data :: jsv
  us_logs :: "jsv list option"
  us_activeKey :: string

definition usage_mount :: usage_st where
  "usage_mount = \<lparr>us_key = [], us_busy = False, us_error = [], us_data = JNull, us_logs = None, us_activeKey = []\<rparr>"

definition fetchLogs :: "string \<Rightarrow> usage_st act" where
  "fetchLogs apiKey = catch (await (Fetch ''/v1/usage/logs'' apiKey) (\<lambda>res.
     if \<not> truthy (get_prop res ''ok'') then Done
     else if get_prop res ''body'' = JUndef then Throw (JsErr ''Unexpected token'')
     else Look (\<lambda>s. if us_activeKey s = apiKey
       then get_field (get_prop res ''body'') ''logs'' (\<lambda>logs. Upd (\<lambda>s. s\<lparr>us_logs := Some (elements logs)\<rparr>) Done)
       else Done)))
     (\<lambda>e. Done)"

definition lookup_reply :: "jsv \<Rightarrow> string \<Rightarrow> usage_st act" where
  "lookup_reply res key = (let body = (if get_prop res ''body'' = JUndef then JObj [] else get_prop res ''body'') in
     if \<not> truthy (get_prop res ''ok'')
     then get_field body ''error'' (\<lambda>e. Throw (JsErr (js_string (js_or e (get_prop res ''statusText'')))))
     else Upd (\<lambda>s. s\<lparr>us_data := body\<rparr>) (Upd (\<lambda>s. s\<lparr>us_activeKey := js_trim key\<rparr>) (Fork (fetchLogs (js_trim key)) Done)))"

definition key_lookup :: "ui \<Rightarrow> usage_st \<Rightarrow> usage_st act" where
  "key_lookup E s = (let key = us_key s in
     if js_trim key = [] then Done
     else Upd (\<lambda>s. s\<lparr>us_busy := True, us_error := [], us_data := JNull, us_logs := None\<rparr>)
       (finally_do (catch (await (Fetch ''/v1/usage'' (js_trim key)) (\<lambda>res. lookup_reply res key))
          (\<lambda>e. Upd (\<lambda>s. s\<lparr>us_error := errorMessage_or (tx E ''common.unknownError'') e\<rparr>) Done))
        (Upd (\<lambda>s. s\<lparr>us_busy := False\<rparr>) Done)))"

text \<open>The effect has an interval set while there are data and a key.\<close>

definition ticking :: "usage_st \<Rightarrow> bool" where
  "ticking s \<longleftrightarrow> truthy (us_data s) \<and> us_activeKey s \<noteq> []"

definition usage_tick :: "usage_st act" where
  "usage_tick = Look (\<lambda>s. fetchLogs (us_activeKey s))"

section \<open>The page\<close>

definition log_of :: "jsv \<Rightarrow> RequestLog" where
  "log_of v = \<lparr>q_time = num_prop v ''time'', q_endpoint = text_prop v ''endpoint'', q_model = text_prop v ''model'',
     q_status = text_prop v ''status'', q_requestedModel = text_prop v ''requestedModel'', q_apiKeyId = text_prop v ''apiKeyId'',
     q_pool = text_prop v ''pool''\<rparr>"

definition or_unlimited :: "ui \<Rightarrow> rat \<Rightarrow> string" where
  "or_unlimited E n = (if n = 0 then tx E ''apiKeys.unlimited'' else show_rat n)"

definition usage_card :: "ui \<Rightarrow> jsv \<Rightarrow> 'e view" where
  "usage_card E d = (let row = (\<lambda>l v. [El ''dt'' [] [Txt l], El ''dd'' [] [Txt v]]) in El ''Card'' [] [
     El ''CardHeader'' [] [
       El ''div'' [] [El ''CardTitle'' [] [Txt (text_prop d ''keyMasked'')],
         El ''Badge'' [aS ''variant'' (if truthy (get_prop d ''enabled'') then ''secondary'' else ''destructive'')]
           [Txt (tx E (if truthy (get_prop d ''enabled'') then ''common.enabled'' else ''common.disabled''))]],
       shown (text_prop d ''name'' \<noteq> []) (El ''CardDescription'' [] [Txt (text_prop d ''name'')])],
     El ''CardContent'' [] [
       Bar E (tx E ''apiKeys.tokens'') (num_prop d ''tokensUsed'') (num_prop d ''tokenLimit'') (num_prop d ''tokenPercent'') (\<lambda>n. formatNumber E (Some n)),
       Bar E (tx E ''apiKeys.credits'') (num_prop d ''creditsUsed'') (num_prop d ''creditLimit'') (num_prop d ''creditPercent'') (to_fixed 2),
       El ''dl'' [] (
         row (tx E ''apiKeys.requests'') (formatNumber E (Some (num_prop d ''requestsCount''))) @
         row (tx E ''apiKeys.limitRpm'') (or_unlimited E (num_prop d ''rpmLimit'')) @
         row (tx E ''apiKeys.limitConcurrency'') (or_unlimited E (num_prop d ''concurrencyLimit'')) @
         row (tx E ''usage.lastUsed'') (formatTime E \<lfloor>num_prop d ''lastUsedAt''\<rfloor>) @
         row (tx E ''usage.created'') (formatTime E \<lfloor>num_prop d ''createdAt''\<rfloor>))]])"

definition UsagePage :: "ui \<Rightarrow> bool \<Rightarrow> (string \<Rightarrow> string \<Rightarrow> int) \<Rightarrow> usage_st \<Rightarrow> usage_st act view" where
  "UsagePage E dark collate s = El ''div'' [] [
     shown (ticking s) (El ''interval'' [aN ''ms'' 5000, on ''onTick'' usage_tick] []),
     El ''header'' [] [
       El ''div'' [] [El ''div'' [] [Txt ''H''], El ''span'' [] [Txt ''Hekato'']],
       El ''div'' [] [
         El ''Button'' [on ''onClick'' (Emit (Parent ''setLang'' (JStr (if lang E = ''en'' then ''zh'' else ''en''))) Done),
           aS ''aria-label'' (tx E ''header.language'')] [ic ''LuLanguages''],
         El ''Button'' [on ''onClick'' (Emit (Parent ''toggleTheme'' JUndef) Done), aS ''aria-label'' (tx E ''header.theme'')]
           [ic (if dark then ''LuSun'' else ''LuMoon'')]]],
     El ''main'' [] [El ''div'' [] [
       El ''Card'' [] [
         El ''CardHeader'' [] [El ''CardTitle'' [] [Txt (tx E ''usage.title'')], El ''CardDescription'' [] [Txt (tx E ''usage.subtitle'')]],
         El ''CardContent'' [] [
           El ''form'' [] [
             El ''Input'' [aS ''type'' ''password'', aS ''value'' (us_key s), onS ''onChange'' (\<lambda>v. Upd (\<lambda>x. x\<lparr>us_key := v\<rparr>) Done),
               aS ''placeholder'' (tx E ''usage.placeholder'')] [],
             El ''Button'' [aS ''type'' ''submit'', on ''onSubmit'' (key_lookup E s), aB ''disabled'' (us_busy s \<or> js_trim (us_key s) = [])]
               [if us_busy s then spinner else ic ''LuSearch'', Txt (tx E ''usage.check'')]],
           shown (us_error s \<noteq> []) (El ''p'' [] [Txt (us_error s)])]],
       shown (truthy (us_data s)) (usage_card E (us_data s)),
       (case us_logs s of None \<Rightarrow> Nothing | Some ls \<Rightarrow> shown (ls \<noteq> [])
         (LiveRoutingMap E collate (Some (map log_of ls)) \<lparr>mq_pending = True, mq_error = None, mq_logs = None, mq_updated = None, mq_keys = []\<rparr>)),
       El ''p'' [] [Txt (tx E ''usage.privacy'')]]]]"

section \<open>Properties\<close>

definition responded :: "bool \<Rightarrow> string \<Rightarrow> jsv \<Rightarrow> reply" where
  "responded ok t body = Resolved (JObj [(''ok'', JBool ok), (''statusText'', JStr t), (''body'', body)])"

lemma sync_fetchLogs:
  "\<exists>k. (\<forall>z. sync (fetchLogs a) z = (z, [], [Req (Fetch ''/v1/usage/logs'' a) k])) \<and>
    (\<forall>t ls z. us_activeKey z = a \<longrightarrow>
       sync (k (responded True t (JObj [(''logs'', JArr ls)]))) z = (z\<lparr>us_logs := Some ls\<rparr>, [], []))"
  by (auto simp: fetchLogs_def act_nf responded_def elements_def get_field_def)

lemma sync_lookup:
  assumes "js_trim (us_key s) \<noteq> []"
  shows "\<exists>k. (\<forall>z. sync (key_lookup E s) z = (z\<lparr>us_busy := True, us_error := [], us_data := JNull, us_logs := None\<rparr>, [],
        [Req (Fetch ''/v1/usage'' (js_trim (us_key s))) k])) \<and>
    (\<forall>t msg z. msg \<noteq> [] \<longrightarrow>
       sync (k (responded False t (JObj [(''error'', JStr msg)]))) z = (z\<lparr>us_error := msg, us_busy := False\<rparr>, [], []))"
  using assms by (auto simp: key_lookup_def lookup_reply_def act_nf responded_def get_field_def js_or_def Let_def)

definition usage_env :: "usage_st \<Rightarrow> usage_st \<Rightarrow> bool" where
  "usage_env s s' \<longleftrightarrow> s' = s"

text \<open>C38: after looking up another key the page can show the requests of the one before: a refresh of the
  first key's requests that is under way when the second key is submitted is still let through,
  because the key it is compared with changes only when the second lookup succeeds. If that lookup is
  refused, the page shows the error for the second key above the routing map of the first, and
  nothing removes it until the next lookup.\<close>

theorem usage_shows_other_key:
  assumes "cst m = s" "inflight m = []" "ticking s" "\<not> us_busy s" "js_trim b \<noteq> []" "msg \<noteq> []"
  shows "\<exists>m'. (mstep (UsagePage E dark collate) usage_env)\<^sup>*\<^sup>* m m' \<and> inflight m' = [] \<and> us_key (cst m') = b \<and>
      us_error (cst m') = msg \<and> us_data (cst m') = JNull \<and> us_logs (cst m') = Some ls \<and> \<not> ticking (cst m') \<and>
      trace m' = trace m"
proof -
  let ?V = "UsagePage E dark collate"
  let ?a = "us_activeKey s"
  let ?s1 = "s\<lparr>us_key := b\<rparr>"
  obtain k1 where k1: "\<And>z. sync (fetchLogs ?a) z = (z, [], [Req (Fetch ''/v1/usage/logs'' ?a) k1])"
    "\<And>z. us_activeKey z = ?a \<Longrightarrow> sync (k1 (responded True [] (JObj [(''logs'', JArr ls)]))) z = (z\<lparr>us_logs := Some ls\<rparr>, [], [])"
    using sync_fetchLogs [of ?a] by blast
  obtain k2 where k2: "\<And>z. sync (key_lookup E ?s1) z = (z\<lparr>us_busy := True, us_error := [], us_data := JNull, us_logs := None\<rparr>, [],
        [Req (Fetch ''/v1/usage'' (js_trim b)) k2])"
    "\<And>z. sync (k2 (responded False [] (JObj [(''error'', JStr msg)]))) z = (z\<lparr>us_error := msg, us_busy := False\<rparr>, [], [])"
    using sync_lookup [of ?s1 E] assms(5,6) by auto
  let ?p1 = "Req (Fetch ''/v1/usage/logs'' ?a) k1" and ?p2 = "Req (Fetch ''/v1/usage'' (js_trim b)) k2"
  let ?s2 = "?s1\<lparr>us_busy := True, us_error := [], us_data := JNull, us_logs := None\<rparr>"
  let ?s3 = "?s2\<lparr>us_logs := Some ls\<rparr>"
  let ?s4 = "?s3\<lparr>us_error := msg, us_busy := False\<rparr>"
  let ?m1 = "m\<lparr>cst := s, inflight := [?p1]\<rparr>" and ?m2 = "m\<lparr>cst := ?s1, inflight := [?p1]\<rparr>"
  let ?m3 = "m\<lparr>cst := ?s2, inflight := [?p1, ?p2]\<rparr>" and ?m4 = "m\<lparr>cst := ?s3, inflight := [?p2]\<rparr>"
  let ?m5 = "m\<lparr>cst := ?s4, inflight := []\<rparr>"
  note step = r_into_rtranclp [of "mstep ?V usage_env"]
  have "Plain usage_tick \<in> set (live (?V (cst m)))" using assms(1,3) by (simp add: UsagePage_def)
  then have 1: "mstep ?V usage_env m ?m1"
    using mstep.event [where h = "Plain usage_tick" and inp = Click and a = usage_tick and m = m and V = ?V] k1(1) assms(1,2)
    by (cases m) (simp add: resume_def usage_tick_def)
  have "WithText (\<lambda>v. Upd (\<lambda>x. x\<lparr>us_key := v\<rparr>) Done) \<in> set (live (?V (cst ?m1)))" by (simp add: UsagePage_def)
  then have 2: "mstep ?V usage_env ?m1 ?m2"
    using mstep.event [where h = "WithText (\<lambda>v. Upd (\<lambda>x. x\<lparr>us_key := v\<rparr>) Done)" and inp = "Type b" and m = ?m1 and V = ?V
        and a = "Upd (\<lambda>x. x\<lparr>us_key := b\<rparr>) Done"]
    by (cases m) (simp add: resume_def)
  have "Plain (key_lookup E ?s1) \<in> set (live (?V (cst ?m2)))" using assms(4,5) by (simp add: UsagePage_def)
  then have 3: "mstep ?V usage_env ?m2 ?m3"
    using mstep.event [where h = "Plain (key_lookup E ?s1)" and inp = Click and a = "key_lookup E ?s1" and m = ?m2 and V = ?V] k2(1)
    by (cases m) (simp add: resume_def)
  have 4: "mstep ?V usage_env ?m3 ?m4"
    using mstep.wake [of 0 ?m3 "[responded True [] (JObj [(''logs'', JArr ls)])]" _ ?V usage_env] k1(2) [of ?s2]
    by (cases m) (simp add: resume_def drop_nth_def)
  have 5: "mstep ?V usage_env ?m4 ?m5"
    using mstep.wake [of 0 ?m4 "[responded False [] (JObj [(''error'', JStr msg)])]" _ ?V usage_env] k2(2) [of ?s3]
    by (cases m) (simp add: resume_def drop_nth_def)
  have "(mstep ?V usage_env)\<^sup>*\<^sup>* m ?m5" using step [OF 1] step [OF 2] step [OF 3] step [OF 4] step [OF 5] by (meson rtranclp_trans)
  then show ?thesis by (intro exI [of _ ?m5]) (simp add: ticking_def)
qed

definition looked_up :: usage_st where
  "looked_up = usage_mount\<lparr>us_key := ''sk-a'', us_data := JObj [(''enabled'', JBool True)], us_activeKey := ''sk-a''\<rparr>"

theorem usage_shows_other_key_witness:
  "\<exists>m' :: usage_st mach. (mstep (UsagePage sample_ui False (\<lambda>a b. 0)) usage_env)\<^sup>*\<^sup>*
      \<lparr>cst = looked_up, inflight = [], trace = []\<rparr> m' \<and> us_key (cst m') = ''sk-b'' \<and> us_error (cst m') = ''invalid key'' \<and>
      us_logs (cst m') = Some [JObj [(''model'', JStr ''opus'')]]"
proof -
  let ?m = "\<lparr>cst = looked_up, inflight = [], trace = []\<rparr>"
  have "js_trim ''sk-b'' \<noteq> []" by code_simp
  moreover have "ticking looked_up" "\<not> us_busy looked_up" by (simp_all add: looked_up_def usage_mount_def ticking_def)
  ultimately show ?thesis
    using usage_shows_other_key [of ?m looked_up "''sk-b''" "''invalid key''" sample_ui False "\<lambda>a b. 0"
        "[JObj [(''model'', JStr ''opus'')]]"] by auto
qed

end
