(* ===== verification/Model_Pages.thy ===== *)
theory Model_Pages
  imports Js_Sort Settings_Shared
begin

text \<open>
  The two pages that show what the gateway knows about models: the price catalog
  (\<open>dashboard/src/pages/model-prices/index.tsx\<close>), filtered and sorted in the browser, with a button that
  makes the server fetch it anew; and the parts of the page with the health of the routed models
  (\<open>dashboard/src/pages/model-status/index.tsx\<close>), which is put together with the router's activity in
  \<open>Router_Activity\<close>. The order of texts (\<open>localeCompare\<close>) is a parameter.
  Missing texts are empty, missing numbers zero.
\<close>

section \<open>The price catalog\<close>

record DevModel =
  dm_provider :: string
  dm_providerName :: string
  dm_id :: string
  dm_name :: string
  dm_input :: rat
  dm_output :: rat
  dm_cacheRead :: rat
  dm_free :: bool
  dm_contextLimit :: rat
  dm_outputLimit :: rat
  dm_reasoning :: bool
  dm_toolCall :: bool
  dm_attachment :: bool
  dm_releaseDate :: string

definition dev_model :: "jsv \<Rightarrow> DevModel" where
  "dev_model v = \<lparr>dm_provider = text_prop v ''provider'', dm_providerName = text_prop v ''providerName'',
     dm_id = text_prop v ''id'', dm_name = text_prop v ''name'', dm_input = num_prop v ''input'', dm_output = num_prop v ''output'',
     dm_cacheRead = num_prop v ''cacheRead'', dm_free = truthy (get_prop v ''free''),
     dm_contextLimit = num_prop v ''contextLimit'', dm_outputLimit = num_prop v ''outputLimit'',
     dm_reasoning = truthy (get_prop v ''reasoning''), dm_toolCall = truthy (get_prop v ''toolCall''),
     dm_attachment = truthy (get_prop v ''attachment''), dm_releaseDate = text_prop v ''releaseDate''\<rparr>"

definition price :: "rat \<Rightarrow> string" where
  "price v = (if v = 0 then ''$0'' else if v < 1 / 100 then CHR ''$'' # to_fixed 4 v else CHR ''$'' # to_fixed 2 v)"

text \<open>The state: the filters, the mark of the refresh, and what the query has.\<close>

record prices_st =
  mp_provider :: string
  mp_freeOnly :: bool
  mp_search :: string
  mp_refreshing :: bool
  mp_data :: jsv
  mp_error :: "jerr option"
  mp_fetching :: bool
  mp_table :: table_state

definition prices_mount :: prices_st where
  "prices_mount = \<lparr>mp_provider = ''all'', mp_freeOnly = False, mp_search = [], mp_refreshing = False, mp_data = JUndef,
     mp_error = None, mp_fetching = True, mp_table = initial_table 50\<rparr>"

text \<open>A read of the query: new data, or the error beside the old data.\<close>

definition prices_read :: "reply \<Rightarrow> prices_st \<Rightarrow> prices_st" where
  "prices_read p s = (case p of Resolved v \<Rightarrow> s\<lparr>mp_data := v, mp_error := None, mp_fetching := False\<rparr>
     | Rejected e \<Rightarrow> s\<lparr>mp_error := Some e, mp_fetching := False\<rparr>)"

definition refetch :: "prices_st act" where
  "refetch = Upd (\<lambda>s. s\<lparr>mp_fetching := True\<rparr>) (Await (Http ''GET'' ''/models-dev'' NoBody) (\<lambda>p. Upd (prices_read p) Done))"

definition hardRefresh :: "prices_st act" where
  "hardRefresh = Upd (\<lambda>s. s\<lparr>mp_refreshing := True\<rparr>)
     (finally_do (get ''/models-dev?refresh=1'' (\<lambda>_. refetch)) (Upd (\<lambda>s. s\<lparr>mp_refreshing := False\<rparr>) Done))"

definition all_dev :: "prices_st \<Rightarrow> DevModel list" where
  "all_dev s = map dev_model (elements (get_prop (mp_data s) ''models''))"

text \<open>The providers with the name that came first, by name.\<close>

definition provider_label :: "DevModel \<Rightarrow> string" where
  "provider_label m = or_str (dm_providerName m) (dm_provider m)"

definition see_provider :: "DevModel \<Rightarrow> (string \<times> string) list \<Rightarrow> (string \<times> string) list" where
  "see_provider m seen = (if map_of seen (dm_provider m) = None then seen @ [(dm_provider m, provider_label m)] else seen)"

definition dev_providers :: "(string \<Rightarrow> string \<Rightarrow> int) \<Rightarrow> DevModel list \<Rightarrow> (string \<times> string) list" where
  "dev_providers collate ms = js_sort (on_key collate snd) (fold see_provider ms [])"

definition dev_shown :: "prices_st \<Rightarrow> DevModel \<Rightarrow> bool" where
  "dev_shown st m \<longleftrightarrow> (let s = js_lower (js_trim (mp_search st)) in
     (mp_provider st = ''all'' \<or> dm_provider m = mp_provider st) \<and> (\<not> mp_freeOnly st \<or> dm_free m) \<and>
     (s = [] \<or> js_includes s (js_lower (dm_id m)) \<or> js_includes s (js_lower (dm_name m)) \<or> js_includes s (js_lower (dm_providerName m))))"

definition dev_rows :: "(string \<Rightarrow> string \<Rightarrow> int) \<Rightarrow> prices_st \<Rightarrow> DevModel list" where
  "dev_rows collate st = js_sort (then_by (on_key collate dm_provider) (on_key collate dm_id)) (filter (dev_shown st) (all_dev st))"

section \<open>Columns\<close>

definition dev_column :: "string \<Rightarrow> string \<Rightarrow> (DevModel \<Rightarrow> prices_st act view) \<Rightarrow> (DevModel, prices_st) column" where
  "dev_column i h c = \<lparr>col_id = i, col_header = (\<lambda>_. Txt h), col_cell = (\<lambda>r. c (l_original r))\<rparr>"

definition span_text :: "string \<Rightarrow> 'e view" where
  "span_text t = El ''span'' [] [Txt t]"

definition number_or_dash :: "ui \<Rightarrow> rat \<Rightarrow> string" where
  "number_or_dash E n = (if n \<noteq> 0 then formatNumber E (Some n) else em_dash)"

definition dev_caps :: "ui \<Rightarrow> DevModel \<Rightarrow> string list" where
  "dev_caps E m = filter (\<lambda>c. c \<noteq> []) [if dm_free m then tx E ''models.free'' else [], if dm_reasoning m then tx E ''models.reasoning'' else [],
     if dm_toolCall m then tx E ''models.tools'' else [], if dm_attachment m then tx E ''models.vision'' else []]"

definition model_cell :: "DevModel \<Rightarrow> 'e view" where
  "model_cell m = El ''div'' [] [El ''code'' [] [Txt (dm_id m)],
     shown (dm_name m \<noteq> [] \<and> dm_name m \<noteq> dm_id m) (El ''div'' [] [Txt (dm_name m)])]"

definition caps_cell :: "ui \<Rightarrow> DevModel \<Rightarrow> 'e view" where
  "caps_cell E m = El ''div'' [] (map (\<lambda>c. El ''Badge'' [aS ''variant'' ''secondary''] [Txt c]) (dev_caps E m))"

definition dev_columns :: "ui \<Rightarrow> (DevModel, prices_st) column list" where
  "dev_columns E = [
     dev_column ''providerName'' (tx E ''models.provider'') (\<lambda>m. El ''Badge'' [aS ''variant'' ''outline''] [Txt (provider_label m)]),
     dev_column ''id'' (tx E ''models.model'') model_cell,
     dev_column ''input'' (tx E ''models.input'') (\<lambda>m. span_text (price (dm_input m))),
     dev_column ''output'' (tx E ''models.output'') (\<lambda>m. span_text (price (dm_output m))),
     dev_column ''cacheRead'' (tx E ''models.cacheRead'') (\<lambda>m. span_text (price (dm_cacheRead m))),
     dev_column ''contextLimit'' (tx E ''models.context'') (\<lambda>m. span_text (number_or_dash E (dm_contextLimit m))),
     dev_column ''outputLimit'' (tx E ''models.maxOutput'') (\<lambda>m. span_text (number_or_dash E (dm_outputLimit m))),
     dev_column ''caps'' (tx E ''models.capabilities'') (caps_cell E),
     dev_column ''releaseDate'' (tx E ''models.released'') (\<lambda>m. span_text (or_str (dm_releaseDate m) em_dash))]"

section \<open>The page of prices\<close>

definition prices_toolbar :: "ui \<Rightarrow> (string \<times> string) list \<Rightarrow> prices_st \<Rightarrow> prices_st act view" where
  "prices_toolbar E ps s = frag [
     El ''Input'' [aS ''value'' (mp_search s), onS ''onChange'' (\<lambda>v. Upd (\<lambda>x. x\<lparr>mp_search := v\<rparr>) Done),
       aS ''placeholder'' (tx E ''models.searchPlaceholder'')] [],
     Choice ((''all'', tx E ''models.allProviders'') # ps) (mp_provider s) (\<lambda>v. Upd (\<lambda>x. x\<lparr>mp_provider := v\<rparr>) Done),
     El ''label'' [] [El ''Switch'' [aB ''checked'' (mp_freeOnly s), onB ''onCheckedChange'' (\<lambda>v. Upd (\<lambda>x. x\<lparr>mp_freeOnly := v\<rparr>) Done)] [],
       Txt ('' '' @ tx E ''models.freeOnly'')]]"

definition prices_table :: "ui \<Rightarrow> (string \<times> string) list \<Rightarrow> prices_st \<Rightarrow> (DevModel, prices_st) table_props" where
  "prices_table E ps s = \<lparr>tp_columns = dev_columns E, tp_searchable = False, tp_searchPlaceholder = None,
     tp_toolbar = prices_toolbar E ps s, tp_emptyState = EmptyState (tx E ''models.noMatch'') [] Nothing,
     tp_rowSelection = [], tp_onSelect = None, tp_onRowClick = None, tp_pageSize = 50, tp_groupBy = None,
     tp_renderGroup = None, tp_set = (\<lambda>st x. x\<lparr>mp_table := st\<rparr>)\<rparr>"

definition ModelPricesPage :: "ui \<Rightarrow> (string \<Rightarrow> string \<Rightarrow> int) \<Rightarrow> DevModel table_lib \<Rightarrow> prices_st \<Rightarrow> prices_st act view" where
  "ModelPricesPage E collate lib s = (let rs = dev_rows collate s; ps = dev_providers collate (all_dev s);
       num = (\<lambda>n :: nat. formatNumber E (Some (of_nat n))) in
     El ''div'' [] [
       PageHeader E (tx E ''models.title'') (tx E ''models.pageDescription'')
         (El ''Button'' [aS ''variant'' ''outline'', on ''onClick'' hardRefresh, aB ''disabled'' (mp_refreshing s \<or> mp_fetching s)]
           [ic ''LuRefreshCw'', Txt ('' '' @ tx E ''models.refresh'')]),
       El ''div'' [] [
         StatCard (tx E ''models.providers'') (num (length ps)) Nothing Nothing ToneDefault,
         StatCard (tx E ''models.totalModels'') (num (length (all_dev s))) (Txt (tx E ''models.shown'' @ '': '' @ num (length rs))) Nothing ToneDefault,
         StatCard (tx E ''models.freeModels'') (num (length (filter dm_free rs))) Nothing Nothing ToneSuccess,
         StatCard (tx E ''models.updated'') (formatTime E \<lfloor>num_prop (mp_data s) ''fetchedAt''\<rfloor>) (Txt ''models.dev'') Nothing ToneDefault],
       (if mp_fetching s \<and> mp_data s = JUndef then LoadingBlock E None 3
        else case mp_error s of Some e \<Rightarrow> EmptyState (tx E ''common.failed'') (errorMessage e) Nothing
          | None \<Rightarrow> DataTable E lib (prices_table E ps s) rs (mp_table s))])"

section \<open>The health of the models\<close>

datatype health = Operational | Degraded | Outage | NoData

definition health_of :: "string \<Rightarrow> health" where
  "health_of t = (if t = ''operational'' then Operational else if t = ''degraded'' then Degraded
     else if t = ''outage'' then Outage else NoData)"

fun health_name :: "health \<Rightarrow> string" where
  "health_name Operational = ''operational''"
| "health_name Degraded = ''degraded''"
| "health_name Outage = ''outage''"
| "health_name NoData = ''none''"

text \<open>The colours of dots and texts, and the tone of a card.\<close>

fun DOT :: "health \<Rightarrow> string" where
  "DOT Operational = ''bg-success''"
| "DOT Degraded = ''bg-warning''"
| "DOT Outage = ''bg-destructive''"
| "DOT NoData = ''bg-muted-foreground/25''"

fun INK :: "health \<Rightarrow> string" where
  "INK Operational = ''text-success-ink''"
| "INK Degraded = ''text-warning-ink''"
| "INK Outage = ''text-destructive''"
| "INK NoData = ''text-muted-foreground''"

fun TONE :: "health \<Rightarrow> tone" where
  "TONE Operational = ToneSuccess"
| "TONE Degraded = ToneWarning"
| "TONE Outage = ToneDanger"
| "TONE NoData = ToneDefault"

record HealthRoute =
  hr_pool :: string
  hr_model :: string
  hr_tiers :: "string list"
  hr_status :: health
  hr_requests :: rat
  hr_errors :: rat
  hr_ttftP50 :: rat
  hr_tps :: rat
  hr_context :: rat
  hr_maxOutput :: rat
  hr_slow :: bool
  hr_quarantined :: bool
  hr_days :: "health list"

record HealthDay =
  hd_day :: rat
  hd_status :: health
  hd_requests :: rat
  hd_errors :: rat

definition health_route :: "jsv \<Rightarrow> HealthRoute" where
  "health_route v = \<lparr>hr_pool = text_prop v ''pool'', hr_model = text_prop v ''model'',
     hr_tiers = map js_string (elements (get_prop v ''tiers'')), hr_status = health_of (text_prop v ''status''),
     hr_requests = num_prop v ''requests'', hr_errors = num_prop v ''errors'', hr_ttftP50 = num_prop v ''ttftP50'',
     hr_tps = num_prop v ''tps'', hr_context = num_prop v ''context'', hr_maxOutput = num_prop v ''maxOutput'',
     hr_slow = truthy (get_prop v ''slow''), hr_quarantined = truthy (get_prop v ''quarantined''),
     hr_days = map (\<lambda>d. health_of (js_string d)) (elements (get_prop v ''days''))\<rparr>"

definition health_day :: "jsv \<Rightarrow> HealthDay" where
  "health_day v = \<lparr>hd_day = num_prop v ''day'', hd_status = health_of (text_prop v ''status''),
     hd_requests = num_prop v ''requests'', hd_errors = num_prop v ''errors''\<rparr>"

definition success_pct :: "HealthRoute \<Rightarrow> string" where
  "success_pct r = (if hr_requests r \<noteq> 0 then to_fixed 1 ((hr_requests r - hr_errors r) / hr_requests r * 100) @ ''%'' else em_dash)"

definition ttft_ms :: "ui \<Rightarrow> rat \<Rightarrow> string" where
  "ttft_ms E v = (if v = 0 then em_dash else if v \<ge> 10000 then to_fixed 1 (v / 1000) @ '' s'' else formatNumber E (Some v) @ '' ms'')"

definition health_label :: "ui \<Rightarrow> health \<Rightarrow> string" where
  "health_label E h = tx E (''modelStatus.status.'' @ health_name h)"

definition Metric :: "string \<Rightarrow> 'e view \<Rightarrow> 'e view" where
  "Metric label val = El ''div'' [] [El ''dt'' [] [Txt label], El ''dd'' [] [val]]"

definition Strip :: "(health \<times> string) list \<Rightarrow> 'e view" where
  "Strip days = El ''div'' [] (map (\<lambda>(h, tip). El ''Tooltip'' [] [
     El ''TooltipTrigger'' [] [El ''span'' [aS ''className'' (DOT h)] []], El ''TooltipContent'' [] [Txt tip]]) days)"

definition health_legend :: "ui \<Rightarrow> 'e view" where
  "health_legend E = El ''div'' [] (map (\<lambda>h. El ''span'' [] [El ''span'' [aS ''className'' (DOT h)] [], Txt (health_label E h)])
     [Operational, Degraded, Outage, NoData])"

text \<open>What the hint over a day says; \<open>day\<close> formats the date of a Unix time.\<close>

definition day_tip :: "ui \<Rightarrow> (rat \<Rightarrow> string) \<Rightarrow> HealthDay \<Rightarrow> string" where
  "day_tip E day x = day (hd_day x) @ '' '' @ mid_dot @ '' '' @ health_label E (hd_status x) @
     (if hd_requests x \<noteq> 0 then '' '' @ mid_dot @ '' '' @ formatNumber E (Some (hd_requests x - hd_errors x)) @ ''/'' @ formatNumber E (Some (hd_requests x))
      else [])"

definition last_n :: "nat \<Rightarrow> 'a list \<Rightarrow> 'a list" where
  "last_n n xs = drop (length xs - n) xs"

definition route_card :: "ui \<Rightarrow> HealthRoute \<Rightarrow> 'e view" where
  "route_card E r = El ''Card'' [] [El ''CardContent'' [] [
     El ''div'' [] [
       El ''div'' [] [El ''div'' [] [Txt (hr_pool r)], El ''div'' [] [Txt (hr_model r)],
         El ''div'' [] (map (\<lambda>t. El ''Badge'' [aS ''variant'' ''outline''] [Txt (tx E (''settings.autoRoute.tier.'' @ t))]) (hr_tiers r) @
           [shown (hr_slow r) (El ''Badge'' [aS ''variant'' ''secondary''] [Txt (tx E ''overview.slow'')]),
            shown (hr_quarantined r) (El ''Badge'' [aS ''variant'' ''destructive''] [Txt (tx E ''overview.quarantined'')])])],
       El ''span'' [aS ''className'' (INK (hr_status r))] [El ''span'' [aS ''className'' (DOT (hr_status r))] [],
         Txt (health_label E (hr_status r))]],
     El ''dl'' [] [
       Metric (tx E ''modelStatus.success'') (El ''span'' [aS ''className'' (INK (hr_status r))] [Txt (success_pct r)]),
       Metric (tx E ''modelStatus.requests'') (Txt (formatNumber E (Some (hr_requests r)))),
       Metric (tx E ''modelStatus.ttft'') (Txt (ttft_ms E (hr_ttftP50 r))),
       Metric (tx E ''modelStatus.speed'') (Txt (if hr_tps r \<noteq> 0 then show_rat (hr_tps r) @ '' TPS'' else em_dash))],
     Strip (map (\<lambda>h. (h, health_label E h)) (last_n 14 (hr_days r))),
     El ''div'' [] [
       El ''span'' [] [Txt (if hr_context r \<noteq> 0 then formatNumber E (Some (hr_context r)) @ '' '' @ tx E ''modelStatus.context'' else em_dash)],
       El ''span'' [] [Txt (if hr_maxOutput r \<noteq> 0 then formatNumber E (Some (hr_maxOutput r)) @ '' '' @ tx E ''modelStatus.maxOutput'' else [])]]]]"

section \<open>What the price page lists\<close>

lemma fold_see_provider:
  "distinct (map fst seen) \<Longrightarrow> distinct (map fst (fold see_provider ms seen)) \<and>
    set (map fst (fold see_provider ms seen)) = set (map fst seen) \<union> dm_provider ` set ms"
proof (induction ms arbitrary: seen)
  case (Cons m ms)
  have "distinct (map fst (see_provider m seen))" "set (map fst (see_provider m seen)) = insert (dm_provider m) (set (map fst seen))"
    using Cons.prems by (auto simp: see_provider_def map_of_eq_None_iff)
  with Cons.IH [of "see_provider m seen"] show ?case by simp
qed simp

lemma dev_providers_once:
  "distinct (map fst (dev_providers collate ms))" "set (map fst (dev_providers collate ms)) = dm_provider ` set ms"
proof -
  let ?ps = "fold see_provider ms []"
  have ps: "distinct (map fst ?ps)" "set (map fst ?ps) = dm_provider ` set ms" using fold_see_provider [of "[]" ms] by simp_all
  have "mset (map fst (dev_providers collate ms)) = mset (map fst ?ps)" by (simp add: dev_providers_def)
  then show "distinct (map fst (dev_providers collate ms))" "set (map fst (dev_providers collate ms)) = dm_provider ` set ms"
    using ps by (metis mset_eq_imp_distinct_iff, metis set_mset_mset)
qed

text \<open>The price page loses no model: the rows are exactly the models of the catalog that pass the
  filters, each as often as the catalog has it, ordered by provider and then by id; the choice offers
  every provider once; and without filters, or with those a model was found by (its own provider, any
  part of its id), the model is listed.\<close>

theorem prices_complete:
  assumes "comparator collate"
  shows "mset (dev_rows collate s) = filter_mset (dev_shown s) (mset (all_dev s)) \<and>
    sorted_wrt (\<lambda>a b. collate (dm_provider a) (dm_provider b) < 0 \<or>
      collate (dm_provider a) (dm_provider b) = 0 \<and> collate (dm_id a) (dm_id b) \<le> 0) (dev_rows collate s) \<and>
    distinct (map fst (dev_providers collate (all_dev s))) \<and>
    set (map fst (dev_providers collate (all_dev s))) = dm_provider ` set (all_dev s) \<and>
    (\<forall>m\<in>set (all_dev s). mp_provider s \<in> {''all'', dm_provider m} \<and> (mp_freeOnly s \<longrightarrow> dm_free m) \<and>
       (\<exists>a b. dm_id m = a @ js_trim (mp_search s) @ b) \<longrightarrow> m \<in> set (dev_rows collate s))"
proof -
  let ?cmp = "then_by (on_key collate dm_provider) (on_key collate dm_id)"
  have "comparator ?cmp" by (intro comparator_then_by comparator_on_key assms)
  from comparator.js_sort_ordered [OF this] have "sorted_wrt (\<lambda>a b. ?cmp a b \<le> 0) (dev_rows collate s)"
    by (simp add: dev_rows_def)
  then have "sorted_wrt (\<lambda>a b. collate (dm_provider a) (dm_provider b) < 0 \<or>
      collate (dm_provider a) (dm_provider b) = 0 \<and> collate (dm_id a) (dm_id b) \<le> 0) (dev_rows collate s)"
    by (rule sorted_wrt_mono_rel [rotated]) (auto simp: then_by_def on_key_def split: if_splits)
  moreover have "js_includes (js_lower x) (js_lower (a @ x @ b))" for a x b
    by (auto simp: js_includes_iff)
  then have "m \<in> set (dev_rows collate s)"
    if "m \<in> set (all_dev s)" "mp_provider s \<in> {''all'', dm_provider m}" "mp_freeOnly s \<longrightarrow> dm_free m"
      "\<exists>a b. dm_id m = a @ js_trim (mp_search s) @ b" for m
    using that by (auto simp: dev_rows_def dev_shown_def Let_def)
  ultimately show ?thesis using dev_providers_once [of collate "all_dev s"]
    by (simp add: dev_rows_def mset_filter)
qed

definition two_prices :: prices_st where
  "two_prices = prices_mount\<lparr>mp_search := '' OPUS '', mp_data := obj [(''models'', JArr [
     obj [(''provider'', JStr ''b''), (''id'', JStr ''opus-2'')], obj [(''provider'', JStr ''a''), (''id'', JStr ''haiku'')],
     obj [(''provider'', JStr ''a''), (''id'', JStr ''opus-1'')]])]\<rparr>"

theorem prices_complete_witness:
  "mset (map dm_id (dev_rows code_order two_prices)) = {#''opus-1'', ''opus-2''#}"
proof -
  have "comparator code_order" by (rule codes.comparator_axioms)
  from prices_complete [OF this, of two_prices]
  have "mset (dev_rows code_order two_prices) = mset (filter (dev_shown two_prices) (all_dev two_prices))"
    by (simp only: mset_filter)
  then have "mset (map dm_id (dev_rows code_order two_prices)) = mset (map dm_id (filter (dev_shown two_prices) (all_dev two_prices)))"
    by (simp only: mset_map)
  also have "map dm_id (filter (dev_shown two_prices) (all_dev two_prices)) = [''opus-2'', ''opus-1'']" by code_simp
  finally show ?thesis by (simp only: mset.simps add_mset_commute)
qed

text \<open>The refresh reads the catalog again after the server has fetched it; when the server could not, the
  button is free again and nothing tells so: the error leaves the handler.\<close>

lemma exec_hardRefresh:
  "exec hardRefresh srv s w = (case srv w (Http ''GET'' ''/models-dev?refresh=1'' NoBody) of
     (Rejected e, w') \<Rightarrow> (Some e, s\<lparr>mp_refreshing := False\<rparr>, [], w')
   | (Resolved v, w') \<Rightarrow> (case srv w' (Http ''GET'' ''/models-dev'' NoBody) of
        (p, w'') \<Rightarrow> (None, (prices_read p (s\<lparr>mp_refreshing := True, mp_fetching := True\<rparr>))\<lparr>mp_refreshing := False\<rparr>, [], w'')))"
  by (auto simp: hardRefresh_def refetch_def get_def exec_finally exec_await split: prod.split reply.split)

end
