(* ===== verification/Router_Activity.thy ===== *)
theory Router_Activity
  imports Model_Pages Admin_Session
begin

text \<open>
  The router's recent decisions and what it has learned, \<open>dashboard/src/pages/model-status/decisions.tsx\<close>,
  from where a model can be taken out of the automatic choice; and the endpoint it saves to:
  \<open>AutoRouteConfig\<close> with its blacklist (\<open>config/autoroute.go\<close>) and the handlers of \<open>/auto-route\<close>
  (\<open>proxy/autoroute.go\<close>). A Go slice that may be nil is an option. Writing the configuration to the
  disk succeeds; which pool a prefix names (\<open>ResolvePoolPrefix\<close>) is a parameter.
\<close>

section \<open>The configuration (Go)\<close>

record KeywordRule =
  kr_keywords :: "string list option"
  kr_tier :: string

record AutoRouteConfig =
  ac_enabled :: bool
  ac_quality :: rat
  ac_cost :: rat
  ac_speed :: rat
  ac_explore :: rat
  ac_fast :: "string list option"
  ac_balanced :: "string list option"
  ac_strong :: "string list option"
  ac_blacklist :: "string list option"
  ac_rules :: "KeywordRule list"
  ac_thinking :: bool
  ac_aliases :: "string list option"
  ac_slowTtft :: int
  ac_slowTps :: rat

definition slice :: "'a list option \<Rightarrow> 'a list" where
  "slice s = (case s of None \<Rightarrow> [] | Some xs \<Rightarrow> xs)"

text \<open>\<open>json.Marshal\<close>: a nil slice is null; no keyword rules, no field.\<close>

definition slice_json :: "string list option \<Rightarrow> jsv" where
  "slice_json s = (case s of None \<Rightarrow> JNull | Some xs \<Rightarrow> jstrs xs)"

definition rule_json :: "KeywordRule \<Rightarrow> jsv" where
  "rule_json r = JObj [(''keywords'', slice_json (kr_keywords r)), (''tier'', JStr (kr_tier r))]"

definition config_json :: "AutoRouteConfig \<Rightarrow> jsv" where
  "config_json c = JObj ([(''enabled'', JBool (ac_enabled c)), (''qualityWeight'', JNum (ac_quality c)), (''costWeight'', JNum (ac_cost c)),
     (''speedWeight'', JNum (ac_speed c)), (''explore'', JNum (ac_explore c)), (''fast'', slice_json (ac_fast c)),
     (''balanced'', slice_json (ac_balanced c)), (''strong'', slice_json (ac_strong c)), (''blacklist'', slice_json (ac_blacklist c))] @
     (if ac_rules c = [] then [] else [(''keywordRules'', JArr (map rule_json (ac_rules c)))]) @
     [(''autoThinking'', JBool (ac_thinking c)), (''aliases'', slice_json (ac_aliases c)),
     (''slowTtftMs'', JNum (of_int (ac_slowTtft c))), (''slowMinTps'', JNum (ac_slowTps c))])"

text \<open>\<open>json.Decode\<close> into a fresh struct: a missing field or null is the zero value, a value of another
  kind an error.\<close>

fun str_elem :: "jsv \<Rightarrow> string option" where
  "str_elem (JStr s) = Some s"
| "str_elem JNull = Some []"
| "str_elem _ = None"

fun all_some :: "'a option list \<Rightarrow> 'a list option" where
  "all_some [] = Some []"
| "all_some (x # xs) = (case (x, all_some xs) of (Some a, Some as) \<Rightarrow> Some (a # as) | _ \<Rightarrow> None)"

fun slice_of :: "jsv \<Rightarrow> string list option option" where
  "slice_of JUndef = Some None"
| "slice_of JNull = Some None"
| "slice_of (JArr vs) = map_option Some (all_some (map str_elem vs))"
| "slice_of _ = None"

fun num_of_json :: "jsv \<Rightarrow> rat option" where
  "num_of_json JUndef = Some 0"
| "num_of_json JNull = Some 0"
| "num_of_json (JNum n) = Some n"
| "num_of_json _ = None"

definition int64_of_json :: "jsv \<Rightarrow> int option" where
  "int64_of_json v = (case num_of_json v of None \<Rightarrow> None
     | Some n \<Rightarrow> if of_int \<lfloor>n\<rfloor> = n \<and> - (2 ^ 63) \<le> \<lfloor>n\<rfloor> \<and> \<lfloor>n\<rfloor> < 2 ^ 63 then Some \<lfloor>n\<rfloor> else None)"

fun rule_of_json :: "jsv \<Rightarrow> KeywordRule option" where
  "rule_of_json JNull = Some \<lparr>kr_keywords = None, kr_tier = []\<rparr>"
| "rule_of_json (JObj ps) = (case (slice_of (get_prop (JObj ps) ''keywords''), str_field (JObj ps) ''tier'') of
     (Some ks, Some t) \<Rightarrow> Some \<lparr>kr_keywords = ks, kr_tier = t\<rparr> | _ \<Rightarrow> None)"
| "rule_of_json _ = None"

fun rules_of_json :: "jsv \<Rightarrow> KeywordRule list option" where
  "rules_of_json JUndef = Some []"
| "rules_of_json JNull = Some []"
| "rules_of_json (JArr vs) = all_some (map rule_of_json vs)"
| "rules_of_json _ = None"

definition decode_config :: "jsv \<Rightarrow> AutoRouteConfig option" where
  "decode_config v = (let f = get_prop v in
     case (map num_of_json [f ''qualityWeight'', f ''costWeight'', f ''speedWeight'', f ''explore'', f ''slowMinTps''],
           map slice_of [f ''fast'', f ''balanced'', f ''strong'', f ''blacklist'', f ''aliases''],
           bool_field v ''enabled'', bool_field v ''autoThinking'', rules_of_json (f ''keywordRules''), int64_of_json (f ''slowTtftMs'')) of
       ([Some q, Some c, Some s, Some x, Some tps], [Some fa, Some ba, Some st, Some bl, Some al], Some en, Some th, Some ru, Some ttft) \<Rightarrow>
         Some \<lparr>ac_enabled = en, ac_quality = q, ac_cost = c, ac_speed = s, ac_explore = x, ac_fast = fa, ac_balanced = ba,
           ac_strong = st, ac_blacklist = bl, ac_rules = ru, ac_thinking = th, ac_aliases = al, ac_slowTtft = ttft, ac_slowTps = tps\<rparr>
     | _ \<Rightarrow> None)"

section \<open>The endpoints (Go)\<close>

definition unit_clamp :: "rat \<Rightarrow> rat" where
  "unit_clamp v = max 0 (min 1 v)"

definition clamp_config :: "AutoRouteConfig \<Rightarrow> AutoRouteConfig" where
  "clamp_config c = c\<lparr>ac_quality := unit_clamp (ac_quality c), ac_cost := unit_clamp (ac_cost c), ac_speed := unit_clamp (ac_speed c),
     ac_explore := max 0 (min (1 / 2) (ac_explore c))\<rparr>"

definition apiUpdateAutoRoute :: "jsv \<Rightarrow> AutoRouteConfig \<Rightarrow> string option \<times> AutoRouteConfig" where
  "apiUpdateAutoRoute b cfg = (case (if is_object b then decode_config b else None) of
     None \<Rightarrow> (Some ''Invalid JSON'', cfg)
   | Some c \<Rightarrow> if length (slice (ac_fast c)) + length (slice (ac_balanced c)) + length (slice (ac_strong c)) = 0
       then (Some ''at least one tier needs a model pattern'', cfg) else (None, clamp_config c))"

definition route_server :: "AutoRouteConfig server" where
  "route_server cfg r = (case r of
     Http v p b \<Rightarrow>
       (if p = ''/auto-route'' \<and> v = ''GET'' then (Resolved (config_json cfg), cfg)
        else if p = ''/auto-route'' \<and> v = ''POST'' then
          (case b of JsonBody j \<Rightarrow> (case apiUpdateAutoRoute j cfg of
               (Some e, cfg') \<Rightarrow> (Rejected (ApiErr 400 e False), cfg')
             | (None, cfg') \<Rightarrow> (Resolved (JObj [(''success'', JBool True)]), cfg'))
           | _ \<Rightarrow> (Rejected (ApiErr 400 ''Invalid JSON'' False), cfg))
        else (Rejected (ApiErr 404 ''Not Found'' False), cfg))
   | _ \<Rightarrow> (Rejected NonErr, cfg))"

text \<open>Whether the automatic choice skips a model, by the entries \<open>provider:part of the name\<close>.\<close>

definition cut_entry :: "string \<Rightarrow> string \<times> string" where
  "cut_entry e = (let e = js_lower (js_trim e); prov = takeWhile (\<lambda>c. c \<noteq> CHR '':'') e in
     if length prov = length e then (''*'', js_trim e) else (prov, js_trim (drop (Suc (length prov)) e)))"

definition entry_blocks :: "(string \<Rightarrow> string) \<Rightarrow> string \<Rightarrow> string \<Rightarrow> string \<Rightarrow> string \<Rightarrow> bool" where
  "entry_blocks resolve provider pool model e = (case cut_entry e of (prov, pat) \<Rightarrow>
     \<not> (pat = [] \<or> prov \<noteq> ''*'' \<and> prov \<noteq> provider \<and> (pool = [] \<or> resolve prov \<noteq> pool)) \<and> js_includes pat (js_lower model))"

definition Blacklisted :: "(string \<Rightarrow> string) \<Rightarrow> AutoRouteConfig \<Rightarrow> string \<Rightarrow> string \<Rightarrow> string \<Rightarrow> bool" where
  "Blacklisted resolve c provider pool model = list_ex (entry_blocks resolve provider pool model) (slice (ac_blacklist c))"

section \<open>The card\<close>

record activity_st =
  ra_cfg :: jsv
  ra_decisions :: jsv
  ra_fetching :: bool
  ra_banning :: bool

definition activity_mount :: activity_st where
  "activity_mount = \<lparr>ra_cfg = JUndef, ra_decisions = JUndef, ra_fetching = True, ra_banning = False\<rparr>"

record Decision =
  de_time :: rat
  de_endpoint :: string
  de_tier :: string
  de_model :: string
  de_accountId :: string
  de_score :: rat
  de_explored :: bool
  de_pinned :: bool
  de_thinking :: bool
  de_email :: string
  de_provider :: string
  de_reason :: string

record Candidate =
  ca_accountId :: string
  ca_provider :: string
  ca_email :: string
  ca_model :: string
  ca_successes :: rat
  ca_failures :: rat
  ca_latency :: rat
  ca_reliability :: rat

definition decision_of :: "jsv \<Rightarrow> Decision" where
  "decision_of v = \<lparr>de_time = num_prop v ''time'', de_endpoint = text_prop v ''endpoint'', de_tier = text_prop v ''tier'',
     de_model = text_prop v ''model'', de_accountId = text_prop v ''accountId'', de_score = num_prop v ''score'',
     de_explored = truthy (get_prop v ''explored''), de_pinned = truthy (get_prop v ''pinned''),
     de_thinking = truthy (get_prop v ''thinking''), de_email = text_prop v ''email'', de_provider = text_prop v ''provider'',
     de_reason = text_prop v ''reason''\<rparr>"

definition candidate_of :: "jsv \<Rightarrow> Candidate" where
  "candidate_of v = \<lparr>ca_accountId = text_prop v ''accountId'', ca_provider = text_prop v ''provider'', ca_email = text_prop v ''email'',
     ca_model = text_prop v ''model'', ca_successes = num_prop v ''successes'', ca_failures = num_prop v ''failures'',
     ca_latency = num_prop v ''ewmaLatencyMs'', ca_reliability = num_prop v ''reliability''\<rparr>"

definition TIER_VARIANT :: "string \<Rightarrow> string" where
  "TIER_VARIANT t = (if t = ''fast'' then ''secondary'' else if t = ''strong'' then ''default'' else ''outline'')"

definition short_id :: "string \<Rightarrow> string" where
  "short_id i = (if length i > 10 then take 8 i @ ellipsis else i)"

definition shown_decisions :: "activity_st \<Rightarrow> Decision list" where
  "shown_decisions s = take 20 (map decision_of (elements (get_prop (ra_decisions s) ''decisions'')))"

definition shown_candidates :: "activity_st \<Rightarrow> Candidate list" where
  "shown_candidates s = map candidate_of (elements (get_prop (ra_decisions s) ''candidates''))"

definition cfg_blacklist :: "activity_st \<Rightarrow> string list" where
  "cfg_blacklist s = map js_string (elements (get_prop (ra_cfg s) ''blacklist''))"

text \<open>\<open>{ ...cur, blacklist: [...(cur.blacklist ?? []), entry] }\<close>.\<close>

definition with_entry :: "jsv \<Rightarrow> string \<Rightarrow> jsv" where
  "with_entry cur e = JObj (spread (case cur of JObj ps \<Rightarrow> ps | _ \<Rightarrow> [])
     [(''blacklist'', JArr (elements (get_prop cur ''blacklist'') @ [JStr e]))])"

definition ban :: "ui \<Rightarrow> string \<Rightarrow> activity_st act" where
  "ban E e = mutate (\<lambda>b x. x\<lparr>ra_banning := b\<rparr>)
     (get ''/auto-route'' (\<lambda>cur. get_field cur ''blacklist'' (\<lambda>_. post ''/auto-route'' (JsonBody (with_entry cur e)) (\<lambda>_.
        Emit (ToastOk (tr E ''modelStatus.blacklisted'' [e])) (Emit (Invalidate [''auto-route'']) (Emit (Invalidate [''model-health'']) Done))))))
     (\<lambda>x. Emit (ToastErr (errorMessage_or (tx E ''common.saveFailed'') x)) Done)"

definition activity_read :: "reply \<Rightarrow> activity_st \<Rightarrow> activity_st" where
  "activity_read p s = (case p of Resolved v \<Rightarrow> s\<lparr>ra_decisions := v, ra_fetching := False\<rparr> | Rejected e \<Rightarrow> s\<lparr>ra_fetching := False\<rparr>)"

definition activity_refetch :: "activity_st act" where
  "activity_refetch = Upd (\<lambda>s. s\<lparr>ra_fetching := True\<rparr>)
     (Await (Http ''GET'' ''/auto-route/decisions'' NoBody) (\<lambda>p. Upd (activity_read p) Done))"

definition head_row :: "string list \<Rightarrow> 'e view" where
  "head_row hs = El ''TableHeader'' [] [El ''TableRow'' [] (map (\<lambda>h. El ''TableHead'' [] [Txt h]) hs)]"

definition decision_row :: "ui \<Rightarrow> Decision \<Rightarrow> 'e view" where
  "decision_row E d = (let badge = (\<lambda>b v k. shown b (El ''Badge'' [aS ''variant'' v] [Txt (tx E k)])) in El ''TableRow'' [] [
     El ''TableCell'' [] [Txt (formatTime E \<lfloor>de_time d\<rfloor>)],
     El ''TableCell'' [] [Txt (de_endpoint d)],
     El ''TableCell'' [] [El ''Badge'' [aS ''variant'' (TIER_VARIANT (de_tier d))] [Txt (de_tier d)]],
     El ''TableCell'' [] [Txt (de_model d)],
     El ''TableCell'' [aS ''title'' (de_email d @ '' ('' @ de_accountId d @ '')'')] [
       shown (de_provider d \<noteq> []) (El ''Badge'' [aS ''variant'' ''outline''] [Txt (de_provider d)]),
       Txt (or_str (de_email d) (short_id (de_accountId d)))],
     El ''TableCell'' [] [Txt (to_fixed 3 (de_score d))],
     El ''TableCell'' [] [badge (de_explored d) ''secondary'' ''settings.autoRoute.explored'',
       badge (de_pinned d) ''outline'' ''settings.autoRoute.pinned'', badge (de_thinking d) ''default'' ''settings.autoRoute.thinking''],
     El ''TableCell'' [aS ''title'' (de_reason d)] [Txt (de_reason d)]])"

definition ban_entry :: "Candidate \<Rightarrow> string" where
  "ban_entry c = or_str (ca_provider c) ''*'' @ '':'' @ ca_model c"

definition candidate_row :: "ui \<Rightarrow> activity_st \<Rightarrow> Candidate \<Rightarrow> activity_st act view" where
  "candidate_row E s c = (let entry = ban_entry c; listed = list_ex (\<lambda>x. js_lower x = js_lower entry) (cfg_blacklist s) in El ''TableRow'' [] [
     El ''TableCell'' [] [El ''Badge'' [aS ''variant'' ''outline''] [Txt (or_str (ca_provider c) ''?'')]],
     El ''TableCell'' [] [Txt (ca_model c)],
     El ''TableCell'' [aS ''title'' (ca_email c @ '' ('' @ ca_accountId c @ '')'')] [Txt (or_str (ca_email c) (short_id (ca_accountId c)))],
     El ''TableCell'' [] [Txt (show_int (js_round (ca_reliability c * 100)) @ ''%'')],
     El ''TableCell'' [] [Txt (show_int (js_round (ca_latency c)) @ '' ms'')],
     El ''TableCell'' [] [Txt (show_int (js_round (ca_successes c)) @ '' / '' @ show_int (js_round (ca_failures c)))],
     El ''TableCell'' [] [El ''Button'' [aS ''variant'' ''ghost'', aB ''disabled'' (listed \<or> \<not> truthy (ra_cfg s) \<or> ra_banning s),
         aS ''title'' (tx E ''settings.autoRoute.blacklistThis''), on ''onClick'' (ban E entry)]
       [ic ''LuBan'', Txt ('' '' @ tx E (if listed then ''settings.autoRoute.blacklisted'' else ''settings.autoRoute.blacklistThis''))]]])"

definition RouterActivity :: "ui \<Rightarrow> activity_st \<Rightarrow> activity_st act view" where
  "RouterActivity E s = El ''Card'' [] [El ''CardContent'' [] [
     El ''div'' [] [El ''div'' [] [Txt (tx E ''settings.autoRoute.decisions'')],
       El ''Button'' [aS ''variant'' ''outline'', on ''onClick'' activity_refetch, aB ''disabled'' (ra_fetching s)]
         [ic ''LuRefreshCw'', Txt (tx E ''common.refresh'')]],
     (if shown_decisions s = [] then El ''p'' [] [Txt (tx E ''settings.autoRoute.noDecisions'')]
      else El ''div'' [] [El ''Table'' [] [
        head_row (map (\<lambda>k. tx E (''settings.autoRoute.col.'' @ k)) [''time'', ''endpoint'', ''tier'', ''model'', ''account'', ''score'', ''flags'', ''reason'']),
        El ''TableBody'' [] (map (decision_row E) (shown_decisions s))]]),
     El ''div'' [] [Txt (tx E ''settings.autoRoute.candidates'')],
     (if shown_candidates s = [] then El ''p'' [] [Txt (tx E ''settings.autoRoute.noCandidates'')]
      else El ''div'' [] [El ''Table'' [] [
        head_row (map (\<lambda>k. tx E (''settings.autoRoute.col.'' @ k)) [''provider'', ''model'', ''account'', ''reliability'', ''latency'', ''outcomes''] @ [[]]),
        El ''TableBody'' [] (map (candidate_row E s) (shown_candidates s))]])]]"

section \<open>The page of the models\<close>

text \<open>The page around it, \<open>model-status/index.tsx\<close>, given what its query has.\<close>

definition ModelStatusPage :: "ui \<Rightarrow> (rat \<Rightarrow> string) \<Rightarrow> bool \<Rightarrow> jerr option \<Rightarrow> jsv \<Rightarrow> activity_st \<Rightarrow> activity_st act view" where
  "ModelStatusPage E day loading err d s = (let routes = map health_route (elements (get_prop d ''routes''));
       days = map health_day (elements (get_prop d ''days'')); st = health_of (text_prop d ''status'') in
     El ''div'' [] [
       PageHeader E (tx E ''modelStatus.title'') (tx E ''modelStatus.description'') Nothing,
       (if loading then LoadingBlock E None 3
        else if err \<noteq> None \<or> \<not> truthy d
        then EmptyState (tx E ''common.failed'') (errorMessage (case err of Some e \<Rightarrow> e | None \<Rightarrow> NonErr)) Nothing
        else El ''div'' [] [
          El ''div'' [] [
            StatCard (tx E ''modelStatus.poolStatus'') (health_label E st) Nothing Nothing (TONE st),
            StatCard (tx E ''modelStatus.routes'') (formatNumber E (Some (of_nat (length routes)))) (Txt (tx E ''modelStatus.routesHint'')) Nothing ToneDefault,
            StatCard (tx E ''modelStatus.requests24h'') (formatNumber E (Some (sum_list (map hr_requests routes)))) Nothing Nothing ToneDefault,
            StatCard (tx E ''modelStatus.updated'') (formatTime E \<lfloor>num_prop d ''updated''\<rfloor>) (Txt (tx E ''modelStatus.refresh'')) Nothing ToneDefault],
          El ''Card'' [] [El ''CardContent'' [] [
            El ''div'' [] [span_text (tx E ''modelStatus.history''), span_text (tx E ''modelStatus.dailySamples'')],
            Strip (map (\<lambda>x. (hd_status x, day_tip E day x)) days),
            El ''div'' [] [span_text (case days of [] \<Rightarrow> [] | x # xs \<Rightarrow> day (hd_day x)), span_text (tx E ''modelStatus.today'')],
            health_legend E]],
          (if routes = [] then EmptyState (tx E ''modelStatus.empty'') (tx E ''modelStatus.emptyHint'') Nothing
           else El ''div'' [] (map (route_card E) routes)),
          El ''p'' [] [Txt (tx E ''modelStatus.legendHint'')],
          RouterActivity E s])])"

section \<open>What is stored is read back\<close>

lemma all_some_map: "(\<And>x. x \<in> set xs \<Longrightarrow> f (g x) = Some x) \<Longrightarrow> all_some (map f (map g xs)) = Some xs"
  by (induction xs) auto

lemma slice_of_json [simp]: "slice_of (slice_json s) = Some s"
proof (cases s)
  case (Some xs)
  have "all_some (map str_elem (map JStr xs)) = Some xs" by (rule all_some_map) simp
  with Some show ?thesis by (simp add: slice_json_def jstrs_def)
qed (simp add: slice_json_def)

lemma rule_of_json_rule [simp]: "rule_of_json (rule_json r) = Some r"
  by (simp add: rule_json_def str_field_def)

lemma rules_json [simp]: "all_some (map rule_of_json (map rule_json rs)) = Some rs"
  by (rule all_some_map) simp

definition int64 :: "int \<Rightarrow> bool" where
  "int64 n \<longleftrightarrow> - (2 ^ 63) \<le> n \<and> n < 2 ^ 63"

lemma int64_json: "int64 n \<Longrightarrow> int64_of_json (JNum (of_int n)) = Some n"
  by (simp add: int64_of_json_def int64_def)

text \<open>Adding a field to the encoded configuration, or leaving it, and decoding it.\<close>

lemma elements_slice: "elements (slice_json s) = map JStr (slice s)"
  by (simp add: elements_def slice_json_def slice_def jstrs_def split: option.split)

lemma get_with_entry:
  "get_prop (with_entry (config_json c) e) k =
     (if k = ''blacklist'' then JArr (map JStr (slice (ac_blacklist c) @ [e])) else get_prop (config_json c) k)"
  by (auto simp: with_entry_def config_json_def map_of_spread map_add_def elements_slice)

lemma config_fields [simp]:
  "get_prop (config_json c) ''enabled'' = JBool (ac_enabled c)" "get_prop (config_json c) ''qualityWeight'' = JNum (ac_quality c)"
  "get_prop (config_json c) ''costWeight'' = JNum (ac_cost c)" "get_prop (config_json c) ''speedWeight'' = JNum (ac_speed c)"
  "get_prop (config_json c) ''explore'' = JNum (ac_explore c)" "get_prop (config_json c) ''fast'' = slice_json (ac_fast c)"
  "get_prop (config_json c) ''balanced'' = slice_json (ac_balanced c)" "get_prop (config_json c) ''strong'' = slice_json (ac_strong c)"
  "get_prop (config_json c) ''blacklist'' = slice_json (ac_blacklist c)"
  "get_prop (config_json c) ''keywordRules'' = (if ac_rules c = [] then JUndef else JArr (map rule_json (ac_rules c)))"
  "get_prop (config_json c) ''autoThinking'' = JBool (ac_thinking c)" "get_prop (config_json c) ''aliases'' = slice_json (ac_aliases c)"
  "get_prop (config_json c) ''slowTtftMs'' = JNum (of_int (ac_slowTtft c))" "get_prop (config_json c) ''slowMinTps'' = JNum (ac_slowTps c)"
  by (auto simp: config_json_def)

lemma rules_config [simp]: "rules_of_json (get_prop (config_json c) ''keywordRules'') = Some (ac_rules c)"
  using rules_json [of "ac_rules c"] by (simp del: map_map)

lemma slice_of_texts [simp]: "slice_of (JArr (map JStr xs)) = Some (Some xs)"
  using slice_of_json [of "Some xs"] by (simp add: slice_json_def jstrs_def)

lemma decode_with_entry:
  assumes "int64 (ac_slowTtft c)"
  shows "decode_config (with_entry (config_json c) e) = Some (c\<lparr>ac_blacklist := Some (slice (ac_blacklist c) @ [e])\<rparr>)"
  using rules_config [of c] slice_of_texts [of "slice (ac_blacklist c) @ [e]"] int64_json [OF assms]
  by (simp add: decode_config_def get_with_entry bool_field_def del: map_append config_fields(10))

section \<open>Banning a model\<close>

text \<open>A configuration the endpoint keeps as it is.\<close>

definition config_kept :: "AutoRouteConfig \<Rightarrow> bool" where
  "config_kept c \<longleftrightarrow> clamp_config c = c \<and> int64 (ac_slowTtft c) \<and>
     (slice (ac_fast c) \<noteq> [] \<or> slice (ac_balanced c) \<noteq> [] \<or> slice (ac_strong c) \<noteq> [])"

lemma update_with_entry:
  assumes "config_kept c"
  shows "apiUpdateAutoRoute (with_entry (config_json c) e) c' = (None, c\<lparr>ac_blacklist := Some (slice (ac_blacklist c) @ [e])\<rparr>)"
proof -
  have c: "int64 (ac_slowTtft c)" "clamp_config c = c" using assms by (simp_all add: config_kept_def)
  have "clamp_config (c\<lparr>ac_blacklist := b\<rparr>) = (clamp_config c)\<lparr>ac_blacklist := b\<rparr>" for b by (simp add: clamp_config_def)
  with c assms decode_with_entry [OF c(1), of e] show ?thesis
    by (auto simp: apiUpdateAutoRoute_def with_entry_def config_kept_def)
qed

lemma is_ws_code: "is_ws c \<longleftrightarrow> (of_char c :: nat) = 32 \<or> 9 \<le> (of_char c :: nat) \<and> (of_char c :: nat) \<le> 13"
proof -
  have "c = CHR 0x20 \<longleftrightarrow> (of_char c :: nat) = 32" by (auto simp: of_char_eq_iff [symmetric, where ?'a = nat])
  then show ?thesis by (simp add: is_ws_def)
qed

lemma lower_char_ws [simp]: "is_ws (lower_char c) = is_ws c"
proof (cases "65 \<le> (of_char c :: nat) \<and> (of_char c :: nat) \<le> 90")
  case True
  then have "(of_char (lower_char c) :: nat) = of_char c + 32" by (simp add: lower_char_def)
  with True show ?thesis by (simp add: is_ws_code)
qed (auto simp: lower_char_def)

lemma takeWhile_colon: "CHR '':'' \<notin> set p \<Longrightarrow> takeWhile (\<lambda>c. c \<noteq> CHR '':'') (p @ CHR '':'' # m) = p"
  by (induction p) auto

text \<open>A provider and a model as the router names them: no white space, the provider in lower case and
  without a colon.\<close>

definition plain_names :: "Candidate \<Rightarrow> bool" where
  "plain_names x \<longleftrightarrow> (\<forall>c\<in>set (ca_provider x @ ca_model x). \<not> is_ws c) \<and> CHR '':'' \<notin> set (ca_provider x) \<and>
     js_lower (ca_provider x) = ca_provider x \<and> ca_provider x \<noteq> ''*'' \<and> ca_model x \<noteq> []"

lemma cut_ban_entry:
  assumes "plain_names x"
  shows "cut_entry (ban_entry x) = (or_str (ca_provider x) ''*'', js_lower (ca_model x))"
proof -
  let ?p = "or_str (ca_provider x) ''*''"
  have p: "js_lower ?p = ?p" "CHR '':'' \<notin> set ?p" "\<forall>c\<in>set ?p. \<not> is_ws c"
    using assms by (auto simp: plain_names_def or_str_def js_lower_def lower_char_def is_ws_def)
  have "\<forall>c\<in>set (ban_entry x). \<not> is_ws c" using assms p(3) by (auto simp: plain_names_def ban_entry_def is_ws_def)
  then have "js_trim (ban_entry x) = ban_entry x" by (rule trim_no_ws)
  moreover have "js_lower (ban_entry x) = ?p @ CHR '':'' # js_lower (ca_model x)"
    using p(1) by (simp add: ban_entry_def js_lower_def lower_char_def)
  moreover have "js_trim (js_lower (ca_model x)) = js_lower (ca_model x)"
    using assms by (intro trim_no_ws) (auto simp: plain_names_def js_lower_def)
  ultimately show ?thesis using takeWhile_colon [OF p(2)] by (simp add: cut_entry_def Let_def)
qed

lemma exec_ban:
  assumes "config_kept c"
  shows "exec (ban E e) route_server s c = (None, s\<lparr>ra_banning := False\<rparr>,
    [ToastOk (tr E ''modelStatus.blacklisted'' [e]), Invalidate [''auto-route''], Invalidate [''model-health'']],
    c\<lparr>ac_blacklist := Some (slice (ac_blacklist c) @ [e])\<rparr>)"
  using update_with_entry [OF assms, of e c]
  by (simp add: ban_def mutate_def settle_def act_defs exec_andThen exec_catch route_server_def config_json_def)

text \<open>C14: banning a model from the list of candidates does what it says and more: with nothing else going
  on, the gateway's configuration gains exactly the one entry and keeps everything else, and the
  console says so; from then on the router skips what it skipped before, and on that provider (or the
  pool its name stands for) every model whose name contains the banned one's, whatever the case: a
  longer name of another model included.\<close>

theorem ban_blocks_model:
  assumes "config_kept c" "plain_names x"
  shows "\<exists>c'. exec (ban E (ban_entry x)) route_server s c = (None, s\<lparr>ra_banning := False\<rparr>,
      [ToastOk (tr E ''modelStatus.blacklisted'' [ban_entry x]), Invalidate [''auto-route''], Invalidate [''model-health'']], c') \<and>
    c' = c\<lparr>ac_blacklist := Some (slice (ac_blacklist c) @ [ban_entry x])\<rparr> \<and>
    (Blacklisted resolve c' provider pool model \<longleftrightarrow> Blacklisted resolve c provider pool model \<or>
       (ca_provider x = [] \<or> provider = ca_provider x \<or> pool \<noteq> [] \<and> resolve (ca_provider x) = pool) \<and>
       js_includes (js_lower (ca_model x)) (js_lower model))"
proof -
  have "js_lower (ca_model x) \<noteq> []" using assms(2) by (simp add: plain_names_def js_lower_def)
  then have "entry_blocks resolve provider pool model (ban_entry x) \<longleftrightarrow>
      (ca_provider x = [] \<or> provider = ca_provider x \<or> pool \<noteq> [] \<and> resolve (ca_provider x) = pool) \<and>
      js_includes (js_lower (ca_model x)) (js_lower model)"
    using assms(2) by (auto simp: entry_blocks_def cut_ban_entry or_str_def plain_names_def)
  then show ?thesis using exec_ban [OF assms(1)] by (auto simp: Blacklisted_def slice_def)
qed

definition sample_config :: AutoRouteConfig where
  "sample_config = \<lparr>ac_enabled = True, ac_quality = 1 / 2, ac_cost = 3 / 10, ac_speed = 1 / 2, ac_explore = 1 / 10,
     ac_fast = Some [''haiku''], ac_balanced = Some [''sonnet''], ac_strong = Some [''opus''], ac_blacklist = None, ac_rules = [],
     ac_thinking = True, ac_aliases = Some [''hekato-auto''], ac_slowTtft = 20000, ac_slowTps = 3\<rparr>"

definition sample_candidate :: Candidate where
  "sample_candidate = \<lparr>ca_accountId = ''a1'', ca_provider = ''codex'', ca_email = [], ca_model = ''gpt-5'', ca_successes = 1,
     ca_failures = 9, ca_latency = 900, ca_reliability = 1 / 10\<rparr>"

lemma sample_kept: "config_kept sample_config"
  by (simp add: config_kept_def sample_config_def clamp_config_def unit_clamp_def int64_def slice_def)

theorem ban_blocks_model_witness:
  "\<exists>c'. exec (ban sample_ui (ban_entry sample_candidate)) route_server activity_mount sample_config =
      (None, activity_mount, [ToastOk ''modelStatus.blacklisted codex:gpt-5'', Invalidate [''auto-route''], Invalidate [''model-health'']], c') \<and>
    Blacklisted (\<lambda>p. p) c' ''codex'' [] ''GPT-5-Codex''"
proof -
  have x: "plain_names sample_candidate" by code_simp
  have e: "ban_entry sample_candidate = ''codex:gpt-5''" "js_includes (js_lower (ca_model sample_candidate)) (js_lower ''GPT-5-Codex'')"
    "ca_provider sample_candidate = ''codex''" by code_simp+
  from ban_blocks_model [OF sample_kept x, of sample_ui activity_mount "\<lambda>p. p" "''codex''" "[]" "''GPT-5-Codex''"] e
  show ?thesis by (auto simp: sample_ui_def activity_mount_def)
qed

text \<open>C15: the ban writes back the configuration it has read a moment before: whatever was saved in between
  is undone without a word. The request it sends does not depend on it, and what the gateway has
  afterwards is the configuration as read with the entry.\<close>

theorem ban_undoes_edit:
  assumes "config_kept c"
  shows "\<exists>k k' body. sync (ban E e) s = (s\<lparr>ra_banning := True\<rparr>, [], [Req (Http ''GET'' ''/auto-route'' NoBody) k]) \<and>
    (\<forall>z. sync (k (Resolved (config_json c))) z = (z, [], [Req (Http ''POST'' ''/auto-route'' (JsonBody body)) k'])) \<and>
    (\<forall>edited. apiUpdateAutoRoute body edited = (None, c\<lparr>ac_blacklist := Some (slice (ac_blacklist c) @ [e])\<rparr>)) \<and>
    (\<forall>v z. sync (k' (Resolved v)) z = (z\<lparr>ra_banning := False\<rparr>,
       [ToastOk (tr E ''modelStatus.blacklisted'' [e]), Invalidate [''auto-route''], Invalidate [''model-health'']], []))"
  using update_with_entry [OF assms, of e]
  by (auto simp: ban_def mutate_def settle_def act_nf get_field_def config_json_def)

theorem ban_undoes_edit_witness:
  "\<exists>k k' body. sync (ban sample_ui ''codex:gpt-5'') activity_mount =
      (activity_mount\<lparr>ra_banning := True\<rparr>, [], [Req (Http ''GET'' ''/auto-route'' NoBody) k]) \<and>
    sync (k (Resolved (config_json sample_config))) activity_mount =
      (activity_mount, [], [Req (Http ''POST'' ''/auto-route'' (JsonBody body)) k']) \<and>
    snd (apiUpdateAutoRoute body (sample_config\<lparr>ac_enabled := False\<rparr>)) = sample_config\<lparr>ac_blacklist := Some [''codex:gpt-5'']\<rparr>"
proof -
  have "slice (ac_blacklist sample_config) = []" by (simp add: sample_config_def slice_def)
  with ban_undoes_edit [OF sample_kept, of sample_ui "''codex:gpt-5''" activity_mount] show ?thesis
    by (metis append_Nil snd_conv)
qed

text \<open>The button is locked while a ban is under way, so the bans of one page never undo each other.\<close>

lemma guarded_ban: "guarded ra_banning False (ban E e)"
  by (simp add: ban_def mutate_def settle_def act_nf get_field_def)

definition activity_env :: "activity_st \<Rightarrow> activity_st \<Rightarrow> bool" where
  "activity_env s s' \<longleftrightarrow> (\<exists>v. s' = s\<lparr>ra_cfg := v\<rparr>) \<or> (\<exists>v. s' = s\<lparr>ra_decisions := v\<rparr>)"

lemma read_keeps_mark [simp]: "ra_banning (activity_read p s) = ra_banning s"
  by (simp add: activity_read_def split: reply.split)

interpretation activity: exclusive_page "RouterActivity E" activity_env activity_mount ra_banning "\<lambda>_. True"
proof
  fix s
  show "list_all (handler_ok ra_banning (\<lambda>_. True) (ra_banning s)) (live (RouterActivity E s))"
    using guarded_ban
    by (auto simp: RouterActivity_def head_row_def decision_row_def candidate_row_def list_all_concat_map act_ok_def
        activity_refetch_def Let_def)
qed (auto simp: activity_env_def activity_mount_def)

lemma one_ban_at_a_time:
  assumes "mreach (RouterActivity E) activity_env activity_mount m"
  shows "length (filter pending_mutation (inflight m)) \<le> 1"
  using activity.at_most_one [OF assms] by (auto split: if_splits)

end
