(* ===== verification/Overview_Cards.thy ===== *)
theory Overview_Cards
  imports Router_Activity
begin

text \<open>
  The cards of the overview: stacked bars (\<open>dashboard/src/pages/overview/bits.tsx\<close>), the account warm-up
  (\<open>warmup.tsx\<close>), the automatic choice of models (\<open>auto-route.tsx\<close>) and the charts (\<open>charts.tsx\<close>).

  The chart library is not modelled: a chart is an element with its series and, as its children, the
  rows it gets. Grids, ticks, fills and tooltips are styling. How a time is written in the user's
  locale is a parameter.
\<close>

section \<open>bits.tsx\<close>

definition RANGES :: "string list" where
  "RANGES = [''1h'', ''6h'', ''24h'', ''7d'']"

record Point =
  pt_t :: rat
  pt_requests :: rat
  pt_errors :: rat
  pt_tokens :: rat
  pt_credits :: rat
  pt_p50 :: rat
  pt_p95 :: rat
  pt_cacheRead :: rat
  pt_cacheWrite :: rat

definition point_of :: "jsv \<Rightarrow> Point" where
  "point_of v = \<lparr>pt_t = num_prop v ''t'', pt_requests = num_prop v ''requests'', pt_errors = num_prop v ''errors'',
     pt_tokens = num_prop v ''tokens'', pt_credits = num_prop v ''credits'', pt_p50 = num_prop v ''p50Ms'',
     pt_p95 = num_prop v ''p95Ms'', pt_cacheRead = num_prop v ''cacheReadTokens'', pt_cacheWrite = num_prop v ''cacheWriteTokens''\<rparr>"

record Bucket =
  bk_key :: string
  bk_requests :: rat
  bk_errors :: rat

definition bucket_of :: "jsv \<Rightarrow> Bucket" where
  "bucket_of v = \<lparr>bk_key = text_prop v ''key'', bk_requests = num_prop v ''requests'', bk_errors = num_prop v ''errors''\<rparr>"

definition short_name :: "string \<Rightarrow> string" where
  "short_name s = (if length s > 14 then take 6 s @ ellipsis @ last_n 4 s else s)"

definition bar_total :: "(string \<times> rat) list \<Rightarrow> rat" where
  "bar_total segments = (let n = sum_list (map snd segments) in if n = 0 then 1 else n)"

text \<open>The widths of the segments that are drawn, in percent.\<close>

definition bar_widths :: "(string \<times> rat) list \<Rightarrow> rat list" where
  "bar_widths segments = map (\<lambda>(c, v). v / bar_total segments * 100) (filter (\<lambda>(c, v). v > 0) segments)"

definition StackedBar :: "(string \<times> rat) list \<Rightarrow> 'e view" where
  "StackedBar segments = El ''div'' [] (map (\<lambda>((c, v), width). El ''div''
     [aS (if starts_with ''#'' c \<or> starts_with ''var('' c then ''background'' else ''className'') c, aS ''width'' (show_rat width @ ''%'')] [])
     (zip (filter (\<lambda>(c, v). v > 0) segments) (bar_widths segments)))"

section \<open>warmup.tsx\<close>

record warmup_st =
  wu_data :: jsv
  wu_pending :: bool

definition warmup_now :: "ui \<Rightarrow> 'a warmup_st_scheme act" where
  "warmup_now E = Upd (\<lambda>s. s\<lparr>wu_pending := True\<rparr>) (finally_do
     (catch (post ''/warmup'' (JsonBody (obj [])) (\<lambda>r. get_field r ''results'' (\<lambda>rs.
          Emit (ToastOk (tr E ''overview.warmup.done'' (warmupCounts (warmup_results rs)))) Done)))
        (\<lambda>e. Emit (ToastErr (errorMessage e)) Done))
     (Emit (Invalidate [''warmup-status'']) (Emit (Invalidate [''accounts'']) (Upd (\<lambda>s. s\<lparr>wu_pending := False\<rparr>) Done))))"

definition warmup_running :: "'a warmup_st_scheme \<Rightarrow> bool" where
  "warmup_running s \<longleftrightarrow> truthy (get_prop (wu_data s) ''running'') \<or> wu_pending s"

definition number_text :: "jsv \<Rightarrow> string \<Rightarrow> string" where
  "number_text v k = js_string (coalesce (get_prop v k) (JNum 0))"

definition warmup_cells :: "ui \<Rightarrow> jsv \<Rightarrow> (string \<times> string) list" where
  "warmup_cells E d = (let sum = get_prop d ''summary'' in [
     (tx E ''overview.warmup.lastRun'', if truthy (get_prop d ''lastRun'')
       then ago E \<lfloor>num_prop d ''lastRun''\<rfloor> @ '' '' @ mid_dot @ '' '' @
         tr E ''overview.warmup.took'' [to_fixed 1 (num_prop d ''lastTookMs'' / 1000) @ ''s'']
       else tx E ''overview.warmup.never''),
     (tx E ''overview.warmup.nextRun'', if truthy (get_prop d ''nextRun'') then formatTime E \<lfloor>num_prop d ''nextRun''\<rfloor> else em_dash),
     (tx E ''overview.warmup.summary'', if truthy sum
       then tr E ''overview.warmup.summaryValue'' (map (number_text sum) [''OK'', ''Errors'', ''Recovered'']) else em_dash)])"

definition WarmupCard :: "ui \<Rightarrow> 'a warmup_st_scheme \<Rightarrow> 'a warmup_st_scheme act view" where
  "WarmupCard E s = (let running = warmup_running s in El ''Card'' [] [
     El ''CardHeader'' [] [
       El ''div'' [] [
         El ''CardTitle'' [] [Txt (tx E ''overview.warmup.title''),
           StatusDot (if running then ToneWarning else ToneSuccess) (tx E (if running then ''overview.warmup.running'' else ''overview.warmup.idle''))],
         El ''CardDescription'' [] [Txt (tr E ''overview.warmup.hint'' [js_string (coalesce (get_prop (wu_data s) ''intervalMinutes'') (JStr em_dash))])]],
       El ''Button'' [aS ''variant'' ''outline'', on ''onClick'' (warmup_now E), aB ''disabled'' running]
         [if running then spinner else ic ''LuFlame'', Txt (tx E ''overview.warmup.runNow'')]],
     El ''CardContent'' [] (map (\<lambda>(l, v). El ''div'' [] [El ''div'' [] [Txt l], El ''div'' [] [Txt v]]) (warmup_cells E (wu_data s)))])"

section \<open>auto-route.tsx\<close>

record RouteDecision = Decision +
  de_signals :: jsv
  de_wantedTier :: string

record RouteCandidate = Candidate +
  ca_lastUpdated :: rat
  ca_quarantinedUntil :: rat
  ca_quarantineReason :: string
  ca_slowUntil :: rat
  ca_slowReason :: string

record TierHealth =
  ti_tier :: string
  ti_candidates :: rat
  ti_wanted :: rat
  ti_served :: rat
  ti_starved :: rat
  ti_deadPatterns :: "string list"

definition route_decision :: "jsv \<Rightarrow> RouteDecision" where
  "route_decision v = Decision.extend (decision_of v) (RouteDecision.fields (get_prop v ''signals'') (text_prop v ''wantedTier''))"

definition route_candidate :: "jsv \<Rightarrow> RouteCandidate" where
  "route_candidate v = Candidate.extend (candidate_of v) (RouteCandidate.fields (num_prop v ''lastUpdated'')
     (num_prop v ''quarantinedUntil'') (text_prop v ''quarantineReason'') (num_prop v ''slowUntil'') (text_prop v ''slowReason''))"

definition tier_health :: "jsv \<Rightarrow> TierHealth" where
  "tier_health v = \<lparr>ti_tier = text_prop v ''tier'', ti_candidates = num_prop v ''candidates'', ti_wanted = num_prop v ''wanted'',
     ti_served = num_prop v ''served'', ti_starved = num_prop v ''starved'',
     ti_deadPatterns = map js_string (elements (get_prop v ''deadPatterns''))\<rparr>"

definition who :: "string \<Rightarrow> string \<Rightarrow> string" where
  "who email i = or_str email (short_name i)"

definition starved_tiers :: "TierHealth list \<Rightarrow> TierHealth list" where
  "starved_tiers hs = filter (\<lambda>h. ti_starved h > 0 \<or> ti_wanted h > 0 \<and> ti_candidates h \<le> 1) hs"

definition dead_tiers :: "TierHealth list \<Rightarrow> TierHealth list" where
  "dead_tiers hs = filter (\<lambda>h. ti_deadPatterns h \<noteq> []) hs"

definition reliability_pct :: "rat \<Rightarrow> string" where
  "reliability_pct r = to_fixed 0 (if r \<le> 1 then r * 100 else r) @ ''%''"

definition hint_box :: "'e view list \<Rightarrow> string \<Rightarrow> 'e view list \<Rightarrow> 'e view" where
  "hint_box trigger variant content = El ''Tooltip'' [] [
     El ''TooltipTrigger'' [aS ''variant'' variant] trigger, El ''TooltipContent'' [] content]"

definition route_alerts :: "ui \<Rightarrow> TierHealth list \<Rightarrow> 'e view" where
  "route_alerts E hs = shown (starved_tiers hs \<noteq> [] \<or> dead_tiers hs \<noteq> []) (El ''div'' [] (
     map (\<lambda>h. El ''div'' [] [Txt (tr E ''overview.tierStarved'' (ti_tier h # map show_rat [ti_starved h, ti_wanted h, ti_candidates h]))]) (starved_tiers hs) @
     map (\<lambda>h. El ''div'' [] [El ''span'' [] [Txt (ti_tier h)],
       Txt ('' '' @ mid_dot @ '' '' @ tr E ''overview.deadPatterns'' [js_join '', '' (ti_deadPatterns h)])]) (dead_tiers hs)))"

definition tier_badge :: "ui \<Rightarrow> TierHealth \<Rightarrow> 'e view" where
  "tier_badge E h = hint_box [Txt (ti_tier h @ '' '' @ show_rat (ti_candidates h))]
     (if ti_candidates h = 0 then ''destructive'' else ''outline'')
     [Txt (tr E ''overview.tierHealthHint'' (map show_rat [ti_candidates h, ti_wanted h, ti_served h, ti_starved h]))]"

definition signals_text :: "RouteDecision \<Rightarrow> string" where
  "signals_text d = (let g = \<lambda>k. number_text (de_signals d) k in
     de_endpoint d @ '' '' @ mid_dot @ '' in='' @ g ''inputTokens'' @ '' tools='' @ g ''tools'' @ '' turns='' @ g ''turns'' @
     '' img='' @ g ''images'' @ '' '' @ (if truthy (get_prop (de_signals d) ''thinking'') then mid_dot @ '' thinking'' else []))"

definition decision_item :: "ui \<Rightarrow> (rat \<Rightarrow> string) \<Rightarrow> RouteDecision \<Rightarrow> 'e view" where
  "decision_item E clock_text d = (let mark = (\<lambda>b t. shown b (El ''Badge'' [aS ''variant'' ''outline''] [Txt t])) in El ''li'' [] [
     El ''span'' [] [Txt (clock_text (de_time d))],
     El ''Badge'' [aS ''variant'' ''secondary''] [Txt (de_tier d)],
     hint_box [Txt (de_model d @ '' ''), El ''span'' [] [Txt (mid_dot @ '' '' @
         (if de_provider d \<noteq> [] then de_provider d @ '' / '' else []) @ who (de_email d) (de_accountId d))]] []
       [El ''div'' [] [Txt (or_str (de_reason d) em_dash)], El ''div'' [] [Txt (signals_text d)]],
     El ''span'' [] [Txt (to_fixed 2 (de_score d))],
     mark (de_wantedTier d \<noteq> []) (tr E ''overview.wantedTier'' [de_wantedTier d]),
     mark (de_pinned d) (tx E ''overview.pinned''), mark (de_explored d) (tx E ''overview.explored''),
     mark (de_thinking d) (tx E ''overview.thinking'')])"

definition until_badge :: "ui \<Rightarrow> rat \<Rightarrow> string \<Rightarrow> string \<Rightarrow> string \<Rightarrow> string \<Rightarrow> 'e view" where
  "until_badge E until variant label hint reason = shown (until \<noteq> 0) (hint_box [Txt (tx E label)] variant
     [Txt (tr E hint [formatTime E \<lfloor>until\<rfloor>]), shown (reason \<noteq> []) (El ''div'' [] [Txt reason])])"

definition reliability_row :: "ui \<Rightarrow> RouteCandidate \<Rightarrow> 'e view" where
  "reliability_row E c = El ''TableRow'' [] [
     El ''TableCell'' [] [if ca_provider c \<noteq> [] then El ''Badge'' [aS ''variant'' ''outline''] [Txt (ca_provider c)] else Txt em_dash],
     El ''TableCell'' [] [Txt (ca_model c),
       until_badge E (ca_quarantinedUntil c) ''destructive'' ''overview.quarantined'' ''overview.quarantinedUntil'' (ca_quarantineReason c),
       until_badge E (ca_slowUntil c) ''secondary'' ''overview.slow'' ''overview.slowUntil'' (ca_slowReason c)],
     El ''TableCell'' [aS ''title'' (ca_email c @ '' '' @ ca_accountId c @ '' '' @ mid_dot @ '' '' @ formatTime E \<lfloor>ca_lastUpdated c\<rfloor>)]
       [Txt (who (ca_email c) (ca_accountId c))],
     El ''TableCell'' [] [Txt (reliability_pct (ca_reliability c))],
     El ''TableCell'' [] [Txt (show_int (js_round (ca_latency c)) @ ''ms'')],
     El ''TableCell'' [] [Txt (show_rat (ca_successes c) @ ''/'' @ show_rat (ca_failures c))]]"

definition ranked_candidates :: "jsv \<Rightarrow> RouteCandidate list" where
  "ranked_candidates d = js_sort (by_number ca_reliability) (map route_candidate (elements (get_prop d ''candidates'')))"

definition AutoRouteCard :: "ui \<Rightarrow> (rat \<Rightarrow> string) \<Rightarrow> jsv \<Rightarrow> bool \<Rightarrow> jsv \<Rightarrow> 'e view" where
  "AutoRouteCard E clock_text config pending d =
    (if \<not> truthy (get_prop config ''enabled'')
     then El ''p'' [] [Txt (tx E ''overview.autoRouteOff'' @ '' ''),
       El ''Link'' [aS ''to'' ''/settings''] [Txt (tx E ''overview.autoRouteSettings'' @ '' ''), ic ''LuArrowRight'']]
     else (let hs = map tier_health (elements (get_prop d ''tierHealth''));
       decisions = take 10 (map route_decision (elements (get_prop d ''decisions''))) in
       El ''Card'' [] [
         El ''CardHeader'' [] [El ''CardTitle'' [] [Txt (tx E ''overview.autoRoute'')], El ''CardDescription'' [] [Txt (tx E ''overview.autoRouteHint'')]],
         route_alerts E hs,
         El ''CardContent'' [] (if pending then [LoadingBlock E None 3] else [
           El ''div'' [] [
             El ''div'' [] (El ''div'' [] [Txt (tx E ''overview.tiers'')] # map (tier_badge E) hs),
             El ''div'' [] [Txt (tx E ''overview.decisions'')],
             (if decisions = [] then EmptyState (tx E ''overview.noDecisions'') [] Nothing
              else El ''ul'' [] (map (decision_item E clock_text) decisions))],
           El ''div'' [] [
             El ''div'' [] [Txt (tx E ''overview.candidates'')],
             (if ranked_candidates d = [] then EmptyState (tx E ''overview.noCandidates'') [] Nothing
              else El ''Table'' [] [
                head_row (map (tx E) [''overview.provider'', ''logs.model'', ''logs.account'', ''overview.reliability'', ''overview.ewma'', ''overview.okFail'']),
                El ''TableBody'' [] (map (reliability_row E) (ranked_candidates d))])]])]))"

section \<open>charts.tsx\<close>

definition slots :: "string list" where
  "slots = [''var(--chart-1)'', ''var(--chart-2)'', ''var(--chart-3)'']"

definition error_colour :: string where
  "error_colour = ''var(--destructive)''"

definition ChartCard :: "ui \<Rightarrow> string \<Rightarrow> string \<Rightarrow> bool \<Rightarrow> bool \<Rightarrow> 'e view \<Rightarrow> 'e view" where
  "ChartCard E title description quiet loading child = El ''Card'' [] [
     El ''CardHeader'' [] [El ''CardTitle'' [] [Txt title], El ''CardDescription'' [] [Txt description]],
     El ''CardContent'' [] [if loading then El ''div'' [] []
       else if quiet then EmptyState (tx E ''overview.noTraffic'') [] Nothing else El ''div'' [] [child]]]"

definition top_share :: "Bucket list \<Rightarrow> Bucket \<Rightarrow> rat" where
  "top_share rows r = bk_requests r / foldr max (map bk_requests rows) 1 * 100"

definition err_count :: "ui \<Rightarrow> rat \<Rightarrow> 'e view" where
  "err_count E n = shown (n > 0) (El ''span'' [aS ''color'' error_colour] [Txt (tr E ''overview.errCount'' [formatNumber E (Some n)])])"

definition row_segments :: "string \<Rightarrow> Bucket \<Rightarrow> (string \<times> rat) list" where
  "row_segments colour r = [(colour, bk_requests r - bk_errors r), (error_colour, bk_errors r)]"

definition TopList :: "ui \<Rightarrow> Bucket list \<Rightarrow> string \<Rightarrow> (string \<Rightarrow> string) \<Rightarrow> 'e view" where
  "TopList E rows colour label = El ''div'' [] (map (\<lambda>r. El ''div'' [] [
     El ''div'' [] [El ''span'' [aS ''title'' (bk_key r)] [Txt (label (bk_key r))],
       El ''span'' [] [Txt (formatNumber E (Some (bk_requests r))), err_count E (bk_errors r)]],
     El ''div'' [aS ''width'' (show_rat (top_share rows r) @ ''%'')] [StackedBar (row_segments colour r)]]) rows)"

definition top_buckets :: "jsv \<Rightarrow> Bucket list" where
  "top_buckets v = take 6 (js_sort (by_number bk_requests) (map bucket_of (elements v)))"

text \<open>A chart: its series (name, colour, what it draws), the formatter of its numbers, and one child per row.\<close>

definition chart_row :: "(Point \<Rightarrow> string) \<Rightarrow> (Point \<Rightarrow> rat) list \<Rightarrow> (rat \<Rightarrow> string) \<Rightarrow> Point \<Rightarrow> 'e view" where
  "chart_row label values fmt p = El ''row'' [] (Txt (label p) # map (\<lambda>f. El ''value'' [aN ''value'' (f p)] [Txt (fmt (f p))]) values)"

definition chart :: "string \<Rightarrow> (string \<times> string \<times> (Point \<Rightarrow> rat)) list \<Rightarrow> (rat \<Rightarrow> string) \<Rightarrow> (Point \<Rightarrow> string) \<Rightarrow> Point list \<Rightarrow> 'e view" where
  "chart kind series fmt label ps = El ''ResponsiveContainer'' [] [El kind [] (
     map (\<lambda>(name, colour, f). El ''series'' [aS ''name'' name, aS ''color'' colour] []) series @
     map (chart_row label (map (\<lambda>(name, colour, f). f) series) fmt) ps)]"

definition endpoint_share :: "jsv \<Rightarrow> Bucket \<Rightarrow> rat" where
  "endpoint_share d e = bk_requests e / max 1 (num_prop (get_prop d ''totals'') ''requests'') * 100"

definition endpoint_colour :: "nat \<Rightarrow> string" where
  "endpoint_colour i = slots ! (i mod length slots)"

definition top_card :: "ui \<Rightarrow> string \<Rightarrow> string \<Rightarrow> bool \<Rightarrow> bool \<Rightarrow> 'e view list \<Rightarrow> 'e view" where
  "top_card E title hint loading quiet content = El ''Card'' [] [
     El ''CardHeader'' [] [El ''CardTitle'' [] [Txt (tx E title)], El ''CardDescription'' [] [Txt (tx E hint)]],
     El ''CardContent'' [] (if loading then [LoadingBlock E None 3]
       else if quiet then [EmptyState (tx E ''overview.noTraffic'') [] Nothing] else content)]"

text \<open>\<open>local_time long t\<close> is a Unix time in the user's locale, with the day when \<open>long\<close>.\<close>

definition MetricsCharts :: "ui \<Rightarrow> (bool \<Rightarrow> rat \<Rightarrow> string) \<Rightarrow> jsv \<Rightarrow> string \<Rightarrow> bool \<Rightarrow> (string \<Rightarrow> string option) \<Rightarrow> 'e view" where
  "MetricsCharts E local_time d window loading accountNames =
    (let quiet = (\<not> loading \<and> num_prop (get_prop d ''totals'') ''requests'' = 0);
         label = (\<lambda>p. local_time (window = ''24h'' \<or> window = ''7d'') (pt_t p));
         series = map point_of (elements (get_prop d ''series''));
         num = (\<lambda>v. formatNumber E (Some v)); ms = (\<lambda>v. formatMs (Some v));
         endpoints = top_buckets (get_prop d ''byEndpoint'') in
     frag [
       El ''div'' [] [
         ChartCard E (tx E ''overview.throughput'') (tx E ''overview.throughputHint'') quiet loading
           (chart ''BarChart'' [(tx E ''overview.seriesOk'', slots ! 0, \<lambda>p. pt_requests p - pt_errors p),
              (tx E ''overview.seriesErrors'', error_colour, pt_errors)] num label series),
         ChartCard E (tx E ''overview.latency'') (tx E ''overview.latencyHint'') quiet loading
           (chart ''AreaChart'' [(''p95'', slots ! 1, pt_p95), (''p50'', slots ! 0, pt_p50)] ms label series),
         ChartCard E (tx E ''overview.tokensOverTime'') (tx E ''overview.tokensOverTimeHint'') quiet loading
           (chart ''AreaChart'' [(tx E ''stats.tokens'', slots ! 2, pt_tokens)] num label series)],
       El ''div'' [] [
         top_card E ''overview.topModels'' ''overview.topHint'' loading quiet
           [TopList E (top_buckets (get_prop d ''byModel'')) (slots ! 0) (\<lambda>k. k)],
         top_card E ''overview.topAccounts'' ''overview.topHint'' loading quiet
           [TopList E (top_buckets (get_prop d ''byAccount'')) (slots ! 1)
              (\<lambda>k. case accountNames k of Some n \<Rightarrow> or_str n (short_name k) | None \<Rightarrow> short_name k)],
         top_card E ''overview.endpointSplit'' ''overview.endpointSplitHint'' loading quiet [
           StackedBar (map (\<lambda>(i, e). (endpoint_colour i, bk_requests e)) (enumerate 0 endpoints)),
           El ''ul'' [] (map (\<lambda>(i, e). El ''li'' [] [
             El ''span'' [] [El ''span'' [aS ''background'' (endpoint_colour i)] [], Txt (bk_key e)],
             El ''span'' [] [Txt (num (bk_requests e) @ '' '' @ mid_dot @ '' '' @ to_fixed 0 (endpoint_share d e) @ ''%''),
               err_count E (bk_errors e)]]) (enumerate 0 endpoints))]]])"

section \<open>What the bars show\<close>

lemma sum_widths:
  assumes "\<forall>(c, v)\<in>set segments. 0 \<le> v"
  shows "sum_list (bar_widths segments) = (if sum_list (map snd segments) = 0 then 0 else 100)"
proof -
  have part: "sum_list (map (\<lambda>(c, v). v / t * 100) (filter (\<lambda>(c, v). v > 0) xs)) = sum_list (map snd xs) / t * 100"
    if "\<forall>(c, v)\<in>set xs. 0 \<le> v" for t :: rat and xs :: "(string \<times> rat) list"
    using that by (induction xs) (auto simp: add_divide_distrib distrib_right)
  show ?thesis using part [OF assms] by (simp add: bar_widths_def bar_total_def Let_def)
qed

lemma le_max_list: "x \<in> set xs \<Longrightarrow> x \<le> foldr max xs (b :: rat)" "b \<le> foldr max xs b"
  by (induction xs) (auto simp: le_max_iff_disj)

lemma max_list_le: "b \<le> (c :: rat) \<Longrightarrow> \<forall>x\<in>set xs. x \<le> c \<Longrightarrow> foldr max xs b \<le> c"
  by (induction xs) auto

text \<open>The six busiest, by the order of the sort; the rest is not busier.\<close>

lemma top_buckets_ranked:
  fixes v defines "buckets \<equiv> map bucket_of (elements v)"
  shows "length (top_buckets v) = min 6 (length buckets)" "mset (top_buckets v) \<subseteq># mset buckets"
  "sorted_wrt (\<lambda>a b. bk_requests b \<le> bk_requests a) (top_buckets v)"
  "b \<in># mset buckets - mset (top_buckets v) \<Longrightarrow> r \<in> set (top_buckets v) \<Longrightarrow> bk_requests b \<le> bk_requests r"
proof -
  let ?s = "js_sort (by_number bk_requests) buckets"
  have all: "mset buckets = mset (top_buckets v) + mset (drop 6 ?s)"
    by (metis append_take_drop_id buckets_def mset_append mset_js_sort top_buckets_def)
  show "length (top_buckets v) = min 6 (length buckets)" by (simp add: top_buckets_def buckets_def)
  show "mset (top_buckets v) \<subseteq># mset buckets" by (simp add: all)
  show "sorted_wrt (\<lambda>a b. bk_requests b \<le> bk_requests a) (top_buckets v)"
    using largest_first.js_sort_ordered [of bk_requests buckets]
    by (simp add: by_number_le top_buckets_def buckets_def sorted_wrt_take)
  assume "b \<in># mset buckets - mset (top_buckets v)" "r \<in> set (top_buckets v)"
  then have "b \<in> set (drop 6 ?s)" "r \<in> set (take 6 ?s)" by (simp_all add: all) (simp add: top_buckets_def buckets_def)
  then show "bk_requests b \<le> bk_requests r"
    using largest_first.js_sort_prefix [of r 6 bk_requests buckets b] by (simp add: by_number_le)
qed

lemma top_share_scale:
  assumes "r \<in> set rows" "0 \<le> bk_requests r"
  shows "0 \<le> top_share rows r \<and> top_share rows r \<le> 100 \<and>
    (1 \<le> bk_requests r \<and> (\<forall>q\<in>set rows. bk_requests q \<le> bk_requests r) \<longrightarrow> top_share rows r = 100) \<and>
    top_share rows q * bk_requests r = top_share rows r * bk_requests q"
proof -
  let ?max = "foldr max (map bk_requests rows) 1"
  have pos: "0 < ?max" using le_max_list(2) [of 1 "map bk_requests rows"] by linarith
  have le: "bk_requests r \<le> ?max" using assms(1) le_max_list(1) by force
  have full: "bk_requests r = ?max" if "1 \<le> bk_requests r" "\<forall>q\<in>set rows. bk_requests q \<le> bk_requests r"
    using max_list_le [of 1 "bk_requests r" "map bk_requests rows"] that le by simp
  show ?thesis
  proof (intro conjI impI)
    show "0 \<le> top_share rows r" "top_share rows r \<le> 100"
      using pos le assms(2) by (simp_all add: top_share_def pos_divide_le_eq)
    show "top_share rows r = 100" if "1 \<le> bk_requests r \<and> (\<forall>q\<in>set rows. bk_requests q \<le> bk_requests r)"
      using full that pos by (simp add: top_share_def)
    show "top_share rows q * bk_requests r = top_share rows r * bk_requests q"
      by (simp add: top_share_def)
  qed
qed

text \<open>C36: the rankings are drawn to scale: of the models, accounts or endpoints with traffic exactly the six
  with the most requests are listed (all of them, if there are fewer), each once, most first, and
  nothing left out is busier; the lengths of the bars are in proportion to the requests, the busiest
  one having the full width; and the two parts of a bar, the successes and the errors, together fill it.\<close>

theorem ranking_to_scale:
  assumes "\<forall>b\<in>set (map bucket_of (elements v)). 0 \<le> bk_errors b \<and> bk_errors b \<le> bk_requests b"
  defines "buckets \<equiv> map bucket_of (elements v)" and "rows \<equiv> top_buckets v"
  shows "length rows = min 6 (length buckets) \<and> mset rows \<subseteq># mset buckets \<and>
    sorted_wrt (\<lambda>a b. bk_requests b \<le> bk_requests a) rows \<and>
    (\<forall>b\<in>set_mset (mset buckets - mset rows). \<forall>r\<in>set rows. bk_requests b \<le> bk_requests r) \<and>
    (\<forall>r\<in>set rows. 0 \<le> top_share rows r \<and> top_share rows r \<le> 100 \<and>
       (1 \<le> bk_requests r \<and> (\<forall>q\<in>set rows. bk_requests q \<le> bk_requests r) \<longrightarrow> top_share rows r = 100) \<and>
       (\<forall>q\<in>set rows. top_share rows q * bk_requests r = top_share rows r * bk_requests q) \<and>
       (0 < bk_requests r \<longrightarrow> sum_list (bar_widths (row_segments colour r)) = 100))"
proof -
  note ranked = top_buckets_ranked [where v = v, folded rows_def buckets_def]
  have err: "0 \<le> bk_errors r" "bk_errors r \<le> bk_requests r" "0 \<le> bk_requests r" if "r \<in> set rows" for r
  proof -
    have "r \<in> set buckets" using that mset_subset_eqD [OF ranked(2), of r] by simp
    with assms(1) show "0 \<le> bk_errors r" "bk_errors r \<le> bk_requests r" unfolding buckets_def by blast+
    then show "0 \<le> bk_requests r" by linarith
  qed
  have "sum_list (bar_widths (row_segments colour r)) = 100" if "r \<in> set rows" "0 < bk_requests r" for r
    using that err [OF that(1)] sum_widths [of "row_segments colour r"] by (simp add: row_segments_def)
  moreover note top_share_scale [of _ rows, OF _ err(3)] ranked
  ultimately show ?thesis by blast
qed

definition two_buckets :: jsv where
  "two_buckets = JArr [obj [(''key'', JStr ''haiku''), (''requests'', JNum 5)],
     obj [(''key'', JStr ''opus''), (''requests'', JNum 20), (''errors'', JNum 5)]]"

theorem ranking_to_scale_witness:
  "length (top_buckets two_buckets) = 2 \<and> mset (top_buckets two_buckets) \<subseteq># mset (map bucket_of (elements two_buckets)) \<and>
   list_all (\<lambda>r. top_share (top_buckets two_buckets) r * 20 = 100 * bk_requests r) (top_buckets two_buckets)"
proof -
  let ?rows = "top_buckets two_buckets"
  have sane: "\<forall>b\<in>set (map bucket_of (elements two_buckets)). 0 \<le> bk_errors b \<and> bk_errors b \<le> bk_requests b"
    by (simp add: two_buckets_def elements_def bucket_of_def num_prop_def obj_def)
  from ranking_to_scale [OF sane, of "slots ! 0"]
  have parts: "length ?rows = min 6 (length (map bucket_of (elements two_buckets)))"
    "mset ?rows \<subseteq># mset (map bucket_of (elements two_buckets))"
    and full: "\<forall>r\<in>set ?rows. 1 \<le> bk_requests r \<and> (\<forall>q\<in>set ?rows. bk_requests q \<le> bk_requests r) \<longrightarrow> top_share ?rows r = 100"
    and scale: "\<forall>r\<in>set ?rows. \<forall>q\<in>set ?rows. top_share ?rows q * bk_requests r = top_share ?rows r * bk_requests q"
    by blast+
  have rows: "?rows = [\<lparr>bk_key = ''opus'', bk_requests = 20, bk_errors = 5\<rparr>, \<lparr>bk_key = ''haiku'', bk_requests = 5, bk_errors = 0\<rparr>]"
    by (simp add: top_buckets_def js_sort_def by_number_def two_buckets_def elements_def bucket_of_def text_prop_def
        num_prop_def obj_def)
  define r where "r = hd ?rows"
  have r: "r \<in> set ?rows" "bk_requests r = 20" "\<forall>q\<in>set ?rows. bk_requests q \<le> bk_requests r"
    unfolding r_def rows by simp_all
  then have "top_share ?rows r = 100" using full by simp
  then have "\<forall>q\<in>set ?rows. top_share ?rows q * 20 = 100 * bk_requests q" using scale r(1,2) by fastforce
  moreover have "length ?rows = 2" using parts(1) by (simp add: two_buckets_def elements_def)
  ultimately show ?thesis using parts(2) unfolding list_all_iff by blast
qed

end
