(* ===== verification/Overview_Page.thy ===== *)
theory Overview_Page
  imports Overview_Cards Usage_Page App_Shell Accounts_Page
begin

text \<open>
  \<open>dashboard/src/pages/overview/index.tsx\<close>: the first page of the console. Its state holds what the
  queries have returned (the metrics per range, as the query library caches them), the open
  confirmation and the marks of the mutations. Rolling numbers (\<open>Tween\<close>) are shown at the value they
  roll to; the page's own \<open>formatUptime\<close> is the one of the sidebar.
\<close>

section \<open>State and actions\<close>

record overview_st = warmup_st +
  ov_resetOpen :: bool
  ov_range :: string
  ov_resetBusy :: bool
  ov_resetPending :: bool
  ov_refreshPending :: bool
  ov_status :: jsv
  ov_statusError :: "jerr option"
  ov_accounts :: "Account list option"
  ov_accountsPending :: bool
  ov_metrics :: "string \<Rightarrow> jsv"
  ov_metricsFailed :: "string \<Rightarrow> bool"
  ov_logs :: jsv
  ov_logsPending :: bool
  ov_map :: map_query
  ov_autoConfig :: jsv
  ov_autoPending :: bool
  ov_autoData :: jsv
  ov_table :: table_state
  ov_copied :: "string list"

definition overview_mount :: overview_st where
  "overview_mount = \<lparr>wu_data = JUndef, wu_pending = False, ov_resetOpen = False, ov_range = ''1h'', ov_resetBusy = False,
     ov_resetPending = False, ov_refreshPending = False, ov_status = JUndef, ov_statusError = None, ov_accounts = None,
     ov_accountsPending = True, ov_metrics = (\<lambda>_. JUndef), ov_metricsFailed = (\<lambda>_. False), ov_logs = JUndef, ov_logsPending = True,
     ov_map = \<lparr>mq_pending = True, mq_error = None, mq_logs = None, mq_updated = None, mq_keys = []\<rparr>,
     ov_autoConfig = JUndef, ov_autoPending = True, ov_autoData = JUndef, ov_table = initial_table 25, ov_copied = []\<rparr>"

definition resetStats :: "ui \<Rightarrow> overview_st act" where
  "resetStats E = mutateAsync (\<lambda>b x. x\<lparr>ov_resetPending := b\<rparr>)
     (post ''/stats/reset'' NoBody (\<lambda>_. Emit (ToastOk (tx E ''overview.resetStatsDone''))
        (Emit (Invalidate [''status'']) (Emit (Invalidate [''stats'']) (Emit (Invalidate [''metrics'']) Done)))))
     (\<lambda>e. Emit (ToastErr (errorMessage e)) Done)"

definition refresh_models :: "ui \<Rightarrow> overview_st act" where
  "refresh_models E = mutate (\<lambda>b x. x\<lparr>ov_refreshPending := b\<rparr>)
     (post ''/accounts/models/refresh'' NoBody (\<lambda>d.
        Emit (ToastOk (tr E ''overview.refreshModelsDone'' [number_text d ''refreshed''])) Done))
     (\<lambda>e. Emit (ToastErr (errorMessage e)) Done)"

definition status_read :: "reply \<Rightarrow> overview_st \<Rightarrow> overview_st" where
  "status_read p s = (case p of Resolved v \<Rightarrow> s\<lparr>ov_status := v, ov_statusError := None\<rparr>
     | Rejected e \<Rightarrow> s\<lparr>ov_statusError := Some e\<rparr>)"

definition status_refetch :: "overview_st act" where
  "status_refetch = Await (Http ''GET'' ''/status'' NoBody) (\<lambda>p. Upd (status_read p) Done)"

section \<open>What is computed\<close>

definition accounts_or_none :: "overview_st \<Rightarrow> Account list" where
  "accounts_or_none s = (case ov_accounts s of None \<Rightarrow> [] | Some xs \<Rightarrow> xs)"

definition display_name :: "Account \<Rightarrow> string \<Rightarrow> string" where
  "display_name a d = or_str (a_nickname a) (or_str (a_email a) d)"

definition account_names :: "overview_st \<Rightarrow> string \<Rightarrow> string option" where
  "account_names s i = map_of (rev (map (\<lambda>a. (a_id a, display_name a (a_id a))) (accounts_or_none s))) i"

record OverviewLog =
  ol_time :: rat
  ol_endpoint :: string
  ol_model :: string
  ol_accountId :: string
  ol_status :: string
  ol_error :: string
  ol_tokens :: rat
  ol_credits :: rat
  ol_duration :: rat

definition overview_log :: "jsv \<Rightarrow> OverviewLog" where
  "overview_log v = \<lparr>ol_time = num_prop v ''time'', ol_endpoint = text_prop v ''endpoint'', ol_model = text_prop v ''model'',
     ol_accountId = text_prop v ''accountId'', ol_status = text_prop v ''status'', ol_error = text_prop v ''error'',
     ol_tokens = num_prop v ''tokens'', ol_credits = num_prop v ''credits'', ol_duration = num_prop v ''duration''\<rparr>"

definition RECENT :: nat where "RECENT = 15"

definition all_logs :: "jsv \<Rightarrow> OverviewLog list" where
  "all_logs d = map overview_log (elements (get_prop d ''logs''))"

definition recent_logs :: "jsv \<Rightarrow> OverviewLog list" where
  "recent_logs d = take RECENT (js_sort (by_number ol_time) (all_logs d))"

definition isBanned :: "Account \<Rightarrow> bool" where
  "isBanned a \<longleftrightarrow> a_banStatus a \<noteq> [] \<and> a_banStatus a \<noteq> ''ACTIVE''"

definition isOverQuota :: "Account \<Rightarrow> bool" where
  "isOverQuota a \<longleftrightarrow> a_usageLimit a > 0 \<and> a_usageCurrent a \<ge> a_usageLimit a"

definition pool_ok :: "Account \<Rightarrow> bool" where
  "pool_ok a \<longleftrightarrow> a_enabled a \<and> \<not> isBanned a \<and> \<not> isOverQuota a"

type_synonym provider_row = "string \<times> nat \<times> nat"

fun count_account :: "string \<Rightarrow> bool \<Rightarrow> provider_row list \<Rightarrow> provider_row list" where
  "count_account p ok [] = [(p, if ok then (1, 0) else (0, 1))]"
| "count_account p ok ((q, g, b) # rs) = (if q = p then (q, if ok then (g + 1, b) else (g, b + 1)) # rs else (q, g, b) # count_account p ok rs)"

definition by_provider :: "Account list \<Rightarrow> provider_row list" where
  "by_provider as = js_sort (by_number (\<lambda>(p, g, b). of_nat (g + b)))
     (fold (\<lambda>a. count_account (or_str (a_provider a) em_dash) (pool_ok a)) as [])"

record pool_health =
  ph_enabled :: nat
  ph_disabled :: nat
  ph_banned :: nat
  ph_overQuota :: nat
  ph_expiring :: nat
  ph_byProvider :: "provider_row list"
  ph_attention :: "Account list"

definition pool_health :: "ui \<Rightarrow> Account list \<Rightarrow> pool_health" where
  "pool_health E as = \<lparr>ph_enabled = length (filter a_enabled as), ph_disabled = length (filter (\<lambda>a. \<not> a_enabled a) as),
     ph_banned = length (filter isBanned as), ph_overQuota = length (filter isOverQuota as),
     ph_expiring = length (filter (\<lambda>a. a_expiresAt a > 0 \<and> of_int (a_expiresAt a) - of_int (now_ms E) / 1000 < (3600 :: rat)) as),
     ph_byProvider = by_provider as, ph_attention = filter (\<lambda>a. \<not> a_enabled a \<or> isBanned a \<or> isOverQuota a) as\<rparr>"

definition success_rate :: "jsv \<Rightarrow> rat" where
  "success_rate s = (if num_prop s ''totalRequests'' \<noteq> 0 then num_prop s ''successRequests'' / num_prop s ''totalRequests'' * 100 else 100)"

definition rate_tone :: "rat \<Rightarrow> tone" where
  "rate_tone r = (if r \<ge> 95 then ToneSuccess else if r \<ge> 80 then ToneWarning else ToneDanger)"

definition error_rate :: "Point \<Rightarrow> rat" where
  "error_rate m = (if pt_requests m \<noteq> 0 then pt_errors m / pt_requests m * 100 else 0)"

definition error_tone :: "Point \<Rightarrow> tone" where
  "error_tone m = (if pt_requests m = 0 then ToneDefault else if error_rate m \<le> 5 then ToneSuccess
     else if error_rate m \<le> 20 then ToneWarning else ToneDanger)"

definition cache_total :: "Point \<Rightarrow> rat" where
  "cache_total m = pt_cacheRead m + pt_cacheWrite m"

definition cache_rate :: "Point \<Rightarrow> rat" where
  "cache_rate m = (if cache_total m \<noteq> 0 then pt_cacheRead m / cache_total m * 100 else 0)"

definition cache_tone :: "Point \<Rightarrow> tone" where
  "cache_tone m = (if cache_total m = 0 then ToneDefault else if cache_rate m \<ge> 50 then ToneSuccess
     else if cache_rate m \<ge> 20 then ToneWarning else ToneDefault)"

text \<open>The example calls: the text between the quotes of the shell, and the lines of the command.\<close>

definition json_text :: "(string \<times> string) list \<Rightarrow> string" where
  "json_text ps = ''{'' @ js_join '','' (map (\<lambda>(k, v). [CHR 0x22] @ k @ [CHR 0x22] @ '':'' @ v) ps) @ ''}''"

definition dquoted :: "string \<Rightarrow> string" where
  "dquoted s = [CHR 0x22] @ s @ [CHR 0x22]"

definition curl_lines :: "string list \<Rightarrow> string" where
  "curl_lines ls = js_join ('' '' @ [CHR 0x5C, CHR 0x0A] @ ''  '') ls"

definition hello_messages :: string where
  "hello_messages = ''['' @ json_text [(''role'', dquoted ''user''), (''content'', dquoted ''Hello!'')] @ '']''"

definition curls :: "string \<Rightarrow> (string \<times> string) list" where
  "curls org = [
     (''/v1/messages'', curl_lines [''curl '' @ org @ ''/v1/messages'', ''-H '' @ dquoted ''Content-Type: application/json'',
        ''-H '' @ dquoted ''anthropic-version: 2023-06-01'',
        ''-d '' @ [CHR 0x27] @ json_text [(''model'', dquoted ''claude-sonnet-4.5''), (''max_tokens'', ''1024''), (''messages'', hello_messages)] @ [CHR 0x27]]),
     (''/v1/chat/completions'', curl_lines [''curl '' @ org @ ''/v1/chat/completions'', ''-H '' @ dquoted ''Content-Type: application/json'',
        ''-H '' @ dquoted ''Authorization: Bearer any'',
        ''-d '' @ [CHR 0x27] @ json_text [(''model'', dquoted ''claude-sonnet-4.5''), (''messages'', hello_messages)] @ [CHR 0x27]])]"

section \<open>The page\<close>

definition log_column :: "string \<Rightarrow> string \<Rightarrow> (OverviewLog \<Rightarrow> overview_st act view) \<Rightarrow> (OverviewLog, overview_st) column" where
  "log_column i h c = \<lparr>col_id = i, col_header = (\<lambda>_. Txt h), col_cell = (\<lambda>r. c (l_original r))\<rparr>"

definition log_account_cell :: "(string \<Rightarrow> string option) \<Rightarrow> string \<Rightarrow> 'e view" where
  "log_account_cell names i = El ''span'' [aS ''title'' i] [Txt (case names i of Some n \<Rightarrow> or_str n (short_name i) | None \<Rightarrow> short_name i)]"

definition log_status_cell :: "ui \<Rightarrow> OverviewLog \<Rightarrow> 'e view" where
  "log_status_cell E r = (if ol_status r = ''success'' then StatusDot ToneSuccess (tx E ''logs.statusSuccess'')
     else hint_box [StatusDot ToneDanger (tx E ''logs.statusError'')] [] [Txt (or_str (ol_error r) (ol_status r))])"

definition logColumns :: "ui \<Rightarrow> (string \<Rightarrow> string option) \<Rightarrow> (OverviewLog, overview_st) column list" where
  "logColumns E names = [
     log_column ''time'' (tx E ''logs.time'') (\<lambda>r. span_text (formatTime E \<lfloor>ol_time r\<rfloor>)),
     log_column ''endpoint'' (tx E ''logs.endpoint'') (\<lambda>r. span_text (ol_endpoint r)),
     log_column ''model'' (tx E ''logs.model'') (\<lambda>r. span_text (ol_model r)),
     log_column ''accountId'' (tx E ''logs.account'') (\<lambda>r. log_account_cell names (ol_accountId r)),
     log_column ''tokens'' (tx E ''logs.tokens'') (\<lambda>r. span_text (formatNumber E (Some (ol_tokens r)))),
     log_column ''credits'' (tx E ''overview.credits'') (\<lambda>r. span_text (to_fixed 2 (ol_credits r))),
     log_column ''duration'' (tx E ''logs.duration'') (\<lambda>r. span_text (show_rat (ol_duration r) @ ''ms'')),
     log_column ''status'' (tx E ''logs.status'') (log_status_cell E)]"

definition log_table :: "ui \<Rightarrow> overview_st \<Rightarrow> (OverviewLog, overview_st) table_props" where
  "log_table E s = \<lparr>tp_columns = logColumns E (account_names s), tp_searchable = False, tp_searchPlaceholder = None,
     tp_toolbar = Nothing, tp_emptyState = EmptyState (tx E ''logs.empty'') [] Nothing, tp_rowSelection = [], tp_onSelect = None,
     tp_onRowClick = None, tp_pageSize = 25, tp_groupBy = None, tp_renderGroup = None, tp_set = (\<lambda>st x. x\<lparr>ov_table := st\<rparr>)\<rparr>"

definition range_tabs :: "overview_st \<Rightarrow> overview_st act view" where
  "range_tabs s = El ''Tabs'' [aS ''value'' (ov_range s), onS ''onValueChange'' (\<lambda>v. Upd (\<lambda>x. x\<lparr>ov_range := v\<rparr>) Done)]
     [El ''TabsList'' [] (map (\<lambda>r. El ''TabsTrigger'' [aS ''value'' r] [Txt r]) RANGES)]"

definition lifetime_cards :: "ui \<Rightarrow> jsv \<Rightarrow> 'e view" where
  "lifetime_cards E s = (let num = (\<lambda>k. formatNumber E (Some (num_prop s k))); failed = num_prop s ''failedRequests'';
       avail = [number_text s ''available'', number_text s ''accounts''] in El ''div'' [] [
     StatCard (tx E ''stats.requests'') (num ''totalRequests'') Nothing (ic ''LuActivity'') ToneDefault,
     StatCard (tx E ''overview.successRate'') (to_fixed 1 (success_rate s) @ ''%'')
       (StackedBar [(''bg-emerald-500'', num_prop s ''successRequests''), (''bg-red-500'', failed)]) (ic ''LuCircleCheck'') (rate_tone (success_rate s)),
     StatCard (tx E ''stats.failed'') (num ''failedRequests'') Nothing (ic ''LuCircleX'') (if failed \<noteq> 0 then ToneDanger else ToneDefault),
     StatCard (tx E ''stats.tokens'') (num ''totalTokens'') Nothing (ic ''LuCpu'') ToneDefault,
     StatCard (tx E ''stats.credits'') (to_fixed 2 (num_prop s ''totalCredits'')) Nothing (ic ''LuCoins'') ToneDefault,
     StatCard (tx E ''overview.uptime'') (formatUptime \<lfloor>num_prop s ''uptime''\<rfloor>) Nothing (ic ''LuClock'') ToneDefault,
     StatCard (tx E ''stats.accounts'') (tr E ''overview.ofTotal'' avail) (Txt (tr E ''overview.availableOf'' avail)) (ic ''LuUsers'')
       (if num_prop s ''accounts'' > 0 \<and> num_prop s ''available'' = 0 then ToneDanger else ToneDefault)])"

definition window_cards :: "ui \<Rightarrow> string \<Rightarrow> Point \<Rightarrow> 'e view" where
  "window_cards E w m = (let num = (\<lambda>n. formatNumber E (Some n)) in El ''div'' [] [
     StatCard (tr E ''overview.requestsInRange'' [w]) (num (pt_requests m)) Nothing (ic ''LuActivity'') ToneDefault,
     StatCard (tr E ''overview.errorRateInRange'' [w]) (to_fixed 1 (error_rate m) @ ''%'') (Txt (tr E ''overview.errCount'' [num (pt_errors m)]))
       (ic ''LuGauge'') (error_tone m),
     StatCard (tx E ''overview.latencyInRange'') (formatMs (Some (pt_p50 m)) @ '' / '' @ formatMs (Some (pt_p95 m))) (Txt ''p50 / p95'') (ic ''LuTimer'') ToneDefault,
     StatCard (tr E ''overview.tokensInRange'' [w]) (num (pt_tokens m)) (Txt (tr E ''overview.creditsHint'' [to_fixed 2 (pt_credits m)])) (ic ''LuCpu'') ToneDefault,
     StatCard (tr E ''overview.cacheHitInRange'' [w]) (if cache_total m \<noteq> 0 then to_fixed 1 (cache_rate m) @ ''%'' else em_dash)
       (Txt (if cache_total m \<noteq> 0 then tr E ''overview.cacheHint'' [num (pt_cacheRead m), num (pt_cacheWrite m)] else tx E ''overview.cacheNoData''))
       (ic ''LuDatabase'') (cache_tone m)])"

definition attention_item :: "ui \<Rightarrow> Account \<Rightarrow> 'e view" where
  "attention_item E a = El ''li'' [] [El ''span'' [] [Txt (display_name a (short_name (a_id a)))],
     StatusDot (if isBanned a then ToneDanger else if isOverQuota a then ToneWarning else ToneMuted)
       (tx E (if isBanned a then ''overview.banned'' else if isOverQuota a then ''overview.overQuota'' else ''overview.disabled''))]"

definition health_count :: "ui \<Rightarrow> string \<times> nat \<times> tone \<Rightarrow> 'e view" where
  "health_count E = (\<lambda>(k, n, t). El ''div'' [] [StatusDot (if n \<noteq> 0 then t else ToneMuted) (tx E k), El ''span'' [] [Txt (show_nat n)]])"

definition pool_card :: "ui \<Rightarrow> bool \<Rightarrow> Account list \<Rightarrow> 'e view" where
  "pool_card E pending as = (let p = pool_health E as; go = (\<lambda>v. El ''Link'' [aS ''to'' ''/accounts''] v) in El ''Card'' [] [
     El ''CardHeader'' [] [El ''CardTitle'' [] [Txt (tx E ''overview.poolHealth'')], El ''CardDescription'' [] [Txt (tx E ''overview.poolHealthHint'')]],
     El ''CardContent'' [] (if pending then [LoadingBlock E None 3]
       else if as = [] then [EmptyState (tx E ''overview.noAccounts'') [] (go [El ''Button'' [aS ''variant'' ''outline''] [Txt (tx E ''overview.viewAccounts'')]])]
       else [
         El ''div'' [] (map (health_count E) [(''overview.enabled'', ph_enabled p, ToneSuccess), (''overview.disabled'', ph_disabled p, ToneMuted),
           (''overview.banned'', ph_banned p, ToneDanger), (''overview.overQuota'', ph_overQuota p, ToneWarning), (''overview.expiringSoon'', ph_expiring p, ToneWarning)]),
         El ''div'' [] (El ''div'' [] [Txt (tx E ''overview.byProvider'')] # map (\<lambda>(n, g, b). El ''div'' [] [
           El ''div'' [] [El ''span'' [] [Txt n], El ''span'' [] [Txt (show_nat (g + b))]],
           StackedBar [(''bg-emerald-500'', of_nat g), (''bg-red-400'', of_nat b)]]) (ph_byProvider p)),
         El ''div'' [] [El ''div'' [] [Txt (tx E ''overview.needsAttention'')],
           (if ph_attention p = [] then El ''div'' [] [Txt (tx E ''overview.allHealthy'')]
            else El ''ul'' [] (map (attention_item E) (take 8 (ph_attention p)))),
           go [Txt (tx E ''overview.viewAccounts'' @ '' ''), ic ''LuArrowRight'']]])])"

definition curl_card :: "ui \<Rightarrow> overview_st \<Rightarrow> overview_st act view" where
  "curl_card E s = El ''Card'' [] [
     El ''CardHeader'' [] [El ''CardTitle'' [] [Txt (tx E ''overview.endpoints'')],
       El ''CardDescription'' [] [Txt (tx E ''overview.endpointsHint'' @ '' ''), El ''code'' [] [Txt (origin E)]]],
     El ''CardContent'' [] (map (\<lambda>(path, cmd). El ''div'' [] [
       El ''div'' [] [El ''span'' [] [Txt (''POST '' @ path)],
         CopyButton E (path \<in> set (ov_copied s)) (\<lambda>b x. x\<lparr>ov_copied := (if b then path # ov_copied x else removeAll path (ov_copied x))\<rparr>) cmd []],
       El ''pre'' [] [Txt cmd]]) (curls (origin E)))]"

definition reset_dialog :: "ui \<Rightarrow> overview_st \<Rightarrow> overview_st act view" where
  "reset_dialog E s = ConfirmDialog E (ov_resetOpen s) (\<lambda>b. Upd (\<lambda>x. x\<lparr>ov_resetOpen := b\<rparr>) Done) (tx E ''overview.resetStats'')
     (Txt (tx E ''overview.resetStatsConfirm'')) None True (resetStats E) (ov_resetBusy s) (\<lambda>b x. x\<lparr>ov_resetBusy := b\<rparr>)"

definition overview_actions :: "ui \<Rightarrow> overview_st \<Rightarrow> overview_st act view" where
  "overview_actions E s = frag [
     El ''Button'' [aS ''variant'' ''outline'', on ''onClick'' (refresh_models E), aB ''disabled'' (ov_refreshPending s)]
       [if ov_refreshPending s then spinner else ic ''LuRefreshCw'', Txt (tx E ''overview.refreshModels'')],
     El ''Button'' [aS ''variant'' ''outline'', on ''onClick'' (Upd (\<lambda>x. x\<lparr>ov_resetOpen := True\<rparr>) Done)]
       [ic ''LuRotateCcw'', Txt (tx E ''overview.resetStats'')]]"

definition OverviewPage :: "ui \<Rightarrow> (string \<Rightarrow> string \<Rightarrow> int) \<Rightarrow> (bool \<Rightarrow> rat \<Rightarrow> string) \<Rightarrow> (rat \<Rightarrow> string) \<Rightarrow> OverviewLog table_lib \<Rightarrow>
    overview_st \<Rightarrow> overview_st act view" where
  "OverviewPage E collate local_time clock_text lib s = (case ov_statusError s of
     Some e \<Rightarrow> frag [PageHeader E (tx E ''overview.title'') (tx E ''overview.subtitle'') Nothing,
       EmptyState (tr E ''overview.loadFailed'' [errorMessage e]) []
         (El ''Button'' [aS ''variant'' ''outline'', on ''onClick'' status_refetch] [Txt (tx E ''common.refresh'')])]
   | None \<Rightarrow> (let w = ov_range s; metrics = ov_metrics s w in El ''div'' [] [
       PageHeader E (tx E ''overview.title'') (tx E ''overview.subtitle'') (overview_actions E s),
       El ''div'' [] [El ''span'' [] [Txt (tx E ''overview.range'')], range_tabs s],
       lifetime_cards E (ov_status s),
       LiveRoutingMap E collate None (ov_map s),
       window_cards E w (point_of (get_prop metrics ''totals'')),
       MetricsCharts E local_time metrics w (metrics = JUndef \<and> \<not> ov_metricsFailed s w) (account_names s),
       WarmupCard E s,
       AutoRouteCard E clock_text (ov_autoConfig s) (ov_autoPending s) (ov_autoData s),
       El ''div'' [] [
         pool_card E (ov_accountsPending s) (accounts_or_none s),
         El ''Card'' [] [
           El ''CardHeader'' [] [El ''div'' [] [El ''CardTitle'' [] [Txt (tx E ''overview.recentActivity'')],
               El ''CardDescription'' [] [Txt (tr E ''overview.recentActivityHint'' [show_nat RECENT])]],
             El ''Link'' [aS ''to'' ''/logs''] [Txt (tx E ''overview.viewLogs'' @ '' ''), ic ''LuArrowRight'']],
           El ''CardContent'' [] [if ov_logsPending s then LoadingBlock E None 3
             else DataTable E lib (log_table E s) (recent_logs (ov_logs s)) (ov_table s)]]],
       curl_card E s,
       (case get_prop (ov_status s) ''storage'' of JStr t \<Rightarrow> shown (t \<noteq> []) (El ''div'' [] [Txt (tx E ''overview.storage'' @ '': '' @ t)]) | _ \<Rightarrow> Nothing),
       reset_dialog E s]))"

section \<open>The pool card\<close>

lemma count_account_rows:
  "distinct (map fst rs) \<Longrightarrow> distinct (map fst (count_account p ok rs)) \<and>
     set (map fst (count_account p ok rs)) = insert p (set (map fst rs))"
  by (induction p ok rs rule: count_account.induct) auto

definition good_of :: "provider_row list \<Rightarrow> string \<Rightarrow> nat" where
  "good_of rs p = (case map_of rs p of None \<Rightarrow> 0 | Some (g, b) \<Rightarrow> g)"

definition bad_of :: "provider_row list \<Rightarrow> string \<Rightarrow> nat" where
  "bad_of rs p = (case map_of rs p of None \<Rightarrow> 0 | Some (g, b) \<Rightarrow> b)"

lemma map_of_count_account:
  "map_of (count_account p ok rs) q = (if q = p then Some (case map_of rs p of None \<Rightarrow> if ok then (1, 0) else (0, 1)
       | Some (g, b) \<Rightarrow> if ok then (g + 1, b) else (g, b + 1)) else map_of rs q)"
  by (induction p ok rs rule: count_account.induct) auto

lemma count_account_counts:
  "good_of (count_account p ok rs) q = good_of rs q + (if q = p \<and> ok then 1 else 0)"
  "bad_of (count_account p ok rs) q = bad_of rs q + (if q = p \<and> \<not> ok then 1 else 0)"
  by (auto simp: good_of_def bad_of_def map_of_count_account split: option.split)

abbreviation provider_name :: "Account \<Rightarrow> string" where
  "provider_name a \<equiv> or_str (a_provider a) em_dash"

lemma fold_count_account:
  "distinct (map fst rs) \<Longrightarrow>
    (let out = fold (\<lambda>a. count_account (provider_name a) (pool_ok a)) as rs in
      distinct (map fst out) \<and> set (map fst out) = set (map fst rs) \<union> provider_name ` set as \<and>
      good_of out q = good_of rs q + length (filter (\<lambda>a. provider_name a = q \<and> pool_ok a) as) \<and>
      bad_of out q = bad_of rs q + length (filter (\<lambda>a. provider_name a = q \<and> \<not> pool_ok a) as))"
proof (induction as arbitrary: rs)
  case (Cons a as)
  note row = count_account_rows [OF Cons.prems, of "provider_name a" "pool_ok a"]
  from Cons.IH [OF row [THEN conjunct1]] row show ?case by (auto simp: Let_def count_account_counts)
qed simp

text \<open>Sorting the rows does not change what a row of a provider says.\<close>

lemma sorted_rows_map_of:
  assumes "distinct (map fst rs)"
  shows "map_of (js_sort c rs) = map_of rs" "distinct (map fst (js_sort c rs))"
proof -
  have "mset (map fst (js_sort c rs)) = mset (map fst rs)" by simp
  then show d: "distinct (map fst (js_sort c rs))" using assms by (metis mset_eq_imp_distinct_iff)
  show "map_of (js_sort c rs) = map_of rs"
    using assms d by (intro map_of_inject_set [THEN iffD2]) simp_all
qed

lemma by_provider_counts:
  "distinct (map fst (by_provider as))" "set (map fst (by_provider as)) = provider_name ` set as"
  "map_of (by_provider as) q = Some (g, b) \<Longrightarrow> g = length (filter (\<lambda>a. provider_name a = q \<and> pool_ok a) as) \<and>
     b = length (filter (\<lambda>a. provider_name a = q \<and> \<not> pool_ok a) as)"
proof -
  let ?rs = "fold (\<lambda>a. count_account (provider_name a) (pool_ok a)) as []"
  have rs: "distinct (map fst ?rs)" "set (map fst ?rs) = provider_name ` set as"
    "good_of ?rs p = length (filter (\<lambda>a. provider_name a = p \<and> pool_ok a) as)"
    "bad_of ?rs p = length (filter (\<lambda>a. provider_name a = p \<and> \<not> pool_ok a) as)" for p
    using fold_count_account [of "[]" as p] by (simp_all add: Let_def good_of_def bad_of_def)
  note sorted = sorted_rows_map_of [OF rs(1), of "by_number (\<lambda>(p, g, b). of_nat (g + b))", folded by_provider_def]
  show "distinct (map fst (by_provider as))" by (rule sorted(2))
  show "set (map fst (by_provider as)) = provider_name ` set as" using rs(2) by (simp add: by_provider_def)
  assume "map_of (by_provider as) q = Some (g, b)"
  then have "map_of ?rs q = Some (g, b)" by (simp only: sorted(1))
  then show "g = length (filter (\<lambda>a. provider_name a = q \<and> pool_ok a) as) \<and>
     b = length (filter (\<lambda>a. provider_name a = q \<and> \<not> pool_ok a) as)"
    using rs(3,4) [of q] by (simp add: good_of_def bad_of_def)
qed

lemma attention_iff: "\<not> a_enabled a \<or> isBanned a \<or> isOverQuota a \<longleftrightarrow>
    accountStatus E a \<in> {Disabled, AutoDisabled, Banned, OverQuota} \<or> isOverQuota a"
  by (auto simp: accountStatus_def isBanned_def isOverQuota_def)

text \<open>C35: the pool card of the overview against the accounts page: every account is enabled or disabled;
  each provider has one row, whose two counts are its accounts that can serve and those that cannot;
  and those that need attention (of which the card lists the first eight) are exactly the accounts
  the accounts page shows as disabled, banned or over their quota, and those that are over their quota
  while the accounts page shows another trouble, like a missing token. So an account the accounts page
  shows as normal is never among them; but neither is one within its quota whose token is missing or
  expired: the overview counts it among the healthy.\<close>

theorem overview_pool_agrees:
  "ph_enabled (pool_health E as) + ph_disabled (pool_health E as) = length as \<and>
   distinct (map fst (ph_byProvider (pool_health E as))) \<and>
   map (\<lambda>(p, g, b). (g, g + b)) (ph_byProvider (pool_health E as)) =
     map (\<lambda>(p, _). (length (filter (\<lambda>a. provider_name a = p \<and> pool_ok a) as), length (filter (\<lambda>a. provider_name a = p) as)))
       (ph_byProvider (pool_health E as)) \<and>
   fst ` set (ph_byProvider (pool_health E as)) = provider_name ` set as \<and>
   ph_attention (pool_health E as) =
     filter (\<lambda>a. accountStatus E a \<in> {Disabled, AutoDisabled, Banned, OverQuota} \<or> isOverQuota a) as \<and>
   filter pool_ok as = filter (\<lambda>a. accountStatus E a \<in> {Active, NoToken, Expired} \<and> \<not> isOverQuota a) as"
proof (intro conjI)
  show "ph_enabled (pool_health E as) + ph_disabled (pool_health E as) = length as"
    by (simp add: pool_health_def sum_length_filter_compl)
  show "distinct (map fst (ph_byProvider (pool_health E as)))" "fst ` set (ph_byProvider (pool_health E as)) = provider_name ` set as"
    using by_provider_counts(1,2) [of as] by (simp_all add: pool_health_def)
  show "ph_attention (pool_health E as) =
     filter (\<lambda>a. accountStatus E a \<in> {Disabled, AutoDisabled, Banned, OverQuota} \<or> isOverQuota a) as"
    unfolding attention_iff [symmetric] by (simp add: pool_health_def)
  show "filter pool_ok as = filter (\<lambda>a. accountStatus E a \<in> {Active, NoToken, Expired} \<and> \<not> isOverQuota a) as"
    by (rule filter_cong) (auto simp: pool_ok_def accountStatus_def isBanned_def isOverQuota_def)
  have split: "length (filter (\<lambda>a. P a \<and> Q a) as) + length (filter (\<lambda>a. P a \<and> \<not> Q a) as) = length (filter P as)" for P Q
    by (induction as) auto
  have row_of: "g = length (filter (\<lambda>a. provider_name a = p \<and> pool_ok a) as) \<and> g + b = length (filter (\<lambda>a. provider_name a = p) as)"
    if "(p, g, b) \<in> set (ph_byProvider (pool_health E as))" for p g b
  proof -
    from that have "map_of (by_provider as) p = Some (g, b)" using by_provider_counts(1) [of as] by (simp add: pool_health_def)
    note row = by_provider_counts(3) [OF this]
    with split [of "\<lambda>a. provider_name a = p" pool_ok] show ?thesis by simp
  qed
  then show "map (\<lambda>(p, g, b). (g, g + b)) (ph_byProvider (pool_health E as)) =
     map (\<lambda>(p, _). (length (filter (\<lambda>a. provider_name a = p \<and> pool_ok a) as), length (filter (\<lambda>a. provider_name a = p) as)))
       (ph_byProvider (pool_health E as))" by (auto intro!: map_cong split: prod.split)
qed

text \<open>The recent activity: the newest requests, newest first, and all of them while there are few.\<close>

lemma recent_newest:
  "length (recent_logs d) = min RECENT (length (all_logs d))" "mset (recent_logs d) \<subseteq># mset (all_logs d)"
  "sorted_wrt (\<lambda>a b. ol_time b \<le> ol_time a) (recent_logs d)"
  "l \<in># mset (all_logs d) - mset (recent_logs d) \<Longrightarrow> r \<in> set (recent_logs d) \<Longrightarrow> ol_time l \<le> ol_time r"
proof -
  let ?s = "js_sort (by_number ol_time) (all_logs d)"
  have split: "mset (all_logs d) = mset (recent_logs d) + mset (drop RECENT ?s)"
    unfolding recent_logs_def by (metis append_take_drop_id mset_append mset_js_sort)
  show "length (recent_logs d) = min RECENT (length (all_logs d))" by (simp add: recent_logs_def min.commute)
  show "mset (recent_logs d) \<subseteq># mset (all_logs d)" by (simp add: split)
  show "sorted_wrt (\<lambda>a b. ol_time b \<le> ol_time a) (recent_logs d)"
    using largest_first.js_sort_ordered [of ol_time "all_logs d"] by (simp add: by_number_le recent_logs_def sorted_wrt_take)
  assume "l \<in># mset (all_logs d) - mset (recent_logs d)" "r \<in> set (recent_logs d)"
  then show "ol_time l \<le> ol_time r"
    using largest_first.js_sort_prefix [of r RECENT ol_time "all_logs d" l] by (simp add: split recent_logs_def by_number_le)
qed

section \<open>Resetting the statistics\<close>

definition resets :: "request \<Rightarrow> bool" where
  "resets r \<longleftrightarrow> r = Http ''POST'' ''/stats/reset'' NoBody"

definition reset_confirmed :: "ui \<Rightarrow> overview_st \<Rightarrow> overview_st act \<Rightarrow> bool" where
  "reset_confirmed E s a \<longleftrightarrow> may_send resets a \<longrightarrow> ov_resetOpen s \<and> \<not> ov_resetBusy s \<and>
     a = confirm_run (\<lambda>b. Upd (\<lambda>x. x\<lparr>ov_resetOpen := b\<rparr>) Done) (resetStats E) (\<lambda>b x. x\<lparr>ov_resetBusy := b\<rparr>)"

lemma silent_confirmed: "\<not> may_send resets a \<Longrightarrow> reset_confirmed E s a"
  by (simp add: reset_confirmed_def)

lemma no_resets:
  "\<not> may_send resets (refresh_models E)" "\<not> may_send resets (warmup_now E)" "\<not> may_send resets status_refetch"
  "\<not> may_send resets (copy_value E sd v)"
proof -
  show "\<not> may_send resets (refresh_models E)"
    by (auto simp: refresh_models_def mutate_def settle_def finally_do_def post_def resets_def dest!: may_send_andThen may_send_catch)
  show "\<not> may_send resets (warmup_now E)"
    by (auto simp: warmup_now_def finally_do_def post_def get_field_def resets_def dest!: may_send_andThen may_send_catch split: if_splits)
  show "\<not> may_send resets status_refetch" by (simp add: status_refetch_def resets_def)
  show "\<not> may_send resets (copy_value E sd v)" by (auto simp: copy_value_def resets_def dest!: may_send_catch)
qed

text \<open>The cards without handlers.\<close>

lemma no_handlers: "list_all (\<lambda>_. False) (live v) \<Longrightarrow> live v = []"
  by (cases "live v") auto

lemma live_StackedBar [view_live]: "live (StackedBar xs) = []"
  by (rule no_handlers) (auto simp: StackedBar_def list_all_concat_map)

lemma live_LiveRoutingMap [view_live]: "live (LiveRoutingMap E collate ext q) = []"
  by (rule no_handlers) (auto simp: LiveRoutingMap_def source_node_def strands_def model_node_def router_node_def flow_def svg_text_def
      list_all_concat_map view_live Let_def split: option.split)

lemma live_AutoRouteCard [view_live]: "live (AutoRouteCard E ct c p d) = []"
  by (rule no_handlers) (auto simp: AutoRouteCard_def route_alerts_def tier_badge_def decision_item_def reliability_row_def until_badge_def
      hint_box_def head_row_def list_all_concat_map view_live Let_def)

lemma live_MetricsCharts [view_live]: "live (MetricsCharts E lt d w l n) = []"
  by (rule no_handlers) (auto simp: MetricsCharts_def ChartCard_def chart_def chart_row_def top_card_def TopList_def err_count_def
      list_all_concat_map view_live Let_def split: option.split)

lemma live_WarmupCard [view_live]: "live (WarmupCard E s) = (if warmup_running s then [] else [Plain (warmup_now E)])"
proof -
  have "concat (map (live \<circ> (\<lambda>(l, v). El ''div'' [] [El ''div'' [] [Txt l], El ''div'' [] [Txt v]])) xs) = []" for xs
    by (rule no_handlers_concat) auto
  then show ?thesis by (simp add: WarmupCard_def view_live Let_def)
qed

lemma live_cards [view_live]: "live (lifetime_cards E j) = []" "live (window_cards E w m) = []" "live (pool_card E b as) = []"
  by (rule no_handlers, auto simp: lifetime_cards_def window_cards_def pool_card_def health_count_def attention_item_def
      list_all_concat_map view_live Let_def)+

lemma reset_confirmed_page:
  "list_all (handler_all (reset_confirmed E s)) (live (OverviewPage E collate lt ct lib s))"
proof -
  have quiet: "reset_confirmed E s (refresh_models E)" "reset_confirmed E s (warmup_now E)" "reset_confirmed E s status_refetch"
    "reset_confirmed E s (copy_value E sd v)" "reset_confirmed E s (Upd f Done)" for sd v f
    by (rule silent_confirmed; simp add: no_resets)+
  have table: "list_all (handler_all (reset_confirmed E s)) (live (DataTable E lib (log_table E s) rows (ov_table s)))" for rows
    by (rule list_all_DataTable) (auto simp: log_table_def logColumns_def log_column_def span_text_def log_account_cell_def log_status_cell_def
        hint_box_def set_table_def view_live quiet)
  have curl: "list_all (handler_all (reset_confirmed E s)) (live (curl_card E s))"
    by (auto simp: curl_card_def list_all_concat_map view_live quiet)
  have reset: "list_all (handler_all (reset_confirmed E s)) (live (reset_dialog E s))"
    by (auto simp: reset_dialog_def view_live quiet reset_confirmed_def)
  have tabs: "list_all (handler_all (reset_confirmed E s)) (live (range_tabs s))"
    by (auto simp: range_tabs_def list_all_concat_map quiet)
  show ?thesis
    using table curl reset tabs
    by (auto simp: OverviewPage_def overview_actions_def view_live quiet Let_def split: option.split jsv.split)
qed

text \<open>C37: nobody clears the statistics by a slip: of everything a user can click or type on the overview, with
  all its cards and whatever they show, only the button of the open confirmation leads to the request
  that resets the counters, and only once at a time.\<close>

theorem reset_needs_confirmation:
  assumes "h \<in> set (live (OverviewPage E collate lt ct lib s))" "fire h inp = Some a"
    and "may_send (\<lambda>r. r = Http ''POST'' ''/stats/reset'' NoBody) a"
  shows "ov_resetOpen s \<and> \<not> ov_resetBusy s \<and>
    a = confirm_run (\<lambda>b. Upd (\<lambda>x. x\<lparr>ov_resetOpen := b\<rparr>) Done) (resetStats E) (\<lambda>b x. x\<lparr>ov_resetBusy := b\<rparr>)"
proof -
  have "reset_confirmed E s a"
    using reset_confirmed_page [of E s collate lt ct lib] assms(1,2) by (auto simp: list_all_iff handler_all_def)
  moreover have "may_send resets a" using assms(3) by (rule may_send_mono) (simp add: resets_def)
  ultimately show ?thesis by (simp add: reset_confirmed_def)
qed

definition asking_reset :: overview_st where
  "asking_reset = overview_mount\<lparr>ov_resetOpen := True\<rparr>"

theorem reset_needs_confirmation_witness:
  "\<exists>h a. h \<in> set (live (OverviewPage sample_ui (\<lambda>a b. 0) (\<lambda>l t. []) show_rat plain_lib asking_reset)) \<and> fire h Click = Some a \<and>
     may_send (\<lambda>r. r = Http ''POST'' ''/stats/reset'' NoBody) a \<and> ov_resetOpen asking_reset \<and> \<not> ov_resetBusy asking_reset"
proof -
  let ?a = "confirm_run (\<lambda>b. Upd (\<lambda>x. x\<lparr>ov_resetOpen := b\<rparr>) Done) (resetStats sample_ui) (\<lambda>b x. x\<lparr>ov_resetBusy := b\<rparr>)"
  have live: "Plain ?a \<in> set (live (OverviewPage sample_ui (\<lambda>a b. 0) (\<lambda>l t. []) show_rat plain_lib asking_reset))"
    by (simp add: OverviewPage_def asking_reset_def overview_mount_def reset_dialog_def view_live Let_def)
  have send: "may_send (\<lambda>r. r = Http ''POST'' ''/stats/reset'' NoBody) ?a"
    by (simp add: confirm_run_def resetStats_def mutateAsync_def settle_def act_nf)
  have "fire (Plain ?a) Click = Some ?a" by simp
  from reset_needs_confirmation [OF live this send] live send show ?thesis by auto
qed

end
