(* ===== verification/Docs_Content.thy ===== *)
theory Docs_Content
  imports App_Shell
begin

text \<open>
  The building blocks of the documentation (\<open>pages/docs/content.tsx\<close>): snippets in which the reader's
  key takes the place of \<open>YOUR_API_KEY\<close>, callouts, headings, lists, links and tables; and what the
  browser finds in an article: the targets of its links and its headings.

  Every article is a function of the context: the address of the gateway, the trimmed key, and the
  copy button a snippet gets (each keeps a mark of its own).
\<close>

section \<open>\<open>String.prototype.replaceAll\<close> with a text pattern\<close>

text \<open>As \<open>replace\<close>, for every occurrence from left to right; \<open>bef\<close> is the text before the rest, which
  the template may name. The pattern is not empty, so every step shortens the rest.\<close>

fun replace_every :: "nat \<Rightarrow> string \<Rightarrow> string \<Rightarrow> string \<Rightarrow> string \<Rightarrow> string" where
  "replace_every 0 p r bef s = s"
| "replace_every (Suc n) p r bef s = (case find_first p s of None \<Rightarrow> s
     | Some (a, b) \<Rightarrow> a @ expand_template p (bef @ a) b r @ replace_every n p r (bef @ a @ p) b)"

definition js_replaceAll :: "string \<Rightarrow> string \<Rightarrow> string \<Rightarrow> string" where
  "js_replaceAll p r s = replace_every (Suc (length s)) p r [] s"

section \<open>content.tsx\<close>

definition KEY_PLACEHOLDER :: string where
  "KEY_PLACEHOLDER = ''YOUR_API_KEY''"

record 'e docs_ctx =
  dx_base :: string
  dx_apiKey :: string
  dx_copy :: "string \<Rightarrow> 'e view"

definition snippet_text :: "string \<Rightarrow> string \<Rightarrow> string" where
  "snippet_text apiKey cd = (if apiKey \<noteq> [] then js_replaceAll KEY_PLACEHOLDER apiKey cd else cd)"

definition Code :: "'e docs_ctx \<Rightarrow> string \<Rightarrow> string \<Rightarrow> 'e view" where
  "Code x lg cd = El ''div'' [] [
     El ''div'' [] [El ''span'' [] [Txt lg], dx_copy x (snippet_text (dx_apiKey x) cd)],
     El ''pre'' [] [El ''code'' [] [Txt (snippet_text (dx_apiKey x) cd)]]]"

definition Callout :: "bool \<Rightarrow> 'e view list \<Rightarrow> 'e view list \<Rightarrow> 'e view" where
  "Callout warn title children = El ''div'' [] [
     ic (if warn then ''LuTriangleAlert'' else ''LuInfo''),
     El ''div'' [] [shown (title \<noteq> []) (El ''div'' [] title), El ''div'' [] children]]"

definition H1 :: "'e view list \<Rightarrow> 'e view list \<Rightarrow> 'e view" where
  "H1 lead children = El ''header'' [] [El ''h1'' [] children, shown (lead \<noteq> []) (El ''p'' [] lead)]"

definition H2 :: "string \<Rightarrow> 'e view list \<Rightarrow> 'e view" where
  "H2 i children = El ''h2'' [aS ''id'' i] children"

definition H3 :: "string \<Rightarrow> 'e view list \<Rightarrow> 'e view" where
  "H3 i children = El ''h3'' [aS ''id'' i] children"

definition doc_P :: "'e view list \<Rightarrow> 'e view" where
  "doc_P children = El ''p'' [] children"

definition doc_Ul :: "'e view list \<Rightarrow> 'e view" where
  "doc_Ul children = El ''ul'' [] children"

definition doc_Ol :: "'e view list \<Rightarrow> 'e view" where
  "doc_Ol children = El ''ol'' [] children"

definition doc_C :: "'e view list \<Rightarrow> 'e view" where
  "doc_C children = El ''code'' [] children"

definition doc_A :: "string \<Rightarrow> 'e view list \<Rightarrow> 'e view" where
  "doc_A target children = El ''a'' [aS ''href'' target] children"

definition doc_T :: "'e view list \<Rightarrow> 'e view list list \<Rightarrow> 'e view" where
  "doc_T head rows = El ''div'' [] [El ''Table'' [] [
     El ''TableHeader'' [] [El ''TableRow'' [] (map (\<lambda>h. El ''TableHead'' [] [h]) head)],
     El ''TableBody'' [] (map (\<lambda>r. El ''TableRow'' [] (map (\<lambda>c. El ''TableCell'' [] [c]) r)) rows)]]"

text \<open>What the articles are written with: a text of several lines, and the characters that a
  literal does not hold.\<close>

definition code_lines :: "string list \<Rightarrow> string" where
  "code_lines ls = js_join LF ls"

definition right_arrow :: string where
  "right_arrow = [CHR 0xE2, CHR 0x86, CHR 0x92]"

definition backslash :: string where
  "backslash = [CHR 0x5C]"

text \<open>A line in which every double quote has a backslash before it.\<close>

definition slashed :: "string \<Rightarrow> string" where
  "slashed s = concat (map (\<lambda>c. if c = CHR 0x22 then [CHR 0x5C, c] else [c]) s)"

definition quote1 :: string where
  "quote1 = [CHR 0x27]"

section \<open>What the browser finds in a page\<close>

text \<open>\<open>textContent\<close>, the targets of the links, and \<open>article h2[id], article h3[id]\<close> in document
  order with their level.\<close>

fun textContent :: "'e view \<Rightarrow> string" where
  "textContent Nothing = []"
| "textContent (Txt t) = t"
| "textContent (El tag as cs) = concat (map textContent cs)"

fun attr_text :: "string \<Rightarrow> 'e attr list \<Rightarrow> string option" where
  "attr_text n (aS m v # as) = (if n = m then Some v else attr_text n as)"
| "attr_text n (a # as) = attr_text n as"
| "attr_text n [] = None"

fun link_targets :: "'e view \<Rightarrow> string list" where
  "link_targets (El tag as cs) =
     (if tag = ''a'' then (case attr_text ''href'' as of None \<Rightarrow> [] | Some h \<Rightarrow> [h]) else []) @ concat (map link_targets cs)"
| "link_targets v = []"

fun headings :: "'e view \<Rightarrow> (string \<times> string \<times> nat) list" where
  "headings (El tag as cs) =
     (if tag = ''h2'' \<or> tag = ''h3'' then (case attr_text ''id'' as of None \<Rightarrow> []
        | Some i \<Rightarrow> [(i, concat (map textContent cs), if tag = ''h2'' then 2 else 3)]) else [])
     @ concat (map headings cs)"
| "headings v = []"

section \<open>The building blocks, as the browser sees them\<close>

named_theorems doc_blocks

lemma concat_cells: "concat (map (\<lambda>r. concat (map f r)) rs) = concat (map f (concat rs))"
  by (induction rs) simp_all

lemma targets_blocks [doc_blocks]:
  "link_targets (dx_copy x (snippet_text (dx_apiKey x) cd)) = [] \<Longrightarrow> link_targets (Code x lg cd) = []"
  "link_targets (Callout warn ts cs) = concat (map link_targets ts) @ concat (map link_targets cs)"
  "link_targets (H1 ls cs) = concat (map link_targets cs) @ concat (map link_targets ls)"
  "link_targets (H2 i cs) = concat (map link_targets cs)"
  "link_targets (H3 i cs) = concat (map link_targets cs)"
  "link_targets (doc_P cs) = concat (map link_targets cs)"
  "link_targets (doc_Ul cs) = concat (map link_targets cs)"
  "link_targets (doc_Ol cs) = concat (map link_targets cs)"
  "link_targets (doc_C cs) = concat (map link_targets cs)"
  "link_targets (doc_A h cs) = h # concat (map link_targets cs)"
  "link_targets (doc_T hs rs) = concat (map link_targets hs) @ concat (map link_targets (concat rs))"
  "link_targets (El ''li'' [] cs) = concat (map link_targets cs)"
  "link_targets (El ''strong'' [] cs) = concat (map link_targets cs)"
  "link_targets (frag cs) = concat (map link_targets cs)"
  "link_targets (Txt t) = []"
  by (simp_all add: Code_def Callout_def H1_def H2_def H3_def doc_P_def doc_Ul_def doc_Ol_def doc_C_def doc_A_def doc_T_def
      frag_def ic_def shown_def comp_def concat_cells)

lemma headings_blocks [doc_blocks]:
  "headings (dx_copy x (snippet_text (dx_apiKey x) cd)) = [] \<Longrightarrow> headings (Code x lg cd) = []"
  "headings (Callout warn ts cs) = concat (map headings ts) @ concat (map headings cs)"
  "headings (H1 ls cs) = concat (map headings cs) @ concat (map headings ls)"
  "headings (H2 i cs) = (i, concat (map textContent cs), 2) # concat (map headings cs)"
  "headings (H3 i cs) = (i, concat (map textContent cs), 3) # concat (map headings cs)"
  "headings (doc_P cs) = concat (map headings cs)"
  "headings (doc_Ul cs) = concat (map headings cs)"
  "headings (doc_Ol cs) = concat (map headings cs)"
  "headings (doc_C cs) = concat (map headings cs)"
  "headings (doc_A h cs) = concat (map headings cs)"
  "headings (doc_T hs rs) = concat (map headings hs) @ concat (map headings (concat rs))"
  "headings (El ''li'' [] cs) = concat (map headings cs)"
  "headings (El ''strong'' [] cs) = concat (map headings cs)"
  "headings (frag cs) = concat (map headings cs)"
  "headings (Txt t) = []"
  by (simp_all add: Code_def Callout_def H1_def H2_def H3_def doc_P_def doc_Ul_def doc_Ol_def doc_C_def doc_A_def doc_T_def
      frag_def ic_def shown_def comp_def concat_cells)

text \<open>The handlers of an article are those of its copy buttons.\<close>

lemma live_blocks [doc_blocks]:
  "live (Code x lg cd) = live (dx_copy x (snippet_text (dx_apiKey x) cd))"
  "live (Callout warn ts cs) = concat (map live ts) @ concat (map live cs)"
  "live (H1 ls cs) = concat (map live cs) @ concat (map live ls)"
  "live (H2 i cs) = concat (map live cs)"
  "live (H3 i cs) = concat (map live cs)"
  "live (doc_P cs) = concat (map live cs)"
  "live (doc_Ul cs) = concat (map live cs)"
  "live (doc_Ol cs) = concat (map live cs)"
  "live (doc_C cs) = concat (map live cs)"
  "live (doc_A h cs) = concat (map live cs)"
  "live (doc_T hs rs) = concat (map live hs) @ concat (map live (concat rs))"
  "live (El ''li'' [] cs) = concat (map live cs)"
  "live (El ''strong'' [] cs) = concat (map live cs)"
  "live (frag cs) = concat (map live cs)"
  "live (Txt t) = []"
  by (simp_all add: Code_def Callout_def H1_def H2_def H3_def doc_P_def doc_Ul_def doc_Ol_def doc_C_def doc_A_def doc_T_def
      frag_def ic_def shown_def comp_def concat_cells has_flag_def)

text \<open>A copy button brings neither links nor headings. The articles are taken apart with these facts only,
  so that their texts stay as they are.\<close>

definition plain_copy :: "'e docs_ctx \<Rightarrow> bool" where
  "plain_copy x \<longleftrightarrow> (\<forall>t. link_targets (dx_copy x t) = [] \<and> headings (dx_copy x t) = [])"

lemma plain_copy_Code [doc_blocks]:
  "plain_copy x \<Longrightarrow> link_targets (Code x lg cd) = []"
  "plain_copy x \<Longrightarrow> headings (Code x lg cd) = []"
  by (simp_all add: plain_copy_def doc_blocks)

lemma Txt_cong: "Txt t = Txt t"
  by (rule refl)

lemma Code_cong: "Code x lg cd = Code x lg cd"
  by (rule refl)

lemmas doc_congs = Txt_cong Code_cong

lemmas doc_simps = list.map concat.simps append.simps list_all_append list.pred_inject textContent.simps append_Nil2 True_implies_equals simp_thms

section \<open>Snippets\<close>

text \<open>A key without a dollar sign is put in literally: the text between the placeholders is kept.\<close>

lemma find_first_split: "find_first p s = Some (a, b) \<Longrightarrow> s = a @ p @ b"
proof (induction s arbitrary: a)
  case (Cons c s)
  then show ?case
    by (auto split: if_splits option.splits prod.splits simp: starts_with_iff)
qed (auto split: if_splits)

lemma replace_every_enough:
  assumes "p \<noteq> []" "length s < n" "length s < m" "CHR ''$'' \<notin> set r"
  shows "replace_every n p r u s = replace_every m p r v s"
  using assms(2-)
proof (induction n arbitrary: m s u v)
  case (Suc n)
  then obtain k where m: "m = Suc k" by (cases m) auto
  show ?case
  proof (cases "find_first p s")
    case (Some ab)
    obtain a b where ab: "ab = (a, b)" by (cases ab)
    then have "length b < length s" using Some find_first_split [of p s a b] assms(1) by (auto simp: neq_Nil_conv)
    with Suc.prems m Suc.IH [of b k "u @ a @ p" "v @ a @ p"] show ?thesis
      using Some ab by (simp add: expand_template_plain)
  qed (simp add: m)
qed simp

lemma snippet_text_step:
  assumes "k \<noteq> []" "CHR ''$'' \<notin> set k"
  shows "snippet_text k s = (case find_first KEY_PLACEHOLDER s of None \<Rightarrow> s | Some (a, b) \<Rightarrow> a @ k @ snippet_text k b)"
proof (cases "find_first KEY_PLACEHOLDER s")
  case (Some ab)
  obtain a b where ab: "ab = (a, b)" by (cases ab)
  have p: "KEY_PLACEHOLDER \<noteq> []" by (simp add: KEY_PLACEHOLDER_def)
  have "length b < length s" using Some ab find_first_split [of KEY_PLACEHOLDER s a b] p by (auto simp: neq_Nil_conv)
  then show ?thesis
    using Some ab assms replace_every_enough [OF p, of b "length s" "Suc (length b)" k "a @ KEY_PLACEHOLDER" "[]"]
    by (simp add: snippet_text_def js_replaceAll_def expand_template_plain)
qed (simp add: snippet_text_def js_replaceAll_def assms)

end
