(* ===== verification/Docs_Core.thy ===== *)
theory Docs_Core
  imports Docs_Content
begin

text \<open>
  The reference articles of the documentation (\<open>pages/docs/core.tsx\<close>). A text is what the page
  shows: the white space of the source is joined as JSX joins it; characters outside ASCII stand for
  their UTF-8 bytes. After each article: its handlers are those of the copy buttons, the targets of its
  links, and the ids of its headings.
\<close>

section \<open>core.tsx\<close>

definition GettingStarted :: "'e docs_ctx \<Rightarrow> 'e view" where
  "GettingStarted x = frag [
     H1 [Txt (''Hekato-Go is an AI gateway. It exposes Anthropic- and OpenAI-compatible APIs in front of pools '' @
       ''of Kiro, CodeBuddy and Grok accounts, with load balancing, per-key limits and smart routing.'')]
       [Txt ''Getting started''],
     H2 ''what'' [Txt ''What this gateway does''],
     doc_P [
       Txt (''You talk to one host using the API shape you already know (Anthropic Messages, OpenAI Chat '' @
         ''Completions or OpenAI Responses). The gateway picks an upstream account, translates the '' @
         ''request, streams the answer back and tracks your usage. Any tool that can point at a custom '' @
         ''Anthropic or OpenAI base URL works unchanged.'')],
     H2 ''base-url'' [Txt ''Base URL''],
     Code x ''text'' (dx_base x),
     doc_P [
       Txt ''Anthropic-style clients use the base URL as-is (they append '', doc_C [Txt ''/v1/messages''],
       Txt ''). OpenAI-style clients usually want '', doc_C [Txt (dx_base x), Txt ''/v1''], Txt ''.''],
     H2 ''api-key'' [Txt ''Get an API key''],
     doc_P [
       Txt ''Keys are created by the gateway administrator under '', doc_A ''/admin'' [Txt ''Admin''],
       Txt ('' '' @ right_arrow @ '' API Keys. Each key can carry its own token / credit quota, requests-per-minute and '' @
         ''concurrency limits. Send it as ''),
       doc_C [Txt ''Authorization: Bearer YOUR_API_KEY''], Txt '' or '', doc_C [Txt ''X-Api-Key: YOUR_API_KEY''], Txt ''.''],
     Callout False [] [
       Txt (''Paste your key into the field at the top of this page and every snippet below is rewritten with '' @
         ''it, ready to copy.'')],
     H2 ''anthropic-30s'' [Txt ''30 seconds: Anthropic Messages''],
     Code x ''bash'' (code_lines [
         ''curl '' @ dx_base x @ ''/v1/messages '' @ backslash,
         ''  -H \"Content-Type: application/json\" '' @ backslash,
         ''  -H \"x-api-key: YOUR_API_KEY\" '' @ backslash,
         ''  -H \"anthropic-version: 2023-06-01\" '' @ backslash,
         ''  -d '{'',
         ''    \"model\": \"claude-sonnet-4.5\",'',
         ''    \"max_tokens\": 256,'',
         ''    \"messages\": [{\"role\": \"user\", \"content\": \"Say hello in one sentence.\"}]'',
         ''  }'' @ quote1]),
     H2 ''openai-30s'' [Txt ''30 seconds: OpenAI Chat Completions''],
     Code x ''bash'' (code_lines [
         ''curl '' @ dx_base x @ ''/v1/chat/completions '' @ backslash,
         ''  -H \"Content-Type: application/json\" '' @ backslash,
         ''  -H \"Authorization: Bearer YOUR_API_KEY\" '' @ backslash,
         ''  -d '{'',
         ''    \"model\": \"claude-sonnet-4.5\",'',
         ''    \"messages\": [{\"role\": \"user\", \"content\": \"Say hello in one sentence.\"}]'',
         ''  }'' @ quote1]),
     H2 ''check-usage'' [Txt ''Check your usage''],
     doc_P [
       Txt ''Open '', doc_A ''/usage'' [Txt (dx_base x), Txt ''/usage''],
       Txt ('', paste your key, and see quota, limits and current consumption. The same data is available as '' @
         ''JSON from ''),
       doc_C [Txt ''GET /v1/usage''], Txt '' (see '', doc_A ''/docs/limits'' [Txt ''Limits''], Txt '').''],
     H2 ''next'' [Txt ''Next steps''],
     doc_Ul [
       El ''li'' [] [
         doc_A ''/docs/endpoints'' [Txt ''Endpoints''], Txt ('' '' @ em_dash @ '' every route, streaming, error format.'')],
       El ''li'' [] [
         doc_A ''/docs/models'' [Txt ''Models''], Txt ('' '' @ em_dash @ '' model names, thinking mode, the ''),
         doc_C [Txt ''auto''], Txt '' model.''],
       El ''li'' [] [Txt (''Tool guides in the sidebar '' @ em_dash @ '' Claude Code, Codex, Cursor, SDKs and more.'')]]]"

lemma GettingStarted_parts:
  "(\<And>t. list_all Q (live (dx_copy x t))) \<Longrightarrow> list_all Q (live (GettingStarted x))"
  "plain_copy x \<Longrightarrow> link_targets (GettingStarted x) =
     [''/admin'', ''/usage'', ''/docs/limits'', ''/docs/endpoints'', ''/docs/models'']"
  "plain_copy x \<Longrightarrow> headings (GettingStarted x) =
     [(''what'', ''What this gateway does'', 2), (''base-url'', ''Base URL'', 2), (''api-key'', ''Get an API key'', 2),
      (''anthropic-30s'', ''30 seconds: Anthropic Messages'', 2),
      (''openai-30s'', ''30 seconds: OpenAI Chat Completions'', 2), (''check-usage'', ''Check your usage'', 2),
      (''next'', ''Next steps'', 2)]"
  by (simp_all only: GettingStarted_def doc_blocks doc_simps cong: doc_congs)

definition Endpoints :: "'e docs_ctx \<Rightarrow> 'e view" where
  "Endpoints x = frag [
     H1 [Txt ''Every public route served by the gateway, how to authenticate, and how errors look in each dialect.'']
       [Txt ''Endpoints''],
     H2 ''overview'' [Txt ''Overview''],
     doc_T [Txt ''Method'', Txt ''Path'', Txt ''Purpose'', Txt ''Auth'']
       [
         [
           Txt ''POST'', doc_C [Txt ''/v1/messages''], Txt ''Anthropic Messages API (streaming and non-streaming)'',
           Txt ''API key''],
         [
           Txt ''POST'', doc_C [Txt ''/v1/messages/count_tokens''], Txt ''Estimate input tokens for an Anthropic request'',
           Txt ''API key''],
         [Txt ''POST'', doc_C [Txt ''/v1/chat/completions''], Txt ''OpenAI Chat Completions API'', Txt ''API key''],
         [Txt ''POST'', doc_C [Txt ''/v1/responses''], Txt ''OpenAI Responses API'', Txt ''API key''],
         [Txt ''GET'', doc_C [Txt ''/v1/models''], Txt ''List available model IDs'', Txt ''none''],
         [Txt ''GET'', doc_C [Txt ''/v1/usage''], Txt ''Quota and usage of the calling key (JSON)'', Txt ''API key''],
         [Txt ''GET'', doc_C [Txt ''/health''], Txt ''Liveness: status, version, uptime'', Txt ''none'']],
     doc_P [
       Txt ''The '', doc_C [Txt ''/v1''], Txt '' prefix is optional: '', doc_C [Txt ''/messages''], Txt '', '',
       doc_C [Txt ''/chat/completions''], Txt '' and '', doc_C [Txt ''/responses''], Txt '' resolve to the same handlers.'',
       doc_C [Txt ''/anthropic/v1/messages''], Txt '' is accepted too for clients that hard-code that layout.''],
     H2 ''auth'' [Txt ''Authentication''],
     doc_P [Txt ''Send the key in either header; both dialects accept both forms.''],
     Code x ''http'' (code_lines [
         ''Authorization: Bearer YOUR_API_KEY'',
         ''# or'',
         ''X-Api-Key: YOUR_API_KEY'']),
     Callout True [] [
       Txt ''Keys are checked on every request. A missing, unknown or disabled key returns '', doc_C [Txt ''401''],
       Txt ''; a key over its quota or rate limit returns'', Txt '' '', doc_C [Txt ''429''], Txt '' with a '',
       doc_C [Txt ''Retry-After''], Txt '' header.''],
     H2 ''messages'' [Txt ''POST /v1/messages''],
     doc_P [
       Txt ''Standard Anthropic Messages request body: '', doc_C [Txt ''model''], Txt '', '', doc_C [Txt ''max_tokens''],
       Txt '', '', doc_C [Txt ''messages''], Txt '', optional '', doc_C [Txt ''system''], Txt '', '', doc_C [Txt ''tools''],
       Txt '','', doc_C [Txt ''thinking''], Txt '', '', doc_C [Txt ''stream''],
       Txt ''. Responses use the Anthropic shape ('', doc_C [Txt ''content''], Txt '' blocks, '',
       doc_C [Txt ''stop_reason''], Txt '', '', doc_C [Txt ''usage''], Txt '').''],
     Code x ''bash'' (code_lines [
         ''curl '' @ dx_base x @ ''/v1/messages '' @ backslash,
         ''  -H \"x-api-key: YOUR_API_KEY\" '' @ backslash,
         ''  -H \"anthropic-version: 2023-06-01\" '' @ backslash,
         ''  -H \"Content-Type: application/json\" '' @ backslash,
         ''  -d '{\"model\":\"claude-sonnet-4.5\",\"max_tokens\":512,\"system\":\"Be brief.\",\"messages\":[{\"role\":\"user\",\"content\":\"What is an AI gateway?\"}]}'' @ quote1]),
     H2 ''count-tokens'' [Txt ''POST /v1/messages/count_tokens''],
     doc_P [
       Txt ''Same body as '', doc_C [Txt ''/v1/messages''], Txt '' minus '', doc_C [Txt ''max_tokens''], Txt ''. Returns '',
       doc_C [Txt ''{\"input_tokens\": N}''],
       Txt ''. The count is a local estimate, useful for budgeting before you send the real request.''],
     Code x ''bash'' (code_lines [
         ''curl '' @ dx_base x @ ''/v1/messages/count_tokens '' @ backslash,
         ''  -H \"x-api-key: YOUR_API_KEY\" '' @ backslash,
         ''  -H \"anthropic-version: 2023-06-01\" '' @ backslash,
         ''  -H \"Content-Type: application/json\" '' @ backslash,
         ''  -d '{\"model\":\"claude-sonnet-4.5\",\"messages\":[{\"role\":\"user\",\"content\":\"How many tokens is this?\"}]}'' @ quote1]),
     H2 ''chat-completions'' [Txt ''POST /v1/chat/completions''],
     doc_P [
       Txt ''OpenAI Chat Completions request: '', doc_C [Txt ''model''], Txt '', '', doc_C [Txt ''messages''],
       Txt '', optional '', doc_C [Txt ''tools''], Txt '', '', doc_C [Txt ''stream''], Txt '', '',
       doc_C [Txt ''max_tokens''], Txt '' /'', doc_C [Txt ''max_completion_tokens''], Txt '', '',
       doc_C [Txt ''temperature''], Txt ''. Image parts ('', doc_C [Txt ''image_url''],
       Txt '') and tool calls are translated to the upstream format.''],
     Code x ''bash'' (code_lines [
         ''curl '' @ dx_base x @ ''/v1/chat/completions '' @ backslash,
         ''  -H \"Authorization: Bearer YOUR_API_KEY\" '' @ backslash,
         ''  -H \"Content-Type: application/json\" '' @ backslash,
         ''  -d '{\"model\":\"claude-sonnet-4.5\",\"messages\":[{\"role\":\"system\",\"content\":\"Be brief.\"},{\"role\":\"user\",\"content\":\"What is an AI gateway?\"}]}'' @ quote1]),
     H2 ''responses'' [Txt ''POST /v1/responses''],
     doc_P [
       Txt ''OpenAI Responses API, used by Codex CLI and newer SDK code paths. Accepts '', doc_C [Txt ''input''],
       Txt '' as a string or an item list, '', doc_C [Txt ''instructions''], Txt '','', doc_C [Txt ''tools''], Txt '', '',
       doc_C [Txt ''previous_response_id''], Txt '' and '', doc_C [Txt ''stream''],
       Txt ''. Conversation state referenced by '', doc_C [Txt ''previous_response_id''],
       Txt '' is kept in memory on the gateway.''],
     Code x ''bash'' (code_lines [
         ''curl '' @ dx_base x @ ''/v1/responses '' @ backslash,
         ''  -H \"Authorization: Bearer YOUR_API_KEY\" '' @ backslash,
         ''  -H \"Content-Type: application/json\" '' @ backslash,
         ''  -d '{\"model\":\"claude-sonnet-4.5\",\"input\":\"What is an AI gateway?\"}'' @ quote1]),
     H2 ''models-endpoint'' [Txt ''GET /v1/models''],
     doc_P [
       Txt ''Lists the models the account pool currently advertises, plus the aliases '', doc_C [Txt ''auto''], Txt '', '',
       doc_C [Txt ''gpt-4o''], Txt '' and '', doc_C [Txt ''gpt-4''], Txt '', and a'', Txt '' '', doc_C [Txt ''-thinking''],
       Txt '' variant for each Claude model. No key is needed.''],
     Code x ''bash'' (''curl '' @ dx_base x @ ''/v1/models''),
     H2 ''usage-endpoint'' [Txt ''GET /v1/usage''],
     doc_P [Txt ''Returns the calling key's name, masked value, limits and consumption. Powers the public /usage page.''],
     Code x ''bash'' (''curl '' @ dx_base x @ ''/v1/usage -H \"Authorization: Bearer YOUR_API_KEY\"''),
     H2 ''health'' [Txt ''GET /health''],
     Code x ''bash'' (code_lines [
         ''curl '' @ dx_base x @ ''/health'',
         ''# {\"status\":\"ok\",\"version\":\"...\",\"uptime\":12345}'']),
     H2 ''streaming'' [Txt ''Streaming (SSE)''],
     doc_P [
       Txt ''Set '', doc_C [Txt ''\"stream\": true''], Txt '' in any chat endpoint. The response is '',
       doc_C [Txt ''text/event-stream''], Txt '' using the native event format of the dialect you called:''],
     doc_Ul [
       El ''li'' [] [
         Txt ''Anthropic: '', doc_C [Txt ''message_start''], Txt '', '', doc_C [Txt ''content_block_start''], Txt '', '',
         doc_C [Txt ''content_block_delta''], Txt '', '', doc_C [Txt ''message_delta''], Txt '', '',
         doc_C [Txt ''message_stop''], Txt ''.''],
       El ''li'' [] [
         Txt ''OpenAI Chat: '', doc_C [Txt ''data: '', Txt ''{...chat.completion.chunk...}''], Txt '' lines terminated by '',
         doc_C [Txt ''data: [DONE]''], Txt ''.''],
       El ''li'' [] [
         Txt ''OpenAI Responses: '', doc_C [Txt ''response.created''], Txt '', '', doc_C [Txt ''response.output_text.delta''],
         Txt '', '', doc_C [Txt ''response.completed''], Txt ''.'']],
     Code x ''bash'' (code_lines [
         ''curl -N '' @ dx_base x @ ''/v1/chat/completions '' @ backslash,
         ''  -H \"Authorization: Bearer YOUR_API_KEY\" '' @ backslash,
         ''  -H \"Content-Type: application/json\" '' @ backslash,
         ''  -d '{\"model\":\"claude-sonnet-4.5\",\"stream\":true,\"messages\":[{\"role\":\"user\",\"content\":\"Count to five.\"}]}'' @ quote1]),
     Callout False [] [
       Txt (''If you sit behind nginx, Cloudflare or another reverse proxy, disable response buffering for '' @
         ''these paths, otherwise tokens arrive in one burst at the end. See ''),
       doc_A ''/docs/troubleshooting#streaming'' [Txt ''Troubleshooting''], Txt ''.''],
     H2 ''errors'' [Txt ''Error format''],
     doc_P [Txt ''Errors follow the dialect of the endpoint you called.''],
     H3 ''errors-anthropic'' [Txt ''Anthropic endpoints''],
     Code x ''json'' ''{\"type\":\"error\",\"error\":{\"type\":\"authentication_error\",\"message\":\"Invalid or missing API key\"}}'',
     H3 ''errors-openai'' [Txt ''OpenAI endpoints''],
     Code x ''json'' ''{\"error\":{\"type\":\"authentication_error\",\"message\":\"Invalid or missing API key\"}}'',
     H2 ''status-codes'' [Txt ''Status codes''],
     doc_T [Txt ''Status'', Txt ''Type'', Txt ''Meaning'']
       [
         [Txt ''400'', doc_C [Txt ''invalid_request_error''], Txt ''Body is not valid JSON or fails validation''],
         [Txt ''401'', doc_C [Txt ''authentication_error''], Txt ''Key missing, unknown or disabled''],
         [
           Txt ''429'', doc_C [Txt ''rate_limit_error''],
           Txt ''Token / credit quota, RPM or concurrency limit hit. Retry-After header is set.''],
         [Txt ''503'', doc_C [Txt ''api_error''], Txt ''No available accounts in the pool for this model'']],
     doc_P [
       Txt ''On '', doc_C [Txt ''429''], Txt '' the gateway sets '', doc_C [Txt ''Retry-After: 1''],
       Txt ('' (seconds). Back off at least that long; for quota exhaustion, ask your admin to raise the '' @
         ''limit or reset usage.'')]]"

lemma Endpoints_parts:
  "(\<And>t. list_all Q (live (dx_copy x t))) \<Longrightarrow> list_all Q (live (Endpoints x))"
  "plain_copy x \<Longrightarrow> link_targets (Endpoints x) =
     [''/docs/troubleshooting#streaming'']"
  "plain_copy x \<Longrightarrow> headings (Endpoints x) =
     [(''overview'', ''Overview'', 2), (''auth'', ''Authentication'', 2), (''messages'', ''POST /v1/messages'', 2),
      (''count-tokens'', ''POST /v1/messages/count_tokens'', 2),
      (''chat-completions'', ''POST /v1/chat/completions'', 2), (''responses'', ''POST /v1/responses'', 2),
      (''models-endpoint'', ''GET /v1/models'', 2), (''usage-endpoint'', ''GET /v1/usage'', 2),
      (''health'', ''GET /health'', 2), (''streaming'', ''Streaming (SSE)'', 2), (''errors'', ''Error format'', 2),
      (''errors-anthropic'', ''Anthropic endpoints'', 3), (''errors-openai'', ''OpenAI endpoints'', 3),
      (''status-codes'', ''Status codes'', 2)]"
  by (simp_all only: Endpoints_def doc_blocks doc_simps cong: doc_congs)

definition Models :: "'e docs_ctx \<Rightarrow> 'e view" where
  "Models x = frag [
     H1 [Txt ''How model names are resolved, how to turn on extended thinking, and how the auto model routes for you.'']
       [Txt ''Models''],
     H2 ''names'' [Txt ''Model names''],
     doc_P [
       Txt ''Use Anthropic-style IDs. The canonical names are '', doc_C [Txt ''claude-sonnet-4.5''], Txt '', '',
       doc_C [Txt ''claude-opus-4.5''], Txt '' and '', doc_C [Txt ''claude-haiku-4.5''],
       Txt ''; whatever the pool currently advertises is listed by '', doc_C [Txt ''GET /v1/models''], Txt ''.''],
     doc_T [Txt ''You send'', Txt ''Resolves to'', Txt ''Note'']
       [
         [doc_C [Txt ''claude-sonnet-4.5''], doc_C [Txt ''claude-sonnet-4.5''], Txt ''Canonical form''],
         [doc_C [Txt ''claude-sonnet-4-5''], doc_C [Txt ''claude-sonnet-4.5''], Txt ''Dash form is normalized''],
         [doc_C [Txt ''claude-sonnet-4-5-20250929''], doc_C [Txt ''claude-sonnet-4.5''], Txt ''Dated suffixes are stripped''],
         [doc_C [Txt ''gpt-4o''], doc_C [Txt ''claude-sonnet-4.5''], Txt ''OpenAI alias for tools that hard-code GPT names''],
         [doc_C [Txt ''gpt-4''], doc_C [Txt ''claude-sonnet-4.5''], Txt ''Same alias''],
         [doc_C [Txt ''auto''], Txt ''chosen per request'', Txt ''See Auto routing below'']],
     Code x ''bash'' (''curl '' @ dx_base x @ ''/v1/models | jq '.data[].id'' @ quote1),
     H2 ''thinking'' [Txt ''Thinking mode''],
     doc_P [Txt ''Two ways to enable extended thinking, both work on every endpoint:''],
     H3 ''thinking-suffix'' [Txt ''1. Model suffix''],
     doc_P [
       Txt ''Append '', doc_C [Txt ''-thinking''],
       Txt ('' (the default suffix; the admin can change it under Settings '' @ right_arrow @ '' Thinking Mode). This is the only '' @
         ''option for OpenAI-style clients.'')],
     Code x ''bash'' (code_lines [
         ''curl '' @ dx_base x @ ''/v1/chat/completions '' @ backslash,
         ''  -H \"Authorization: Bearer YOUR_API_KEY\" '' @ backslash,
         ''  -H \"Content-Type: application/json\" '' @ backslash,
         ''  -d '{\"model\":\"claude-sonnet-4.5-thinking\",\"messages\":[{\"role\":\"user\",\"content\":\"Prove that sqrt(2) is irrational.\"}]}'' @ quote1]),
     H3 ''thinking-block'' [Txt ''2. Anthropic thinking block''],
     doc_P [
       Txt ''On '', doc_C [Txt ''/v1/messages''], Txt '', a top-level '', doc_C [Txt ''thinking''],
       Txt '' object enables it automatically: '', doc_C [Txt ''{\"type\":\"enabled\",\"budget_tokens\":2048}''], Txt '' '',
       Txt ''or '', doc_C [Txt ''{\"type\":\"adaptive\"}''], Txt ''.''],
     Code x ''bash'' (code_lines [
         ''curl '' @ dx_base x @ ''/v1/messages '' @ backslash,
         ''  -H \"x-api-key: YOUR_API_KEY\" '' @ backslash,
         ''  -H \"anthropic-version: 2023-06-01\" '' @ backslash,
         ''  -H \"Content-Type: application/json\" '' @ backslash,
         ''  -d '{'',
         ''    \"model\": \"claude-sonnet-4.5\",'',
         ''    \"max_tokens\": 4096,'',
         ''    \"thinking\": {\"type\": \"enabled\", \"budget_tokens\": 2048},'',
         ''    \"messages\": [{\"role\": \"user\", \"content\": \"Prove that sqrt(2) is irrational.\"}]'',
         ''  }'' @ quote1]),
     Callout False [] [
       Txt ''How thinking is surfaced (Anthropic '', doc_C [Txt ''thinking''], Txt '' content blocks, or inline '',
       doc_C [Txt ''<thinking>''], Txt '' tags in text) is a gateway-wide setting chosen by the admin.''],
     H2 ''auto'' [Txt ''The auto model''],
     doc_P [
       Txt ''Send '', doc_C [Txt ''\"model\": \"auto\"''],
       Txt ('' and the gateway classifies the request (input size, tool count, turns, images, thinking) into '' @
         ''a fast / balanced / strong tier, then a learning bandit picks the best (account, model) pair '' @
         ''inside that tier using observed success rate, latency and remaining quota.'')],
     doc_P [Txt ''The decision is reported in two response headers:''],
     doc_T [Txt ''Header'', Txt ''Value'']
       [
         [doc_C [Txt ''X-Hekato-Routed-Model''], Txt ''The concrete model that served the request, e.g. claude-haiku-4.5''],
         [
           doc_C [Txt ''X-Hekato-Route-Reason''],
           Txt ''Why: bandit tier/score, \"pinned\" (conversation affinity), or a fallback note'']],
     Code x ''bash'' (code_lines [
         ''curl -i '' @ dx_base x @ ''/v1/chat/completions '' @ backslash,
         ''  -H \"Authorization: Bearer YOUR_API_KEY\" '' @ backslash,
         ''  -H \"Content-Type: application/json\" '' @ backslash,
         ''  -d '{\"model\":\"auto\",\"messages\":[{\"role\":\"user\",\"content\":\"Rename this variable: foo -> userCount\"}]}' '' @ backslash,
         ''  | grep -i x-hekato'']),
     Callout True [] [
       Txt (''Auto routing must be enabled by the admin (Settings '' @ right_arrow @ '' Auto Routing). When it is off, ''),
       doc_C [Txt ''auto''],
       Txt '' is passed through to the upstream unchanged and will usually fail with \"model not found\".''],
     H2 ''providers'' [Txt ''Provider notes''],
     doc_P [
       Txt (''The pool can mix Kiro, CodeBuddy, Grok, OpenCode Zen, and OpenCode Go accounts. All of them '' @
         ''serve the same endpoints and the same model names; the gateway translates each request into the '' @
         ''provider's native format. Which provider actually served you is an admin-side detail and does '' @
         ''not change the request or response shape.'')],
     doc_Ul [
       El ''li'' [] [
         El ''strong'' [] [Txt ''Kiro''],
         Txt ('' '' @ em_dash @ '' Claude models via AWS Builder ID / IAM Identity Center accounts.'')],
       El ''li'' [] [
         El ''strong'' [] [Txt ''CodeBuddy''],
         Txt ('' '' @ em_dash @ '' Claude models via Tencent CodeBuddy API keys; model IDs advertised by the account appear in''),
         Txt '' '', doc_C [Txt ''/v1/models''], Txt ''.''],
       El ''li'' [] [
         El ''strong'' [] [Txt ''Grok''], Txt ('' '' @ em_dash @ '' xAI models; use the ''), doc_C [Txt ''grok-*''],
         Txt '' IDs listed by '', doc_C [Txt ''/v1/models''], Txt '', or let '', doc_C [Txt ''auto''], Txt '' pick.''],
       El ''li'' [] [
         El ''strong'' [] [Txt ''OpenCode Zen''],
         Txt ('' '' @ em_dash @ '' free-tier models via opencode.ai/zen; the gateway injects the required fingerprint tools '' @
           ''automatically.'')],
       El ''li'' [] [
         El ''strong'' [] [Txt ''OpenCode Go''],
         Txt ('' '' @ em_dash @ '' subscription-tier ($5+/mo) models via opencode.ai/zen/go; same fingerprint requirement, '' @
           ''auto-injected.'')]]]"

lemma Models_parts:
  "(\<And>t. list_all Q (live (dx_copy x t))) \<Longrightarrow> list_all Q (live (Models x))"
  "plain_copy x \<Longrightarrow> link_targets (Models x) =
     []"
  "plain_copy x \<Longrightarrow> headings (Models x) =
     [(''names'', ''Model names'', 2), (''thinking'', ''Thinking mode'', 2),
      (''thinking-suffix'', ''1. Model suffix'', 3), (''thinking-block'', ''2. Anthropic thinking block'', 3),
      (''auto'', ''The auto model'', 2), (''providers'', ''Provider notes'', 2)]"
  by (simp_all only: Models_def doc_blocks doc_simps cong: doc_congs)

definition Limits :: "'e docs_ctx \<Rightarrow> 'e view" where
  "Limits x = frag [
     H1 [Txt (''Every key carries its own quotas. Here is what they mean, what a 429 looks like, and how to '' @
       ''read your usage.'')]
       [Txt ''Limits & usage''],
     H2 ''per-key'' [Txt ''Per-key limits''],
     doc_T [Txt ''Limit'', Txt ''Scope'', Txt ''When exceeded'']
       [
         [Txt ''Token quota'', Txt ''Cumulative input + output tokens since last reset'', Txt ''429 token limit exceeded''],
         [Txt ''Credit quota'', Txt ''Cumulative upstream credits consumed'', Txt ''429 credit limit exceeded''],
         [Txt ''Requests per minute (RPM)'', Txt ''Sliding 60-second window'', Txt ''429 requests per minute limit exceeded''],
         [Txt ''Max concurrent'', Txt ''In-flight requests at the same time'', Txt ''429 concurrency limit exceeded'']],
     doc_P [
       Txt ''A value of '', doc_C [Txt ''0''],
       Txt '' means unlimited. Limits are set by the admin per key; usage counters can be reset from the admin panel.''],
     H2 ''429'' [Txt ''429 responses''],
     doc_P [
       Txt ''All four limits produce the same shape, in the dialect of the endpoint you called, with a '',
       doc_C [Txt ''Retry-After''], Txt '' header.''],
     Code x ''http'' (code_lines [
         ''HTTP/1.1 429 Too Many Requests'',
         ''Retry-After: 1'',
         ''Content-Type: application/json; charset=utf-8'',
         [],
         ''{\"error\":{\"type\":\"rate_limit_error\",\"message\":\"requests per minute limit exceeded\"}}'']),
     doc_Ul [
       El ''li'' [] [
         El ''strong'' [] [Txt ''RPM / concurrency''], Txt '': wait '', doc_C [Txt ''Retry-After''],
         Txt '' seconds and retry. Most SDKs do this automatically for 429.''],
       El ''li'' [] [
         El ''strong'' [] [Txt ''Token / credit quota''],
         Txt '': retrying will not help until the admin raises the limit or resets usage.'']],
     H2 ''read-usage'' [Txt ''Reading your usage''],
     H3 ''usage-curl'' [Txt ''Via the API''],
     Code x ''bash'' (''curl '' @ dx_base x @ ''/v1/usage -H \"Authorization: Bearer YOUR_API_KEY\"''),
     Code x ''json'' (code_lines [
         ''{'',
         ''  \"name\": \"my-laptop\",'',
         ''  \"keyMasked\": \"sk-ab'' @ ellipsis @ ''89\",'',
         ''  \"enabled\": true,'',
         ''  \"requestsCount\": 1284,'',
         ''  \"tokensUsed\": 5123456,'',
         ''  \"tokenLimit\": 20000000,'',
         ''  \"tokenPercent\": 0.256,'',
         ''  \"creditsUsed\": 12.4,'',
         ''  \"creditLimit\": 0,'',
         ''  \"creditPercent\": 0,'',
         ''  \"rpmLimit\": 60,'',
         ''  \"concurrencyLimit\": 4,'',
         ''  \"createdAt\": 1758400000,'',
         ''  \"lastUsedAt\": 1758499999'',
         ''}'']),
     H3 ''usage-page'' [Txt ''Via the web page''],
     doc_P [
       Txt ''Open '', doc_A ''/usage'' [Txt (dx_base x), Txt ''/usage''],
       Txt ('', paste the key, and the same numbers are shown as progress bars. No admin login is needed; the '' @
         ''key is the credential and is only sent to this gateway.'')],
     H2 ''affinity'' [Txt ''Conversation affinity''],
     doc_P [
       Txt ''Multi-turn conversations are pinned to the upstream account that served the first turn. The pin key is'',
       Txt '' '', El ''strong'' [] [Txt ''model + system prompt + first user message''],
       Txt ('', with a 5-minute sliding TTL. This keeps the upstream prompt cache warm, so follow-up turns '' @
         ''are faster and cheaper.'')],
     Callout False [Txt ''To benefit from caching''] [
       Txt (''Keep the system prompt and the first user message byte-identical across turns. Tools that '' @
         ''rewrite the system prompt every request (for example by embedding a timestamp) defeat the pin '' @
         ''and spread turns across accounts.'')],
     doc_P [
       Txt (''If the pinned account cools down or is excluded, routing falls back to weighted round-robin and '' @
         ''re-pins. With ''),
       doc_C [Txt ''auto''], Txt '', a pinned conversation also keeps its resolved model ('',
       doc_C [Txt ''X-Hekato-Route-Reason: pinned''], Txt '').'']]"

lemma Limits_parts:
  "(\<And>t. list_all Q (live (dx_copy x t))) \<Longrightarrow> list_all Q (live (Limits x))"
  "plain_copy x \<Longrightarrow> link_targets (Limits x) =
     [''/usage'']"
  "plain_copy x \<Longrightarrow> headings (Limits x) =
     [(''per-key'', ''Per-key limits'', 2), (''429'', ''429 responses'', 2), (''read-usage'', ''Reading your usage'', 2),
      (''usage-curl'', ''Via the API'', 3), (''usage-page'', ''Via the web page'', 3),
      (''affinity'', ''Conversation affinity'', 2)]"
  by (simp_all only: Limits_def doc_blocks doc_simps cong: doc_congs)

definition Troubleshooting :: "'e docs_ctx \<Rightarrow> 'e view" where
  "Troubleshooting x = frag [
     H1 [Txt ''The errors you are most likely to meet and what to do about each.''] [Txt ''Troubleshooting''],
     H2 ''401'' [Txt ''401 Unauthorized''],
     doc_P [
       Txt ''Message is '', doc_C [Txt ''Invalid or missing API key''], Txt '' or '', doc_C [Txt ''API key disabled''],
       Txt ''.''],
     doc_Ul [
       El ''li'' [] [
         Txt ''Check the header: '', doc_C [Txt ''Authorization: Bearer YOUR_API_KEY''], Txt '' or '',
         doc_C [Txt ''x-api-key: YOUR_API_KEY''],
         Txt ''. Some tools want the key in an env var named differently (Claude Code: '',
         doc_C [Txt ''ANTHROPIC_AUTH_TOKEN''], Txt ''; Codex: the '', doc_C [Txt ''env_key''], Txt '' you configured).''],
       El ''li'' [] [
         Txt (''Ask the admin whether the key is enabled and whether \"Require API key\" is turned on with at '' @
           ''least one key.'')],
       El ''li'' [] [Txt ''Trailing whitespace or a newline copied along with the key is a classic cause.'']],
     Code x ''bash'' (''curl -i '' @ dx_base x @ ''/v1/usage -H \"Authorization: Bearer YOUR_API_KEY\"''),
     H2 ''429'' [Txt ''429 Too Many Requests''],
     doc_P [Txt ''Read the message:''],
     doc_T [Txt ''Message'', Txt ''Fix'']
       [
         [doc_C [Txt ''requests per minute limit exceeded''], Txt ''Slow down or ask for a higher RPM. Honour Retry-After.''],
         [doc_C [Txt ''concurrency limit exceeded''], Txt ''Reduce parallel requests (agents often fan out tool calls).''],
         [doc_C [Txt ''token limit exceeded''], Txt ''Quota exhausted; admin must raise or reset it.''],
         [doc_C [Txt ''credit limit exceeded''], Txt ''Same as above, for the credit quota.'']],
     doc_P [Txt ''See '', doc_A ''/docs/limits'' [Txt ''Limits''], Txt '' for details.''],
     H2 ''503'' [Txt ''503 No available accounts''],
     doc_P [
       Txt (''Every account in the pool that can serve the requested model is disabled, cooling down after '' @
         ''upstream errors, or out of quota. This is an operator-side condition: retry after a minute, and '' @
         ''if it persists, tell the admin. Trying a different model (for example''),
       Txt '' '', doc_C [Txt ''claude-haiku-4.5''], Txt '' or '', doc_C [Txt ''auto''],
       Txt '') sometimes helps because tiers map to different accounts.''],
     H2 ''model-not-found'' [Txt ''Model not found''],
     doc_Ul [
       El ''li'' [] [
         Txt ''List what is actually available: '', doc_C [Txt ''curl '', Txt (dx_base x), Txt ''/v1/models''], Txt ''.''],
       El ''li'' [] [
         Txt ''Use Anthropic-style names ('', doc_C [Txt ''claude-sonnet-4.5''], Txt ''); '', doc_C [Txt ''gpt-4o''],
         Txt '' / '', doc_C [Txt ''gpt-4''], Txt '' are the only OpenAI aliases.''],
       El ''li'' [] [doc_C [Txt ''auto''], Txt '' only works when the admin has enabled Auto Routing.''],
       El ''li'' [] [
         Txt ''A thinking suffix other than the configured one (default '', doc_C [Txt ''-thinking''],
         Txt '') is treated as part of the model name and fails.'']],
     H2 ''streaming'' [Txt ''Streaming stalls or arrives all at once''],
     doc_P [
       Txt (''The gateway flushes every SSE event. If you see nothing until the end, a proxy in between is '' @
         ''buffering. Disable buffering for the API paths:'')],
     Code x ''nginx'' (code_lines [
         ''location /v1/ {'',
         ''    proxy_pass http://hekato:8080;'',
         ''    proxy_http_version 1.1;'',
         ''    proxy_buffering off;'',
         ''    proxy_cache off;'',
         ''    proxy_read_timeout 600s;'',
         ''    proxy_set_header Connection \"\";'',
         ''    chunked_transfer_encoding on;'',
         ''}'']),
     doc_Ul [
       El ''li'' [] [Txt ''Caddy: '', doc_C [Txt ''reverse_proxy hekato:8080 '', Txt ''{ flush_interval -1 }'']],
       El ''li'' [] [
         Txt (''Cloudflare: streaming works on proxied hosts, but keep the request under the 100 s idle timeout '' @
           ''on free plans or use long-lived thinking with care.'')],
       El ''li'' [] [Txt ''With curl, add '', doc_C [Txt ''-N''], Txt '' to disable its own output buffering.'']],
     H2 ''cors'' [Txt ''CORS''],
     doc_P [
       Txt ''The gateway answers '', doc_C [Txt ''OPTIONS''], Txt '' preflights with '',
       doc_C [Txt ''Access-Control-Allow-Origin: *''], Txt '' and allows the '', doc_C [Txt ''Authorization''], Txt '','',
       doc_C [Txt ''x-api-key''], Txt '', '', doc_C [Txt ''anthropic-version''], Txt '' and '',
       doc_C [Txt ''anthropic-beta''],
       Txt ('' headers, so browser apps can call it directly. If you still get CORS errors, a proxy in front '' @
         ''is stripping the headers or answering the preflight itself.'')],
     Callout True [] [
       Txt (''Calling the gateway from browser code exposes your API key to anyone who opens DevTools. Use a '' @
         ''dedicated key with a small quota.'')],
     H2 ''thinking-output'' [Txt ''Thinking text shows up in my answers''],
     doc_P [
       Txt ''You are using a '', doc_C [Txt ''-thinking''],
       Txt ('' model with an OpenAI-style client, and the gateway is configured to surface thinking inline. '' @
         ''Either drop the suffix or ask the admin to switch the thinking output format under Settings '' @ right_arrow @ '' '' @
         ''Thinking Mode.'')]]"

lemma Troubleshooting_parts:
  "(\<And>t. list_all Q (live (dx_copy x t))) \<Longrightarrow> list_all Q (live (Troubleshooting x))"
  "plain_copy x \<Longrightarrow> link_targets (Troubleshooting x) =
     [''/docs/limits'']"
  "plain_copy x \<Longrightarrow> headings (Troubleshooting x) =
     [(''401'', ''401 Unauthorized'', 2), (''429'', ''429 Too Many Requests'', 2),
      (''503'', ''503 No available accounts'', 2), (''model-not-found'', ''Model not found'', 2),
      (''streaming'', ''Streaming stalls or arrives all at once'', 2), (''cors'', ''CORS'', 2),
      (''thinking-output'', ''Thinking text shows up in my answers'', 2)]"
  by (simp_all only: Troubleshooting_def doc_blocks doc_simps cong: doc_congs)

end
