(* ===== verification/Docs_Guides.thy ===== *)
theory Docs_Guides
  imports Docs_Content
begin

text \<open>
  The guides of the documentation for tools and libraries (\<open>pages/docs/guides\<close>), as \<open>Docs_Core\<close> has
  the reference articles.
\<close>

section \<open>guides/agents.tsx\<close>

definition ClaudeCode :: "'e docs_ctx \<Rightarrow> 'e view" where
  "ClaudeCode x = frag [
     H1 [Txt ''Point Anthropic's Claude Code CLI at the gateway with two environment variables.''] [Txt ''Claude Code''],
     H2 ''env'' [Txt ''Environment variables''],
     Code x ''bash'' (code_lines [
         ''export ANTHROPIC_BASE_URL='' @ dx_base x,
         ''export ANTHROPIC_AUTH_TOKEN=YOUR_API_KEY'',
         ''# optional: pin models'',
         ''export ANTHROPIC_MODEL=claude-sonnet-4.5'',
         ''export ANTHROPIC_SMALL_FAST_MODEL=claude-haiku-4.5'',
         [],
         ''claude'']),
     doc_P [
       doc_C [Txt ''ANTHROPIC_API_KEY''], Txt '' works as well; '', doc_C [Txt ''ANTHROPIC_AUTH_TOKEN''],
       Txt '' is preferred because it skips the interactive login prompt. Do not add '', doc_C [Txt ''/v1''],
       Txt '' to the base URL.''],
     H2 ''settings'' [Txt ''Persist in ~/.claude/settings.json''],
     Code x ''json'' (code_lines [
         ''{'',
         ''  \"env\": {'',
         ''    \"ANTHROPIC_BASE_URL\": \"'' @ dx_base x @ ''\",'',
         ''    \"ANTHROPIC_AUTH_TOKEN\": \"YOUR_API_KEY\",'',
         ''    \"ANTHROPIC_MODEL\": \"claude-sonnet-4.5\",'',
         ''    \"ANTHROPIC_SMALL_FAST_MODEL\": \"claude-haiku-4.5\"'',
         ''  }'',
         ''}'']),
     doc_P [
       Txt ''A project-level '', doc_C [Txt ''.claude/settings.json''], Txt '' with the same '', doc_C [Txt ''env''],
       Txt '' block overrides the global one, handy when only one repo should go through the gateway.''],
     H2 ''thinking'' [Txt ''Thinking''],
     doc_P [
       Txt ''Set '', doc_C [Txt ''ANTHROPIC_MODEL=claude-sonnet-4.5-thinking''], Txt '', or use '',
       doc_C [Txt ''/model claude-sonnet-4.5-thinking''],
       Txt '' inside the session. Claude Code's own \"ultrathink\" keywords also send an Anthropic '',
       doc_C [Txt ''thinking''], Txt '' block, which the gateway honours.''],
     H2 ''verify'' [Txt ''Verify''],
     Code x ''bash'' ''claude -p \"Reply with the single word OK\"'',
     doc_P [
       Txt ''Then open '', doc_A ''/usage'' [Txt ''/usage''],
       Txt '' with your key: the request counter should have moved. Telemetry calls to'', Txt '' '',
       doc_C [Txt ''/api/event_logging/batch''], Txt '' are accepted and discarded by the gateway.'']]"

lemma ClaudeCode_parts:
  "(\<And>t. list_all Q (live (dx_copy x t))) \<Longrightarrow> list_all Q (live (ClaudeCode x))"
  "plain_copy x \<Longrightarrow> link_targets (ClaudeCode x) =
     [''/usage'']"
  "plain_copy x \<Longrightarrow> headings (ClaudeCode x) =
     [(''env'', ''Environment variables'', 2), (''settings'', ''Persist in ~/.claude/settings.json'', 2),
      (''thinking'', ''Thinking'', 2), (''verify'', ''Verify'', 2)]"
  by (simp_all only: ClaudeCode_def doc_blocks doc_simps cong: doc_congs)

definition CodexCli :: "'e docs_ctx \<Rightarrow> 'e view" where
  "CodexCli x = frag [
     H1 [Txt ''OpenAI's Codex CLI speaks the Responses API, which the gateway serves at /v1/responses.''] [Txt ''Codex CLI''],
     H2 ''config'' [Txt ''~/.codex/config.toml''],
     Code x ''toml'' (code_lines [
         ''model = \"claude-sonnet-4.5\"'',
         ''model_provider = \"hekato\"'',
         [],
         ''[model_providers.hekato]'',
         ''name = \"Hekato gateway\"'',
         ''base_url = \"'' @ dx_base x @ ''/v1\"'',
         ''env_key = \"HEKATO_API_KEY\"'',
         ''wire_api = \"responses\"'']),
     Code x ''bash'' (code_lines [
         ''export HEKATO_API_KEY=YOUR_API_KEY'',
         ''codex'']),
     H2 ''chat-fallback'' [Txt ''Chat Completions fallback''],
     doc_P [
       Txt (''If a Codex version misbehaves with the Responses wire format, switch the provider to Chat '' @
         ''Completions; everything else stays the same.'')],
     Code x ''toml'' (code_lines [
         ''[model_providers.hekato]'',
         ''name = \"Hekato gateway (chat)\"'',
         ''base_url = \"'' @ dx_base x @ ''/v1\"'',
         ''env_key = \"HEKATO_API_KEY\"'',
         ''wire_api = \"chat\"'']),
     H2 ''models'' [Txt ''Models''],
     doc_Ul [
       El ''li'' [] [
         doc_C [Txt ''model = \"claude-sonnet-4.5\"''], Txt '' for everyday work, '', doc_C [Txt ''claude-opus-4.5''],
         Txt '' for hard problems, '', doc_C [Txt ''claude-sonnet-4.5-thinking''], Txt '' for extended reasoning.''],
       El ''li'' [] [
         doc_C [Txt ''model = \"auto\"''], Txt '' lets the gateway pick per request (if the admin enabled Auto Routing).''],
       El ''li'' [] [
         Txt ''Codex's '', doc_C [Txt ''model_reasoning_effort''], Txt '' setting is ignored by the gateway; use the '',
         doc_C [Txt ''-thinking''], Txt '' suffix instead.'']],
     H2 ''verify'' [Txt ''Verify''],
     Code x ''bash'' ''codex exec \"Reply with the single word OK\"'']"

lemma CodexCli_parts:
  "(\<And>t. list_all Q (live (dx_copy x t))) \<Longrightarrow> list_all Q (live (CodexCli x))"
  "plain_copy x \<Longrightarrow> link_targets (CodexCli x) =
     []"
  "plain_copy x \<Longrightarrow> headings (CodexCli x) =
     [(''config'', ''~/.codex/config.toml'', 2), (''chat-fallback'', ''Chat Completions fallback'', 2),
      (''models'', ''Models'', 2), (''verify'', ''Verify'', 2)]"
  by (simp_all only: CodexCli_def doc_blocks doc_simps cong: doc_congs)

definition Cursor :: "'e docs_ctx \<Rightarrow> 'e view" where
  "Cursor x = frag [
     H1 [Txt ''Cursor can use an OpenAI-compatible base URL for its chat and composer features.''] [Txt ''Cursor''],
     H2 ''setup'' [Txt ''Setup''],
     doc_Ol [
       El ''li'' [] [Txt ''Open '', El ''strong'' [] [Txt (''Cursor Settings '' @ right_arrow @ '' Models'')], Txt ''.''],
       El ''li'' [] [
         Txt ''Under '', El ''strong'' [] [Txt ''OpenAI API Key''], Txt '', paste '', doc_C [Txt ''YOUR_API_KEY''], Txt ''.''],
       El ''li'' [] [
         Txt ''Enable '', El ''strong'' [] [Txt ''Override OpenAI Base URL''], Txt '' and enter:'',
         Code x ''text'' (dx_base x @ ''/v1'')],
       El ''li'' [] [
         Txt ''Click '', El ''strong'' [] [Txt ''Verify''], Txt ''. Cursor sends a test request through the gateway.''],
       El ''li'' [] [
         Txt ''Click '', El ''strong'' [] [Txt ''+ Add model''], Txt '' and add the names you want to use, for example '',
         doc_C [Txt ''claude-sonnet-4.5''], Txt '', '', doc_C [Txt ''claude-opus-4.5''], Txt '','', Txt '' '',
         doc_C [Txt ''claude-sonnet-4.5-thinking''], Txt '' and '', doc_C [Txt ''auto''],
         Txt ''. Untick the built-in models so Cursor cannot fall back to them.'']],
     H2 ''caveats'' [Txt ''Caveats''],
     Callout True [] [
       Txt (''Cursor always uses its own model IDs for some features (Tab completion, Apply, embeddings) '' @
         ''regardless of the override, and those requests go to Cursor's servers, not the gateway. Only '' @
         ''Chat / Composer with a custom model name is routed through your base URL.'')],
     doc_Ul [
       El ''li'' [] [
         Txt ''If you pick a built-in name like '', doc_C [Txt ''gpt-4o''], Txt '', the gateway aliases it to '',
         doc_C [Txt ''claude-sonnet-4.5''], Txt '', so it still works.''],
       El ''li'' [] [
         Txt (''The override is global: turn it off to go back to Cursor's own models. Cursor may prompt you to '' @
           ''disable it when using some features.'')],
       El ''li'' [] [
         Txt ''Anthropic key / base URL overrides in Cursor are not used; keep everything under the OpenAI section.'']],
     H2 ''verify'' [Txt ''Verify''],
     doc_P [
       Txt ''Open Chat, select '', doc_C [Txt ''claude-sonnet-4.5''], Txt '', ask a question, then check '',
       doc_A ''/usage'' [Txt ''/usage''], Txt ''.'']]"

lemma Cursor_parts:
  "(\<And>t. list_all Q (live (dx_copy x t))) \<Longrightarrow> list_all Q (live (Cursor x))"
  "plain_copy x \<Longrightarrow> link_targets (Cursor x) =
     [''/usage'']"
  "plain_copy x \<Longrightarrow> headings (Cursor x) =
     [(''setup'', ''Setup'', 2), (''caveats'', ''Caveats'', 2), (''verify'', ''Verify'', 2)]"
  by (simp_all only: Cursor_def doc_blocks doc_simps cong: doc_congs)

definition ClineRoo :: "'e docs_ctx \<Rightarrow> 'e view" where
  "ClineRoo x = frag [
     H1 [Txt ''Both VS Code agents accept a custom Anthropic or OpenAI-compatible endpoint.''] [Txt ''Cline / Roo Code''],
     H2 ''anthropic'' [Txt ''Option A: Anthropic provider (recommended)''],
     doc_P [Txt ''Native tool use, thinking blocks and prompt caching are all preserved on this path.''],
     doc_Ul [
       El ''li'' [] [El ''strong'' [] [Txt ''API Provider''], Txt '': Anthropic''],
       El ''li'' [] [El ''strong'' [] [Txt ''Anthropic API Key''], Txt '': '', doc_C [Txt ''YOUR_API_KEY'']],
       El ''li'' [] [El ''strong'' [] [Txt ''Use custom base URL''], Txt '': enabled''],
       El ''li'' [] [
         El ''strong'' [] [Txt ''Base URL''], Txt '': '', doc_C [Txt (dx_base x)], Txt '' (no '', doc_C [Txt ''/v1''],
         Txt '')''],
       El ''li'' [] [
         El ''strong'' [] [Txt ''Model''], Txt '': '', doc_C [Txt ''claude-sonnet-4.5''],
         Txt (''. If the model picker only lists dated IDs, pick any Sonnet 4.5 entry; the gateway normalizes '' @
           ''dated names.'')]],
     H2 ''openai'' [Txt ''Option B: OpenAI Compatible provider''],
     doc_Ul [
       El ''li'' [] [El ''strong'' [] [Txt ''API Provider''], Txt '': OpenAI Compatible''],
       El ''li'' [] [El ''strong'' [] [Txt ''Base URL''], Txt '': '', doc_C [Txt (dx_base x), Txt ''/v1'']],
       El ''li'' [] [El ''strong'' [] [Txt ''API Key''], Txt '': '', doc_C [Txt ''YOUR_API_KEY'']],
       El ''li'' [] [
         El ''strong'' [] [Txt ''Model ID''], Txt '': '', doc_C [Txt ''claude-sonnet-4.5''], Txt '' (or '',
         doc_C [Txt ''auto''], Txt '', '', doc_C [Txt ''claude-sonnet-4.5-thinking''], Txt '')''],
       El ''li'' [] [
         Txt ''Roo Code: leave '', El ''strong'' [] [Txt ''Enable streaming''],
         Txt '' on; set context window to 200000 if asked.'']],
     H2 ''thinking'' [Txt ''Thinking''],
     doc_P [
       Txt ''With the Anthropic provider, turning on \"Extended thinking\" in the agent settings sends a '',
       doc_C [Txt ''thinking''], Txt '' block which the gateway honours. With the OpenAI-compatible provider, use the '',
       doc_C [Txt ''-thinking''], Txt '' model name instead.''],
     H2 ''verify'' [Txt ''Verify''],
     doc_P [
       Txt (''Start a task such as \"list the files in this workspace\". The first response confirms the route; '' @
         ''the request count on''),
       Txt '' '', doc_A ''/usage'' [Txt ''/usage''], Txt '' confirms the key.'']]"

lemma ClineRoo_parts:
  "(\<And>t. list_all Q (live (dx_copy x t))) \<Longrightarrow> list_all Q (live (ClineRoo x))"
  "plain_copy x \<Longrightarrow> link_targets (ClineRoo x) =
     [''/usage'']"
  "plain_copy x \<Longrightarrow> headings (ClineRoo x) =
     [(''anthropic'', ''Option A: Anthropic provider (recommended)'', 2),
      (''openai'', ''Option B: OpenAI Compatible provider'', 2), (''thinking'', ''Thinking'', 2),
      (''verify'', ''Verify'', 2)]"
  by (simp_all only: ClineRoo_def doc_blocks doc_simps cong: doc_congs)

definition Continue :: "'e docs_ctx \<Rightarrow> 'e view" where
  "Continue x = frag [
     H1 [Txt ''Continue reads models from ~/.continue/config.yaml. Either provider type works.''] [Txt ''Continue''],
     H2 ''anthropic'' [Txt ''Anthropic provider''],
     Code x ''yaml'' (code_lines [
         ''name: Local Assistant'',
         ''version: 1.0.0'',
         ''schema: v1'',
         [],
         ''models:'',
         ''  - name: Claude Sonnet 4.5 (Hekato)'',
         ''    provider: anthropic'',
         ''    model: claude-sonnet-4.5'',
         ''    apiBase: '' @ dx_base x,
         ''    apiKey: YOUR_API_KEY'',
         ''    roles: [chat, edit, apply]'',
         [],
         ''  - name: Claude Haiku 4.5 (Hekato)'',
         ''    provider: anthropic'',
         ''    model: claude-haiku-4.5'',
         ''    apiBase: '' @ dx_base x,
         ''    apiKey: YOUR_API_KEY'',
         ''    roles: [autocomplete]'']),
     H2 ''openai'' [Txt ''OpenAI-compatible provider''],
     Code x ''yaml'' (code_lines [
         ''models:'',
         ''  - name: Claude Sonnet 4.5 (Hekato, OpenAI wire)'',
         ''    provider: openai'',
         ''    model: claude-sonnet-4.5'',
         ''    apiBase: '' @ dx_base x @ ''/v1'',
         ''    apiKey: YOUR_API_KEY'',
         ''    roles: [chat, edit, apply]'']),
     H2 ''legacy'' [Txt ''Legacy config.json''],
     Code x ''json'' (code_lines [
         ''{'',
         ''  \"models\": ['',
         ''    {'',
         ''      \"title\": \"Claude Sonnet 4.5 (Hekato)\",'',
         ''      \"provider\": \"anthropic\",'',
         ''      \"model\": \"claude-sonnet-4.5\",'',
         ''      \"apiBase\": \"'' @ dx_base x @ ''\",'',
         ''      \"apiKey\": \"YOUR_API_KEY\"'',
         ''    }'',
         ''  ]'',
         ''}'']),
     H2 ''verify'' [Txt ''Verify''],
     doc_P [
       Txt ''Reload the window, pick the model in the Continue sidebar, send \"Reply with OK\", then check '',
       doc_A ''/usage'' [Txt ''/usage''], Txt ''.'']]"

lemma Continue_parts:
  "(\<And>t. list_all Q (live (dx_copy x t))) \<Longrightarrow> list_all Q (live (Continue x))"
  "plain_copy x \<Longrightarrow> link_targets (Continue x) =
     [''/usage'']"
  "plain_copy x \<Longrightarrow> headings (Continue x) =
     [(''anthropic'', ''Anthropic provider'', 2), (''openai'', ''OpenAI-compatible provider'', 2),
      (''legacy'', ''Legacy config.json'', 2), (''verify'', ''Verify'', 2)]"
  by (simp_all only: Continue_def doc_blocks doc_simps cong: doc_congs)

definition Aider :: "'e docs_ctx \<Rightarrow> 'e view" where
  "Aider x = frag [
     H1 [Txt ''Aider uses LiteLLM under the hood; prefix the model with the provider you want to speak.''] [Txt ''Aider''],
     H2 ''openai'' [Txt ''OpenAI-compatible''],
     Code x ''bash'' (code_lines [
         ''export OPENAI_API_BASE='' @ dx_base x @ ''/v1'',
         ''export OPENAI_API_KEY=YOUR_API_KEY'',
         [],
         ''aider --model openai/claude-sonnet-4.5'']),
     H2 ''anthropic'' [Txt ''Anthropic''],
     Code x ''bash'' (code_lines [
         ''export ANTHROPIC_API_BASE='' @ dx_base x,
         ''export ANTHROPIC_API_KEY=YOUR_API_KEY'',
         [],
         ''aider --model anthropic/claude-sonnet-4.5'']),
     H2 ''config'' [Txt ''.aider.conf.yml''],
     Code x ''yaml'' (code_lines [
         ''model: openai/claude-sonnet-4.5'',
         ''weak-model: openai/claude-haiku-4.5'',
         ''openai-api-base: '' @ dx_base x @ ''/v1'',
         ''openai-api-key: YOUR_API_KEY'']),
     Callout False [] [
       Txt ''Aider warns \"Unknown model\" for names it has no metadata for. That is harmless; add a '',
       doc_C [Txt ''.aider.model.metadata.json''], Txt '' with'', Txt '' '', doc_C [Txt ''max_input_tokens''],
       Txt '' if you want the warning gone.''],
     H2 ''verify'' [Txt ''Verify''],
     Code x ''bash'' ''aider --model openai/claude-sonnet-4.5 --message \"Reply with the single word OK\" --no-git'']"

lemma Aider_parts:
  "(\<And>t. list_all Q (live (dx_copy x t))) \<Longrightarrow> list_all Q (live (Aider x))"
  "plain_copy x \<Longrightarrow> link_targets (Aider x) =
     []"
  "plain_copy x \<Longrightarrow> headings (Aider x) =
     [(''openai'', ''OpenAI-compatible'', 2), (''anthropic'', ''Anthropic'', 2), (''config'', ''.aider.conf.yml'', 2),
      (''verify'', ''Verify'', 2)]"
  by (simp_all only: Aider_def doc_blocks doc_simps cong: doc_congs)

section \<open>guides/apps.tsx\<close>

definition OpenWebUiLibreChat :: "'e docs_ctx \<Rightarrow> 'e view" where
  "OpenWebUiLibreChat x = frag [
     H1 [Txt ''Both chat front-ends treat the gateway as an OpenAI-compatible provider.''] [Txt ''Open WebUI / LibreChat''],
     H2 ''open-webui'' [Txt ''Open WebUI''],
     doc_Ol [
       El ''li'' [] [
         Txt ''Log in as admin and open '',
         El ''strong'' [] [Txt (''Admin Panel '' @ right_arrow @ '' Settings '' @ right_arrow @ '' Connections'')], Txt ''.''],
       El ''li'' [] [
         Txt ''Under '', El ''strong'' [] [Txt ''OpenAI API''], Txt '', click '', El ''strong'' [] [Txt ''+''],
         Txt '' to add a connection.''],
       El ''li'' [] [El ''strong'' [] [Txt ''URL''], Txt '': '', doc_C [Txt (dx_base x), Txt ''/v1'']],
       El ''li'' [] [El ''strong'' [] [Txt ''Key''], Txt '': '', doc_C [Txt ''YOUR_API_KEY'']],
       El ''li'' [] [
         Txt ''Save. The model list is fetched from '', doc_C [Txt ''/v1/models''], Txt ''; the Claude models, '',
         doc_C [Txt ''-thinking''], Txt '' variants and '', doc_C [Txt ''auto''], Txt '' appear in the model picker.'']],
     doc_P [Txt ''Or via environment variables when you run the container:''],
     Code x ''bash'' (code_lines [
         ''docker run -d -p 3000:8080 '' @ backslash,
         ''  -e OPENAI_API_BASE_URL='' @ dx_base x @ ''/v1 '' @ backslash,
         ''  -e OPENAI_API_KEY=YOUR_API_KEY '' @ backslash,
         ''  -v open-webui:/app/backend/data '' @ backslash,
         ''  --name open-webui ghcr.io/open-webui/open-webui:main'']),
     H2 ''librechat'' [Txt ''LibreChat''],
     doc_P [Txt ''Add a custom endpoint in '', doc_C [Txt ''librechat.yaml''], Txt '':''],
     Code x ''yaml'' (code_lines [
         ''version: 1.2.1'',
         ''endpoints:'',
         ''  custom:'',
         ''    - name: \"Hekato\"'',
         ''      apiKey: \"${HEKATO_API_KEY}\"'',
         ''      baseURL: \"'' @ dx_base x @ ''/v1\"'',
         ''      models:'',
         ''        default: [\"claude-sonnet-4.5\", \"claude-opus-4.5\", \"claude-haiku-4.5\", \"claude-sonnet-4.5-thinking\", \"auto\"]'',
         ''        fetch: true'',
         ''      titleConvo: true'',
         ''      titleModel: \"claude-haiku-4.5\"'',
         ''      modelDisplayLabel: \"Hekato\"'',
         ''      dropParams: [\"stop\", \"user\", \"frequency_penalty\", \"presence_penalty\"]'']),
     Code x ''bash'' (code_lines [
         ''# .env'',
         ''HEKATO_API_KEY=YOUR_API_KEY'']),
     Callout False [] [
       Txt ''LibreChat can also use its native Anthropic endpoint: set '', doc_C [Txt ''ANTHROPIC_API_KEY=YOUR_API_KEY''],
       Txt '' and'', Txt '' '', doc_C [Txt ''ANTHROPIC_REVERSE_PROXY='', Txt (dx_base x), Txt ''/v1/messages''],
       Txt '' in '', doc_C [Txt ''.env''], Txt ''. This path keeps thinking blocks and prompt caching.''],
     H2 ''verify'' [Txt ''Verify''],
     doc_P [
       Txt ''Pick '', doc_C [Txt ''claude-sonnet-4.5''],
       Txt '' in the model selector, send a message, then confirm the request count on '', doc_A ''/usage'' [Txt ''/usage''],
       Txt ''.'']]"

lemma OpenWebUiLibreChat_parts:
  "(\<And>t. list_all Q (live (dx_copy x t))) \<Longrightarrow> list_all Q (live (OpenWebUiLibreChat x))"
  "plain_copy x \<Longrightarrow> link_targets (OpenWebUiLibreChat x) =
     [''/usage'']"
  "plain_copy x \<Longrightarrow> headings (OpenWebUiLibreChat x) =
     [(''open-webui'', ''Open WebUI'', 2), (''librechat'', ''LibreChat'', 2), (''verify'', ''Verify'', 2)]"
  by (simp_all only: OpenWebUiLibreChat_def doc_blocks doc_simps cong: doc_congs)

definition Curl :: "'e docs_ctx \<Rightarrow> 'e view" where
  "Curl x = frag [
     H1 [Txt ''Copy-paste reference for every endpoint using nothing but curl.''] [Txt ''curl reference''],
     H2 ''non-stream'' [Txt ''Non-streaming''],
     Code x ''bash'' (code_lines [
         ''# Anthropic'',
         ''curl '' @ dx_base x @ ''/v1/messages '' @ backslash,
         ''  -H \"x-api-key: YOUR_API_KEY\" '' @ backslash,
         ''  -H \"anthropic-version: 2023-06-01\" '' @ backslash,
         ''  -H \"Content-Type: application/json\" '' @ backslash,
         ''  -d '{\"model\":\"claude-sonnet-4.5\",\"max_tokens\":256,\"messages\":[{\"role\":\"user\",\"content\":\"Hello\"}]}'' @ quote1,
         [],
         ''# OpenAI Chat'',
         ''curl '' @ dx_base x @ ''/v1/chat/completions '' @ backslash,
         ''  -H \"Authorization: Bearer YOUR_API_KEY\" '' @ backslash,
         ''  -H \"Content-Type: application/json\" '' @ backslash,
         ''  -d '{\"model\":\"claude-sonnet-4.5\",\"messages\":[{\"role\":\"user\",\"content\":\"Hello\"}]}'' @ quote1,
         [],
         ''# OpenAI Responses'',
         ''curl '' @ dx_base x @ ''/v1/responses '' @ backslash,
         ''  -H \"Authorization: Bearer YOUR_API_KEY\" '' @ backslash,
         ''  -H \"Content-Type: application/json\" '' @ backslash,
         ''  -d '{\"model\":\"claude-sonnet-4.5\",\"input\":\"Hello\"}'' @ quote1]),
     H2 ''stream'' [Txt ''Streaming''],
     Code x ''bash'' (code_lines [
         ''# Anthropic SSE'',
         ''curl -N '' @ dx_base x @ ''/v1/messages '' @ backslash,
         ''  -H \"x-api-key: YOUR_API_KEY\" '' @ backslash,
         ''  -H \"anthropic-version: 2023-06-01\" '' @ backslash,
         ''  -H \"Content-Type: application/json\" '' @ backslash,
         ''  -d '{\"model\":\"claude-sonnet-4.5\",\"max_tokens\":256,\"stream\":true,\"messages\":[{\"role\":\"user\",\"content\":\"Count to five.\"}]}'' @ quote1,
         [],
         ''# OpenAI SSE'',
         ''curl -N '' @ dx_base x @ ''/v1/chat/completions '' @ backslash,
         ''  -H \"Authorization: Bearer YOUR_API_KEY\" '' @ backslash,
         ''  -H \"Content-Type: application/json\" '' @ backslash,
         ''  -d '{\"model\":\"claude-sonnet-4.5\",\"stream\":true,\"messages\":[{\"role\":\"user\",\"content\":\"Count to five.\"}]}'' @ quote1]),
     H2 ''tools'' [Txt ''Tool use''],
     Code x ''bash'' (code_lines [
         ''# Anthropic tools'',
         ''curl '' @ dx_base x @ ''/v1/messages '' @ backslash,
         ''  -H \"x-api-key: YOUR_API_KEY\" '' @ backslash,
         ''  -H \"anthropic-version: 2023-06-01\" '' @ backslash,
         ''  -H \"Content-Type: application/json\" '' @ backslash,
         ''  -d '{'',
         ''    \"model\": \"claude-sonnet-4.5\",'',
         ''    \"max_tokens\": 512,'',
         ''    \"tools\": [{'',
         ''      \"name\": \"get_weather\",'',
         ''      \"description\": \"Get the current weather for a city\",'',
         ''      \"input_schema\": {\"type\":\"object\",\"properties\":{\"city\":{\"type\":\"string\"}},\"required\":[\"city\"]}'',
         ''    }],'',
         ''    \"messages\": [{\"role\":\"user\",\"content\":\"What is the weather in Jakarta?\"}]'',
         ''  }'' @ quote1,
         [],
         ''# OpenAI tools'',
         ''curl '' @ dx_base x @ ''/v1/chat/completions '' @ backslash,
         ''  -H \"Authorization: Bearer YOUR_API_KEY\" '' @ backslash,
         ''  -H \"Content-Type: application/json\" '' @ backslash,
         ''  -d '{'',
         ''    \"model\": \"claude-sonnet-4.5\",'',
         ''    \"tools\": [{'',
         ''      \"type\": \"function\",'',
         ''      \"function\": {'',
         ''        \"name\": \"get_weather\",'',
         ''        \"description\": \"Get the current weather for a city\",'',
         ''        \"parameters\": {\"type\":\"object\",\"properties\":{\"city\":{\"type\":\"string\"}},\"required\":[\"city\"]}'',
         ''      }'',
         ''    }],'',
         ''    \"messages\": [{\"role\":\"user\",\"content\":\"What is the weather in Jakarta?\"}]'',
         ''  }'' @ quote1]),
     H2 ''images'' [Txt ''Images''],
     Code x ''bash'' (code_lines [
         ''IMG=$(base64 -i photo.jpg | tr -d '' @ quote1 @ backslash @ ''n')'',
         [],
         ''# Anthropic'',
         ''curl '' @ dx_base x @ ''/v1/messages '' @ backslash,
         ''  -H \"x-api-key: YOUR_API_KEY\" '' @ backslash,
         ''  -H \"anthropic-version: 2023-06-01\" '' @ backslash,
         ''  -H \"Content-Type: application/json\" '' @ backslash,
         ''  -d \"{'',
         slashed ''    \"model\": \"claude-sonnet-4.5\",'',
         slashed ''    \"max_tokens\": 256,'',
         slashed ''    \"messages\": [{\"role\":\"user\",\"content\":['',
         slashed ''      {\"type\":\"image\",\"source\":{\"type\":\"base64\",\"media_type\":\"image/jpeg\",\"data\":\"$IMG\"}},'',
         slashed ''      {\"type\":\"text\",\"text\":\"Describe this image.\"}'',
         ''    ]}]'',
         ''  }\"'',
         [],
         ''# OpenAI'',
         ''curl '' @ dx_base x @ ''/v1/chat/completions '' @ backslash,
         ''  -H \"Authorization: Bearer YOUR_API_KEY\" '' @ backslash,
         ''  -H \"Content-Type: application/json\" '' @ backslash,
         ''  -d \"{'',
         slashed ''    \"model\": \"claude-sonnet-4.5\",'',
         slashed ''    \"messages\": [{\"role\":\"user\",\"content\":['',
         slashed ''      {\"type\":\"image_url\",\"image_url\":{\"url\":\"data:image/jpeg;base64,$IMG\"}},'',
         slashed ''      {\"type\":\"text\",\"text\":\"Describe this image.\"}'',
         ''    ]}]'',
         ''  }\"'']),
     H2 ''thinking'' [Txt ''Thinking''],
     Code x ''bash'' (code_lines [
         ''curl '' @ dx_base x @ ''/v1/messages '' @ backslash,
         ''  -H \"x-api-key: YOUR_API_KEY\" '' @ backslash,
         ''  -H \"anthropic-version: 2023-06-01\" '' @ backslash,
         ''  -H \"Content-Type: application/json\" '' @ backslash,
         ''  -d '{\"model\":\"claude-sonnet-4.5\",\"max_tokens\":4096,\"thinking\":{\"type\":\"enabled\",\"budget_tokens\":2048},\"messages\":[{\"role\":\"user\",\"content\":\"Prove that sqrt(2) is irrational.\"}]}'' @ quote1]),
     H2 ''count-tokens'' [Txt ''Count tokens''],
     Code x ''bash'' (code_lines [
         ''curl '' @ dx_base x @ ''/v1/messages/count_tokens '' @ backslash,
         ''  -H \"x-api-key: YOUR_API_KEY\" '' @ backslash,
         ''  -H \"anthropic-version: 2023-06-01\" '' @ backslash,
         ''  -H \"Content-Type: application/json\" '' @ backslash,
         ''  -d '{\"model\":\"claude-sonnet-4.5\",\"messages\":[{\"role\":\"user\",\"content\":\"How many tokens is this?\"}]}'' @ quote1]),
     H2 ''models'' [Txt ''Models''],
     Code x ''bash'' (''curl '' @ dx_base x @ ''/v1/models | jq -r '.data[].id'' @ quote1),
     H2 ''usage'' [Txt ''Usage''],
     Code x ''bash'' (''curl '' @ dx_base x @ ''/v1/usage -H \"Authorization: Bearer YOUR_API_KEY\" | jq''),
     H2 ''health'' [Txt ''Health''],
     Code x ''bash'' (''curl '' @ dx_base x @ ''/health''),
     H2 ''auto'' [Txt ''Auto routing headers''],
     Code x ''bash'' (code_lines [
         ''curl -si '' @ dx_base x @ ''/v1/chat/completions '' @ backslash,
         ''  -H \"Authorization: Bearer YOUR_API_KEY\" '' @ backslash,
         ''  -H \"Content-Type: application/json\" '' @ backslash,
         ''  -d '{\"model\":\"auto\",\"messages\":[{\"role\":\"user\",\"content\":\"Hello\"}]}' | grep -i '^x-hekato'' @ quote1])]"

lemma Curl_parts:
  "(\<And>t. list_all Q (live (dx_copy x t))) \<Longrightarrow> list_all Q (live (Curl x))"
  "plain_copy x \<Longrightarrow> link_targets (Curl x) =
     []"
  "plain_copy x \<Longrightarrow> headings (Curl x) =
     [(''non-stream'', ''Non-streaming'', 2), (''stream'', ''Streaming'', 2), (''tools'', ''Tool use'', 2),
      (''images'', ''Images'', 2), (''thinking'', ''Thinking'', 2), (''count-tokens'', ''Count tokens'', 2),
      (''models'', ''Models'', 2), (''usage'', ''Usage'', 2), (''health'', ''Health'', 2),
      (''auto'', ''Auto routing headers'', 2)]"
  by (simp_all only: Curl_def doc_blocks doc_simps cong: doc_congs)

section \<open>guides/sdks.tsx\<close>

definition OpenAISdk :: "'e docs_ctx \<Rightarrow> 'e view" where
  "OpenAISdk x = frag [
     H1 [Txt ''The official OpenAI SDKs only need a base_url and an api_key.''] [Txt ''OpenAI SDK''],
     H2 ''python'' [Txt ''Python''],
     Code x ''bash'' ''pip install openai'',
     Code x ''python'' (code_lines [
         ''from openai import OpenAI'',
         [],
         ''client = OpenAI(base_url=\"'' @ dx_base x @ ''/v1\", api_key=\"YOUR_API_KEY\")'',
         [],
         ''resp = client.chat.completions.create('',
         ''    model=\"claude-sonnet-4.5\",'',
         ''    messages=[{\"role\": \"user\", \"content\": \"Say hello in one sentence.\"}],'',
         '')'',
         ''print(resp.choices[0].message.content)'']),
     H3 ''python-stream'' [Txt ''Streaming''],
     Code x ''python'' (code_lines [
         ''stream = client.chat.completions.create('',
         ''    model=\"claude-sonnet-4.5\",'',
         ''    messages=[{\"role\": \"user\", \"content\": \"Count to five.\"}],'',
         ''    stream=True,'',
         '')'',
         ''for chunk in stream:'',
         ''    delta = chunk.choices[0].delta.content'',
         ''    if delta:'',
         ''        print(delta, end=\"\", flush=True)'']),
     H3 ''python-responses'' [Txt ''Responses API''],
     Code x ''python'' (code_lines [
         ''resp = client.responses.create('',
         ''    model=\"claude-sonnet-4.5\",'',
         ''    instructions=\"Be brief.\",'',
         ''    input=\"What is an AI gateway?\",'',
         '')'',
         ''print(resp.output_text)'']),
     H2 ''node'' [Txt ''Node / TypeScript''],
     Code x ''bash'' ''npm install openai'',
     Code x ''typescript'' (code_lines [
         ''import OpenAI from 'openai'' @ quote1,
         [],
         ''const client = new OpenAI({ baseURL: '' @ quote1 @ dx_base x @ ''/v1', apiKey: 'YOUR_API_KEY' })'',
         [],
         ''const resp = await client.chat.completions.create({'',
         ''  model: 'claude-sonnet-4.5','',
         ''  messages: [{ role: 'user', content: 'Say hello in one sentence.' }],'',
         ''})'',
         ''console.log(resp.choices[0].message.content)'']),
     H3 ''node-stream'' [Txt ''Streaming''],
     Code x ''typescript'' (code_lines [
         ''const stream = await client.chat.completions.create({'',
         ''  model: 'claude-sonnet-4.5','',
         ''  messages: [{ role: 'user', content: 'Count to five.' }],'',
         ''  stream: true,'',
         ''})'',
         ''for await (const chunk of stream) {'',
         ''  process.stdout.write(chunk.choices[0]?.delta?.content ?? '' @ quote1 @ ''')'',
         ''}'']),
     H3 ''node-responses'' [Txt ''Responses API''],
     Code x ''typescript'' (code_lines [
         ''const r = await client.responses.create({'',
         ''  model: 'claude-sonnet-4.5','',
         ''  instructions: 'Be brief.','',
         ''  input: 'What is an AI gateway?','',
         ''})'',
         ''console.log(r.output_text)'']),
     H2 ''env'' [Txt ''Environment variables''],
     doc_P [Txt ''Both SDKs also read these, so you can leave the constructor empty:''],
     Code x ''bash'' (code_lines [
         ''export OPENAI_BASE_URL='' @ dx_base x @ ''/v1'',
         ''export OPENAI_API_KEY=YOUR_API_KEY'']),
     Callout False [] [
       Txt ''Thinking: use '', doc_C [Txt ''model=\"claude-sonnet-4.5-thinking\"''],
       Txt ''. The OpenAI wire format has no thinking parameter, so the suffix is the switch.'']]"

lemma OpenAISdk_parts:
  "(\<And>t. list_all Q (live (dx_copy x t))) \<Longrightarrow> list_all Q (live (OpenAISdk x))"
  "plain_copy x \<Longrightarrow> link_targets (OpenAISdk x) =
     []"
  "plain_copy x \<Longrightarrow> headings (OpenAISdk x) =
     [(''python'', ''Python'', 2), (''python-stream'', ''Streaming'', 3), (''python-responses'', ''Responses API'', 3),
      (''node'', ''Node / TypeScript'', 2), (''node-stream'', ''Streaming'', 3),
      (''node-responses'', ''Responses API'', 3), (''env'', ''Environment variables'', 2)]"
  by (simp_all only: OpenAISdk_def doc_blocks doc_simps cong: doc_congs)

definition AnthropicSdk :: "'e docs_ctx \<Rightarrow> 'e view" where
  "AnthropicSdk x = frag [
     H1 [Txt ''The official Anthropic SDKs work unchanged; pass the gateway as base_url (no /v1).''] [Txt ''Anthropic SDK''],
     H2 ''python'' [Txt ''Python''],
     Code x ''bash'' ''pip install anthropic'',
     Code x ''python'' (code_lines [
         ''import anthropic'',
         [],
         ''client = anthropic.Anthropic(base_url=\"'' @ dx_base x @ ''\", api_key=\"YOUR_API_KEY\")'',
         [],
         ''msg = client.messages.create('',
         ''    model=\"claude-sonnet-4.5\",'',
         ''    max_tokens=256,'',
         ''    messages=[{\"role\": \"user\", \"content\": \"Say hello in one sentence.\"}],'',
         '')'',
         ''print(msg.content[0].text)'']),
     H3 ''python-stream'' [Txt ''Streaming''],
     Code x ''python'' (code_lines [
         ''with client.messages.stream('',
         ''    model=\"claude-sonnet-4.5\",'',
         ''    max_tokens=256,'',
         ''    messages=[{\"role\": \"user\", \"content\": \"Count to five.\"}],'',
         '') as stream:'',
         ''    for text in stream.text_stream:'',
         ''        print(text, end=\"\", flush=True)'']),
     H3 ''python-thinking'' [Txt ''Thinking block''],
     Code x ''python'' (code_lines [
         ''msg = client.messages.create('',
         ''    model=\"claude-sonnet-4.5\",'',
         ''    max_tokens=4096,'',
         ''    thinking={\"type\": \"enabled\", \"budget_tokens\": 2048},'',
         ''    messages=[{\"role\": \"user\", \"content\": \"Prove that sqrt(2) is irrational.\"}],'',
         '')'',
         ''for block in msg.content:'',
         ''    if block.type == \"thinking\":'',
         ''        print(\"[thinking]\", block.thinking[:200], \"...\")'',
         ''    elif block.type == \"text\":'',
         ''        print(block.text)'']),
     H2 ''node'' [Txt ''Node / TypeScript''],
     Code x ''bash'' ''npm install @anthropic-ai/sdk'',
     Code x ''typescript'' (code_lines [
         ''import Anthropic from '@anthropic-ai/sdk'' @ quote1,
         [],
         ''const client = new Anthropic({ baseURL: '' @ quote1 @ dx_base x @ ''', apiKey: 'YOUR_API_KEY' })'',
         [],
         ''const msg = await client.messages.create({'',
         ''  model: 'claude-sonnet-4.5','',
         ''  max_tokens: 256,'',
         ''  messages: [{ role: 'user', content: 'Say hello in one sentence.' }],'',
         ''})'',
         ''console.log(msg.content[0].type === 'text' ? msg.content[0].text : msg.content)'']),
     H3 ''node-stream'' [Txt ''Streaming''],
     Code x ''typescript'' (code_lines [
         ''const stream = client.messages.stream({'',
         ''  model: 'claude-sonnet-4.5','',
         ''  max_tokens: 256,'',
         ''  messages: [{ role: 'user', content: 'Count to five.' }],'',
         ''})'',
         ''stream.on('text', (t) => process.stdout.write(t))'',
         ''await stream.finalMessage()'']),
     H3 ''node-thinking'' [Txt ''Thinking block''],
     Code x ''typescript'' (code_lines [
         ''const msg = await client.messages.create({'',
         ''  model: 'claude-sonnet-4.5','',
         ''  max_tokens: 4096,'',
         ''  thinking: { type: 'enabled', budget_tokens: 2048 },'',
         ''  messages: [{ role: 'user', content: 'Prove that sqrt(2) is irrational.' }],'',
         ''})'']),
     H2 ''env'' [Txt ''Environment variables''],
     Code x ''bash'' (code_lines [
         ''export ANTHROPIC_BASE_URL='' @ dx_base x,
         ''export ANTHROPIC_API_KEY=YOUR_API_KEY'']),
     Callout False [] [
       Txt ''Token counting: '', doc_C [Txt ''client.messages.count_tokens(...)''], Txt '' hits '',
       doc_C [Txt ''/v1/messages/count_tokens''], Txt '' and returns a local estimate.'']]"

lemma AnthropicSdk_parts:
  "(\<And>t. list_all Q (live (dx_copy x t))) \<Longrightarrow> list_all Q (live (AnthropicSdk x))"
  "plain_copy x \<Longrightarrow> link_targets (AnthropicSdk x) =
     []"
  "plain_copy x \<Longrightarrow> headings (AnthropicSdk x) =
     [(''python'', ''Python'', 2), (''python-stream'', ''Streaming'', 3), (''python-thinking'', ''Thinking block'', 3),
      (''node'', ''Node / TypeScript'', 2), (''node-stream'', ''Streaming'', 3),
      (''node-thinking'', ''Thinking block'', 3), (''env'', ''Environment variables'', 2)]"
  by (simp_all only: AnthropicSdk_def doc_blocks doc_simps cong: doc_congs)

definition LangChain :: "'e docs_ctx \<Rightarrow> 'e view" where
  "LangChain x = frag [
     H1 [Txt ''Use either the OpenAI or the Anthropic chat model class; both accept a custom base URL.''] [Txt ''LangChain''],
     H2 ''openai'' [Txt ''ChatOpenAI''],
     Code x ''bash'' ''pip install langchain-openai'',
     Code x ''python'' (code_lines [
         ''from langchain_openai import ChatOpenAI'',
         [],
         ''llm = ChatOpenAI('',
         ''    base_url=\"'' @ dx_base x @ ''/v1\",'',
         ''    api_key=\"YOUR_API_KEY\",'',
         ''    model=\"claude-sonnet-4.5\",'',
         ''    temperature=0,'',
         '')'',
         ''print(llm.invoke(\"Say hello in one sentence.\").content)'',
         [],
         ''# streaming'',
         ''for chunk in llm.stream(\"Count to five.\"):'',
         ''    print(chunk.content, end=\"\", flush=True)'']),
     H2 ''anthropic'' [Txt ''ChatAnthropic''],
     Code x ''bash'' ''pip install langchain-anthropic'',
     Code x ''python'' (code_lines [
         ''from langchain_anthropic import ChatAnthropic'',
         [],
         ''llm = ChatAnthropic('',
         ''    base_url=\"'' @ dx_base x @ ''\",'',
         ''    api_key=\"YOUR_API_KEY\",'',
         ''    model=\"claude-sonnet-4.5\",'',
         ''    max_tokens=1024,'',
         '')'',
         ''print(llm.invoke(\"Say hello in one sentence.\").content)'',
         [],
         ''# extended thinking'',
         ''thinking_llm = ChatAnthropic('',
         ''    base_url=\"'' @ dx_base x @ ''\",'',
         ''    api_key=\"YOUR_API_KEY\",'',
         ''    model=\"claude-sonnet-4.5\",'',
         ''    max_tokens=4096,'',
         ''    thinking={\"type\": \"enabled\", \"budget_tokens\": 2048},'',
         '')'']),
     H2 ''tools'' [Txt ''Tool calling''],
     doc_P [
       Txt (''Tool binding works the same on both classes; the gateway translates tool schemas and tool '' @
         ''results for the upstream.'')],
     Code x ''python'' (code_lines [
         ''from langchain_core.tools import tool'',
         [],
         ''@tool'',
         ''def add(a: int, b: int) -> int:'',
         ''    \"\"\"Add two integers.\"\"\"'',
         ''    return a + b'',
         [],
         ''agent = llm.bind_tools([add])'',
         ''print(agent.invoke(\"What is 2 + 3? Use the tool.\").tool_calls)'']),
     Callout False [] [
       Txt ''JavaScript: '', doc_C [Txt ''@langchain/openai''], Txt '' takes '', doc_C [Txt ''configuration: { baseURL }''],
       Txt ''; '', doc_C [Txt ''@langchain/anthropic''], Txt '' takes'', Txt '' '',
       doc_C [Txt ''clientOptions: { baseURL }''], Txt ''.'']]"

lemma LangChain_parts:
  "(\<And>t. list_all Q (live (dx_copy x t))) \<Longrightarrow> list_all Q (live (LangChain x))"
  "plain_copy x \<Longrightarrow> link_targets (LangChain x) =
     []"
  "plain_copy x \<Longrightarrow> headings (LangChain x) =
     [(''openai'', ''ChatOpenAI'', 2), (''anthropic'', ''ChatAnthropic'', 2), (''tools'', ''Tool calling'', 2)]"
  by (simp_all only: LangChain_def doc_blocks doc_simps cong: doc_congs)

end
