(* ===== verification/Docs_Page.thy ===== *)
theory Docs_Page
  imports Docs_Core Docs_Guides Settings_Shared
begin

text \<open>
  The documentation site (\<open>pages/docs/index.tsx\<close>): its articles by group, the address that names the
  article shown, the navigation, the links inside an article, and the key that is put into the snippets.

  The state keeps what the page shares with the browser: the path of the address and the key kept in
  the session storage. A click on a link first runs the handler of the link, then, when React has
  shown the result, the listener of the document (\<open>listen\<close>), which is renewed after every render; the
  flag of its event says whether a modifier key was held. A link whose click is not taken leaves the
  page. The mark of a copy button is kept for the text it copies.
\<close>

section \<open>The articles\<close>

record 'e doc_page =
  pg_slug :: string
  pg_title :: string
  pg_component :: "'e docs_ctx \<Rightarrow> 'e view"

definition doc_page :: "string \<Rightarrow> string \<Rightarrow> ('e docs_ctx \<Rightarrow> 'e view) \<Rightarrow> 'e doc_page" where
  "doc_page s t c = \<lparr>pg_slug = s, pg_title = t, pg_component = c\<rparr>"

definition GROUPS :: "(string \<times> 'e doc_page list) list" where
  "GROUPS = [
     (''docs.group.overview'', [
        doc_page ''getting-started'' ''Getting started'' GettingStarted,
        doc_page ''endpoints'' ''Endpoints'' Endpoints,
        doc_page ''models'' ''Models & thinking'' Models,
        doc_page ''limits'' ''Limits & usage'' Limits]),
     (''docs.group.agents'', [
        doc_page ''claude-code'' ''Claude Code'' ClaudeCode,
        doc_page ''codex-cli'' ''Codex CLI'' CodexCli,
        doc_page ''cursor'' ''Cursor'' Cursor,
        doc_page ''cline-roo'' ''Cline / Roo Code'' ClineRoo,
        doc_page ''continue'' ''Continue'' Continue,
        doc_page ''aider'' ''Aider'' Aider]),
     (''docs.group.sdks'', [
        doc_page ''openai-sdk'' ''OpenAI SDK'' OpenAISdk,
        doc_page ''anthropic-sdk'' ''Anthropic SDK'' AnthropicSdk,
        doc_page ''langchain'' ''LangChain'' LangChain]),
     (''docs.group.apps'', [
        doc_page ''open-webui-librechat'' ''Open WebUI / LibreChat'' OpenWebUiLibreChat,
        doc_page ''curl'' ''curl reference'' Curl]),
     (''docs.group.help'', [doc_page ''troubleshooting'' ''Troubleshooting'' Troubleshooting])]"

definition PAGES :: "'e doc_page list" where
  "PAGES = concat (map snd GROUPS)"

definition slugs :: "string list" where
  "slugs = map pg_slug (PAGES :: unit doc_page list)"

definition DEFAULT_SLUG :: string where
  "DEFAULT_SLUG = ''getting-started''"

text \<open>\<open>/^\/docs\/?([^/]*)/\<close> on the path, if a page has that name.\<close>

definition slugFromPath :: "string \<Rightarrow> string" where
  "slugFromPath path = (let s = (if starts_with ''/docs'' path
       then takeWhile (\<lambda>c. c \<noteq> CHR ''/'') (let r = drop 5 path in if starts_with ''/'' r then tl r else r) else []) in
     if s \<in> set slugs then s else DEFAULT_SLUG)"

definition page_of :: "string \<Rightarrow> 'e doc_page" where
  "page_of s = (case find (\<lambda>p. pg_slug p = s) PAGES of Some p \<Rightarrow> p | None \<Rightarrow> hd PAGES)"

section \<open>State and effects\<close>

record docs_st = theme_st +
  dp_path :: string
  dp_slug :: string
  dp_apiKey :: string
  dp_saved :: string
  dp_toc :: "(string \<times> string \<times> nat) list"
  dp_title :: string
  dp_copied :: "string list"

definition mark_copied :: "string \<Rightarrow> bool \<Rightarrow> docs_st \<Rightarrow> docs_st" where
  "mark_copied t b s = s\<lparr>dp_copied := (if b then t # dp_copied s else removeAll t (dp_copied s))\<rparr>"

definition docs_context :: "ui \<Rightarrow> docs_st \<Rightarrow> docs_st act docs_ctx" where
  "docs_context E s = \<lparr>dx_base = origin E, dx_apiKey = js_trim (dp_apiKey s),
     dx_copy = (\<lambda>t. CopyButton E (t \<in> set (dp_copied s)) (mark_copied t) t [])\<rparr>"

definition article :: "ui \<Rightarrow> docs_st \<Rightarrow> docs_st act view" where
  "article E s = pg_component (page_of (dp_slug s)) (docs_context E s)"

text \<open>The effects after a render with another article: the table of contents and the title follow it.\<close>

definition toc_effect :: "ui \<Rightarrow> docs_st \<Rightarrow> docs_st" where
  "toc_effect E s = s\<lparr>dp_toc := headings (article E s),
     dp_title := pg_title (page_of (dp_slug s) :: docs_st act doc_page) @ '' '' @ mid_dot @ '' Hekato Docs''\<rparr>"

text \<open>The effect after a render with another key.\<close>

definition key_effect :: "docs_st \<Rightarrow> docs_st" where
  "key_effect s = s\<lparr>dp_saved := dp_apiKey s\<rparr>"

definition docs_mount :: "ui \<Rightarrow> string \<Rightarrow> string option \<Rightarrow> string option \<Rightarrow> bool \<Rightarrow> docs_st" where
  "docs_mount E path stored saved prefersDark = toc_effect E (key_effect (theme_effect
     \<lparr>th_theme = initial saved prefersDark, th_dark = False, th_saved = [], th_busy = False, th_switching = False,
      th_curtain = False, dp_path = path, dp_slug = slugFromPath path,
      dp_apiKey = (case stored of None \<Rightarrow> [] | Some k \<Rightarrow> k), dp_saved = [], dp_toc = [], dp_title = [], dp_copied = []\<rparr>))"

section \<open>Moving between the articles\<close>

definition doc_path :: "string \<Rightarrow> string" where
  "doc_path s = ''/docs/'' @ s"

definition docs_navigate :: "ui \<Rightarrow> string \<Rightarrow> docs_st act" where
  "docs_navigate E s = Look (\<lambda>x. if s = dp_slug x then Done
     else Emit (Parent ''pushState'' (JStr (doc_path s)))
       (Upd (\<lambda>x. toc_effect E (x\<lparr>dp_path := doc_path s, dp_slug := s\<rparr>))
         (Emit (Parent ''scrollTo'' (JNum 0)) Done)))"

text \<open>The browser goes to another entry of its history.\<close>

definition onPop :: "ui \<Rightarrow> string \<Rightarrow> docs_st \<Rightarrow> docs_st" where
  "onPop E path s = toc_effect E (s\<lparr>dp_path := path, dp_slug := slugFromPath path\<rparr>)"

text \<open>The listener of the document, for a link with target \<open>href\<close>: \<open>href.split('#')\<close>, the name without
  \<open>/docs/\<close>, and the heading to scroll to when the new article is there.\<close>

definition link_parts :: "string \<Rightarrow> string \<times> string" where
  "link_parts target = (case js_split ''#'' target of path # hash # _ \<Rightarrow> (js_replace ''/docs/'' [] path, hash)
     | path # _ \<Rightarrow> (js_replace ''/docs/'' [] path, []) | [] \<Rightarrow> ([], []))"

definition onClick_link :: "ui \<Rightarrow> string \<Rightarrow> bool \<Rightarrow> docs_st act" where
  "onClick_link E target modified = (if \<not> starts_with ''/docs/'' target \<or> modified then Done
     else case link_parts target of (s, hash) \<Rightarrow>
       if s \<notin> set slugs then Done
       else andThen (docs_navigate E s)
         (if hash \<noteq> [] then Sleep 0 (Look (\<lambda>x. if hash \<in> fst ` set (headings (article E x))
            then Emit (Parent ''scrollIntoView'' (JStr hash)) Done else Done)) else Done))"

fun own_click :: "'s act attr list \<Rightarrow> 's act" where
  "own_click (on n a # as) = (if n = ''onClick'' then a else own_click as)"
| "own_click (_ # as) = own_click as"
| "own_click [] = Done"

fun is_click :: "'s act attr \<Rightarrow> bool" where
  "is_click (on n a) = (n = ''onClick'')"
| "is_click _ = False"

fun listen :: "(string \<Rightarrow> bool \<Rightarrow> 's act) \<Rightarrow> 's act view \<Rightarrow> 's act view" where
  "listen f (El tag as cs) = El tag (case (if tag = ''a'' then attr_text ''href'' as else None) of None \<Rightarrow> as
     | Some h \<Rightarrow> filter (\<lambda>a. \<not> is_click a) as @ [onB ''onClick'' (\<lambda>modified. andThen (own_click as) (f h modified))])
     (map (listen f) cs)"
| "listen f v = v"

section \<open>The page\<close>

definition docs_nav :: "ui \<Rightarrow> docs_st \<Rightarrow> docs_st act view" where
  "docs_nav E s = El ''nav'' [] (map (\<lambda>g. El ''div'' [] [
     El ''div'' [] [Txt (tx E (fst g))],
     El ''ul'' [] (map (\<lambda>p. El ''li'' [] [
       El ''a'' [aS ''href'' (doc_path (pg_slug p)), on ''onClick'' (docs_navigate E (pg_slug p)),
                 aB ''current'' (pg_slug p = dp_slug s)] [Txt (pg_title p)]]) (snd g))])
     (GROUPS :: (string \<times> docs_st act doc_page list) list))"

definition docs_header :: "ui \<Rightarrow> bool \<Rightarrow> docs_st \<Rightarrow> docs_st act view" where
  "docs_header E motion s = El ''header'' [] [
     El ''a'' [aS ''href'' ''/docs''] [El ''div'' [] [Txt ''H''], El ''span'' [] [Txt (tx E ''docs.title'')]],
     El ''div'' [] [
       El ''a'' [aS ''href'' ''/usage''] [Txt (tx E ''docs.usageLink'')],
       El ''a'' [aS ''href'' ''/admin''] [Txt (tx E ''docs.adminLink'')],
       El ''Button'' [on ''onClick'' (set_language E), aS ''aria-label'' (tx E ''header.language'')] [ic ''LuLanguages''],
       El ''Button'' [on ''onClick'' (theme_toggle motion), aS ''aria-label'' (tx E ''header.theme'')]
         [ic (if th_theme s = ''dark'' then ''LuSun'' else ''LuMoon'')]]]"

definition docs_key :: "ui \<Rightarrow> docs_st \<Rightarrow> docs_st act view" where
  "docs_key E s = El ''div'' [] [
     El ''label'' [aS ''htmlFor'' ''docs-key''] [Txt (tx E ''docs.yourKey'')],
     El ''Input'' [aS ''id'' ''docs-key'', aS ''type'' ''password'', aS ''autoComplete'' ''off'',
       aS ''placeholder'' (tx E ''docs.keyPlaceholder''), aS ''value'' (dp_apiKey s),
       onS ''onChange'' (\<lambda>v. Upd (\<lambda>x. key_effect (x\<lparr>dp_apiKey := v\<rparr>)) Done)] [],
     El ''span'' [] [Txt (tx E ''docs.keyHint'')]]"

definition docs_select :: "ui \<Rightarrow> docs_st \<Rightarrow> docs_st act view" where
  "docs_select E s = El ''select'' [aS ''value'' (dp_slug s), aS ''aria-label'' (tx E ''docs.navigation'')]
     (map (\<lambda>g. El ''optgroup'' [aS ''label'' (tx E (fst g))]
       (map (\<lambda>p. El ''option'' [aS ''value'' (pg_slug p), on ''onChange'' (docs_navigate E (pg_slug p))] [Txt (pg_title p)]) (snd g)))
     (GROUPS :: (string \<times> docs_st act doc_page list) list))"

definition docs_toc :: "ui \<Rightarrow> docs_st \<Rightarrow> docs_st act view" where
  "docs_toc E s = El ''aside'' [] [shown (dp_toc s \<noteq> []) (frag [
     El ''div'' [] [Txt (tx E ''docs.onThisPage'')],
     El ''ul'' [] (map (\<lambda>(i, t, l). El ''li'' [] [
       El ''a'' [aS ''href'' (CHR ''#'' # i), aB ''indented'' (l \<noteq> 2)] [Txt t]]) (dp_toc s))])]"

definition DocsPage :: "ui \<Rightarrow> bool \<Rightarrow> docs_st \<Rightarrow> docs_st act view" where
  "DocsPage E motion s = El ''div'' [] [
     docs_header E motion s,
     El ''div'' [] [
       El ''aside'' [] [docs_nav E s],
       El ''main'' [] [docs_key E s, docs_select E s, El ''article'' [] [article E s]],
       docs_toc E s]]"

text \<open>The mounted site: the page with the listener of the document, and the history of the browser.\<close>

definition docs_site :: "ui \<Rightarrow> bool \<Rightarrow> docs_st \<Rightarrow> docs_st act view" where
  "docs_site E motion s = listen (onClick_link E) (DocsPage E motion s)"

definition docs_env :: "ui \<Rightarrow> docs_st \<Rightarrow> docs_st \<Rightarrow> bool" where
  "docs_env E s s' \<longleftrightarrow> (\<exists>path. Gate path Loading = DocsScreen \<and> s' = onPop E path s)"

section \<open>Addresses and articles\<close>

text \<open>Every name is found in its own address, which is one of the documentation.\<close>

lemma slug_address: "s \<in> set slugs \<Longrightarrow> slugFromPath (doc_path s) = s \<and> Gate (doc_path s) Loading = DocsScreen"
proof -
  have "list_all (\<lambda>s. slugFromPath (doc_path s) = s \<and> Gate (doc_path s) Loading = DocsScreen) slugs" by code_simp
  then show "s \<in> set slugs \<Longrightarrow> ?thesis" by (simp add: list_all_iff)
qed

lemma slugFromPath_slug: "slugFromPath path \<in> set slugs"
proof -
  have "DEFAULT_SLUG \<in> set slugs" by code_simp
  then show ?thesis by (simp add: slugFromPath_def Let_def)
qed

lemma PAGES_eq:
  "PAGES = [doc_page ''getting-started'' ''Getting started'' GettingStarted, doc_page ''endpoints'' ''Endpoints'' Endpoints,
     doc_page ''models'' ''Models & thinking'' Models, doc_page ''limits'' ''Limits & usage'' Limits,
     doc_page ''claude-code'' ''Claude Code'' ClaudeCode, doc_page ''codex-cli'' ''Codex CLI'' CodexCli,
     doc_page ''cursor'' ''Cursor'' Cursor, doc_page ''cline-roo'' ''Cline / Roo Code'' ClineRoo,
     doc_page ''continue'' ''Continue'' Continue, doc_page ''aider'' ''Aider'' Aider,
     doc_page ''openai-sdk'' ''OpenAI SDK'' OpenAISdk, doc_page ''anthropic-sdk'' ''Anthropic SDK'' AnthropicSdk,
     doc_page ''langchain'' ''LangChain'' LangChain,
     doc_page ''open-webui-librechat'' ''Open WebUI / LibreChat'' OpenWebUiLibreChat, doc_page ''curl'' ''curl reference'' Curl,
     doc_page ''troubleshooting'' ''Troubleshooting'' Troubleshooting]"
  by (simp add: PAGES_def GROUPS_def)

lemma page_fields [simp]: "pg_slug (doc_page s t c) = s" "pg_title (doc_page s t c) = t" "pg_component (doc_page s t c) = c"
  by (simp_all add: doc_page_def)

lemma slugs_eq: "slugs = map pg_slug (PAGES :: 'e doc_page list)"
  by (simp add: slugs_def PAGES_eq)

lemma distinct_slugs: "distinct (map pg_slug (PAGES :: 'e doc_page list))"
proof -
  have "distinct slugs" by code_simp
  then show ?thesis by (simp only: slugs_eq [symmetric])
qed

lemma page_of_slug: "p \<in> set (PAGES :: 'e doc_page list) \<Longrightarrow> page_of (pg_slug p) = p"
proof -
  have "find (\<lambda>q. pg_slug q = pg_slug p) xs = Some p" if "p \<in> set xs" "distinct (map pg_slug xs)" for p and xs :: "'e doc_page list"
    using that by (induction xs) (auto simp: image_iff)
  then show "p \<in> set (PAGES :: 'e doc_page list) \<Longrightarrow> ?thesis" by (simp add: page_of_def distinct_slugs)
qed

lemma page_of_in: "page_of s \<in> set (PAGES :: 'e doc_page list)"
proof (cases "find (\<lambda>p. pg_slug p = s) (PAGES :: 'e doc_page list)")
  case None
  then show ?thesis by (simp add: page_of_def PAGES_eq)
next
  case (Some p)
  then have "p \<in> set PAGES" by (auto simp: find_Some_iff)
  with Some show ?thesis by (simp add: page_of_def)
qed

text \<open>Statements about every article, from those about each.\<close>

lemma list_all_PAGES:
  "list_all P (PAGES :: 'e doc_page list) \<longleftrightarrow> (\<forall>p\<in>set (PAGES :: 'e doc_page list). P p)"
  by (simp add: list_all_iff)

lemmas article_live =
  GettingStarted_parts(1) Endpoints_parts(1) Models_parts(1) Limits_parts(1) Troubleshooting_parts(1)
  ClaudeCode_parts(1) CodexCli_parts(1) Cursor_parts(1) ClineRoo_parts(1) Continue_parts(1) Aider_parts(1)
  OpenWebUiLibreChat_parts(1) Curl_parts(1) OpenAISdk_parts(1) AnthropicSdk_parts(1) LangChain_parts(1)

lemmas article_links =
  GettingStarted_parts(2) Endpoints_parts(2) Models_parts(2) Limits_parts(2) Troubleshooting_parts(2)
  ClaudeCode_parts(2) CodexCli_parts(2) Cursor_parts(2) ClineRoo_parts(2) Continue_parts(2) Aider_parts(2)
  OpenWebUiLibreChat_parts(2) Curl_parts(2) OpenAISdk_parts(2) AnthropicSdk_parts(2) LangChain_parts(2)

lemmas article_headings =
  GettingStarted_parts(3) Endpoints_parts(3) Models_parts(3) Limits_parts(3) Troubleshooting_parts(3)
  ClaudeCode_parts(3) CodexCli_parts(3) Cursor_parts(3) ClineRoo_parts(3) Continue_parts(3) Aider_parts(3)
  OpenWebUiLibreChat_parts(3) Curl_parts(3) OpenAISdk_parts(3) AnthropicSdk_parts(3) LangChain_parts(3)

lemma list_all_article:
  assumes "\<And>t. list_all Q (live (dx_copy x t))" "p \<in> set PAGES"
  shows "list_all Q (live (pg_component p x))"
proof -
  have "list_all (\<lambda>p. list_all Q (live (pg_component p x))) PAGES"
    by (simp only: PAGES_eq list.pred_inject page_fields article_live [OF assms(1)] simp_thms)
  with assms(2) show ?thesis by (simp add: list_all_iff)
qed

lemma headings_context:
  assumes "plain_copy x" "plain_copy y" "p \<in> set PAGES"
  shows "headings (pg_component p x) = headings (pg_component p y)"
proof -
  have "list_all (\<lambda>p. headings (pg_component p x) = headings (pg_component p y)) PAGES"
    by (simp only: PAGES_eq list.pred_inject page_fields article_headings [OF assms(1)] article_headings [OF assms(2)] simp_thms)
  with assms(3) show ?thesis by (simp add: list_all_iff)
qed

lemma plain_docs_context [simp]: "plain_copy (docs_context E s)"
  by (simp add: plain_copy_def docs_context_def CopyButton_def shown_def)

section \<open>The listener of the document\<close>

lemma own_click_in: "own_click as = Done \<or> Plain (own_click as) \<in> set (concat (map attr_handlers as))"
  by (induction as rule: own_click.induct) auto

lemma has_flag_listen [simp]:
  "has_flag n b (filter (\<lambda>a. \<not> is_click a) as @ [onB k f]) = has_flag n b as"
proof -
  have "list_ex (is_flag n b) (filter (\<lambda>a. \<not> is_click a) as) = list_ex (is_flag n b) as"
    by (induction as) (auto elim: is_click.elims)
  then show ?thesis by (simp add: has_flag_def)
qed

lemma list_all_listen:
  assumes "Q Done" "\<And>a h m. Q a \<Longrightarrow> Q (andThen a (f h m))"
  shows "list_all (handler_all Q) (live v) \<Longrightarrow> list_all (handler_all Q) (live (listen f v))"
proof (induction v)
  case (El tag as cs)
  show ?case
  proof (cases "has_flag ''open'' False as")
    case False
    let ?h = "if tag = ''a'' then attr_text ''href'' as else None"
    have kids: "list_all (handler_all Q) (concat (map live (map (listen f) cs)))"
      using El False by (auto simp: list_all_concat_map)
    show ?thesis
    proof (cases ?h)
      case None
      with El.prems False kids show ?thesis by (simp only: listen.simps live.simps option.case list_all_append) (simp split: if_splits)
    next
      case (Some h)
      have "list_all (handler_all Q) (concat (map attr_handlers as))" if "\<not> has_flag ''disabled'' True as"
        using El.prems False that by simp
      then have "Q (own_click as)" "list_all (handler_all Q) (concat (map attr_handlers (filter (\<lambda>a. \<not> is_click a) as)))"
        if "\<not> has_flag ''disabled'' True as"
        using that own_click_in [of as] assms(1) by (fastforce simp: list_all_iff)+
      with assms(2) kids show ?thesis
        by (simp only: listen.simps live.simps Some option.case list_all_append has_flag_listen) simp
    qed
  qed (simp split: option.split)
qed simp_all

section \<open>The shown article is the one the address names\<close>

definition docs_good :: "ui \<Rightarrow> docs_st \<Rightarrow> bool" where
  "docs_good E s \<longleftrightarrow> dp_slug s = slugFromPath (dp_path s) \<and> Gate (dp_path s) Loading = DocsScreen \<and>
     dp_saved s = dp_apiKey s \<and> dp_toc s = headings (article E s) \<and>
     dp_title s = pg_title (page_of (dp_slug s) :: docs_st act doc_page) @ '' '' @ mid_dot @ '' Hekato Docs''"

lemma headings_article:
  "dp_slug s = dp_slug s' \<Longrightarrow> headings (article E s) = headings (article E s')"
  unfolding article_def by (simp add: headings_context page_of_in)

lemma toc_effect_simps [simp]:
  "dp_slug (toc_effect E s) = dp_slug s" "dp_path (toc_effect E s) = dp_path s"
  "dp_apiKey (toc_effect E s) = dp_apiKey s" "dp_saved (toc_effect E s) = dp_saved s"
  by (simp_all add: toc_effect_def)

lemma toc_effect_good:
  "dp_slug s = slugFromPath (dp_path s) \<Longrightarrow> Gate (dp_path s) Loading = DocsScreen \<Longrightarrow> dp_saved s = dp_apiKey s \<Longrightarrow>
     docs_good E (toc_effect E s)"
  using headings_article [of "toc_effect E s" s E] by (simp add: docs_good_def) (simp add: toc_effect_def)

lemma docs_good_kept:
  assumes "docs_good E s" "dp_slug s' = dp_slug s" "dp_path s' = dp_path s" "dp_toc s' = dp_toc s" "dp_title s' = dp_title s"
    "dp_saved s' = dp_saved s \<and> dp_apiKey s' = dp_apiKey s \<or> dp_saved s' = dp_apiKey s'"
  shows "docs_good E s'"
  using assms headings_article [of s' s E] by (auto simp: docs_good_def)

lemma steady_andThen: "steady good a \<Longrightarrow> steady good b \<Longrightarrow> steady good (andThen a b)"
  by (induction a) auto

lemma steady_docs_navigate:
  assumes "s \<in> set slugs"
  shows "steady (docs_good E) (docs_navigate E s)"
proof -
  have "docs_good E (toc_effect E (x\<lparr>dp_path := doc_path s, dp_slug := s\<rparr>))" if "docs_good E x" for x
    using slug_address [OF assms] that by (intro toc_effect_good) (simp_all add: docs_good_def)
  then show ?thesis by (simp add: docs_navigate_def)
qed

lemma steady_onClick_link: "steady (docs_good E) (onClick_link E h m)"
  by (auto simp: onClick_link_def split: prod.split intro!: steady_andThen steady_docs_navigate)

lemma steady_toggle_docs: "steady (docs_good E) (theme_toggle motion)"
  by (auto simp: theme_toggle_def theme_swap_def finally_do_def Let_def theme_effect_def elim!: docs_good_kept)

lemma steady_copy_docs: "steady (docs_good E) (copy_value E' (mark_copied t) t)"
  by (auto simp: copy_value_def await_def mark_copied_def elim!: docs_good_kept intro!: steady_catch split: reply.split)

lemma group_pages:
  "g \<in> set (GROUPS :: (string \<times> 'e doc_page list) list) \<Longrightarrow> p \<in> set (snd g) \<Longrightarrow> pg_slug p \<in> set slugs"
  by (subst slugs_eq [where 'e = 'e]) (force simp: PAGES_def)

interpretation docs: steady_page "docs_site E motion" "docs_env E"
  "docs_mount E (if Gate path Loading = DocsScreen then path else ''/docs'') stored saved prefersDark" "docs_good E"
proof
  have "Gate ''/docs'' Loading = DocsScreen" by code_simp
  then show "docs_good E (docs_mount E (if Gate path Loading = DocsScreen then path else ''/docs'') stored saved prefersDark)"
    by (auto simp: docs_mount_def key_effect_def theme_effect_def intro!: toc_effect_good)
next
  fix s s' assume "docs_env E s s'" "docs_good E s"
  then show "docs_good E s'" by (auto simp: docs_env_def onPop_def docs_good_def [of E s] intro!: toc_effect_good)
next
  fix s assume "docs_good E s"
  have nav: "list_all (handler_all (steady (docs_good E))) (live (docs_nav E s))"
    "list_all (handler_all (steady (docs_good E))) (live (docs_select E s))"
    using group_pages [where 'e = "docs_st act"] by (fastforce simp: docs_nav_def docs_select_def list_all_concat_map steady_docs_navigate has_flag_def)+
  have header: "list_all (handler_all (steady (docs_good E))) (live (docs_header E motion s))"
    by (simp add: docs_header_def set_language_def steady_toggle_docs)
  have key: "list_all (handler_all (steady (docs_good E))) (live (docs_key E s))"
    by (auto simp: docs_key_def key_effect_def elim!: docs_good_kept)
  have toc: "list_all (handler_all (steady (docs_good E))) (live (docs_toc E s))"
    by (auto simp: docs_toc_def list_all_concat_map split: prod.split)
  have text_: "list_all (handler_all (steady (docs_good E))) (live (article E s))"
    unfolding article_def
    by (rule list_all_article) (simp_all add: docs_context_def live_CopyButton steady_copy_docs page_of_in)
  show "list_all (handler_all (steady (docs_good E))) (live (docs_site E motion s))"
    unfolding docs_site_def
    by (rule list_all_listen) (use nav header key toc text_ in \<open>simp_all add: DocsPage_def steady_andThen steady_onClick_link\<close>)
qed

lemma own_link: "s \<in> set slugs \<Longrightarrow> starts_with ''/docs/'' (doc_path s) \<and> link_parts (doc_path s) = (s, [])"
proof -
  have "list_all (\<lambda>s. starts_with ''/docs/'' (doc_path s) \<and> link_parts (doc_path s) = (s, [])) slugs" by code_simp
  then show "s \<in> set slugs \<Longrightarrow> ?thesis" by (simp add: list_all_iff)
qed

lemma sync_navigate:
  "sync (docs_navigate E n) s = (if n = dp_slug s then (s, [], [])
     else (toc_effect E (s\<lparr>dp_path := doc_path n, dp_slug := n\<rparr>), [Parent ''pushState'' (JStr (doc_path n)), Parent ''scrollTo'' (JNum 0)], []))"
  by (simp add: docs_navigate_def)

text \<open>The listener finds nothing left to do when the handler of the entry has run.\<close>

lemma sync_entry:
  "n \<in> set slugs \<Longrightarrow> sync (andThen (docs_navigate E n) (onClick_link E (doc_path n) b)) s = sync (docs_navigate E n) s"
proof -
  assume "n \<in> set slugs"
  then have "onClick_link E (doc_path n) b = (if b then Done else docs_navigate E n)"
    using own_link [of n] by (simp add: onClick_link_def)
  then show ?thesis by (simp add: docs_navigate_def)
qed

lemma slug_in: "p \<in> set (PAGES :: 'e doc_page list) \<Longrightarrow> pg_slug p \<in> set slugs"
  by (subst slugs_eq [where 'e = 'e]) simp

text \<open>C39: whatever the reader does (the navigation, the select, links in articles, the key field, the history
  of the browser, copying, the theme), the article shown is the one the address names, the address stays
  one of the documentation, the table of contents lists the headings of this article, and the key is kept
  for the session. A click on an entry, whether a modifier key is held or not, shows its article under its
  address, with one new entry of the history although the listener of the document runs as well, and
  with none if the article is shown already.\<close>

theorem docs_shows_address:
  assumes "Gate path Loading = DocsScreen"
    and "mreach (docs_site E motion) (docs_env E) (docs_mount E path stored saved prefersDark) m"
  shows "(let s = cst m in
      dp_slug s = slugFromPath (dp_path s) \<and> Gate (dp_path s) Loading = DocsScreen \<and> dp_saved s = dp_apiKey s \<and>
      dp_toc s = headings (article E s) \<and>
      (\<forall>p\<in>set (PAGES :: docs_st act doc_page list). \<forall>b. \<exists>s'.
         sync (andThen (docs_navigate E (pg_slug p)) (onClick_link E (doc_path (pg_slug p)) b)) s =
           (s', if pg_slug p = dp_slug s then [] else [Parent ''pushState'' (JStr (doc_path (pg_slug p))), Parent ''scrollTo'' (JNum 0)], []) \<and>
         article E s' = pg_component p (docs_context E s') \<and>
         (pg_slug p \<noteq> dp_slug s \<longrightarrow> dp_path s' = doc_path (pg_slug p)) \<and>
         dp_title s' = pg_title p @ '' '' @ mid_dot @ '' Hekato Docs''))"
proof -
  have good: "docs_good E (cst m)"
    using docs.reach_inv [of E motion path stored saved prefersDark m] assms by simp
  moreover have "\<exists>s'. sync (andThen (docs_navigate E (pg_slug p)) (onClick_link E (doc_path (pg_slug p)) b)) (cst m) =
           (s', if pg_slug p = dp_slug (cst m) then [] else [Parent ''pushState'' (JStr (doc_path (pg_slug p))), Parent ''scrollTo'' (JNum 0)], []) \<and>
         article E s' = pg_component p (docs_context E s') \<and>
         (pg_slug p \<noteq> dp_slug (cst m) \<longrightarrow> dp_path s' = doc_path (pg_slug p)) \<and>
         dp_title s' = pg_title p @ '' '' @ mid_dot @ '' Hekato Docs''"
    if "p \<in> set (PAGES :: docs_st act doc_page list)" for p b
    using good page_of_slug [OF that] unfolding sync_entry [OF slug_in [OF that]] sync_navigate article_def docs_good_def
    by (auto simp: toc_effect_def)
  ultimately show ?thesis unfolding docs_good_def Let_def by blast
qed

theorem docs_shows_address_witness:
  "let s = docs_mount sample_ui ''/docs/nowhere'' None None True in dp_slug s = ''getting-started'' \<and> dp_path s = ''/docs/nowhere'' \<and>
     (\<exists>s'. sync (andThen (docs_navigate sample_ui ''curl'') (onClick_link sample_ui (doc_path ''curl'') True)) s =
        (s', [Parent ''pushState'' (JStr (doc_path ''curl'')), Parent ''scrollTo'' (JNum 0)], []) \<and>
        article sample_ui s' = Curl (docs_context sample_ui s') \<and> dp_path s' = doc_path ''curl'')"
proof -
  let ?s = "docs_mount sample_ui ''/docs/nowhere'' None None True"
  have "Gate ''/docs/nowhere'' Loading = DocsScreen" by code_simp
  from docs_shows_address [OF this mreach.start [of "docs_site sample_ui True" "docs_env sample_ui" ?s]]
  have all: "dp_slug ?s = slugFromPath (dp_path ?s)" "\<forall>p\<in>set (PAGES :: docs_st act doc_page list). \<forall>b. \<exists>s'.
         sync (andThen (docs_navigate sample_ui (pg_slug p)) (onClick_link sample_ui (doc_path (pg_slug p)) b)) ?s =
           (s', if pg_slug p = dp_slug ?s then [] else [Parent ''pushState'' (JStr (doc_path (pg_slug p))), Parent ''scrollTo'' (JNum 0)], []) \<and>
         article sample_ui s' = pg_component p (docs_context sample_ui s') \<and>
         (pg_slug p \<noteq> dp_slug ?s \<longrightarrow> dp_path s' = doc_path (pg_slug p)) \<and>
         dp_title s' = pg_title p @ '' '' @ mid_dot @ '' Hekato Docs''"
    unfolding Let_def mach.simps by blast+
  have path: "dp_path ?s = ''/docs/nowhere''" by (simp add: docs_mount_def key_effect_def theme_effect_def)
  moreover have "slugFromPath ''/docs/nowhere'' = ''getting-started''" by code_simp
  ultimately have here: "dp_slug ?s = ''getting-started''" using all(1) by simp
  have "doc_page ''curl'' ''curl reference'' Curl \<in> set (PAGES :: docs_st act doc_page list)" by (simp add: PAGES_eq)
  with bspec [OF all(2) this] path here show ?thesis unfolding Let_def by fastforce
qed

definition used_links :: "string list" where
  "used_links = [''/admin'', ''/usage'', ''/docs/limits'', ''/docs/endpoints'', ''/docs/models'', ''/docs/troubleshooting#streaming'']"

definition used_link :: "string \<Rightarrow> bool" where
  "used_link h \<longleftrightarrow> h \<in> set used_links"

lemma used_link_facts:
  "used_link ''/admin''" "used_link ''/usage''" "used_link ''/docs/limits''" "used_link ''/docs/endpoints''" "used_link ''/docs/models''"
  "used_link ''/docs/troubleshooting#streaming''"
  by (simp_all add: used_link_def used_links_def)

lemma all_links:
  assumes "p \<in> set PAGES" "plain_copy x" "h \<in> set (link_targets (pg_component p x))"
  shows "h \<in> set used_links"
proof -
  have "list_all (\<lambda>p. list_all used_link (link_targets (pg_component p x))) PAGES"
    by (simp only: PAGES_eq list.pred_inject page_fields article_links [OF assms(2)] used_link_facts simp_thms)
  with assms(1,3) show ?thesis by (auto simp: list_all_iff used_link_def)
qed

lemma headings_distinct:
  assumes "p \<in> set PAGES" "plain_copy x"
  shows "distinct (map fst (headings (pg_component p x)))"
proof -
  have "list_all (\<lambda>p. distinct (map fst (headings (pg_component p x)))) PAGES"
    by (simp only: PAGES_eq list.pred_inject page_fields article_headings [OF assms(2)] list.map fst_conv simp_thms) simp
  with assms(1) show ?thesis by (simp add: list_all_iff)
qed

text \<open>A link to a heading of another article names one that is there.\<close>

lemma exec_link:
  assumes "q \<in> set (PAGES :: docs_st act doc_page list)" "starts_with ''/docs/'' h" "link_parts h = (pg_slug q, hash)"
    and "hash \<noteq> [] \<longrightarrow> hash \<in> fst ` set (headings (pg_component q (docs_context E s)))"
  shows "\<exists>s' l. exec (onClick_link E h False) srv s w = (None, s', l, w) \<and> article E s' = pg_component q (docs_context E s') \<and>
    (pg_slug q \<noteq> dp_slug s \<longrightarrow> dp_path s' = doc_path (pg_slug q)) \<and> (hash \<noteq> [] \<longrightarrow> Parent ''scrollIntoView'' (JStr hash) \<in> set l)"
proof -
  define t where "t = (if pg_slug q = dp_slug s then s else toc_effect E (s\<lparr>dp_path := doc_path (pg_slug q), dp_slug := pg_slug q\<rparr>))"
  have t: "article E t = pg_component q (docs_context E t)" "pg_slug q \<noteq> dp_slug s \<longrightarrow> dp_path t = doc_path (pg_slug q)"
    using page_of_slug [OF assms(1)] by (auto simp: t_def article_def)
  have "hash \<in> fst ` set (headings (article E t))" if "hash \<noteq> []"
    using that assms(4) t(1) headings_context [OF _ _ assms(1), of "docs_context E s" "docs_context E t"] by simp
  moreover have "exec (docs_navigate E (pg_slug q)) srv s w =
      (None, t, if pg_slug q = dp_slug s then [] else [Parent ''pushState'' (JStr (doc_path (pg_slug q))), Parent ''scrollTo'' (JNum 0)], w)"
    by (simp add: docs_navigate_def t_def)
  ultimately have "\<exists>l. exec (onClick_link E h False) srv s w = (None, t, l, w) \<and> (hash \<noteq> [] \<longrightarrow> Parent ''scrollIntoView'' (JStr hash) \<in> set l)"
    using assms(2,3) slug_in [OF assms(1)] by (auto simp: onClick_link_def exec_andThen)
  with t show ?thesis by blast
qed

lemma used_links_split:
  assumes "h \<in> set used_links"
  shows "\<not> starts_with ''/docs/'' h \<and> (h = ''/usage'' \<and> Gate h Loading = UsageScreen \<or> h = ''/admin'' \<and> Gate h Authed = ConsoleScreen) \<or>
    starts_with ''/docs/'' h \<and> (\<exists>n hash. n \<in> set slugs \<and> link_parts h = (n, hash) \<and> h = doc_path n @ (if hash = [] then [] else CHR ''#'' # hash) \<and>
      (hash = [] \<or> n = ''troubleshooting'' \<and> hash = ''streaming''))"
proof -
  let ?P = "\<lambda>h. if starts_with ''/docs/'' h then fst (link_parts h) \<in> set slugs \<and>
        h = doc_path (fst (link_parts h)) @ (if snd (link_parts h) = [] then [] else CHR ''#'' # snd (link_parts h)) \<and>
        (snd (link_parts h) = [] \<or> fst (link_parts h) = ''troubleshooting'' \<and> snd (link_parts h) = ''streaming'')
      else h = ''/usage'' \<and> Gate h Loading = UsageScreen \<or> h = ''/admin'' \<and> Gate h Authed = ConsoleScreen"
  have "list_all ?P used_links" by code_simp
  then have "\<forall>h\<in>set used_links. ?P h" by (simp only: list_all_iff)
  then have P: "?P h" using assms by (rule bspec)
  show ?thesis
  proof (cases "starts_with ''/docs/'' h")
    case True
    obtain n hash where l: "link_parts h = (n, hash)" by (cases "link_parts h")
    with P True have "n \<in> set slugs \<and> h = doc_path n @ (if hash = [] then [] else CHR ''#'' # hash) \<and>
        (hash = [] \<or> n = ''troubleshooting'' \<and> hash = ''streaming'')" by (simp only: if_True fst_conv snd_conv)
    with l True show ?thesis by blast
  next
    case False
    with P show ?thesis by (simp only: if_False simp_thms)
  qed
qed

lemma link_leads:
  assumes "p \<in> set (PAGES :: docs_st act doc_page list)" "dp_slug s = pg_slug p" "h \<in> set (link_targets (article E s))"
  shows "if starts_with ''/docs/'' h then \<exists>q\<in>set (PAGES :: docs_st act doc_page list). \<exists>hash s' l.
        h = doc_path (pg_slug q) @ (if hash = [] then [] else CHR ''#'' # hash) \<and>
        exec (onClick_link E h False) srv s w = (None, s', l, w) \<and> article E s' = pg_component q (docs_context E s') \<and>
        (pg_slug q \<noteq> dp_slug s \<longrightarrow> dp_path s' = doc_path (pg_slug q)) \<and>
        (hash \<noteq> [] \<longrightarrow> Parent ''scrollIntoView'' (JStr hash) \<in> set l)
     else h = ''/usage'' \<and> Gate h Loading = UsageScreen \<or> h = ''/admin'' \<and> Gate h Authed = ConsoleScreen"
proof -
  have art: "article E s = pg_component p (docs_context E s)" using assms(2) page_of_slug [OF assms(1)] by (simp add: article_def)
  then have "h \<in> set used_links" using all_links [OF assms(1) plain_docs_context [of E s]] assms(3) by simp
  note used = used_links_split [OF this]
  have "\<exists>q\<in>set (PAGES :: docs_st act doc_page list). \<exists>hash s' l.
        h = doc_path (pg_slug q) @ (if hash = [] then [] else CHR ''#'' # hash) \<and>
        exec (onClick_link E h False) srv s w = (None, s', l, w) \<and> article E s' = pg_component q (docs_context E s') \<and>
        (pg_slug q \<noteq> dp_slug s \<longrightarrow> dp_path s' = doc_path (pg_slug q)) \<and>
        (hash \<noteq> [] \<longrightarrow> Parent ''scrollIntoView'' (JStr hash) \<in> set l)" if docs: "starts_with ''/docs/'' h"
  proof -
    obtain n hash where n: "n \<in> set slugs" "link_parts h = (n, hash)" "h = doc_path n @ (if hash = [] then [] else CHR ''#'' # hash)"
      "hash = [] \<or> n = ''troubleshooting'' \<and> hash = ''streaming''" using used docs by blast
    then obtain q where q: "q \<in> set (PAGES :: docs_st act doc_page list)" "n = pg_slug q"
      by (auto simp: slugs_eq [where 'e = "docs_st act"])
    have "q = doc_page ''troubleshooting'' ''Troubleshooting'' Troubleshooting" if "n = ''troubleshooting''"
      using q(1) that unfolding q(2) PAGES_eq by auto
    then have "hash \<noteq> [] \<longrightarrow> hash \<in> fst ` set (headings (pg_component q (docs_context E s)))"
      using n(4) by (auto simp: Troubleshooting_parts(3))
    from exec_link [OF q(1) docs n(2) [unfolded q(2)] this] n(3) q show ?thesis by metis
  qed
  with used show ?thesis by auto
qed

text \<open>C40: no article has a dead link: the ids of its headings are distinct, and every link either leads to
  another public page or the console, or is taken by the listener, which shows the article the link
  names under its address and, if the link names a heading, scrolls to one that is there.\<close>

theorem docs_links_lead:
  assumes "p \<in> set (PAGES :: docs_st act doc_page list)" "dp_slug s = pg_slug p"
  shows "distinct (map fst (headings (article E s))) \<and>
    (\<forall>h\<in>set (link_targets (article E s)). (if starts_with ''/docs/'' h then \<exists>q\<in>set (PAGES :: docs_st act doc_page list). \<exists>hash s' l.
          h = doc_path (pg_slug q) @ (if hash = [] then [] else CHR ''#'' # hash) \<and>
          exec (onClick_link E h False) srv s w = (None, s', l, w) \<and> article E s' = pg_component q (docs_context E s') \<and>
          (pg_slug q \<noteq> dp_slug s \<longrightarrow> dp_path s' = doc_path (pg_slug q)) \<and>
          (hash \<noteq> [] \<longrightarrow> Parent ''scrollIntoView'' (JStr hash) \<in> set l)
       else h = ''/usage'' \<and> Gate h Loading = UsageScreen \<or> h = ''/admin'' \<and> Gate h Authed = ConsoleScreen))"
proof -
  have "article E s = pg_component p (docs_context E s)" using assms(2) page_of_slug [OF assms(1)] by (simp add: article_def)
  then have "distinct (map fst (headings (article E s)))" using headings_distinct [OF assms(1), of "docs_context E s"] by simp
  then show ?thesis by (rule conjI) (rule ballI, rule link_leads [OF assms])
qed

theorem docs_links_lead_witness:
  "\<exists>s' l. exec (onClick_link sample_ui ''/docs/troubleshooting#streaming'' False) (\<lambda>w r. (Resolved JNull, w))
       (docs_mount sample_ui ''/docs/endpoints'' None None True) () = (None, s', l, ()) \<and>
     dp_path s' = ''/docs/troubleshooting'' \<and> Parent ''scrollIntoView'' (JStr ''streaming'') \<in> set l"
proof -
  let ?s = "docs_mount sample_ui ''/docs/endpoints'' None None True" and ?h = "''/docs/troubleshooting#streaming''"
  let ?p = "doc_page ''endpoints'' ''Endpoints'' Endpoints :: docs_st act doc_page"
  have p: "?p \<in> set PAGES" by (simp add: PAGES_eq)
  have "slugFromPath ''/docs/endpoints'' = ''endpoints''" by code_simp
  then have slug: "dp_slug ?s = pg_slug ?p" by (simp add: docs_mount_def key_effect_def theme_effect_def)
  then have "article sample_ui ?s = Endpoints (docs_context sample_ui ?s)" using page_of_slug [OF p] by (simp add: article_def)
  then have "?h \<in> set (link_targets (article sample_ui ?s))" by (simp add: Endpoints_parts(2))
  note lead = docs_links_lead [OF p slug, of sample_ui "\<lambda>w r. (Resolved JNull, w)" "()", THEN conjunct2, THEN bspec, OF this]
  have "starts_with ''/docs/'' ?h" by code_simp
  from lead [unfolded if_P [OF this]] obtain q hash s' l where q: "q \<in> set (PAGES :: docs_st act doc_page list)"
    "?h = doc_path (pg_slug q) @ (if hash = [] then [] else CHR ''#'' # hash)"
    "exec (onClick_link sample_ui ?h False) (\<lambda>w r. (Resolved JNull, w)) ?s () = (None, s', l, ())"
    "pg_slug q \<noteq> dp_slug ?s \<longrightarrow> dp_path s' = doc_path (pg_slug q)"
    "hash \<noteq> [] \<longrightarrow> Parent ''scrollIntoView'' (JStr hash) \<in> set l" by blast
  from q(1,2) have "pg_slug q = ''troubleshooting'' \<and> hash = ''streaming''" by (auto simp: PAGES_eq doc_path_def split: if_splits)
  with q(3-5) slug show ?thesis by (auto simp: doc_path_def)
qed

end
