(* ===== verification/Spec2Isabelle.thy ===== *)
theory Spec2Isabelle
  imports Prelude Runtime I18n Common Relay Admin_Session Admin_Client Accounts_Shared Json Exclusive Export_Dialog Pool_Dialog Data_Table Accounts_Page Model_Combobox Detail_Sheet Import_Formats Add_Account Add_Forms Add_Imports Json_Roundtrip Api_Keys Api_Keys_Page
    Settings_Shared Settings_Sections Settings_General Settings_Proxy Settings_Relay Settings_Auto_Route Login_Page App_Shell Js_Sort Routing_Map Usage_Page Model_Pages Router_Activity Overview_Cards Overview_Page
    Docs_Content Docs_Core Docs_Guides Docs_Page
begin

text \<open>
  A verification library for Hekato-Go, a gateway that serves several AI providers behind one API.
  The program has three parts that keep state and talk to each other:

  \<^item> the admin console (\<open>dashboard/src\<close>, TypeScript and React): pages that read settings from the
    gateway, let a user edit them, and send requests to its admin API;
  \<^item> the gateway (\<open>proxy\<close>, \<open>config\<close>, \<open>egress\<close>, ... in Go), of which the admin API's front door, the
    endpoints for outbound traffic and the relay transport are modelled, as what the console and the
    relays rely on;
  \<^item> the egress relays (\<open>relay\<close>, JavaScript and TypeScript), which an operator deploys on a serverless
    platform and which forward the gateway's requests.

  The console is the part of the program written in the repository's main language and is modelled
  page by page; the two other parts are modelled where they meet it.

  How the theories correspond to the code:

  \<^item> \<open>Prelude\<close>: JavaScript strings (lists of bytes, text in UTF-8), values and numbers (rationals);
    collections of rewrite rules. \<open>Json\<close>: \<open>JSON.parse\<close>, \<open>JSON.stringify\<close>, \<open>atob\<close>;
    \<open>Json_Roundtrip\<close>: what the one writes the other reads.
  \<^item> \<open>Runtime\<close>: what a page is. A handler is a value of \<open>'s act\<close> (updates, effects, awaited requests,
    \<open>try\<close>/\<open>catch\<close>/\<open>finally\<close> as combinators); a component is a function from its state to a tree of
    elements with handlers. \<open>exec\<close> runs a handler to its end against a server; \<open>mstep\<close> and \<open>mreach\<close>
    are the step relation and the reachable states of a page whose handlers interleave at their
    awaits: an event fires a handler of the current tree, a reply wakes a waiting one, the world
    (query library, parent) changes what it may change. \<open>may_send\<close> tells what a handler can send.
    \<open>Exclusive\<close>: the discipline of the busy mark.
  \<^item> \<open>I18n\<close> (\<open>lib/i18n.tsx\<close>), \<open>Common\<close> (\<open>components/common.tsx\<close>, \<open>layout/nav.tsx\<close>),
    \<open>Data_Table\<close> (\<open>components/data-table.tsx\<close>), \<open>Model_Combobox\<close> (\<open>components/model-combobox.tsx\<close>):
    what all pages use.
  \<^item> \<open>Admin_Session\<close> (\<open>proxy/admin_session.go\<close>, the handlers of \<open>proxy/handler.go\<close> for setup, login,
    logout and the gate) and \<open>Admin_Client\<close> (\<open>lib/api.ts\<close>, \<open>lib/auth.tsx\<close>): the two ends of a session.
    \<open>Login_Page\<close> (\<open>pages/login.tsx\<close>) stands on both.
  \<^item> \<open>Accounts_Shared\<close>, \<open>Accounts_Page\<close>, \<open>Detail_Sheet\<close>, \<open>Pool_Dialog\<close>, \<open>Export_Dialog\<close>: the accounts page
    and what it opens (\<open>pages/accounts\<close>). \<open>Import_Formats\<close>, \<open>Add_Account\<close>, \<open>Add_Forms\<close>,
    \<open>Add_Imports\<close>: its dialog for adding accounts (\<open>add-account-dialog.tsx\<close>): text formats, the dialog,
    the forms with a login, the forms with pasted credentials.
  \<^item> \<open>Api_Keys\<close>, \<open>Api_Keys_Page\<close> (\<open>pages/api-keys\<close>): the key dialog and the page.
  \<^item> \<open>Settings_Shared\<close>, \<open>Settings_Sections\<close>, \<open>Settings_General\<close>, \<open>Settings_Proxy\<close>,
    \<open>Settings_Relay\<close>, \<open>Settings_Auto_Route\<close> (\<open>pages/settings\<close>): the editable copy of \<open>useDraft\<close>, and one
    theory per group of sections, with the endpoints of \<open>proxy/handler.go\<close> they save to.
  \<^item> \<open>App_Shell\<close> (\<open>main.tsx\<close>, \<open>router.tsx\<close>, \<open>lib/theme.tsx\<close>, \<open>components/layout\<close>): what surrounds the
    pages, the gate that picks the screen included.
  \<^item> \<open>Js_Sort\<close>: \<open>Array.prototype.sort\<close>. \<open>Routing_Map\<close> (\<open>pages/overview/routing-map.tsx\<close>), which the public
    \<open>Usage_Page\<close> (\<open>pages/usage.tsx\<close>) and the overview share; \<open>Overview_Cards\<close> and \<open>Overview_Page\<close>
    (\<open>pages/overview\<close>).
  \<^item> \<open>Model_Pages\<close> and \<open>Router_Activity\<close> (\<open>pages/model-prices\<close>, \<open>pages/model-status\<close>): prices, health,
    and the router's decisions, with the configuration of the automatic choice
    (\<open>config/autoroute.go\<close>, \<open>proxy/autoroute.go\<close>) that a ban is saved to.
  \<^item> \<open>Docs_Content\<close>, \<open>Docs_Core\<close>, \<open>Docs_Guides\<close>, \<open>Docs_Page\<close> (\<open>pages/docs\<close>): the building blocks of the
    documentation, its articles, and the site that shows them, with the listener of the document as a
    transformation of the tree (\<open>listen\<close>).
  \<^item> \<open>Relay\<close>: the three workers, the transport that rewrites requests for them (\<open>egress/relay.go\<close>),
    and the substitution of the secret into the worker source.

  Records and their fields follow the component's state hooks and properties, definitions the
  functions of the source; a hook's setter is a record update inside a handler. Where a name clashes
  with a constant of the library the model's name has a prefix or the name of its page.

  What the lemmas show:

  \<^item> Locale \<open>page_invariant\<close> (\<open>Runtime\<close>): an invariant of state and waiting handlers that holds at the
    start and is kept by events, replies and the world holds in every reachable state.
    \<open>exclusive_page\<close> (\<open>Exclusive\<close>) is an instance of it for pages with a busy mark: at most one
    changing request is under way, and the mark is set exactly while it is. Instances: the export
    dialog, the pool dialog, and every settings section through \<open>draft_section\<close>
    (\<open>Settings_Shared\<close>), whose laws say that a section only edits its copy or saves it when it has
    changed. \<open>steady_page\<close>: conditions no handler breaks (numbers in range, one row per rule, a
    theme that is the same everywhere, an article that is the one of the address).
  \<^item> Locale \<open>admin_server\<close> (\<open>Admin_Client\<close>): what the console relies on, over the set of accepted tokens;
    the gateway's handlers are its instance. Login, logout, reload, new tab, setup and password change
    are proved on it.
  \<^item> Locale \<open>comparator\<close> (\<open>Js_Sort\<close>): what a comparison has to promise for a sorted list to be ordered;
    the comparison by a number is its instance, the collation of texts stays a parameter. The price
    list, the rankings and the recent activity rest on it.
  \<^item> Locale \<open>relay_worker\<close> (\<open>Relay\<close>): what the transport relies on; the three workers are instances.
  \<^item> Safety: which request a page can send at all, by \<open>may_send\<close> over the handlers of its tree: nothing
    destructive without its confirmation. Round trips: JSON, key limits, credential lines, proxy forms,
    export and import between two gateways. Properties of kind \<open>error\<close> state what the code does on
    its unhappy paths, also where that is probably not what was meant.

  Fuel: \<open>js_split\<close> has the length of the text plus one, and every step consumes a character;
  \<open>JSON_parse\<close> has twice the length plus two, and every nested call consumes a character
  (\<open>Json_Roundtrip\<close> proves that this is enough for every printed value); the polling loop of
  \<open>Add_Account\<close> has the number of rounds as an argument, and \<open>Add_Forms.device_login_settles\<close>
  proves that any number above that of the pending replies gives the same end.

  Not modelled, and why: class names, styles and animations; the third-party libraries (query cache,
  table computation, URL parser and date formatter are parameters with the behaviour they document);
  the drawing of the charts; the locale files; rounding of binary floating point; failing disk writes of
  the gateway; the gateway's request translation, account selection and provider clients, which are Go code behind the admin API.
  Strings are bytes, so \<open>length\<close> differs from JavaScript's for text outside ASCII.
\<close>

section \<open>From one gateway to another\<close>

text \<open>C13: what one console exports another imports: the text the export dialog shows for a document of
  accounts, pasted into the credentials form, is read as one item per account, in order and without
  anything skipped; each item has the credentials of its account (the fields nested under
  \<open>credentials\<close>), and the import posts exactly these items.\<close>

theorem export_reimports:
  assumes "e_ids s \<noteq> []"
    and "srv w (Http ''POST'' ''/export'' (JsonBody (obj [(''ids'', jstrs (e_ids s))]))) = (Resolved (JObj doc), w')"
    and "plain_json (JObj doc)" "map_of doc ''accounts'' = Some (JArr accs)" "list_all is_object accs"
    and "cr_text c = e_json (final_state (exec (exportNow E s) srv s w))"
  shows "parseCredentials (cr_text c) = (map cred_item accs, 0) \<and>
    cred_go E c = credential_import E (\<lambda>b x. x\<lparr>cr_busy := b\<rparr>) (map cred_item accs) 0 \<and>
    (\<forall>ps cs k v. JObj ps \<in> set accs \<and> map_of ps ''credentials'' = Some (JObj cs) \<and> map_of cs k = Some v \<and>
       k \<noteq> ''credentials'' \<and> (k \<in> {''authMethod'', ''provider''} \<longrightarrow> truthy v) \<longrightarrow> prop_of (cred_item (JObj ps)) k = v)"
proof -
  have "cr_text c = JSON_stringify (JObj doc)"
    using assms(1,2,6) by (simp add: exportNow_def exec_finally exec_catch act_defs final_state_def)
  then have parsed: "parseCredentials (cr_text c) = (map cred_item accs, 0)"
    using parseCredentials_document [OF assms(3,4)] assms(5) by (simp add: list_all_iff filter_id_conv)
  have "distinct (map fst cs)" if "JObj ps \<in> set accs" "map_of ps ''credentials'' = Some (JObj cs)" for ps cs
  proof -
    have "plain_json (JArr accs)" using assms(3) map_of_SomeD [OF assms(4)] by (fastforce simp: list_all_iff)
    with that(1) have "plain_json (JObj ps)" unfolding plain_json.simps(3) list_all_iff by blast
    then have "\<forall>kv\<in>set ps. plain_json (snd kv)" by (simp add: list_all_iff)
    with map_of_SomeD [OF that(2)] have "plain_json (JObj cs)" by (metis snd_conv)
    then show ?thesis by simp
  qed
  then show ?thesis
    using parsed by (auto simp: cred_go_def intro: cred_item_nested)
qed

definition exported :: "(string \<times> jsv) list" where
  "exported = [(''version'', JStr ''1''), (''accounts'', JArr [JObj [(''email'', JStr ''me@x.io''),
     (''credentials'', JObj [(''refreshToken'', JStr ''rt-1''), (''authMethod'', JStr ''idc'')])]])]"

definition sample_export :: export_st where
  "sample_export = (export_mount True [] [])\<lparr>e_ids := [''a1'']\<rparr>"

definition pasted :: cred_st where
  "pasted = cred_mount\<lparr>cr_text := e_json (final_state
     (exec (exportNow sample_ui sample_export) (\<lambda>w r. (Resolved (JObj exported), w)) sample_export ()))\<rparr>"

theorem export_reimports_witness:
  "snd (parseCredentials (cr_text pasted)) = 0 \<and> length (fst (parseCredentials (cr_text pasted))) = 1"
proof -
  have "e_ids sample_export \<noteq> []" "plain_json (JObj exported)"
    "map_of exported ''accounts'' = Some (JArr [JObj [(''email'', JStr ''me@x.io''),
       (''credentials'', JObj [(''refreshToken'', JStr ''rt-1''), (''authMethod'', JStr ''idc'')])]])"
    by (simp_all add: sample_export_def exported_def)
  from export_reimports [OF this(1) _ this(2,3), of "\<lambda>w r. (Resolved (JObj exported), w)" "()" "()" pasted sample_ui]
  show ?thesis by (simp add: pasted_def)
qed

end
